(* ===== verification/Prelude.thy ===== *)
theory Prelude
  imports Main "HOL-Library.Word"
begin

text \<open>
  What every component of the development shares: the result type of Go's
  \<open>(T, error)\<close> returns, the two collections of simplification facts the component
  theories fill, and generic lemmas on lists, options and sums.

  A Go function that returns \<open>(T, error)\<close> is a function into \<open>'e + 'a\<close>: \<open>Inl\<close>
  is a non-nil error, \<open>Inr\<close> a value with a nil error.  A function that returns only
  an \<open>error\<close> is a function into \<open>'e option\<close>, \<open>None\<close> being nil.
\<close>

unbundle bit_operations_syntax

named_theorems wgp_defs \<open>definitions that proofs about a component unfold\<close>
named_theorems wgp_simps \<open>derived equations that drive proofs about a component\<close>

type_synonym byte = "8 word"

section \<open>Results\<close>

definition is_ok :: "'e + 'a \<Rightarrow> bool" where
  "is_ok r = (case r of Inl _ \<Rightarrow> False | Inr _ \<Rightarrow> True)"

lemma is_ok_simps [simp]: "is_ok (Inr x)" "\<not> is_ok (Inl e)"
  by (simp_all add: is_ok_def)

section \<open>Lists\<close>

text \<open>The first element that satisfies a predicate, with what stands before it.\<close>

lemma find_Some_split:
  assumes "find P xs = Some x"
  shows "\<exists>ys zs. xs = ys @ x # zs \<and> P x \<and> (\<forall>y\<in>set ys. \<not> P y)"
  using assms
proof (induction xs)
  case Nil
  then show ?case by simp
next
  case (Cons a xs)
  show ?case
  proof (cases "P a")
    case True
    with Cons.prems have "a # xs = [] @ x # xs" "P x" by simp_all
    then show ?thesis by (metis empty_iff empty_set)
  next
    case False
    with Cons obtain ys zs where "xs = ys @ x # zs" "P x" "\<forall>y\<in>set ys. \<not> P y" by auto
    with False have "a # xs = (a # ys) @ x # zs" "\<forall>y\<in>set (a # ys). \<not> P y" by simp_all
    with \<open>P x\<close> show ?thesis by blast
  qed
qed

lemma find_None_set: "find P xs = None \<longleftrightarrow> (\<forall>x\<in>set xs. \<not> P x)"
  by (auto simp: find_None_iff)

lemma find_Some_set: "find P xs = Some x \<Longrightarrow> x \<in> set xs \<and> P x"
  by (induction xs) (auto split: if_splits)

lemma takeWhile_neq_stop [simp]: "y \<notin> set xs \<Longrightarrow> takeWhile (\<lambda>c. c \<noteq> y) (xs @ y # ys) = xs"
  by (induction xs) auto

lemma dropWhile_neq_stop [simp]: "y \<notin> set xs \<Longrightarrow> dropWhile (\<lambda>c. c \<noteq> y) (xs @ y # ys) = y # ys"
  by (induction xs) auto

section \<open>Transactional components\<close>

text \<open>
  The contract several components share: an operation that reports success has its effect on
  the view a client has of the state, one that reports an error leaves the view as
  it was, and both keep an invariant.  A run of operations then amounts to the
  effects of those that succeeded, in order.
\<close>

locale transactional =
  fixes inv :: "'s \<Rightarrow> bool"
    and step :: "'op \<Rightarrow> 's \<Rightarrow> 'e option \<times> 's"
    and view :: "'s \<Rightarrow> 'v"
    and effect :: "'op \<Rightarrow> 'v \<Rightarrow> 'v"
  assumes step_inv: "\<lbrakk>inv s; step op s = (r, s')\<rbrakk> \<Longrightarrow> inv s'"
    and step_ok: "\<lbrakk>inv s; step op s = (None, s')\<rbrakk> \<Longrightarrow> view s' = effect op (view s)"
    and step_err: "\<lbrakk>inv s; step op s = (Some e, s')\<rbrakk> \<Longrightarrow> view s' = view s"
begin

text \<open>A run keeps going after a failed operation; it returns the operations that succeeded.\<close>

fun run :: "'op list \<Rightarrow> 's \<Rightarrow> 'op list \<times> 's" where
  "run [] s = ([], s)"
| "run (op # ops) s = (case step op s of
      (None, s') \<Rightarrow> (case run ops s' of (done, t) \<Rightarrow> (op # done, t))
    | (Some _, s') \<Rightarrow> run ops s')"

lemma run_effects:
  "\<lbrakk>inv s; run ops s = (ok, t)\<rbrakk> \<Longrightarrow> inv t \<and> view t = fold effect ok (view s)"
proof (induction ops arbitrary: s ok t)
  case Nil
  then show ?case by simp
next
  case (Cons op ops)
  obtain r s' where st: "step op s = (r, s')" by (cases "step op s")
  note inv' = step_inv[OF Cons.prems(1) st]
  show ?case
  proof (cases r)
    case None
    obtain d where d: "run ops s' = (d, t)" "ok = op # d"
      using Cons.prems(2) st None by (auto split: prod.splits)
    then show ?thesis
      using Cons.IH[OF inv' d(1)] step_ok[OF Cons.prems(1)] st None by simp
  next
    case (Some e)
    then have "run ops s' = (ok, t)" using Cons.prems(2) st by simp
    then show ?thesis using Cons.IH[OF inv'] step_err[OF Cons.prems(1)] st Some by simp
  qed
qed

end

end
