(* ===== verification/GoStrings.thy ===== *)
theory GoStrings
  imports Prelude
begin

text \<open>
  The parts of Go's standard packages \<open>strings\<close>, \<open>strconv\<close> and \<open>fmt\<close> that the
  repository calls.  A Go string is a byte sequence, and so is an Isabelle \<open>string\<close>
  (a \<open>char\<close> has eight bits).
\<close>

section \<open>Characters\<close>

definition ord :: "char \<Rightarrow> nat" where
  "ord c = of_char c"

definition is_digit :: "char \<Rightarrow> bool" where
  "is_digit c = (48 \<le> ord c \<and> ord c \<le> 57)"

definition is_upper :: "char \<Rightarrow> bool" where
  "is_upper c = (65 \<le> ord c \<and> ord c \<le> 90)"

definition is_lower :: "char \<Rightarrow> bool" where
  "is_lower c = (97 \<le> ord c \<and> ord c \<le> 122)"

definition is_alpha :: "char \<Rightarrow> bool" where
  "is_alpha c = (is_upper c \<or> is_lower c)"

definition is_alnum :: "char \<Rightarrow> bool" where
  "is_alnum c = (is_alpha c \<or> is_digit c)"

definition digit_char :: "nat \<Rightarrow> char" where
  "digit_char n = char_of (48 + n)"

definition digit_val :: "char \<Rightarrow> nat" where
  "digit_val c = ord c - 48"

lemma digit_char_simps [simp]:
  assumes "n < 10"
  shows "is_digit (digit_char n)" "digit_val (digit_char n) = n" "ord (digit_char n) = 48 + n"
  using assms by (simp_all add: is_digit_def digit_char_def digit_val_def ord_def)

section \<open>Decimal numbers: printing and \<open>strconv.Atoi\<close>\<close>

fun itoa :: "nat \<Rightarrow> string" where
  "itoa n = (if n < 10 then [digit_char n] else itoa (n div 10) @ [digit_char (n mod 10)])"

declare itoa.simps [simp del]

text \<open>\<open>%d\<close> of an \<open>int\<close>.\<close>

definition itoa_int :: "int \<Rightarrow> string" where
  "itoa_int i = (if i < 0 then CHR ''-'' # itoa (nat (- i)) else itoa (nat i))"

definition dec_val :: "string \<Rightarrow> nat" where
  "dec_val s = foldl (\<lambda>v c. 10 * v + digit_val c) 0 s"

lemma dec_val_snoc [simp]: "dec_val (s @ [c]) = 10 * dec_val s + digit_val c"
  by (simp add: dec_val_def)

lemma itoa_digits: "c \<in> set (itoa n) \<Longrightarrow> is_digit c"
  by (induction n rule: itoa.induct) (subst (asm) (2) itoa.simps, auto split: if_splits)

lemma itoa_nonempty [simp]: "itoa n \<noteq> []"
  by (subst itoa.simps) simp

lemma dec_val_itoa [simp]: "dec_val (itoa n) = n"
proof (induction n rule: itoa.induct)
  case (1 n)
  show ?case
  proof (cases "n < 10")
    case True
    then show ?thesis by (subst itoa.simps) (simp add: dec_val_def)
  next
    case False
    with 1 show ?thesis by (subst itoa.simps) simp
  qed
qed

lemma itoa_inject [simp]: "itoa m = itoa n \<longleftrightarrow> m = n"
  by (metis dec_val_itoa)

lemma itoa_no_lead_zero: "n \<noteq> 0 \<Longrightarrow> hd (itoa n) \<noteq> CHR ''0''"
proof (induction n rule: itoa.induct)
  case (1 n)
  show ?case
  proof (cases "n < 10")
    case True
    have "ord (digit_char n) = 48 + n" using True by simp
    then show ?thesis using True 1(2) by (subst itoa.simps) (auto simp: ord_def)
  next
    case False
    with 1 show ?thesis by (subst itoa.simps) simp
  qed
qed

lemma itoa_length_le3: "n < 256 \<Longrightarrow> length (itoa n) \<le> 3"
  by (subst itoa.simps, subst itoa.simps, subst itoa.simps) auto

text \<open>
  \<open>strconv.Atoi\<close> and \<open>strconv.ParseInt(s, 10, 64)\<close>: an optional sign, at least one
  digit, nothing else, and the value in the range of an \<open>int64\<close>.
\<close>

definition Atoi :: "string \<Rightarrow> int option" where
  "Atoi s = (let neg = (s \<noteq> [] \<and> hd s = CHR ''-'');
                 ds = (if s \<noteq> [] \<and> (hd s = CHR ''-'' \<or> hd s = CHR ''+'') then tl s else s);
                 v = (if neg then - int (dec_val ds) else int (dec_val ds))
             in if ds = [] \<or> \<not> list_all is_digit ds then None
                else if v < - (2 ^ 63) \<or> v \<ge> 2 ^ 63 then None else Some v)"

lemma is_digit_not_sign: "is_digit c \<Longrightarrow> c \<noteq> CHR ''-'' \<and> c \<noteq> CHR ''+''"
  by (auto simp: is_digit_def ord_def)

lemma itoa_hd_digit: "is_digit (hd (itoa n))"
  by (rule itoa_digits) (rule hd_in_set, simp)

lemma Atoi_itoa: "n < 2 ^ 63 \<Longrightarrow> Atoi (itoa n) = Some (int n)"
  using is_digit_not_sign[OF itoa_hd_digit[of n]]
  by (auto simp: Atoi_def Let_def list_all_iff itoa_digits)

lemma Atoi_itoa_int: "- (2 ^ 63) \<le> i \<Longrightarrow> i < 2 ^ 63 \<Longrightarrow> Atoi (itoa_int i) = Some i"
  by (cases "i < 0") (auto simp: itoa_int_def Atoi_itoa Atoi_def[of "_ # _"] Let_def list_all_iff itoa_digits)

section \<open>\<open>strings\<close>\<close>

definition HasPrefix :: "string \<Rightarrow> string \<Rightarrow> bool" where
  "HasPrefix s p = (take (length p) s = p)"

text \<open>
  \<open>unicode.IsSpace\<close> on the UTF-8 bytes of a rune: the six ASCII spaces, and the
  encodings of U+0085, U+00A0, U+1680, U+2000 to U+200A, U+2028, U+2029, U+202F, U+205F
  and U+3000.
\<close>

definition space_runes :: "string list" where
  "space_runes = [[CHR 0x09], [CHR 0x0A], [CHR 0x0B], [CHR 0x0C], [CHR 0x0D], [CHR 0x20],
    [CHR 0xC2, CHR 0x85], [CHR 0xC2, CHR 0xA0], [CHR 0xE1, CHR 0x9A, CHR 0x80],
    [CHR 0xE2, CHR 0x80, CHR 0x80], [CHR 0xE2, CHR 0x80, CHR 0x81], [CHR 0xE2, CHR 0x80, CHR 0x82],
    [CHR 0xE2, CHR 0x80, CHR 0x83], [CHR 0xE2, CHR 0x80, CHR 0x84], [CHR 0xE2, CHR 0x80, CHR 0x85],
    [CHR 0xE2, CHR 0x80, CHR 0x86], [CHR 0xE2, CHR 0x80, CHR 0x87], [CHR 0xE2, CHR 0x80, CHR 0x88],
    [CHR 0xE2, CHR 0x80, CHR 0x89], [CHR 0xE2, CHR 0x80, CHR 0x8A], [CHR 0xE2, CHR 0x80, CHR 0xA8],
    [CHR 0xE2, CHR 0x80, CHR 0xA9], [CHR 0xE2, CHR 0x80, CHR 0xAF], [CHR 0xE2, CHR 0x81, CHR 0x9F],
    [CHR 0xE3, CHR 0x80, CHR 0x80]]"

definition front_rune :: "string list \<Rightarrow> string \<Rightarrow> string option" where
  "front_rune rs s = find (\<lambda>r. r \<noteq> [] \<and> HasPrefix s r) rs"

function trim_front :: "string list \<Rightarrow> string \<Rightarrow> string" where
  "trim_front rs s = (case front_rune rs s of None \<Rightarrow> s | Some r \<Rightarrow> trim_front rs (drop (length r) s))"
  by auto
termination
proof (relation "measure (length \<circ> snd)")
  show "wf (measure (length \<circ> snd))" by simp
next
  fix rs s r assume "front_rune rs s = Some r"
  then have "r \<noteq> [] \<and> HasPrefix s r" by (auto simp: front_rune_def dest: find_Some_set)
  then have "0 < length r" "length r \<le> length s"
    by (auto simp: HasPrefix_def) (metis length_take min.cobounded1)
  then have "length s - length r < length s" by linarith
  then show "((rs, drop (length r) s), rs, s) \<in> measure (length \<circ> snd)" by simp
qed

declare trim_front.simps [simp del]

definition TrimSpace :: "string \<Rightarrow> string" where
  "TrimSpace s = rev (trim_front (map rev space_runes) (rev (trim_front space_runes s)))"

text \<open>A printable ASCII character other than the space.\<close>

definition is_graph :: "char \<Rightarrow> bool" where
  "is_graph c = (33 \<le> ord c \<and> ord c < 127)"

lemma is_digit_graph: "is_digit c \<Longrightarrow> is_graph c"
  by (simp add: is_digit_def is_graph_def)

lemma space_runes_head:
  assumes "is_graph c"
  shows "\<forall>r\<in>set space_runes. \<not> (r \<noteq> [] \<and> HasPrefix (c # s) r)"
        "\<forall>r\<in>set (map rev space_runes). \<not> (r \<noteq> [] \<and> HasPrefix (c # s) r)"
proof -
  have "list_all (\<lambda>r. \<not> is_graph (hd r) \<and> \<not> is_graph (last r) \<and> r \<noteq> []) space_runes" by code_simp
  then have *: "\<forall>r\<in>set space_runes. \<not> is_graph (hd r) \<and> \<not> is_graph (last r) \<and> r \<noteq> []"
    by (simp add: list_all_iff)
  have hd: "hd r = c" if "HasPrefix (c # s) r" "r \<noteq> []" for r
    using that by (cases r) (auto simp: HasPrefix_def)
  show "\<forall>r\<in>set space_runes. \<not> (r \<noteq> [] \<and> HasPrefix (c # s) r)"
    using * hd assms by blast
  show "\<forall>r\<in>set (map rev space_runes). \<not> (r \<noteq> [] \<and> HasPrefix (c # s) r)"
  proof (intro ballI notI)
    fix r assume "r \<in> set (map rev space_runes)" and r: "r \<noteq> [] \<and> HasPrefix (c # s) r"
    then obtain q where "q \<in> set space_runes" "r = rev q" by auto
    then have "\<not> is_graph (hd r)" using * by (simp add: hd_rev)
    then show False using hd[of r] r assms by simp
  qed
qed

lemma front_rune_graph:
  assumes "is_graph c"
  shows "front_rune space_runes (c # s) = None" "front_rune (map rev space_runes) (c # s) = None"
  unfolding front_rune_def find_None_set using space_runes_head[OF assms] by simp_all

lemma trim_front_graph [simp]:
  assumes "is_graph c"
  shows "trim_front space_runes (c # s) = c # s" "trim_front (map rev space_runes) (c # s) = c # s"
  by (subst trim_front.simps, simp add: front_rune_graph[OF assms])+

lemma trim_front_Nil [simp]: "trim_front rs [] = []"
  by (subst trim_front.simps, simp add: front_rune_def)
     (metis (mono_tags, lifting) HasPrefix_def find_None_set option.simps(4) take_Nil)

lemma TrimSpace_Nil [simp]: "TrimSpace [] = []"
  by (simp add: TrimSpace_def)

text \<open>Trimming keeps a string that starts and ends with printable characters.\<close>

lemma TrimSpace_id:
  assumes "s \<noteq> []" "is_graph (hd s)" "is_graph (last s)"
  shows "TrimSpace s = s"
proof -
  have 1: "trim_front space_runes s = s" using assms(1,2) by (cases s) simp_all
  have r: "rev s = last s # rev (butlast s)"
    using assms(1) by (metis append_butlast_last_id rev_eq_Cons_iff rev_rev_ident)
  have "trim_front (map rev space_runes) (rev s) = rev s"
    unfolding r by (rule trim_front_graph(2)) (rule assms(3))
  then show ?thesis by (simp add: TrimSpace_def 1)
qed

text \<open>\<open>strings.Split\<close> and \<open>strings.Join\<close> for a one-character separator.\<close>

fun Split :: "char \<Rightarrow> string \<Rightarrow> string list" where
  "Split sep [] = [[]]"
| "Split sep (c # s) = (if c = sep then [] # Split sep s
                        else (case Split sep s of [] \<Rightarrow> [[c]] | p # ps \<Rightarrow> (c # p) # ps))"

lemma Split_nonempty [simp]: "Split sep s \<noteq> []"
  by (induction s) (auto split: list.splits)

lemma Split_no_sep: "sep \<notin> set s \<Longrightarrow> Split sep s = [s]"
  by (induction s) auto

lemma Split_append_sep: "sep \<notin> set a \<Longrightarrow> Split sep (a @ sep # b) = a # Split sep b"
  by (induction a) auto

text \<open>\<open>strings.SplitN(s, sep, 2)\<close>: at the first separator.\<close>

definition SplitN2 :: "char \<Rightarrow> string \<Rightarrow> string list" where
  "SplitN2 sep s = (if sep \<in> set s then [takeWhile (\<lambda>c. c \<noteq> sep) s, tl (dropWhile (\<lambda>c. c \<noteq> sep) s)]
                    else [s])"

text \<open>\<open>stringslite.Cut(s, sep)\<close>: \<open>None\<close> when the separator does not occur.\<close>

definition Cut :: "char \<Rightarrow> string \<Rightarrow> (string \<times> string) option" where
  "Cut sep s = (if sep \<in> set s then Some (takeWhile (\<lambda>c. c \<noteq> sep) s, tl (dropWhile (\<lambda>c. c \<noteq> sep) s))
                else None)"

lemma Cut_append: "sep \<notin> set a \<Longrightarrow> Cut sep (a @ sep # b) = Some (a, b)"
  by (simp add: Cut_def)

fun Join :: "string \<Rightarrow> string list \<Rightarrow> string" where
  "Join sep [] = []"
| "Join sep [p] = p"
| "Join sep (p # q # ps) = p @ sep @ Join sep (q # ps)"

lemma Split_Join: "\<lbrakk>ps \<noteq> []; \<forall>p\<in>set ps. sep \<notin> set p\<rbrakk> \<Longrightarrow> Split sep (Join [sep] ps) = ps"
  by (induction "[sep]" ps rule: Join.induct) (auto simp: Split_no_sep Split_append_sep)

text \<open>\<open>strings.Contains\<close>.\<close>

fun Contains_str :: "string \<Rightarrow> string \<Rightarrow> bool" where
  "Contains_str [] sub = (sub = [])"
| "Contains_str (c # s) sub = (HasPrefix (c # s) sub \<or> Contains_str s sub)"

text \<open>
  \<open>strings.ToLower\<close>, exact on the ASCII part of its result: an ASCII capital letter
  becomes the small one, U+212A (the Kelvin sign) becomes k and U+0130 becomes i; every other
  rune is left as it is (its small letter is not ASCII, and the callers only compare
  the result with ASCII constants).
\<close>

fun ToLower :: "string \<Rightarrow> string" where
  "ToLower [] = []"
| "ToLower (c # s) =
     (if is_upper c then char_of (ord c + 32) # ToLower s
      else if HasPrefix (c # s) [CHR 0xE2, CHR 0x84, CHR 0xAA] then CHR ''k'' # ToLower (drop 2 s)
      else if HasPrefix (c # s) [CHR 0xC4, CHR 0xB0] then CHR ''i'' # ToLower (drop 1 s)
      else c # ToLower s)"

end
