(* ===== verification/GoNet.thy ===== *)
theory GoNet
  imports GoStrings
begin

text \<open>
  The parts of Go's packages \<open>net\<close>, \<open>net/netip\<close> and \<open>encoding/binary\<close> that the
  repository calls (Go 1.24).  A \<open>net.IP\<close> and a \<open>net.IPMask\<close> are byte slices, a nil
  slice is the empty list; an \<open>*net.IPNet\<close> is a record of two slices.  The second half
  relates them to numbers: \<open>be\<close> is the big-endian value of a byte list, and masked
  comparison under a CIDR mask is equality of quotients.
\<close>

section \<open>Data\<close>

type_synonym ip = "byte list"

record IPNet =
  net_ip :: ip
  net_mask :: "byte list"

definition v4_prefix :: "byte list" where
  "v4_prefix = replicate 10 0 @ [255, 255]"

section \<open>Operations on addresses and masks\<close>

definition To4 :: "ip \<Rightarrow> ip" where
  "To4 ip = (if length ip = 4 then ip
             else if length ip = 16 \<and> take 12 ip = v4_prefix then drop 12 ip
             else [])"

definition To16 :: "ip \<Rightarrow> ip" where
  "To16 ip = (if length ip = 4 then v4_prefix @ ip else if length ip = 16 then ip else [])"

definition IP_Mask :: "ip \<Rightarrow> byte list \<Rightarrow> ip" where
  "IP_Mask ip msk =
     (let m = (if length msk = 16 \<and> length ip = 4 \<and> take 12 msk = replicate 12 255
               then drop 12 msk else msk);
          i = (if length m = 4 \<and> length ip = 16 \<and> take 12 ip = v4_prefix then drop 12 ip else ip)
      in if length i \<noteq> length m then [] else map2 (AND) i m)"

text \<open>The bytes of a mask with \<open>n\<close> leading one bits in \<open>l\<close> bytes.\<close>

fun mask_bytes :: "nat \<Rightarrow> nat \<Rightarrow> byte list" where
  "mask_bytes 0 n = []"
| "mask_bytes (Suc l) n = (if 8 \<le> n then 255 # mask_bytes l (n - 8)
                           else NOT (drop_bit n 255) # mask_bytes l 0)"

definition CIDRMask :: "nat \<Rightarrow> nat \<Rightarrow> byte list" where
  "CIDRMask ones bits = (if bits \<noteq> 32 \<and> bits \<noteq> 128 then [] else if ones > bits then []
                         else mask_bytes (bits div 8) ones)"

text \<open>\<open>simpleMaskLength\<close>: \<open>None\<close> is Go's -1, a mask that is not ones followed by zeros.\<close>

fun byte_ones :: "nat \<Rightarrow> byte \<Rightarrow> nat option" where
  "byte_ones 0 b = (if b = 0 then Some 0 else None)"
| "byte_ones (Suc k) b = (if b = 0 then Some 0
     else if bit b 7 then map_option Suc (byte_ones k (push_bit 1 b)) else None)"

fun simpleMaskLength :: "byte list \<Rightarrow> nat option" where
  "simpleMaskLength [] = Some 0"
| "simpleMaskLength (b # m) =
     (if b = 255 then map_option (\<lambda>n. 8 + n) (simpleMaskLength m)
      else if list_all (\<lambda>c. c = 0) m then byte_ones 8 b else None)"

text \<open>\<open>IPMask.Size\<close>: \<open>(ones, bits)\<close>, both 0 when the mask is not canonical.\<close>

definition Mask_Size :: "byte list \<Rightarrow> nat \<times> nat" where
  "Mask_Size m = (case simpleMaskLength m of None \<Rightarrow> (0, 0) | Some n \<Rightarrow> (n, 8 * length m))"

definition networkNumberAndMask :: "IPNet \<Rightarrow> (ip \<times> byte list) option" where
  "networkNumberAndMask n =
     (let ip = (if To4 (net_ip n) \<noteq> [] then To4 (net_ip n) else net_ip n); m = net_mask n
      in if To4 (net_ip n) = [] \<and> length ip \<noteq> 16 then None
         else if length m = 4 then (if length ip \<noteq> 4 then None else Some (ip, m))
         else if length m = 16 then (if length ip = 4 then Some (ip, drop 12 m) else Some (ip, m))
         else None)"

definition IPNet_Contains :: "IPNet \<Rightarrow> ip \<Rightarrow> bool" where
  "IPNet_Contains n ip =
     (let ip' = (if To4 ip \<noteq> [] then To4 ip else ip)
      in case networkNumberAndMask n of
           None \<Rightarrow> ip' = []
         | Some (nn, m) \<Rightarrow> length ip' = length nn \<and> map2 (AND) nn m = map2 (AND) ip' m)"

section \<open>Printing\<close>

fun hex_digit :: "nat \<Rightarrow> char" where
  "hex_digit n = (if n < 10 then digit_char n else char_of (87 + n))"

fun itoa_hex :: "nat \<Rightarrow> string" where
  "itoa_hex n = (if n < 16 then [hex_digit n] else itoa_hex (n div 16) @ [hex_digit (n mod 16)])"

declare itoa_hex.simps [simp del]

definition hexString :: "byte list \<Rightarrow> string" where
  "hexString bs = concat (map (\<lambda>b. [hex_digit (unat b div 16), hex_digit (unat b mod 16)]) bs)"

definition v4_string :: "byte list \<Rightarrow> string" where
  "v4_string ip = Join ''.'' (map (\<lambda>b. itoa (unat b)) ip)"

text \<open>The 16-bit groups of an IPv6 address.\<close>

fun groups :: "byte list \<Rightarrow> nat list" where
  "groups (a # b # bs) = (256 * unat a + unat b) # groups bs"
| "groups _ = []"

definition zero_run :: "nat list \<Rightarrow> nat \<Rightarrow> nat" where
  "zero_run gs i = length (takeWhile (\<lambda>g. g = 0) (drop i gs))"

text \<open>
  \<open>appendTo6\<close>: the first of the longest runs of at least two zero groups is written as
  two colons (\<open>(start, end)\<close> of the run, \<open>(255, 255)\<close> when there is none).
\<close>

definition longest_zero_run :: "nat list \<Rightarrow> nat \<times> nat" where
  "longest_zero_run gs =
     foldl (\<lambda>(zs, ze) i. let l = zero_run gs i in if 2 \<le> l \<and> ze - zs < l then (i, i + l) else (zs, ze))
       (255, 255) [0..<8]"

definition v6_string :: "byte list \<Rightarrow> string" where
  "v6_string ip =
     (let gs = groups ip; (zs, ze) = longest_zero_run gs
      in if zs = 255 then Join '':'' (map itoa_hex gs)
         else Join '':'' (map itoa_hex (take zs gs)) @ ''::'' @ Join '':'' (map itoa_hex (drop ze gs)))"

definition IP_String :: "ip \<Rightarrow> string" where
  "IP_String ip = (if ip = [] then ''<nil>''
                   else if length ip \<noteq> 4 \<and> length ip \<noteq> 16 then ''?'' @ hexString ip
                   else if To4 ip \<noteq> [] then v4_string (To4 ip) else v6_string ip)"

definition IPNet_String :: "IPNet \<Rightarrow> string" where
  "IPNet_String n = (case networkNumberAndMask n of
       None \<Rightarrow> ''<nil>''
     | Some (nn, m) \<Rightarrow> (case simpleMaskLength m of
           None \<Rightarrow> IP_String nn @ ''/'' @ hexString m
         | Some l \<Rightarrow> IP_String nn @ ''/'' @ itoa l))"

section \<open>Parsing\<close>

text \<open>
  \<open>parseIPv4Fields\<close>: the loop over the characters with its variables \<open>val\<close>, \<open>digLen\<close>
  and the fields stored so far; \<open>first\<close> says that \<open>i = 0\<close> or that the character before is
  a dot.
\<close>

fun parse_v4_loop :: "string \<Rightarrow> nat \<Rightarrow> nat \<Rightarrow> bool \<Rightarrow> byte list \<Rightarrow> byte list option" where
  "parse_v4_loop [] val digLen first flds =
     (if length flds < 3 then None else Some (flds @ [of_nat val]))"
| "parse_v4_loop (c # s) val digLen first flds =
     (if is_digit c then
        (if digLen = 1 \<and> val = 0 then None
         else if 10 * val + digit_val c > 255 then None
         else parse_v4_loop s (10 * val + digit_val c) (Suc digLen) False flds)
      else if c = CHR ''.'' then
        (if first \<or> s = [] then None
         else if length flds = 3 then None
         else parse_v4_loop s 0 0 True (flds @ [of_nat val]))
      else None)"

definition parseIPv4Fields :: "string \<Rightarrow> byte list option" where
  "parseIPv4Fields s = parse_v4_loop s 0 0 True []"

definition hex_val :: "char \<Rightarrow> nat option" where
  "hex_val c = (if is_digit c then Some (digit_val c)
                else if 97 \<le> ord c \<and> ord c \<le> 102 then Some (ord c - 87)
                else if 65 \<le> ord c \<and> ord c \<le> 70 then Some (ord c - 55) else None)"

definition hex_prefix :: "string \<Rightarrow> string" where
  "hex_prefix s = takeWhile (\<lambda>c. hex_val c \<noteq> None) s"

definition hex_value :: "string \<Rightarrow> nat" where
  "hex_value ds = foldl (\<lambda>v c. 16 * v + the (hex_val c)) 0 ds"

text \<open>
  The loop of \<open>parseIPv6\<close> after a leading ellipsis was taken off: \<open>ip\<close> holds the bytes
  stored so far (\<open>i\<close> is its length), \<open>ell\<close> the position of the ellipsis.  The result is
  the rest of the string with the final values.
\<close>

function parse_v6_loop :: "string \<Rightarrow> byte list \<Rightarrow> nat option \<Rightarrow> (string \<times> byte list \<times> nat option) option" where
  "parse_v6_loop s ip ell =
     (if length ip \<ge> 16 then Some (s, ip, ell)
      else let h = hex_prefix s; r = drop (length h) s; acc = hex_value h in
        if h = [] \<or> length h > 4 then None
        else if r \<noteq> [] \<and> hd r = CHR ''.'' then
          (if ell = None \<and> length ip \<noteq> 12 then None
           else if length ip + 4 > 16 then None
           else (case parseIPv4Fields s of None \<Rightarrow> None | Some f \<Rightarrow> Some ([], ip @ f, ell)))
        else let ip' = ip @ [of_nat (acc div 256), of_nat acc] in
          if r = [] then Some ([], ip', ell)
          else if hd r \<noteq> CHR '':'' \<or> length r = 1 then None
          else let r' = tl r in
            if hd r' = CHR '':'' then
              (if ell \<noteq> None then None
               else if tl r' = [] then Some ([], ip', Some (length ip'))
               else parse_v6_loop (tl r') ip' (Some (length ip')))
            else parse_v6_loop r' ip' ell)"
  by pat_completeness auto
termination by (relation "measure (\<lambda>(s, ip, ell). 16 - length ip)") auto

declare parse_v6_loop.simps [simp del]

definition parseIPv6 :: "string \<Rightarrow> byte list option" where
  "parseIPv6 s =
     (let lead = HasPrefix s ''::''; s1 = (if lead then drop 2 s else s) in
      if lead \<and> s1 = [] then Some (replicate 16 0)
      else (case parse_v6_loop s1 [] (if lead then Some 0 else None) of
              None \<Rightarrow> None
            | Some (rest, ip, ell) \<Rightarrow>
                if rest \<noteq> [] then None
                else if length ip < 16 then
                  (case ell of None \<Rightarrow> None
                   | Some e \<Rightarrow> Some (take e ip @ replicate (16 - length ip) 0 @ drop e ip))
                else if ell \<noteq> None then None else Some ip))"

text \<open>
  \<open>netip.ParseAddr\<close> as its two callers use it, with an address that has a zone rejected
  as they do.  The result is \<open>Inl\<close> four bytes or \<open>Inr\<close> sixteen bytes.
\<close>

definition ParseAddr :: "string \<Rightarrow> (byte list + byte list) option" where
  "ParseAddr s =
     (if CHR ''%'' \<in> set s then None
      else case find (\<lambda>c. c = CHR ''.'' \<or> c = CHR '':'') s of
        None \<Rightarrow> None
      | Some c \<Rightarrow> if c = CHR ''.'' then map_option Inl (parseIPv4Fields s)
                  else map_option Inr (parseIPv6 s))"

definition As16 :: "byte list + byte list \<Rightarrow> byte list" where
  "As16 a = (case a of Inl v4 \<Rightarrow> v4_prefix @ v4 | Inr v6 \<Rightarrow> v6)"

definition BitLen :: "byte list + byte list \<Rightarrow> nat" where
  "BitLen a = (case a of Inl _ \<Rightarrow> 32 | Inr _ \<Rightarrow> 128)"

definition ParseIP :: "string \<Rightarrow> ip option" where
  "ParseIP s = map_option As16 (ParseAddr s)"

text \<open>\<open>dtoi\<close> on the whole mask text: digits only and below \<open>0xFFFFFF\<close>.\<close>

definition dtoi :: "string \<Rightarrow> nat option" where
  "dtoi s = (if s = [] \<or> \<not> list_all is_digit s \<or> dec_val s \<ge> 0xFFFFFF then None else Some (dec_val s))"

definition ParseCIDR :: "string \<Rightarrow> (ip \<times> IPNet) option" where
  "ParseCIDR s = (case Cut (CHR ''/'') s of
       None \<Rightarrow> None
     | Some (addr, m_str) \<Rightarrow> (case ParseAddr addr of
           None \<Rightarrow> None
         | Some a \<Rightarrow> (case dtoi m_str of
               None \<Rightarrow> None
             | Some n \<Rightarrow> if n > BitLen a then None
                 else let m = CIDRMask n (BitLen a); a16 = As16 a
                      in Some (a16, \<lparr>net_ip = IP_Mask a16 m, net_mask = m\<rparr>))))"

section \<open>\<open>encoding/binary\<close>\<close>

text \<open>Big-endian value of a byte list.\<close>

definition be :: "byte list \<Rightarrow> nat" where
  "be bs = foldl (\<lambda>v b. 256 * v + unat b) 0 bs"

definition Uint32 :: "byte list \<Rightarrow> 32 word" where
  "Uint32 b = of_nat (be (take 4 b))"

definition PutUint32 :: "32 word \<Rightarrow> byte list" where
  "PutUint32 n = [of_nat (unat n div 2 ^ 24), of_nat (unat n div 2 ^ 16),
                  of_nat (unat n div 2 ^ 8), of_nat (unat n)]"

section \<open>Byte lists as numbers\<close>

lemma be_Nil [simp]: "be [] = 0"
  by (simp add: be_def)

lemma be_foldl: "foldl (\<lambda>v b. 256 * v + unat (b :: byte)) v bs = v * 256 ^ length bs + be bs"
proof (induction bs arbitrary: v)
  case Nil
  then show ?case by simp
next
  case (Cons b bs)
  have "be (b # bs) = unat b * 256 ^ length bs + be bs"
    unfolding be_def using Cons.IH[of "unat b"] by (simp add: be_def)
  then show ?case using Cons.IH[of "256 * v + unat b"] by (simp add: algebra_simps)
qed

lemma be_Cons [simp]: "be (b # bs) = unat b * 256 ^ length bs + be bs"
  using be_foldl[of "unat b" bs] by (simp add: be_def)

lemma unat_byte_less: "unat (b :: byte) < 256"
  using unsigned_less[of b] by simp

lemma be_less: "be bs < 256 ^ length bs"
proof (induction bs)
  case Nil
  then show ?case by simp
next
  case (Cons b bs)
  have "unat b * 256 ^ length bs \<le> 255 * 256 ^ length bs"
    by (intro mult_right_mono) (use unat_byte_less[of b] in auto)
  moreover have "(256 :: nat) ^ length (b # bs) = 255 * 256 ^ length bs + 256 ^ length bs" by simp
  ultimately show ?case using Cons.IH unfolding be_Cons by linarith
qed

lemma be_less_pow2: "be bs < 2 ^ (8 * length bs)"
  using be_less[of bs] by (simp add: power_mult)

lemma be_inject: "length as = length bs \<Longrightarrow> be as = be bs \<longleftrightarrow> as = bs"
proof (induction as bs rule: list_induct2)
  case Nil
  then show ?case by simp
next
  case (Cons a as b bs)
  have lt: "be as < 256 ^ length bs" "be bs < 256 ^ length bs"
    using be_less[of as] be_less[of bs] Cons.hyps by simp_all
  have q: "(u * 256 ^ length bs + r) div 256 ^ length bs = u" if "r < 256 ^ length bs" for u r :: nat
    using that by simp
  have "be (a # as) = be (b # bs) \<Longrightarrow> unat a = unat b"
    using q[OF lt(1), of "unat a"] q[OF lt(2), of "unat b"] Cons.hyps by simp
  then show ?case using Cons.IH Cons.hyps by (auto simp: word_unat_eq_iff)
qed

text \<open>One byte under a mask byte with \<open>n\<close> leading ones.\<close>

lemma byte_255: "(255 :: byte) = mask 8"
  by (simp add: mask_eq_exp_minus_1)

lemma mask_byte: "n \<le> 8 \<Longrightarrow> drop_bit n (255 :: byte) = mask (8 - n)"
  unfolding byte_255 by (rule bit_word_eqI) (auto simp: bit_simps)

lemma unat_and_mask_byte:
  assumes "n \<le> 8"
  shows "unat (a AND NOT (drop_bit n (255 :: byte))) = unat a div 2 ^ (8 - n) * 2 ^ (8 - n)"
proof -
  have "a AND NOT (mask (8 - n)) = push_bit (8 - n) (drop_bit (8 - n) a)"
    by (rule bit_word_eqI) (auto simp: bit_simps)
  moreover have "unat (push_bit (8 - n) (drop_bit (8 - n) a)) = unat a div 2 ^ (8 - n) * 2 ^ (8 - n)"
  proof -
    have "unat a div 2 ^ (8 - n) * 2 ^ (8 - n) < 256"
      using unat_byte_less[of a] div_times_less_eq_dividend[of "unat a" "2 ^ (8 - n)"] by linarith
    moreover have "unat (drop_bit (8 - n) a) = unat a div 2 ^ (8 - n)"
      by (simp add: unat_drop_bit_eq flip: drop_bit_eq_div)
    ultimately show ?thesis
      using unsigned_push_bit_eq[of "8 - n" "drop_bit (8 - n) a", where ?'a = nat]
      by (simp only: take_bit_eq_mod push_bit_eq_mult) simp
  qed
  ultimately show ?thesis using mask_byte[OF assms] by simp
qed

lemma unat_or_mask_byte:
  assumes "n \<le> 8"
  shows "unat (a OR NOT (NOT (drop_bit n (255 :: byte)))) = unat a div 2 ^ (8 - n) * 2 ^ (8 - n) + (2 ^ (8 - n) - 1)"
proof -
  let ?k = "8 - n"
  have "a OR mask ?k = (a AND NOT (mask ?k)) OR mask ?k"
    by (rule bit_word_eqI) (auto simp: bit_simps)
  also have "\<dots> = (a AND NOT (mask ?k)) + mask ?k"
    by (rule disjunctive_add[symmetric]) (auto simp: bit_simps)
  finally have eq: "a OR NOT (NOT (drop_bit n 255)) = (a AND NOT (drop_bit n 255)) + mask ?k"
    using mask_byte[OF assms] by simp
  have "unat (take_bit ?k (- 1) :: byte) = take_bit ?k (mask 8)"
    by (simp only: unsigned_take_bit_eq unsigned_minus_1_eq_mask) simp
  then have m: "unat (mask ?k :: byte) = 2 ^ ?k - 1"
    by (simp only: take_bit_minus_one_eq_mask take_bit_of_mask) (simp add: mask_eq_exp_minus_1 min_def)
  have "unat a div 2 ^ ?k < 2 ^ n"
    using unat_byte_less[of a] assms by (simp add: less_mult_imp_div_less flip: power_add)
  then have "(unat a div 2 ^ ?k + 1) * 2 ^ ?k \<le> 2 ^ n * 2 ^ ?k"
    by (intro mult_right_mono) auto
  also have "(2 :: nat) ^ n * 2 ^ ?k = 256" using assms by (simp flip: power_add)
  finally have "unat a div 2 ^ ?k * 2 ^ ?k + (2 ^ ?k - 1) < 256" by (simp add: algebra_simps)
  then show ?thesis
    unfolding eq by (simp add: unat_word_ariths(1) unat_and_mask_byte[OF assms] m)
qed

lemma length_mask_bytes [simp]: "length (mask_bytes l n) = l"
  by (induction l n rule: mask_bytes.induct) auto

text \<open>
  A masked address is the address rounded down to a multiple of the block size, and the
  broadcast pattern is the last address of the block.
\<close>

lemma block_div: "(u * 2 ^ (a + k) + r) div 2 ^ k = u * 2 ^ a + r div 2 ^ k" for u r :: nat
  by (simp add: power_add flip: mult.assoc)

lemma div_block:
  fixes u r :: nat
  assumes "r < 2 ^ a"
  shows "(u * 2 ^ a + r) div 2 ^ (a + k) = u div 2 ^ k"
  using assms by (simp add: power_add div_mult2_eq)

lemma be_mask:
  assumes "length as = l" "n \<le> 8 * l"
  shows "be (map2 (AND) as (mask_bytes l n)) = be as div 2 ^ (8 * l - n) * 2 ^ (8 * l - n)"
  using assms
proof (induction l n arbitrary: as rule: mask_bytes.induct)
  case (1 n)
  then show ?case by simp
next
  case (2 l n)
  obtain a bs where as: "as = a # bs" "length bs = l" using "2.prems"(1) by (cases as) auto
  have p256: "(256 :: nat) ^ l = 2 ^ (8 * l)" by (simp add: power_mult)
  show ?case
  proof (cases "8 \<le> n")
    case True
    let ?k = "8 * l - (n - 8)"
    have k: "8 * Suc l - n = ?k" "8 * l = (n - 8) + ?k" using True "2.prems"(2) by simp_all
    have a255: "a AND 255 = a" unfolding byte_255 by (rule bit_word_eqI) (simp add: bit_simps)
    have "be bs div 2 ^ ?k * 2 ^ ?k + unat a * 2 ^ (8 * l) = (unat a * 2 ^ (8 * l) + be bs) div 2 ^ ?k * 2 ^ ?k"
      by (subst (1 2) k(2)) (simp only: block_div, simp add: algebra_simps power_add)
    then show ?thesis
      using "2.IH"(1)[OF True as(2)] True "2.prems"(2) as k(1) a255 by (simp add: p256)
  next
    case False
    then have n8: "n \<le> 8" by simp
    define j where "j = 8 - n"
    have k: "8 * Suc l - n = 8 * l + j" using n8 by (simp add: j_def)
    have "be bs < 2 ^ (8 * l)" using be_less_pow2[of bs] as by simp
    then have "be (map2 (AND) bs (mask_bytes l 0)) = 0"
      and "(unat a * 2 ^ (8 * l) + be bs) div 2 ^ (8 * l + j) = unat a div 2 ^ j"
      using "2.IH"(2)[OF False as(2)] div_block by simp_all
    then show ?thesis
      using False as unat_and_mask_byte[OF n8, of a] unfolding k j_def[symmetric]
      by (simp add: p256 power_add)
  qed
qed

lemma last_of_block:
  "(q * 2 ^ j + (2 ^ j - 1)) * 2 ^ a + (2 ^ a - 1) = q * 2 ^ (a + j) + (2 ^ (a + j) - (1 :: nat))"
proof -
  obtain J where J: "2 ^ j = Suc J" using not0_implies_Suc[of "2 ^ j"] by auto
  obtain A where A: "2 ^ a = Suc A" using not0_implies_Suc[of "2 ^ a"] by auto
  show ?thesis unfolding power_add J A by (simp add: algebra_simps)
qed

lemma be_broadcast:
  assumes "length as = l" "n \<le> 8 * l"
  shows "be (map2 (\<lambda>x m. x OR NOT m) as (mask_bytes l n))
         = be as div 2 ^ (8 * l - n) * 2 ^ (8 * l - n) + (2 ^ (8 * l - n) - 1)"
  using assms
proof (induction l n arbitrary: as rule: mask_bytes.induct)
  case (1 n)
  then show ?case by simp
next
  case (2 l n)
  obtain a bs where as: "as = a # bs" "length bs = l" using "2.prems"(1) by (cases as) auto
  have p256: "(256 :: nat) ^ l = 2 ^ (8 * l)" by (simp add: power_mult)
  show ?case
  proof (cases "8 \<le> n")
    case True
    let ?k = "8 * l - (n - 8)"
    have k: "8 * Suc l - n = ?k" "8 * l = (n - 8) + ?k" using True "2.prems"(2) by simp_all
    have a255: "a OR NOT 255 = a" unfolding byte_255 by (rule bit_word_eqI) (simp add: bit_simps)
    have "be bs div 2 ^ ?k * 2 ^ ?k + unat a * 2 ^ (8 * l) = (unat a * 2 ^ (8 * l) + be bs) div 2 ^ ?k * 2 ^ ?k"
      by (subst (1 2) k(2)) (simp only: block_div, simp add: algebra_simps power_add)
    then show ?thesis
      using "2.IH"(1)[OF True as(2)] True "2.prems"(2) as k(1) a255
      by (simp add: p256 del: Nat.add_diff_assoc Nat.add_diff_assoc2)
  next
    case False
    then have n8: "n \<le> 8" by simp
    define j where "j = 8 - n"
    have k: "8 * Suc l - n = 8 * l + j" using n8 by (simp add: j_def)
    have "be bs < 2 ^ (8 * l)" using be_less_pow2[of bs] as by simp
    then have "be (map2 (\<lambda>x m. x OR NOT m) bs (mask_bytes l 0)) = 2 ^ (8 * l) - 1"
      and "(unat a * 2 ^ (8 * l) + be bs) div 2 ^ (8 * l + j) = unat a div 2 ^ j"
      using "2.IH"(2)[OF False as(2)] div_block by simp_all
    then show ?thesis
      using False as unat_or_mask_byte[OF n8, of a] last_of_block[of "unat a div 2 ^ j" j "8 * l"]
      unfolding k j_def[symmetric] by (simp add: p256)
  qed
qed

lemma masked_eq_iff:
  assumes "length as = l" "length bs = l" "n \<le> 8 * l"
  shows "map2 (AND) as (mask_bytes l n) = map2 (AND) bs (mask_bytes l n)
         \<longleftrightarrow> be as div 2 ^ (8 * l - n) = be bs div 2 ^ (8 * l - n)"
proof -
  have "map2 (AND) as (mask_bytes l n) = map2 (AND) bs (mask_bytes l n)
        \<longleftrightarrow> be (map2 (AND) as (mask_bytes l n)) = be (map2 (AND) bs (mask_bytes l n))"
    using assms by (simp add: be_inject)
  then show ?thesis using be_mask[OF assms(1,3)] be_mask[OF assms(2,3)] by simp
qed

section \<open>IPv4: representation, printing and parsing\<close>

lemma length_v4_prefix [simp]: "length v4_prefix = 12"
  by (simp add: v4_prefix_def)

lemma To4_v4 [simp]: "length ip = 4 \<Longrightarrow> To4 ip = ip"
  by (simp add: To4_def)

lemma To4_As16 [simp]: "length v4 = 4 \<Longrightarrow> To4 (v4_prefix @ v4) = v4"
  by (simp add: To4_def)

lemma len4_ne [simp]: "length ip = 4 \<Longrightarrow> ip \<noteq> []"
  by auto

lemma len4E:
  assumes "length ip = 4"
  obtains a b c d where "ip = [a, b, c, d]"
proof -
  from assms have "length ip = Suc (Suc (Suc (Suc 0)))" by simp
  then show ?thesis by (auto simp: length_Suc_conv intro: that)
qed

lemma IP_String_v4: "length ip = 4 \<Longrightarrow> IP_String ip = v4_string ip"
  by (simp add: IP_String_def)

lemma IP_String_As16: "length ip = 4 \<Longrightarrow> IP_String (v4_prefix @ ip) = v4_string ip"
  by (simp add: IP_String_def v4_prefix_def[symmetric])

text \<open>Reading the digits of one octet.\<close>

lemma parse_v4_octet:
  "n < 256 \<Longrightarrow> parse_v4_loop (itoa n @ rest) 0 0 first flds
                = parse_v4_loop rest n (length (itoa n)) False flds"
proof (induction n arbitrary: rest rule: itoa.induct)
  case (1 n)
  show ?case
  proof (cases "n < 10")
    case True
    then show ?thesis by (subst (1 2) itoa.simps) simp
  next
    case False
    have "parse_v4_loop (itoa (n div 10) @ digit_char (n mod 10) # rest) 0 0 first flds
          = parse_v4_loop (digit_char (n mod 10) # rest) (n div 10) (length (itoa (n div 10))) False flds"
      using "1.IH"[OF False] "1.prems" by simp
    moreover have "n div 10 \<noteq> 0" "10 * (n div 10) + n mod 10 = n" using False by simp_all
    ultimately show ?thesis
      using False "1.prems" by (subst (1 2) itoa.simps) (simp del: div_eq_0_iff)
  qed
qed

lemma not_digit_dot [simp]: "\<not> is_digit (CHR ''.'')"
  by (simp add: is_digit_def ord_def)

lemma parseIPv4Fields_v4_string:
  assumes "length ip = 4"
  shows "parseIPv4Fields (v4_string ip) = Some ip"
proof -
  obtain a b c d where ip: "ip = [a, b, c, d]" using assms by (rule len4E)
  have tail: "parse_v4_loop (itoa (unat d)) 0 0 True flds = parse_v4_loop [] (unat d) (length (itoa (unat d))) False flds"
    for flds using parse_v4_octet[of "unat d" "[]"] unat_byte_less[of d] by simp
  show ?thesis
    by (simp add: ip parseIPv4Fields_def v4_string_def parse_v4_octet unat_byte_less tail)
qed

lemma v4_string_inject:
  "\<lbrakk>length a = 4; length b = 4\<rbrakk> \<Longrightarrow> v4_string a = v4_string b \<longleftrightarrow> a = b"
  by (metis option.inject parseIPv4Fields_v4_string)

lemma v4_string_chars:
  assumes "length ip = 4" "c \<in> set (v4_string ip)"
  shows "is_digit c \<or> c = CHR ''.''"
  using assms by (elim len4E) (auto simp: v4_string_def dest: itoa_digits)

lemma v4_string_split:
  assumes "length ip = 4"
  obtains a ds rest where "v4_string ip = ds @ CHR ''.'' # rest" "\<forall>c\<in>set ds. is_digit c" "ds = itoa a"
proof -
  obtain a b c d where "ip = [a, b, c, d]" using assms by (rule len4E)
  then show thesis by (intro that[of "itoa (unat a)"]) (auto simp: v4_string_def dest: itoa_digits)
qed

lemma find_digits: "\<forall>c\<in>set ds. is_digit c \<Longrightarrow>
    find (\<lambda>c. c = CHR ''.'' \<or> c = CHR '':'') (ds @ CHR ''.'' # rest) = Some (CHR ''.'')"
  by (induction ds) (auto simp: is_digit_def ord_def)

lemma ParseAddr_v4_string:
  assumes "length ip = 4"
  shows "ParseAddr (v4_string ip) = Some (Inl ip)"
proof -
  have "CHR ''%'' \<notin> set (v4_string ip)"
    using v4_string_chars[OF assms, of "CHR ''%''"] by (auto simp: is_digit_def ord_def)
  moreover have "find (\<lambda>c. c = CHR ''.'' \<or> c = CHR '':'') (v4_string ip) = Some (CHR ''.'')"
    using assms by (rule v4_string_split) (simp add: find_digits)
  ultimately show ?thesis by (simp add: ParseAddr_def parseIPv4Fields_v4_string[OF assms])
qed

lemma dtoi_itoa: "n < 0xFFFFFF \<Longrightarrow> dtoi (itoa n) = Some n"
  by (auto simp: dtoi_def list_all_iff itoa_digits)

lemma ParseCIDR_v4_string:
  assumes "length ip = 4" "n \<le> 32"
  shows "ParseCIDR (v4_string ip @ ''/'' @ itoa n)
         = Some (v4_prefix @ ip, \<lparr>net_ip = map2 (AND) ip (mask_bytes 4 n), net_mask = mask_bytes 4 n\<rparr>)"
proof -
  have "CHR ''/'' \<notin> set (v4_string ip)"
    using v4_string_chars[OF assms(1), of "CHR ''/''"] by (auto simp: is_digit_def ord_def)
  then have "Cut (CHR ''/'') (v4_string ip @ ''/'' @ itoa n) = Some (v4_string ip, itoa n)"
    by (simp add: Cut_append)
  then show ?thesis
    using assms by (simp add: ParseCIDR_def ParseAddr_v4_string dtoi_itoa BitLen_def As16_def CIDRMask_def IP_Mask_def Let_def)
qed

text \<open>What \<open>ParseCIDR\<close> accepts, for an IPv4 network.\<close>

lemma parse_v4_loop_length: "parse_v4_loop s v dl f flds = Some r \<Longrightarrow> length flds \<le> 3 \<Longrightarrow> length r = 4"
  by (induction s v dl f flds rule: parse_v4_loop.induct) (auto split: if_splits)

lemma parseIPv4Fields_length: "parseIPv4Fields s = Some r \<Longrightarrow> length r = 4"
  by (auto simp: parseIPv4Fields_def dest: parse_v4_loop_length)

lemma Contains_v4:
  assumes "length nn = 4" "length ip = 4" "n \<le> 32"
  shows "IPNet_Contains \<lparr>net_ip = nn, net_mask = mask_bytes 4 n\<rparr> ip
         \<longleftrightarrow> be nn div 2 ^ (32 - n) = be ip div 2 ^ (32 - n)"
  using assms masked_eq_iff[of nn 4 ip n]
  by (simp add: IPNet_Contains_def networkNumberAndMask_def Let_def)

end
