(* ===== verification/IPAlloc.thy ===== *)
theory IPAlloc
  imports GoNet
begin

text \<open>
  \<open>internal/wg/ip_alloc.go\<close>: the allocator of peer addresses.  The map
  \<open>used map[string]bool\<close>, which only ever holds \<open>true\<close>, is the set of its keys.  The
  loop of \<open>Allocate\<close> is a \<open>partial_function (option)\<close>, so a loop that does not end
  would be the value \<open>None\<close>; \<open>alloc_loop_v4\<close> proves that it ends for every IPv4
  subnet with a prefix of at least one bit, with the first free host address.  The locale
  \<open>address_pool\<close> states what a pool promises its clients; it is interpreted
  on the operations of the code.
\<close>

section \<open>The code\<close>

record IPAllocator =
  subnet :: IPNet
  used :: "string set"

datatype alloc_error = SubnetIsNil | NoAvailableIPs

fun inc_rev :: "byte list \<Rightarrow> byte list" where
  "inc_rev [] = []"
| "inc_rev (b # bs) = (if b + 1 \<noteq> 0 then (b + 1) # bs else (b + 1) # inc_rev bs)"

definition nextIP :: "ip \<Rightarrow> ip" where
  "nextIP ip = (if To4 ip \<noteq> [] then PutUint32 (Uint32 (To4 ip) + 1) else rev (inc_rev (rev ip)))"

definition firstUsableIP :: "IPNet \<Rightarrow> ip" where
  "firstUsableIP sn = nextIP (IP_Mask (net_ip sn) (net_mask sn))"

definition isBroadcast :: "ip \<Rightarrow> IPNet \<Rightarrow> bool" where
  "isBroadcast ip sn =
     (let ip4 = To4 ip;
          msk = (if length (net_mask sn) = 16 then drop 12 (net_mask sn) else net_mask sn);
          network = To4 (net_ip sn)
      in if ip4 = [] then False else if network = [] then False
         else ip4 = map2 (\<lambda>n m. n OR NOT m) (IP_Mask network msk) msk)"

definition NewIPAllocator :: "IPNet option \<Rightarrow> ip list \<Rightarrow> alloc_error + IPAllocator" where
  "NewIPAllocator sn_opt usedIPs = (case sn_opt of
       None \<Rightarrow> Inl SubnetIsNil
     | Some sn \<Rightarrow>
         let sn' = sn\<lparr>net_ip := IP_Mask (net_ip sn) (net_mask sn)\<rparr>
         in Inr \<lparr>subnet = sn',
                 used = {IP_String (net_ip sn'), IP_String (firstUsableIP sn')} \<union> IP_String ` set usedIPs\<rparr>)"

partial_function (option) alloc_loop :: "IPNet \<Rightarrow> string set \<Rightarrow> ip \<Rightarrow> ip option option" where
  "alloc_loop sn us ip =
     (if \<not> IPNet_Contains sn ip then Some None
      else if isBroadcast ip sn then alloc_loop sn us (nextIP ip)
      else if IP_String ip \<notin> us then Some (Some ip)
      else alloc_loop sn us (nextIP ip))"

definition Allocate :: "IPAllocator \<Rightarrow> ((alloc_error + ip) \<times> IPAllocator) option" where
  "Allocate a = map_option
     (\<lambda>r. case r of None \<Rightarrow> (Inl NoAvailableIPs, a)
          | Some ip \<Rightarrow> (Inr ip, a\<lparr>used := insert (IP_String ip) (used a)\<rparr>))
     (alloc_loop (subnet a) (used a) (nextIP (firstUsableIP (subnet a))))"

definition Release :: "IPAllocator \<Rightarrow> ip \<Rightarrow> IPAllocator" where
  "Release a ip = a\<lparr>used := used a - {IP_String ip}\<rparr>"

definition Used :: "IPAllocator \<Rightarrow> nat" where
  "Used a = card (used a)"

definition ServerIP :: "IPAllocator \<Rightarrow> ip" where
  "ServerIP a = firstUsableIP (subnet a)"

section \<open>IPv4 addresses as numbers\<close>

definition addr4 :: "nat \<Rightarrow> ip" where
  "addr4 v = PutUint32 (of_nat v)"

lemma length_addr4 [simp]: "length (addr4 v) = 4"
  by (simp add: addr4_def PutUint32_def)

lemma be_PutUint32 [simp]: "be (PutUint32 n) = unat n"
proof -
  let ?x = "unat n"
  have "?x < 4294967296" using unsigned_less[of n] by simp
  then have "?x div 256 div 256 div 256 mod 256 = ?x div 256 div 256 div 256"
    by (simp add: less_mult_imp_div_less flip: div_mult2_eq)
  moreover have d: "?x div 65536 = ?x div 256 div 256" "?x div 16777216 = ?x div 256 div 256 div 256"
    by (simp_all flip: div_mult2_eq)
  moreover have "256 * (?x div 256) + ?x mod 256 = ?x"
    "256 * (?x div 256 div 256) + ?x div 256 mod 256 = ?x div 256"
    "256 * (?x div 256 div 256 div 256) + ?x div 256 div 256 mod 256 = ?x div 256 div 256"
    by (simp_all only: mult_div_mod_eq)
  moreover have "be (PutUint32 n) = (?x div 256 div 256 div 256 mod 256) * 16777216
      + (?x div 256 div 256 mod 256) * 65536 + (?x div 256 mod 256) * 256 + ?x mod 256"
    by (simp add: PutUint32_def unsigned_of_nat unsigned_ucast_eq take_bit_eq_mod d)
  ultimately show ?thesis by linarith
qed

lemma be_addr4 [simp]: "be (addr4 v) = v mod 2 ^ 32"
  by (simp add: addr4_def unsigned_of_nat take_bit_eq_mod)

lemma be_less4: "length ip = 4 \<Longrightarrow> be ip < 2 ^ 32"
  using be_less[of ip] by simp

lemma addr4_be: "length ip = 4 \<Longrightarrow> addr4 (be ip) = ip"
  using be_inject[of "addr4 (be ip)" ip] be_less4[of ip] by simp

lemma addr4_eq_iff: "addr4 u = addr4 v \<longleftrightarrow> u mod 2 ^ 32 = v mod 2 ^ 32"
  using be_inject[of "addr4 u" "addr4 v"] by simp

lemma nextIP_addr4 [simp]: "nextIP (addr4 v) = addr4 (v + 1)"
proof -
  have "Uint32 (addr4 v) = of_nat v"
    by (rule word_unat_eq_iff[THEN iffD2]) (simp add: Uint32_def unsigned_of_nat take_bit_eq_mod)
  then have "PutUint32 (Uint32 (addr4 v) + 1) = PutUint32 (of_nat (v + 1))" by (simp add: add.commute)
  then show ?thesis unfolding addr4_def[of "v + 1"] by (simp add: nextIP_def)
qed

lemma nextIP_v4: "length ip = 4 \<Longrightarrow> nextIP ip = addr4 (be ip + 1)"
  using nextIP_addr4[of "be ip"] by (simp add: addr4_be)

text \<open>Sixteen-byte increment: the carry loop is addition modulo the width.\<close>

lemma be_append: "be (as @ bs) = be as * 256 ^ length bs + be bs"
  by (induction as) (simp_all add: algebra_simps power_add)

lemma inc_rev_length [simp]: "length (inc_rev bs) = length bs"
  by (induction bs) auto

lemma be_inc_rev: "be (rev (inc_rev bs)) = (be (rev bs) + 1) mod 256 ^ length bs"
proof (induction bs)
  case Nil
  then show ?case by simp
next
  case (Cons b bs)
  let ?h = "be (rev bs)"
  have lt: "?h < 256 ^ length bs" using be_less[of "rev bs"] by simp
  show ?case
  proof (cases "b + 1 = 0")
    case True
    then have "b = - 1" by (simp add: add_eq_0_iff2)
    then have ub: "unat b = 255" by (simp add: unsigned_minus_1_eq_mask mask_eq_exp_minus_1)
    show ?thesis
      using True Cons.IH ub mult_mod_right[of 256 "Suc ?h" "256 ^ length bs"]
      by (simp add: be_append algebra_simps)
  next
    case False
    then have "unat (b + 1) = unat b + 1" by (metis add.commute unatSuc Suc_eq_plus1)
    moreover have "unat b + 1 < 256" using calculation unat_byte_less[of "b + 1"] by simp
    ultimately show ?thesis using False lt by (simp add: be_append)
  qed
qed

section \<open>IPv4 networks\<close>

text \<open>An IPv4 network of prefix length \<open>n\<close> as \<open>net.ParseCIDR\<close> builds it, its first address
  and the number of its addresses.\<close>

definition v4_net :: "nat \<Rightarrow> IPNet \<Rightarrow> bool" where
  "v4_net n sn = (n \<le> 32 \<and> length (net_ip sn) = 4 \<and> net_mask sn = mask_bytes 4 n
                  \<and> 2 ^ (32 - n) dvd be (net_ip sn))"

definition base :: "IPNet \<Rightarrow> nat" where
  "base sn = be (net_ip sn)"

definition block :: "nat \<Rightarrow> nat" where
  "block n = 2 ^ (32 - n)"

lemma block_pos [simp]: "0 < block n" "1 \<le> block n" "Suc 0 \<le> block n" "block n \<noteq> 0"
  by (simp_all add: block_def Suc_le_eq)

lemma v4_net_bounds:
  assumes "v4_net n sn"
  shows "base sn + block n \<le> 2 ^ 32" "block n dvd base sn" "block n dvd 2 ^ 32"
proof -
  show d: "block n dvd base sn" "block n dvd 2 ^ 32"
    using assms le_imp_power_dvd[of "32 - n" 32 "2 :: nat"] by (simp_all add: v4_net_def base_def block_def)
  have "base sn < 2 ^ 32" using assms be_less4 by (simp add: v4_net_def base_def)
  then have "base sn div block n < 2 ^ 32 div block n"
    using d by (simp add: div_less_mono)
  then have "(base sn div block n + 1) * block n \<le> 2 ^ 32 div block n * block n"
    by (intro mult_right_mono) simp_all
  then show "base sn + block n \<le> 2 ^ 32" using d by (simp add: algebra_simps)
qed

text \<open>Membership is equality of block numbers; the broadcast address is the last of the block.\<close>

lemma Contains_addr4:
  assumes "v4_net n sn"
  shows "IPNet_Contains sn (addr4 v) \<longleftrightarrow> base sn div block n = v mod 2 ^ 32 div block n"
  using assms Contains_v4[of "net_ip sn" "addr4 v" n]
  by (cases sn) (simp add: v4_net_def base_def block_def)

lemma Contains_v4_net:
  assumes "v4_net n sn" "length ip = 4"
  shows "IPNet_Contains sn ip \<longleftrightarrow> base sn \<le> be ip \<and> be ip < base sn + block n"
proof -
  have "IPNet_Contains sn ip \<longleftrightarrow> base sn div block n = be ip div block n"
    using Contains_addr4[OF assms(1), of "be ip"] addr4_be[OF assms(2)] be_less4[OF assms(2)] by simp
  also have "\<dots> \<longleftrightarrow> base sn \<le> be ip \<and> be ip < base sn + block n"
  proof -
    obtain q where q: "base sn = block n * q" using v4_net_bounds(2)[OF assms(1)] by (elim dvdE)
    have "be ip div block n = q \<longleftrightarrow> block n * q \<le> be ip \<and> be ip < block n * q + block n"
      by (metis add.commute block_pos(1) div_less_iff_less_mult div_nat_eqI dividend_less_times_div
          mult.commute mult_Suc_right times_div_less_eq_dividend)
    then show ?thesis using q by auto
  qed
  finally show ?thesis .
qed

lemma Mask_v4_net:
  assumes "v4_net n sn"
  shows "IP_Mask (net_ip sn) (net_mask sn) = net_ip sn"
proof -
  have "be (map2 (AND) (net_ip sn) (mask_bytes 4 n)) = be (net_ip sn)"
    using assms be_mask[of "net_ip sn" 4 n] by (simp add: v4_net_def)
  then show ?thesis using assms by (simp add: IP_Mask_def Let_def v4_net_def be_inject)
qed

lemma firstUsableIP_v4: "v4_net n sn \<Longrightarrow> firstUsableIP sn = addr4 (base sn + 1)"
  using Mask_v4_net[of n sn] nextIP_v4[of "net_ip sn"]
  by (simp add: firstUsableIP_def v4_net_def base_def)

lemma isBroadcast_v4:
  assumes "v4_net n sn"
  shows "isBroadcast (addr4 v) sn \<longleftrightarrow> v mod 2 ^ 32 = base sn + block n - 1"
proof -
  let ?bc = "map2 (\<lambda>n m. n OR NOT m) (net_ip sn) (mask_bytes 4 n)"
  have "be ?bc = base sn + (block n - 1)"
    using assms be_broadcast[of "net_ip sn" 4 n] by (simp add: v4_net_def base_def block_def)
  then have "be ?bc = base sn + block n - 1" by simp
  moreover have "isBroadcast (addr4 v) sn \<longleftrightarrow> addr4 v = ?bc"
    using assms Mask_v4_net[OF assms] by (simp add: isBroadcast_def Let_def v4_net_def)
  moreover have "addr4 v = ?bc \<longleftrightarrow> be (addr4 v) = be ?bc"
    using assms by (subst be_inject) (simp_all add: v4_net_def)
  ultimately show ?thesis by simp
qed

lemma ParseCIDR_cases:
  assumes "ParseCIDR s = Some (ip, sn)"
  shows "\<exists>addr a n. ParseAddr addr = Some a \<and> n \<le> BitLen a \<and> ip = As16 a
    \<and> sn = \<lparr>net_ip = IP_Mask (As16 a) (CIDRMask n (BitLen a)), net_mask = CIDRMask n (BitLen a)\<rparr>"
proof -
  obtain addr m a n where "Cut (CHR ''/'') s = Some (addr, m)" "ParseAddr addr = Some a" "dtoi m = Some n" "n \<le> BitLen a"
    using assms by (auto simp: ParseCIDR_def Let_def not_less split: option.splits prod.splits if_splits)
  with assms show ?thesis by (auto simp: ParseCIDR_def Let_def)
qed

lemma ParseCIDR_v4_net:
  assumes "ParseCIDR s = Some (ip, sn)" "length (net_mask sn) = 4"
  shows "\<exists>n. v4_net n sn"
proof -
  obtain addr a n where a: "ParseAddr addr = Some a" "n \<le> BitLen a"
      and sn: "sn = \<lparr>net_ip = IP_Mask (As16 a) (CIDRMask n (BitLen a)), net_mask = CIDRMask n (BitLen a)\<rparr>"
    using assms(1) ParseCIDR_cases by blast
  show ?thesis
  proof (cases a)
    case (Inl v4)
    then have len: "length v4 = 4"
      using a(1) parseIPv4Fields_length by (auto simp: ParseAddr_def split: option.splits if_splits)
    have "2 ^ (32 - n) dvd be (map2 (AND) v4 (mask_bytes 4 n))"
      using be_mask[of v4 4 n] a(2) len Inl by (simp add: BitLen_def)
    then show ?thesis
      using Inl a(2) sn len
      by (intro exI[of _ n]) (simp add: v4_net_def As16_def BitLen_def CIDRMask_def IP_Mask_def Let_def)
  next
    case (Inr v6)
    then show ?thesis using assms(2) a(2) sn by (simp add: BitLen_def CIDRMask_def)
  qed
qed

section \<open>The allocation loop\<close>

text \<open>The reference: the first address of a list that is not in use.\<close>

definition first_free :: "string set \<Rightarrow> ip list \<Rightarrow> ip option" where
  "first_free us ips = find (\<lambda>ip. IP_String ip \<notin> us) ips"

text \<open>The addresses \<open>Allocate\<close> may hand out, in its order: from the third to the last but one.\<close>

definition host_range :: "nat \<Rightarrow> IPNet \<Rightarrow> ip list" where
  "host_range n sn = map addr4 [base sn + 2..<base sn + block n - 1]"

lemma alloc_loop_outside:
  "\<not> IPNet_Contains sn ip \<Longrightarrow> alloc_loop sn us ip = Some None"
  by (subst alloc_loop.simps) simp

text \<open>The address after the block is outside of it, also where the increment wraps around.\<close>

lemma after_block_outside:
  assumes "v4_net n sn" "1 \<le> n"
  shows "\<not> IPNet_Contains sn (addr4 (base sn + block n))"
proof (cases "base sn + block n = 2 ^ 32")
  case True
  have "block n \<le> 2 ^ 31"
    unfolding block_def by (rule power_increasing) (use assms(2) in auto)
  then have "block n \<le> base sn" using True by simp
  then have "base sn div block n \<noteq> 0" by (simp add: div_greater_zero_iff)
  then show ?thesis using Contains_addr4[OF assms(1)] True by simp
next
  case False
  then have "base sn + block n < 2 ^ 32" using v4_net_bounds(1)[OF assms(1)] by simp
  then show ?thesis
    using Contains_v4_net[OF assms(1), of "addr4 (base sn + block n)"] by simp
qed

lemma alloc_loop_from:
  assumes "v4_net n sn" "1 \<le> n" "j \<le> block n"
  shows "alloc_loop sn us (addr4 (base sn + j))
         = Some (first_free us (map addr4 [base sn + j..<base sn + block n - 1]))"
  using assms(3)
proof (induction "block n - j" arbitrary: j)
  case 0
  then have "j = block n" by simp
  then show ?case
    using alloc_loop_outside[OF after_block_outside[OF assms(1,2)]] by (simp add: first_free_def)
next
  case (Suc d)
  then have j: "j < block n" by simp
  let ?v = "base sn + j"
  have v: "?v < 2 ^ 32" using j v4_net_bounds(1)[OF assms(1)] by simp
  have inside: "IPNet_Contains sn (addr4 ?v)"
    using Contains_v4_net[OF assms(1), of "addr4 ?v"] v j by simp
  have bc: "isBroadcast (addr4 ?v) sn \<longleftrightarrow> j = block n - 1"
    using isBroadcast_v4[OF assms(1), of ?v] v j by auto
  have IH: "alloc_loop sn us (nextIP (addr4 ?v))
            = Some (first_free us (map addr4 [Suc ?v..<base sn + block n - 1]))"
    using Suc.hyps(1)[of "Suc j"] Suc.hyps(2) j by simp
  show ?case
  proof (cases "j = block n - 1")
    case True
    then show ?thesis using inside bc IH j by (subst alloc_loop.simps) (simp add: first_free_def)
  next
    case False
    then have "[?v..<base sn + block n - 1] = ?v # [Suc ?v..<base sn + block n - 1]"
      using j by (simp add: upt_conv_Cons)
    then show ?thesis
      using False inside bc IH by (subst alloc_loop.simps) (simp add: first_free_def)
  qed
qed

lemma alloc_loop_v4:
  assumes "v4_net n sn" "1 \<le> n"
  shows "alloc_loop sn us (nextIP (firstUsableIP sn)) = Some (first_free us (host_range n sn))"
proof (cases "n = 32")
  case True
  have "be (net_ip sn) < 2 ^ 32" using assms be_less4 by (simp add: v4_net_def)
  then have "\<not> IPNet_Contains sn (addr4 (base sn + 2))"
    using Contains_v4_net[OF assms(1), of "addr4 (base sn + 2)"] True
    by (simp add: block_def base_def mod_if) linarith
  then show ?thesis
    using True alloc_loop_outside firstUsableIP_v4[OF assms(1)]
    by (simp add: first_free_def host_range_def block_def)
next
  case False
  have "n \<le> 31" using False assms(1) by (simp add: v4_net_def)
  then have "(2 :: nat) ^ 1 \<le> 2 ^ (32 - n)" by (intro power_increasing) auto
  then have "2 \<le> block n" by (simp add: block_def)
  then show ?thesis
    using alloc_loop_from[OF assms, of 2 us] firstUsableIP_v4[OF assms(1)]
    by (simp add: host_range_def)
qed

lemma Allocate_v4:
  assumes "v4_net n (subnet a)" "1 \<le> n"
  shows "Allocate a = Some (case first_free (used a) (host_range n (subnet a)) of
      None \<Rightarrow> (Inl NoAvailableIPs, a)
    | Some ip \<Rightarrow> (Inr ip, a\<lparr>used := insert (IP_String ip) (used a)\<rparr>))"
  using alloc_loop_v4[OF assms] by (simp add: Allocate_def)

lemma host_range_mem:
  assumes "v4_net n sn"
  shows "ip \<in> set (host_range n sn)
         \<longleftrightarrow> length ip = 4 \<and> base sn + 2 \<le> be ip \<and> be ip < base sn + block n - 1"
proof
  assume "ip \<in> set (host_range n sn)"
  then show "length ip = 4 \<and> base sn + 2 \<le> be ip \<and> be ip < base sn + block n - 1"
    using v4_net_bounds(1)[OF assms] by (auto simp: host_range_def)
next
  assume "length ip = 4 \<and> base sn + 2 \<le> be ip \<and> be ip < base sn + block n - 1"
  then show "ip \<in> set (host_range n sn)"
    unfolding host_range_def set_map by (intro image_eqI[of _ _ "be ip"]) (auto simp: addr4_be)
qed

lemma IP_String_inject4: "\<lbrakk>length a = 4; length b = 4\<rbrakk> \<Longrightarrow> IP_String a = IP_String b \<longleftrightarrow> a = b"
  by (simp add: IP_String_v4 v4_string_inject)

lemma NewIPAllocator_v4:
  assumes "v4_net n sn"
  shows "NewIPAllocator (Some sn) us = Inr \<lparr>subnet = sn,
           used = {IP_String (net_ip sn), IP_String (addr4 (base sn + 1))} \<union> IP_String ` set us\<rparr>"
proof -
  have "sn\<lparr>net_ip := IP_Mask (net_ip sn) (net_mask sn)\<rparr> = sn" using Mask_v4_net[OF assms] by simp
  then show ?thesis by (simp add: NewIPAllocator_def Let_def firstUsableIP_v4[OF assms])
qed

section \<open>The contract of an address pool\<close>

text \<open>
  What a client of a pool may rely on: an allocated address is a host address that was free
  and is taken from then on, nothing else changes, a failure means that every host
  address is taken, and a released host address is free again.
\<close>

locale address_pool =
  fixes inv :: "'p \<Rightarrow> bool"
    and alloc :: "'p \<Rightarrow> 'a option \<times> 'p"
    and release :: "'p \<Rightarrow> 'a \<Rightarrow> 'p"
    and taken :: "'p \<Rightarrow> 'a \<Rightarrow> bool"
    and hosts :: "'p \<Rightarrow> 'a set"
  assumes alloc_inv: "\<lbrakk>inv p; alloc p = (r, p')\<rbrakk> \<Longrightarrow> inv p' \<and> hosts p' = hosts p"
    and alloc_Some: "\<lbrakk>inv p; alloc p = (Some a, p')\<rbrakk> \<Longrightarrow> a \<in> hosts p \<and> \<not> taken p a"
    and alloc_taken: "\<lbrakk>inv p; alloc p = (Some a, p'); b \<in> hosts p\<rbrakk> \<Longrightarrow> taken p' b \<longleftrightarrow> b = a \<or> taken p b"
    and alloc_None: "\<lbrakk>inv p; alloc p = (None, p')\<rbrakk> \<Longrightarrow> p' = p \<and> (\<forall>a\<in>hosts p. taken p a)"
    and release_inv: "inv p \<Longrightarrow> inv (release p a) \<and> hosts (release p a) = hosts p"
    and release_taken: "\<lbrakk>inv p; a \<in> hosts p; b \<in> hosts p\<rbrakk> \<Longrightarrow> taken (release p a) b \<longleftrightarrow> b \<noteq> a \<and> taken p b"
begin

fun alloc_many :: "nat \<Rightarrow> 'p \<Rightarrow> 'a list \<times> 'p" where
  "alloc_many 0 p = ([], p)"
| "alloc_many (Suc k) p = (case alloc p of
      (None, p') \<Rightarrow> ([], p')
    | (Some a, p') \<Rightarrow> (case alloc_many k p' of (as, p'') \<Rightarrow> (a # as, p'')))"

text \<open>Addresses handed out in a row are distinct host addresses that were all free before.\<close>

lemma alloc_many_fresh:
  "\<lbrakk>inv p; alloc_many k p = (as, p')\<rbrakk>
   \<Longrightarrow> distinct as \<and> (\<forall>a\<in>set as. a \<in> hosts p \<and> \<not> taken p a)"
proof (induction k arbitrary: p as p')
  case 0
  then show ?case by simp
next
  case (Suc k)
  show ?case
  proof (cases "alloc p")
    case (Pair r q)
    show ?thesis
    proof (cases r)
      case None
      then show ?thesis using Suc.prems Pair by simp
    next
      case (Some a)
      obtain bs q' where bs: "alloc_many k q = (bs, q')" "as = a # bs"
        using Suc.prems(2) Pair Some by (auto split: prod.splits)
      have q: "inv q" "hosts q = hosts p" using alloc_inv[OF Suc.prems(1) Pair] by simp_all
      have ih: "distinct bs" "\<forall>b\<in>set bs. b \<in> hosts q \<and> \<not> taken q b"
        using Suc.IH[OF q(1) bs(1)] by simp_all
      have "\<forall>b\<in>set bs. b \<noteq> a \<and> \<not> taken p b"
        using ih(2) alloc_taken[OF Suc.prems(1)] Pair Some q(2) by blast
      then show ?thesis
        using ih alloc_Some[OF Suc.prems(1)] Pair Some bs(2) q(2) by auto
    qed
  qed
qed

text \<open>Allocation fails only on a full pool, and never right after a release.\<close>

lemma alloc_after_release:
  assumes "inv p" "a \<in> hosts p"
  shows "\<exists>b p'. alloc (release p a) = (Some b, p')"
proof (cases "alloc (release p a)")
  case (Pair r q)
  have r: "inv (release p a)" "hosts (release p a) = hosts p" using release_inv[OF assms(1)] by simp_all
  have "\<not> taken (release p a) a" using release_taken[OF assms assms(2)] by simp
  then have "r \<noteq> None" using alloc_None[OF r(1), of q] Pair r(2) assms(2) by auto
  then show ?thesis using Pair by auto
qed

end

definition pool_inv :: "nat \<Rightarrow> IPAllocator \<Rightarrow> bool" where
  "pool_inv n a = (v4_net n (subnet a) \<and> 1 \<le> n)"

definition pool_alloc :: "IPAllocator \<Rightarrow> ip option \<times> IPAllocator" where
  "pool_alloc a = (case Allocate a of
      Some (Inr ip, a') \<Rightarrow> (Some ip, a') | Some (Inl _, a') \<Rightarrow> (None, a') | None \<Rightarrow> (None, a))"

definition pool_taken :: "IPAllocator \<Rightarrow> ip \<Rightarrow> bool" where
  "pool_taken a ip = (IP_String ip \<in> used a)"

definition pool_hosts :: "nat \<Rightarrow> IPAllocator \<Rightarrow> ip set" where
  "pool_hosts n a = set (host_range n (subnet a))"

lemma pool_alloc_v4:
  "pool_inv n a \<Longrightarrow> pool_alloc a = (case first_free (used a) (host_range n (subnet a)) of
      None \<Rightarrow> (None, a)
    | Some ip \<Rightarrow> (Some ip, a\<lparr>used := insert (IP_String ip) (used a)\<rparr>))"
  by (auto simp: pool_inv_def pool_alloc_def Allocate_v4 split: option.splits)

lemma pool_hosts_len: "\<lbrakk>pool_inv n a; ip \<in> pool_hosts n a\<rbrakk> \<Longrightarrow> length ip = 4"
  by (auto simp: pool_inv_def pool_hosts_def host_range_mem)

lemma first_free_Some: "first_free us ips = Some ip \<Longrightarrow> ip \<in> set ips \<and> IP_String ip \<notin> us"
  unfolding first_free_def by (rule find_Some_set)

interpretation pool4: address_pool "pool_inv n" pool_alloc Release pool_taken "pool_hosts n" for n
proof (unfold_locales, goal_cases)
  case (1 p r p')
  then show ?case by (auto simp: pool_alloc_v4 pool_inv_def pool_hosts_def split: option.splits)
next
  case (2 p a p')
  then show ?case
    by (auto simp: pool_alloc_v4 pool_hosts_def pool_taken_def dest!: first_free_Some split: option.splits)
next
  case (3 p a p' b)
  then have "a \<in> pool_hosts n p"
    by (auto simp: pool_alloc_v4 pool_hosts_def dest!: first_free_Some split: option.splits)
  then have "IP_String b = IP_String a \<longleftrightarrow> b = a"
    using 3 pool_hosts_len by (simp add: IP_String_inject4)
  then show ?case using 3 by (auto simp: pool_alloc_v4 pool_taken_def split: option.splits)
next
  case (4 p p')
  then show ?case
    by (auto simp: pool_alloc_v4 pool_taken_def pool_hosts_def first_free_def find_None_set split: option.splits)
next
  case (5 p a)
  then show ?case by (simp add: pool_inv_def Release_def pool_hosts_def)
next
  case (6 p a b)
  then have "IP_String b = IP_String a \<longleftrightarrow> b = a"
    using pool_hosts_len by (simp add: IP_String_inject4)
  then show ?case by (auto simp: pool_taken_def Release_def)
qed

section \<open>Properties\<close>

text \<open>
  C19.  \<open>Allocate\<close> terminates on every IPv4 subnet with a prefix of at least one bit and
  computes the reference: the first address from network + 2 up to the address before
  the broadcast address whose text is not in use, marking it used; when there is none it
  returns the error and changes nothing.
\<close>

theorem Allocate_least_free_host:
  assumes "v4_net n (subnet a)" "1 \<le> n"
  shows "Allocate a = Some (case first_free (used a) (map addr4 [base (subnet a) + 2..<base (subnet a) + block n - 1]) of
      None \<Rightarrow> (Inl NoAvailableIPs, a)
    | Some ip \<Rightarrow> (Inr ip, a\<lparr>used := insert (IP_String ip) (used a)\<rparr>))"
  using Allocate_v4[OF assms] by (simp add: host_range_def)

text \<open>A /29 whose first two host addresses are taken: the third one is allocated.\<close>

theorem Allocate_least_free_host_witness:
  "let sn = \<lparr>net_ip = [10, 0, 0, 0], net_mask = mask_bytes 4 29\<rparr>;
       a = \<lparr>subnet = sn, used = {''10.0.0.0'', ''10.0.0.1'', ''10.0.0.2'', ''10.0.0.3''}\<rparr>
   in v4_net 29 sn \<and> Allocate a = Some (Inr [10, 0, 0, 4], a\<lparr>used := insert ''10.0.0.4'' (used a)\<rparr>)"
proof -
  let ?sn = "\<lparr>net_ip = [10, 0, 0, 0], net_mask = mask_bytes 4 29\<rparr>"
  let ?a = "\<lparr>subnet = ?sn, used = {''10.0.0.0'', ''10.0.0.1'', ''10.0.0.2'', ''10.0.0.3''}\<rparr>"
  have v: "v4_net 29 ?sn" by (simp add: v4_net_def)
  then have h: "v4_net 29 (subnet ?a)" by simp
  have l: "map addr4 [base (subnet ?a) + 2..<base (subnet ?a) + block 29 - 1]
           = [[10, 0, 0, 2], [10, 0, 0, 3], [10, 0, 0, 4], [10, 0, 0, 5], [10, 0, 0, 6]]"
    by (simp add: base_def block_def upt_rec addr4_def PutUint32_def)
  have s: "IP_String [10, 0, 0, 2] = ''10.0.0.2''" "IP_String [10, 0, 0, 3] = ''10.0.0.3''"
    "IP_String [10, 0, 0, 4] = ''10.0.0.4''" by code_simp+
  have "Allocate ?a = Some (Inr [10, 0, 0, 4], ?a\<lparr>used := insert ''10.0.0.4'' (used ?a)\<rparr>)"
    by (simp only: Allocate_least_free_host[OF h] l) (simp add: first_free_def s)
  then show ?thesis using v by (simp only: Let_def)
qed

text \<open>
  An address allocated from a new allocator lies in the subnet, is neither the network
  address nor the server's address nor the broadcast address, and has another text
  than every address the allocator was told is in use.
\<close>

theorem Allocate_fresh_host:
  assumes "v4_net n sn" "1 \<le> n"
    and "NewIPAllocator (Some sn) us = Inr a" "Allocate a = Some (Inr ip, a')"
  shows "IPNet_Contains sn ip \<and> ip \<noteq> net_ip sn \<and> ip \<noteq> firstUsableIP sn \<and> \<not> isBroadcast ip sn
    \<and> IP_String ip \<notin> IP_String ` set us \<and> used a' = insert (IP_String ip) (used a)"
proof -
  have a: "subnet a = sn" "IP_String ` set us \<subseteq> used a"
    using assms(3) NewIPAllocator_v4[OF assms(1)] by auto
  then have ff: "first_free (used a) (host_range n sn) = Some ip" and u: "used a' = insert (IP_String ip) (used a)"
    using assms(4) Allocate_v4[of n a] assms(1,2) by (auto split: option.splits)
  have ip: "length ip = 4" "base sn + 2 \<le> be ip" "be ip < base sn + block n - 1" "IP_String ip \<notin> used a"
    using first_free_Some[OF ff] host_range_mem[OF assms(1)] by auto
  have v: "ip = addr4 (be ip)" "be ip < 2 ^ 32" using ip(1) addr4_be be_less4 by simp_all
  have bounds: "base sn + 1 < 2 ^ 32" using ip(2) v(2) by simp
  have "\<not> isBroadcast ip sn" using isBroadcast_v4[OF assms(1), of "be ip"] v ip(3) by simp
  moreover have "ip \<noteq> firstUsableIP sn"
    using firstUsableIP_v4[OF assms(1)] be_addr4[of "base sn + 1"] bounds ip(2) by auto
  moreover have "IPNet_Contains sn ip" using Contains_v4_net[OF assms(1) ip(1)] ip(2,3) by simp
  moreover have "ip \<noteq> net_ip sn" using ip(2) by (auto simp: base_def)
  ultimately show ?thesis using a(2) ip(4) u by auto
qed

theorem Allocate_fresh_host_witness:
  "let sn = \<lparr>net_ip = [192, 168, 7, 0], net_mask = mask_bytes 4 30\<rparr>; ip = [192, 168, 7, 2] in
   \<exists>a a'. NewIPAllocator (Some sn) [] = Inr a \<and> Allocate a = Some (Inr ip, a') \<and>
     IPNet_Contains sn ip \<and> ip \<noteq> firstUsableIP sn \<and> \<not> isBroadcast ip sn"
proof -
  let ?sn = "\<lparr>net_ip = [192, 168, 7, 0], net_mask = mask_bytes 4 30\<rparr>" let ?ip = "[192, 168, 7, 2]"
  have v: "v4_net 30 ?sn" by (simp add: v4_net_def)
  obtain a where a: "NewIPAllocator (Some ?sn) [] = Inr a" "subnet a = ?sn"
      "used a = {''192.168.7.0'', ''192.168.7.1''}"
  proof
    have "IP_String [192, 168, 7, 0] = ''192.168.7.0''" "IP_String [192, 168, 7, 1] = ''192.168.7.1''"
      by code_simp+
    moreover have "addr4 (base ?sn + 1) = [192, 168, 7, 1]"
      by (simp add: base_def addr4_def PutUint32_def)
    ultimately show "NewIPAllocator (Some ?sn) [] = Inr \<lparr>subnet = ?sn, used = {''192.168.7.0'', ''192.168.7.1''}\<rparr>"
      by (simp only: NewIPAllocator_v4[OF v]) simp
  qed simp_all
  have l: "host_range 30 ?sn = [?ip]"
    by (simp add: host_range_def base_def block_def upt_rec addr4_def PutUint32_def)
  have s: "IP_String ?ip = ''192.168.7.2''" by code_simp
  have "Allocate a = Some (Inr ?ip, a\<lparr>used := insert (IP_String ?ip) (used a)\<rparr>)"
    using Allocate_v4[of 30 a] v by (simp add: a(2,3) l s first_free_def)
  then show ?thesis using a(1) Allocate_fresh_host[OF v _ a(1)] by (auto simp: Let_def)
qed

text \<open>
  \<open>Allocate\<close> fails exactly when every address of the subnet other than the network
  address, the server's address and the broadcast address is in use.
\<close>

theorem Allocate_fails_iff_exhausted:
  assumes "v4_net n (subnet a)" "1 \<le> n"
  shows "(\<exists>a'. Allocate a = Some (Inl NoAvailableIPs, a')) \<longleftrightarrow>
    (\<forall>ip. length ip = 4 \<longrightarrow> IPNet_Contains (subnet a) ip \<longrightarrow> ip \<noteq> net_ip (subnet a) \<longrightarrow>
          ip \<noteq> firstUsableIP (subnet a) \<longrightarrow> \<not> isBroadcast ip (subnet a) \<longrightarrow> IP_String ip \<in> used a)"
proof -
  let ?sn = "subnet a"
  have host: "ip \<in> set (host_range n ?sn) \<longleftrightarrow> IPNet_Contains ?sn ip \<and> ip \<noteq> net_ip ?sn
      \<and> ip \<noteq> firstUsableIP ?sn \<and> \<not> isBroadcast ip ?sn" if "length ip = 4" for ip
  proof -
    have v: "be ip < 2 ^ 32" "ip = addr4 (be ip)" using that be_less4 addr4_be by simp_all
    have "ip = net_ip ?sn \<longleftrightarrow> be ip = base ?sn"
      using that assms(1) be_inject[of ip "net_ip ?sn"] by (auto simp: v4_net_def base_def)
    moreover have "isBroadcast ip ?sn \<longleftrightarrow> be ip = base ?sn + block n - 1"
      using isBroadcast_v4[OF assms(1), of "be ip"] v by simp
    moreover have "ip = firstUsableIP ?sn \<longleftrightarrow> be ip = (base ?sn + 1) mod 2 ^ 32"
      using firstUsableIP_v4[OF assms(1)] that be_inject[of ip "addr4 (base ?sn + 1)"] by simp
    moreover have "block n \<ge> 2 \<Longrightarrow> (base ?sn + 1) mod 2 ^ 32 = base ?sn + 1"
      using v4_net_bounds(1)[OF assms(1)] by simp
    ultimately show ?thesis
      using host_range_mem[OF assms(1), of ip] Contains_v4_net[OF assms(1) that] that
      by (cases "block n \<ge> 2") auto
  qed
  have "(\<exists>a'. Allocate a = Some (Inl NoAvailableIPs, a')) \<longleftrightarrow> first_free (used a) (host_range n ?sn) = None"
    using Allocate_v4[OF assms] by (auto split: option.splits)
  also have "\<dots> \<longleftrightarrow> (\<forall>ip\<in>set (host_range n ?sn). IP_String ip \<in> used a)"
    by (simp add: first_free_def find_None_set)
  finally show ?thesis using host host_range_mem[OF assms(1)] by blast
qed

theorem Allocate_fails_iff_exhausted_witness:
  "\<exists>a'. Allocate \<lparr>subnet = \<lparr>net_ip = [10, 9, 8, 4], net_mask = mask_bytes 4 31\<rparr>, used = {}\<rparr>
        = Some (Inl NoAvailableIPs, a')"
proof -
  let ?sn = "\<lparr>net_ip = [10, 9, 8, 4], net_mask = mask_bytes 4 31\<rparr>" let ?a = "\<lparr>subnet = ?sn, used = {}\<rparr>"
  have v: "v4_net 31 ?sn" by (simp add: v4_net_def)
  have b: "base ?sn = 168364036" "block 31 = 2" by (simp_all add: base_def block_def)
  have "ip = net_ip ?sn \<or> ip = firstUsableIP ?sn" if "length ip = 4" "IPNet_Contains ?sn ip" for ip
  proof -
    have "be ip = base ?sn \<or> be ip = base ?sn + 1"
      using Contains_v4_net[OF v that(1)] that(2) unfolding b by auto
    then show ?thesis
      using that(1) be_inject[of ip "net_ip ?sn"] be_inject[of ip "addr4 (base ?sn + 1)"]
        firstUsableIP_v4[OF v] unfolding b by (auto simp: base_def)
  qed
  then show ?thesis
    using Allocate_fails_iff_exhausted[of 31 ?a] v by (simp, blast)
qed

text \<open>
  C20.  Any number of allocations in a row hand out pairwise distinct addresses, each
  a free host address of the subnet at the start.
\<close>

theorem Allocate_many_distinct:
  assumes "v4_net n (subnet a)" "1 \<le> n" "pool4.alloc_many k a = (ips, a')"
  shows "distinct ips \<and> (\<forall>ip\<in>set ips. ip \<in> set (host_range n (subnet a)) \<and> IP_String ip \<notin> used a)"
  using pool4.alloc_many_fresh[of n a k ips a'] assms
  by (simp add: pool_inv_def pool_hosts_def pool_taken_def)

theorem Allocate_many_distinct_witness:
  "\<exists>ips a'. pool4.alloc_many 3 \<lparr>subnet = \<lparr>net_ip = [10, 0, 0, 0], net_mask = mask_bytes 4 24\<rparr>, used = {}\<rparr>
     = (ips, a') \<and> distinct ips"
proof -
  let ?a = "\<lparr>subnet = \<lparr>net_ip = [10, 0, 0, 0], net_mask = mask_bytes 4 24\<rparr>, used = {}\<rparr>"
  obtain ips a' where r: "pool4.alloc_many 3 ?a = (ips, a')" by (cases "pool4.alloc_many 3 ?a") blast
  have "v4_net 24 (subnet ?a)" by (simp add: v4_net_def)
  then show ?thesis using Allocate_many_distinct[of 24 ?a 3 ips a'] r by auto
qed

end
