(* ===== verification/WgManager.thy ===== *)
theory WgManager
  imports IPAlloc "HOL-Library.AList"
begin

text \<open>
  \<open>internal/wg/manager.go\<close> with the data of \<open>internal/wg/interfaces.go\<close>.

  The two interfaces the manager drives, \<open>WireGuardController\<close> (wgctrl) and
  \<open>LinkManager\<close> (netlink), are a parameter: the record \<open>wg_kernel\<close> over an unspecified
  kernel state \<open>'k\<close>.  What they promise is \<open>kernel_ok\<close>, stated on a view of the state
  that gives for every WireGuard interface its settings and peers.  The mutex makes every
  method one step.
\<close>

section \<open>Data\<close>

record WGPeerConfig =
  pc_PublicKey :: string
  pc_Remove :: bool
  pc_UpdateOnly :: bool
  pc_PresharedKey :: string
  pc_Endpoint :: string
  pc_PersistentKeepaliveInterval :: int
  pc_ReplaceAllowedIPs :: bool
  pc_AllowedIPs :: "IPNet list"

record DeviceConfig =
  dc_PrivateKey :: string
  dc_ListenPort :: int
  dc_ReplacePeers :: bool
  dc_Peers :: "WGPeerConfig list"

record WGPeerInfo =
  pi_PublicKey :: string
  pi_PresharedKey :: string
  pi_Endpoint :: string
  pi_AllowedIPs :: "IPNet list"
  pi_LastHandshake :: "int option"
  pi_ReceiveBytes :: int
  pi_TransmitBytes :: int

record DeviceInfo =
  di_Name :: string
  di_PublicKey :: string
  di_ListenPort :: int
  di_Peers :: "WGPeerInfo list"

record NetworkConfig =
  nc_ID :: int
  nc_Name :: string
  nc_Interface :: string
  nc_Mode :: string
  nc_Subnet :: string
  nc_ListenPort :: int
  nc_PrivateKey :: string
  nc_PublicKey :: string
  nc_DNSServers :: string
  nc_NATEnabled :: bool
  nc_InterPeerRouting :: bool
  nc_Enabled :: bool

record PeerConfig =
  pr_ID :: int
  pr_NetworkID :: int
  pr_Name :: string
  pr_PublicKey :: string
  pr_PresharedKey :: string
  pr_AllowedIPs :: string
  pr_Endpoint :: string
  pr_PersistentKeepalive :: int
  pr_Role :: string
  pr_SiteNetworks :: string
  pr_Enabled :: bool

text \<open>Times are nanoseconds; the zero time is \<open>None\<close>.\<close>

record PeerStatus =
  st_PublicKey :: string
  st_Endpoint :: string
  st_LastHandshake :: "int option"
  st_TransferRx :: int
  st_TransferTx :: int
  st_AllowedIPs :: "string list"
  st_Online :: bool

text \<open>An operation that returns an error returns its message.\<close>

record 'k wg_kernel =
  k_ConfigureDevice :: "string \<Rightarrow> DeviceConfig \<Rightarrow> 'k \<Rightarrow> string option \<times> 'k"
  k_Device :: "string \<Rightarrow> 'k \<Rightarrow> (string + DeviceInfo) \<times> 'k"
  k_Devices :: "'k \<Rightarrow> (string + DeviceInfo list) \<times> 'k"
  k_CreateWireGuardLink :: "string \<Rightarrow> 'k \<Rightarrow> string option \<times> 'k"
  k_DeleteLink :: "string \<Rightarrow> 'k \<Rightarrow> string option \<times> 'k"
  k_SetLinkUp :: "string \<Rightarrow> 'k \<Rightarrow> string option \<times> 'k"
  k_SetLinkDown :: "string \<Rightarrow> 'k \<Rightarrow> string option \<times> 'k"
  k_AddAddress :: "string \<Rightarrow> string \<Rightarrow> 'k \<Rightarrow> string option \<times> 'k"

datatype wg_error =
    LinkAddFailed string | ParseSubnetFailed | AddrAddFailed string | ConfigureDeviceFailed string
  | LinkUpFailed string | GetDeviceFailed string | RemovePeersFailed string | LinkDownFailed string
  | LinkDelFailed string | ParseAllowedIPsFailed | ListDevicesFailed string

section \<open>Interfaces\<close>

definition no_config :: DeviceConfig where
  "no_config = \<lparr>dc_PrivateKey = [], dc_ListenPort = 0, dc_ReplacePeers = False, dc_Peers = []\<rparr>"

text \<open>Deleting the link again, its error ignored, before an error is returned.\<close>

definition undo_link :: "'k wg_kernel \<Rightarrow> string \<Rightarrow> wg_error \<Rightarrow> 'k \<Rightarrow> wg_error option \<times> 'k" where
  "undo_link K iface e k = (Some e, snd (k_DeleteLink K iface k))"

definition createInterface :: "'k wg_kernel \<Rightarrow> NetworkConfig \<Rightarrow> 'k \<Rightarrow> wg_error option \<times> 'k" where
  "createInterface K network k =
     (let iface = nc_Interface network in
      case k_CreateWireGuardLink K iface k of
        (Some e, k1) \<Rightarrow> (Some (LinkAddFailed e), k1)
      | (None, k1) \<Rightarrow>
          (case ParseCIDR (nc_Subnet network) of
             None \<Rightarrow> undo_link K iface ParseSubnetFailed k1
           | Some (_, sn) \<Rightarrow>
               let addr = IP_String (firstUsableIP sn) @ ''/'' @ itoa (fst (Mask_Size (net_mask sn))) in
               (case k_AddAddress K iface addr k1 of
                  (Some e, k2) \<Rightarrow> undo_link K iface (AddrAddFailed e) k2
                | (None, k2) \<Rightarrow>
                    (case k_ConfigureDevice K iface
                            (no_config\<lparr>dc_PrivateKey := nc_PrivateKey network, dc_ListenPort := nc_ListenPort network\<rparr>) k2 of
                       (Some e, k3) \<Rightarrow> undo_link K iface (ConfigureDeviceFailed e) k3
                     | (None, k3) \<Rightarrow>
                         (case k_SetLinkUp K iface k3 of
                            (Some e, k4) \<Rightarrow> undo_link K iface (LinkUpFailed e) k4
                          | (None, k4) \<Rightarrow> (None, k4))))))"

definition CreateInterface :: "'k wg_kernel \<Rightarrow> NetworkConfig \<Rightarrow> 'k \<Rightarrow> wg_error option \<times> 'k" where
  "CreateInterface K network k = createInterface K network k"

definition no_peer :: WGPeerConfig where
  "no_peer = \<lparr>pc_PublicKey = [], pc_Remove = False, pc_UpdateOnly = False, pc_PresharedKey = [], pc_Endpoint = [],
     pc_PersistentKeepaliveInterval = 0, pc_ReplaceAllowedIPs = False, pc_AllowedIPs = []\<rparr>"

definition remove_cfg :: "string \<Rightarrow> WGPeerConfig" where
  "remove_cfg key = no_peer\<lparr>pc_PublicKey := key, pc_Remove := True\<rparr>"

definition deleteInterface :: "'k wg_kernel \<Rightarrow> string \<Rightarrow> 'k \<Rightarrow> wg_error option \<times> 'k" where
  "deleteInterface K name k =
     (case k_Device K name k of
        (Inl e, k1) \<Rightarrow> (Some (GetDeviceFailed e), k1)
      | (Inr dev, k1) \<Rightarrow>
          (case (if di_Peers dev \<noteq> []
                 then k_ConfigureDevice K name
                        (no_config\<lparr>dc_Peers := map (\<lambda>p. remove_cfg (pi_PublicKey p)) (di_Peers dev)\<rparr>) k1
                 else (None, k1)) of
             (Some e, k2) \<Rightarrow> (Some (RemovePeersFailed e), k2)
           | (None, k2) \<Rightarrow>
               (case k_SetLinkDown K name k2 of
                  (Some e, k3) \<Rightarrow> (Some (LinkDownFailed e), k3)
                | (None, k3) \<Rightarrow>
                    (case k_DeleteLink K name k3 of
                       (Some e, k4) \<Rightarrow> (Some (LinkDelFailed e), k4)
                     | (None, k4) \<Rightarrow> (None, k4)))))"

definition DeleteInterface :: "'k wg_kernel \<Rightarrow> string \<Rightarrow> 'k \<Rightarrow> wg_error option \<times> 'k" where
  "DeleteInterface K name k = deleteInterface K name k"

section \<open>Peers\<close>

definition blank :: "char \<Rightarrow> bool" where
  "blank c = (c = CHR '' '' \<or> c = CHR 0x09)"

definition trim_blank :: "string \<Rightarrow> string" where
  "trim_blank part = rev (dropWhile blank (rev (dropWhile blank part)))"

definition splitAndTrim :: "string \<Rightarrow> string list" where
  "splitAndTrim s = filter (\<lambda>p. p \<noteq> []) (map trim_blank (Split (CHR '','') s))"

fun parse_cidrs :: "string list \<Rightarrow> IPNet list option" where
  "parse_cidrs [] = Some []"
| "parse_cidrs (p # ps) = (case ParseCIDR p of
      None \<Rightarrow> None
    | Some (_, ipNet) \<Rightarrow> (case parse_cidrs ps of None \<Rightarrow> None | Some ns \<Rightarrow> Some (ipNet # ns)))"

definition parseAllowedIPs :: "string \<Rightarrow> IPNet list option" where
  "parseAllowedIPs s = (if s = [] then Some [] else parse_cidrs (splitAndTrim s))"

text \<open>\<open>time.Duration(n) * time.Second\<close> wraps around at 64 bits.\<close>

definition wrap64 :: "int \<Rightarrow> int" where
  "wrap64 i = (i + 2 ^ 63) mod 2 ^ 64 - 2 ^ 63"

definition buildPeerConfig :: "PeerConfig \<Rightarrow> bool \<Rightarrow> WGPeerConfig option" where
  "buildPeerConfig peer updateOnly = (case parseAllowedIPs (pr_AllowedIPs peer) of
      None \<Rightarrow> None
    | Some allowedIPs \<Rightarrow> Some \<lparr>pc_PublicKey = pr_PublicKey peer, pc_Remove = False, pc_UpdateOnly = updateOnly,
        pc_PresharedKey = pr_PresharedKey peer, pc_Endpoint = pr_Endpoint peer,
        pc_PersistentKeepaliveInterval =
          (if pr_PersistentKeepalive peer > 0 then wrap64 (pr_PersistentKeepalive peer * 1000000000) else 0),
        pc_ReplaceAllowedIPs = True, pc_AllowedIPs = allowedIPs\<rparr>)"

definition configure_peer :: "'k wg_kernel \<Rightarrow> string \<Rightarrow> WGPeerConfig option \<Rightarrow> 'k \<Rightarrow> wg_error option \<times> 'k" where
  "configure_peer K iface cfg k = (case cfg of
      None \<Rightarrow> (Some ParseAllowedIPsFailed, k)
    | Some c \<Rightarrow> (case k_ConfigureDevice K iface (no_config\<lparr>dc_Peers := [c]\<rparr>) k of
          (Some e, k1) \<Rightarrow> (Some (ConfigureDeviceFailed e), k1)
        | (None, k1) \<Rightarrow> (None, k1)))"

definition AddPeer :: "'k wg_kernel \<Rightarrow> string \<Rightarrow> PeerConfig \<Rightarrow> 'k \<Rightarrow> wg_error option \<times> 'k" where
  "AddPeer K iface peer k = configure_peer K iface (buildPeerConfig peer False) k"

definition RemovePeer :: "'k wg_kernel \<Rightarrow> string \<Rightarrow> string \<Rightarrow> 'k \<Rightarrow> wg_error option \<times> 'k" where
  "RemovePeer K iface publicKey k = configure_peer K iface (Some (remove_cfg publicKey)) k"

definition UpdatePeer_wg :: "'k wg_kernel \<Rightarrow> string \<Rightarrow> PeerConfig \<Rightarrow> 'k \<Rightarrow> wg_error option \<times> 'k" where
  "UpdatePeer_wg K iface peer k = configure_peer K iface (buildPeerConfig peer True) k"

definition peer_online :: "int \<Rightarrow> int option \<Rightarrow> bool" where
  "peer_online nowt h = (case h of None \<Rightarrow> False | Some t \<Rightarrow> nowt - t < 3 * 60 * 1000000000)"

definition PeerStatus_wg :: "'k wg_kernel \<Rightarrow> int \<Rightarrow> string \<Rightarrow> 'k \<Rightarrow> (wg_error + PeerStatus list) \<times> 'k" where
  "PeerStatus_wg K nowt iface k = (case k_Device K iface k of
      (Inl e, k1) \<Rightarrow> (Inl (GetDeviceFailed e), k1)
    | (Inr dev, k1) \<Rightarrow> (Inr (map (\<lambda>p.
        \<lparr>st_PublicKey = pi_PublicKey p, st_Endpoint = pi_Endpoint p, st_LastHandshake = pi_LastHandshake p,
         st_TransferRx = pi_ReceiveBytes p, st_TransferTx = pi_TransmitBytes p,
         st_AllowedIPs = map IPNet_String (pi_AllowedIPs p), st_Online = peer_online nowt (pi_LastHandshake p)\<rparr>) (di_Peers dev)), k1))"

definition DetectInterfaces :: "'k wg_kernel \<Rightarrow> 'k \<Rightarrow> (wg_error + string list) \<times> 'k" where
  "DetectInterfaces K k = (case k_Devices K k of
      (Inl e, k1) \<Rightarrow> (Inl (ListDevicesFailed e), k1)
    | (Inr devs, k1) \<Rightarrow> (Inr (map di_Name devs), k1))"

section \<open>What the kernel promises\<close>

text \<open>
  The view: a WireGuard interface has settings and peers.  An allowed network belongs
  to one peer of an interface at a time, the one it was last given to.
\<close>

record vpeer =
  v_allowed :: "IPNet set"
  v_psk :: string
  v_endpoint :: string
  v_keepalive :: int

record vdev =
  v_up :: bool
  v_addrs :: "string set"
  v_key :: string
  v_port :: int
  v_peers :: "string \<Rightarrow> vpeer option"

type_synonym wg_view = "string \<Rightarrow> vdev option"

definition new_vpeer :: vpeer where
  "new_vpeer = \<lparr>v_allowed = {}, v_psk = [], v_endpoint = [], v_keepalive = 0\<rparr>"

definition new_vdev :: vdev where
  "new_vdev = \<lparr>v_up = False, v_addrs = {}, v_key = [], v_port = 0, v_peers = (\<lambda>_. None)\<rparr>"

definition set_vpeer :: "WGPeerConfig \<Rightarrow> vpeer \<Rightarrow> vpeer" where
  "set_vpeer c p = \<lparr>
     v_allowed = (if pc_ReplaceAllowedIPs c then {} else v_allowed p) \<union> set (pc_AllowedIPs c),
     v_psk = (if pc_PresharedKey c \<noteq> [] then pc_PresharedKey c else v_psk p),
     v_endpoint = (if pc_Endpoint c \<noteq> [] then pc_Endpoint c else v_endpoint p),
     v_keepalive = (if pc_PersistentKeepaliveInterval c > 0 then pc_PersistentKeepaliveInterval c else v_keepalive p)\<rparr>"

definition apply_peer :: "WGPeerConfig \<Rightarrow> (string \<Rightarrow> vpeer option) \<Rightarrow> string \<Rightarrow> vpeer option" where
  "apply_peer c ps = (let key = pc_PublicKey c in
     if pc_Remove c then ps(key := None)
     else if pc_UpdateOnly c \<and> ps key = None then ps
     else (\<lambda>q. if q = key then Some (set_vpeer c (case ps key of None \<Rightarrow> new_vpeer | Some p \<Rightarrow> p))
               else map_option (\<lambda>p. p\<lparr>v_allowed := v_allowed p - set (pc_AllowedIPs c)\<rparr>) (ps q)))"

definition apply_config :: "DeviceConfig \<Rightarrow> vdev \<Rightarrow> vdev" where
  "apply_config c d = d\<lparr>
     v_key := (if dc_PrivateKey c \<noteq> [] then dc_PrivateKey c else v_key d),
     v_port := (if dc_ListenPort c > 0 then dc_ListenPort c else v_port d),
     v_peers := fold apply_peer (dc_Peers c) (if dc_ReplacePeers c then (\<lambda>_. None) else v_peers d)\<rparr>"

text \<open>What a query reports of an interface.\<close>

definition reports :: "DeviceInfo \<Rightarrow> string \<Rightarrow> vdev \<Rightarrow> bool" where
  "reports di name d \<longleftrightarrow> di_Name di = name \<and> distinct (map pi_PublicKey (di_Peers di)) \<and>
     (\<forall>key. (\<exists>p\<in>set (di_Peers di). pi_PublicKey p = key) \<longleftrightarrow> v_peers d key \<noteq> None) \<and>
     (\<forall>p\<in>set (di_Peers di). distinct (pi_AllowedIPs p) \<and>
        (\<forall>vp. v_peers d (pi_PublicKey p) = Some vp \<longrightarrow> set (pi_AllowedIPs p) = v_allowed vp))"

text \<open>An operation on one link: what success means, and that nothing else is touched.\<close>

definition link_op :: "('k \<Rightarrow> wg_view) \<Rightarrow> string \<Rightarrow> (vdev option \<Rightarrow> vdev option \<Rightarrow> bool) \<Rightarrow>
    ('k \<Rightarrow> string option \<times> 'k) \<Rightarrow> bool" where
  "link_op view n post f \<longleftrightarrow> (\<forall>k r k'. f k = (r, k') \<longrightarrow>
     (\<forall>m. m \<noteq> n \<longrightarrow> view k' m = view k m) \<and>
     (r = None \<longrightarrow> post (view k n) (view k' n)))"

definition fails_clean :: "('k \<Rightarrow> wg_view) \<Rightarrow> ('k \<Rightarrow> string option \<times> 'k) \<Rightarrow> bool" where
  "fails_clean view f \<longleftrightarrow> (\<forall>k e k'. f k = (Some e, k') \<longrightarrow> view k' = view k)"

definition kernel_ok :: "'k wg_kernel \<Rightarrow> ('k \<Rightarrow> wg_view) \<Rightarrow> bool" where
  "kernel_ok K view \<longleftrightarrow>
     (\<forall>n. link_op view n (\<lambda>d d'. d = None \<and> d' = Some new_vdev) (k_CreateWireGuardLink K n)
        \<and> fails_clean view (k_CreateWireGuardLink K n)) \<and>
     (\<forall>n. link_op view n (\<lambda>d d'. d' = None) (k_DeleteLink K n) \<and> fails_clean view (k_DeleteLink K n)) \<and>
     (\<forall>n. link_op view n (\<lambda>d d'. d \<noteq> None \<and> d' = map_option (v_up_update (\<lambda>_. True)) d) (k_SetLinkUp K n)) \<and>
     (\<forall>n. link_op view n (\<lambda>d d'. d \<noteq> None \<and> d' = map_option (v_up_update (\<lambda>_. False)) d) (k_SetLinkDown K n)) \<and>
     (\<forall>n a. link_op view n (\<lambda>d d'. d \<noteq> None \<and> d' = map_option (v_addrs_update (insert a)) d) (k_AddAddress K n a)) \<and>
     (\<forall>n c. link_op view n (\<lambda>d d'. d \<noteq> None \<and> d' = map_option (apply_config c) d) (k_ConfigureDevice K n c)) \<and>
     (\<forall>n k r k'. k_Device K n k = (r, k') \<longrightarrow> view k' = view k \<and>
        (\<forall>di. r = Inr di \<longrightarrow> (\<exists>d. view k n = Some d \<and> reports di n d))) \<and>
     (\<forall>k r k'. k_Devices K k = (r, k') \<longrightarrow> view k' = view k \<and>
        (\<forall>dis. r = Inr dis \<longrightarrow> distinct (map di_Name dis) \<and> (\<forall>n. (\<exists>di\<in>set dis. di_Name di = n) \<longleftrightarrow> view k n \<noteq> None) \<and>
           (\<forall>di\<in>set dis. \<forall>d. view k (di_Name di) = Some d \<longrightarrow> reports di (di_Name di) d)))"

section \<open>Consequences of the kernel's promises\<close>

lemma view_upd:
  assumes "\<forall>m. m \<noteq> n \<longrightarrow> v' m = v m"
  shows "v' = v(n := v' n)"
  using assms by (auto simp: fun_eq_iff)

lemma link_opD:
  assumes "link_op view n post f" "f k = (r, k')"
  shows "view k' = (view k)(n := view k' n)" "r = None \<Longrightarrow> post (view k n) (view k' n)"
  using assms view_upd[of n "view k'" "view k"] by (auto simp: link_op_def)

lemma kernel_create:
  assumes "kernel_ok K view" "k_CreateWireGuardLink K n k = (r, k')"
  shows "r = None \<Longrightarrow> view k n = None \<and> view k' = (view k)(n := Some new_vdev)" "r \<noteq> None \<Longrightarrow> view k' = view k"
proof -
  have l: "link_op view n (\<lambda>d d'. d = None \<and> d' = Some new_vdev) (k_CreateWireGuardLink K n)"
    and f: "fails_clean view (k_CreateWireGuardLink K n)" using assms(1) by (auto simp: kernel_ok_def)
  show "r = None \<Longrightarrow> view k n = None \<and> view k' = (view k)(n := Some new_vdev)" using link_opD[OF l assms(2)] by simp
  show "r \<noteq> None \<Longrightarrow> view k' = view k" using f assms(2) by (auto simp: fails_clean_def)
qed

lemma kernel_delete:
  assumes "kernel_ok K view" "k_DeleteLink K n k = (r, k')"
  shows "r = None \<Longrightarrow> view k' = (view k)(n := None)" "r \<noteq> None \<Longrightarrow> view k' = view k"
proof -
  have l: "link_op view n (\<lambda>d d'. d' = None) (k_DeleteLink K n)"
    and f: "fails_clean view (k_DeleteLink K n)" using assms(1) by (auto simp: kernel_ok_def)
  show "r = None \<Longrightarrow> view k' = (view k)(n := None)" using link_opD[OF l assms(2)] by simp
  show "r \<noteq> None \<Longrightarrow> view k' = view k" using f assms(2) by (auto simp: fails_clean_def)
qed

lemma kernel_link_ops:
  assumes "kernel_ok K view"
  shows "link_op view n (\<lambda>d d'. d \<noteq> None \<and> d' = map_option (v_up_update (\<lambda>_. True)) d) (k_SetLinkUp K n)"
    "link_op view n (\<lambda>d d'. d \<noteq> None \<and> d' = map_option (v_up_update (\<lambda>_. False)) d) (k_SetLinkDown K n)"
    "link_op view n (\<lambda>d d'. d \<noteq> None \<and> d' = map_option (v_addrs_update (insert a)) d) (k_AddAddress K n a)"
    "link_op view n (\<lambda>d d'. d \<noteq> None \<and> d' = map_option (apply_config c) d) (k_ConfigureDevice K n c)"
  using assms by (auto simp: kernel_ok_def)

lemma kernel_Device:
  assumes "kernel_ok K view" "k_Device K n k = (r, k')"
  shows "view k' = view k" "r = Inr di \<Longrightarrow> \<exists>d. view k n = Some d \<and> reports di n d"
  using assms by (auto simp: kernel_ok_def)

lemma kernel_Devices:
  assumes "kernel_ok K view" "k_Devices K k = (r, k')"
  shows "view k' = view k"
    "r = Inr dis \<Longrightarrow> distinct (map di_Name dis) \<and> (\<forall>n. (\<exists>di\<in>set dis. di_Name di = n) \<longleftrightarrow> view k n \<noteq> None) \<and>
       (\<forall>di\<in>set dis. \<forall>d. view k (di_Name di) = Some d \<longrightarrow> reports di (di_Name di) d)"
  using assms unfolding kernel_ok_def by auto

lemma undo_link_view:
  assumes "kernel_ok K view" "undo_link K n e k = (r, k')"
  shows "r = Some e" "\<And>m. m \<noteq> n \<Longrightarrow> view k' m = view k m"
    "fst (k_DeleteLink K n k) = None \<Longrightarrow> view k' = (view k)(n := None)"
proof -
  obtain q k1 where q: "k_DeleteLink K n k = (q, k1)" by (cases "k_DeleteLink K n k")
  show "r = Some e" using assms(2) by (simp add: undo_link_def)
  show "view k' m = view k m" if "m \<noteq> n" for m
    using assms(2) q that kernel_delete[OF assms(1) q] by (cases q) (auto simp: undo_link_def)
  show "fst (k_DeleteLink K n k) = None \<Longrightarrow> view k' = (view k)(n := None)"
    using assms(2) q kernel_delete(1)[OF assms(1) q] by (simp add: undo_link_def)
qed

text \<open>The interface a successful creation leaves behind.\<close>

definition server_addr :: "IPNet \<Rightarrow> string" where
  "server_addr sn = IP_String (firstUsableIP sn) @ ''/'' @ itoa (fst (Mask_Size (net_mask sn)))"

definition created_dev :: "NetworkConfig \<Rightarrow> IPNet \<Rightarrow> vdev" where
  "created_dev n sn = \<lparr>v_up = True, v_addrs = {server_addr sn}, v_key = nc_PrivateKey n,
     v_port = (if nc_ListenPort n > 0 then nc_ListenPort n else 0), v_peers = (\<lambda>_. None)\<rparr>"

lemma createInterface_steps:
  assumes "kernel_ok K view" "createInterface K n k = (r, k')"
  shows "(r = None \<and> view k (nc_Interface n) = None \<and>
            (\<exists>ip sn. ParseCIDR (nc_Subnet n) = Some (ip, sn) \<and> view k' = (view k)(nc_Interface n := Some (created_dev n sn))))
       \<or> (r \<noteq> None \<and> view k' = view k)
       \<or> (r \<noteq> None \<and> view k (nc_Interface n) = None \<and> (\<exists>k3 e. undo_link K (nc_Interface n) e k3 = (r, k') \<and>
             (\<forall>m. m \<noteq> nc_Interface n \<longrightarrow> view k3 m = view k m)))"
proof -
  let ?i = "nc_Interface n"
  obtain r1 k1 where c1: "k_CreateWireGuardLink K ?i k = (r1, k1)" by (cases "k_CreateWireGuardLink K ?i k")
  show ?thesis
  proof (cases r1)
    case (Some e)
    then show ?thesis using assms(2) c1 kernel_create(2)[OF assms(1) c1] by (auto simp: createInterface_def)
  next
    case None
    note v1 = kernel_create(1)[OF assms(1) c1 None]
    show ?thesis
    proof (cases "ParseCIDR (nc_Subnet n)")
      case None
      then have "undo_link K ?i ParseSubnetFailed k1 = (r, k')" "r \<noteq> None"
        using assms(2) c1 \<open>r1 = None\<close> by (auto simp: createInterface_def undo_link_def)
      then show ?thesis using v1 by (intro disjI2 conjI exI[of _ k1]) auto
    next
      case (Some isn)
      obtain ip sn where isn: "isn = (ip, sn)" by (cases isn)
      obtain r2 k2 where c2: "k_AddAddress K ?i (server_addr sn) k1 = (r2, k2)" by (cases "k_AddAddress K ?i (server_addr sn) k1")
      let ?cfg = "no_config\<lparr>dc_PrivateKey := nc_PrivateKey n, dc_ListenPort := nc_ListenPort n\<rparr>"
      obtain r3 k3 where c3: "k_ConfigureDevice K ?i ?cfg k2 = (r3, k3)" by (cases "k_ConfigureDevice K ?i ?cfg k2")
      obtain r4 k4 where c4: "k_SetLinkUp K ?i k3 = (r4, k4)" by (cases "k_SetLinkUp K ?i k3")
      note l2 = link_opD[OF kernel_link_ops(3)[OF assms(1)] c2]
      note l3 = link_opD[OF kernel_link_ops(4)[OF assms(1)] c3]
      note l4 = link_opD[OF kernel_link_ops(1)[OF assms(1)] c4]
      have m: "view k1 m = view k m" "view k2 m = view k m" "view k3 m = view k m" "view k4 m = view k m" if "m \<noteq> ?i" for m
        using v1 l2(1) l3(1) l4(1) that by (metis fun_upd_apply)+
      have run: "createInterface K n k = (case r2 of Some e \<Rightarrow> undo_link K ?i (AddrAddFailed e) k2
          | None \<Rightarrow> (case r3 of Some e \<Rightarrow> undo_link K ?i (ConfigureDeviceFailed e) k3
          | None \<Rightarrow> (case r4 of Some e \<Rightarrow> undo_link K ?i (LinkUpFailed e) k4 | None \<Rightarrow> (None, k4))))"
        using c1 \<open>r1 = None\<close> Some isn c2 c3 c4
        by (simp add: createInterface_def Let_def server_addr_def split: option.splits)
      show ?thesis
      proof (cases "r2 = None \<and> r3 = None \<and> r4 = None")
        case True
        then have fin: "view k' ?i = Some (created_dev n sn)" "r = None" "k' = k4"
          using run assms(2) v1 l2(2) l3(2) l4(2)
          by (auto simp: created_dev_def new_vdev_def apply_config_def no_config_def)
        have "view k' = (view k)(?i := Some (created_dev n sn))" using m(4) fin by (auto simp: fun_eq_iff)
        then show ?thesis using fin v1 Some isn by auto
      next
        case False
        then obtain e kk where "undo_link K ?i e kk = (r, k')" "kk = k2 \<or> kk = k3 \<or> kk = k4"
          using run assms(2) by (auto split: option.splits)
        moreover have "r \<noteq> None" using calculation by (auto simp: undo_link_def)
        ultimately show ?thesis using v1 m by (intro disjI2) auto
      qed
    qed
  qed
qed

lemma createInterface_ok:
  assumes "kernel_ok K view" "createInterface K n k = (None, k')"
  shows "view k (nc_Interface n) = None \<and> (\<exists>ip sn. ParseCIDR (nc_Subnet n) = Some (ip, sn) \<and>
           view k' = (view k)(nc_Interface n := Some (created_dev n sn)))"
  using createInterface_steps[OF assms] by auto

lemma createInterface_err:
  assumes "kernel_ok K view" "createInterface K n k = (Some e, k')"
  shows "m \<noteq> nc_Interface n \<Longrightarrow> view k' m = view k m"
    "\<forall>k. view k (nc_Interface n) \<noteq> None \<longrightarrow> fst (k_DeleteLink K (nc_Interface n) k) = None \<Longrightarrow> view k' = view k"
proof -
  let ?i = "nc_Interface n"
  consider "view k' = view k"
    | k3 x where "view k ?i = None" "undo_link K ?i x k3 = (Some e, k')" "\<forall>m. m \<noteq> ?i \<longrightarrow> view k3 m = view k m"
    using createInterface_steps[OF assms] by auto
  note cs = this
  show "m \<noteq> ?i \<Longrightarrow> view k' m = view k m" using cs undo_link_view(2)[OF assms(1)] by metis
  assume d: "\<forall>k. view k ?i \<noteq> None \<longrightarrow> fst (k_DeleteLink K ?i k) = None"
  from cs show "view k' = view k"
  proof cases
    case 2
    have "view k' ?i = None"
    proof (cases "fst (k_DeleteLink K ?i k3)")
      case None
      then show ?thesis using undo_link_view(3)[OF assms(1) 2(2)] by simp
    next
      case (Some y)
      then have "view k3 ?i = None" using d by (metis option.distinct(1))
      moreover have "view k' = view k3"
        using kernel_delete(2)[OF assms(1), of ?i k3 "Some y" k'] 2(2) Some by (cases "k_DeleteLink K ?i k3") (simp add: undo_link_def)
      ultimately show ?thesis by simp
    qed
    then have "view k' x = view k x" for x
      using undo_link_view(2)[OF assms(1) 2(2)] 2(1,3) by (cases "x = ?i") simp_all
    then show ?thesis by (rule ext)
  qed
qed

lemma deleteInterface_steps:
  assumes "kernel_ok K view" "deleteInterface K n k = (r, k')"
  shows "m \<noteq> n \<Longrightarrow> view k' m = view k m"
    "r = None \<Longrightarrow> view k n \<noteq> None \<and> view k' = (view k)(n := None)"
proof -
  obtain r1 k1 where c1: "k_Device K n k = (r1, k1)" by (cases "k_Device K n k")
  have v1: "view k1 = view k" by (rule kernel_Device(1)[OF assms(1) c1])
  have "(\<forall>m. m \<noteq> n \<longrightarrow> view k' m = view k m) \<and> (r = None \<longrightarrow> view k n \<noteq> None \<and> view k' n = None)"
  proof (cases r1)
    case (Inl e)
    then show ?thesis using assms(2) c1 v1 by (auto simp: deleteInterface_def)
  next
    case (Inr dev)
    have ex: "view k n \<noteq> None" using kernel_Device(2)[OF assms(1) c1 Inr] by auto
    let ?cfg = "no_config\<lparr>dc_Peers := map (\<lambda>p. remove_cfg (pi_PublicKey p)) (di_Peers dev)\<rparr>"
    obtain r2 k2 where c2: "(if di_Peers dev \<noteq> [] then k_ConfigureDevice K n ?cfg k1 else (None, k1)) = (r2, k2)" by fastforce
    have v2: "view k2 m = view k m" if "m \<noteq> n" for m
      using c2 v1 that link_opD(1)[OF kernel_link_ops(4)[OF assms(1)], of n ?cfg k1 r2 k2]
      by (cases "di_Peers dev = []") (simp, metis fun_upd_other)
    obtain r3 k3 where c3: "k_SetLinkDown K n k2 = (r3, k3)" by (cases "k_SetLinkDown K n k2")
    obtain r4 k4 where c4: "k_DeleteLink K n k3 = (r4, k4)" by (cases "k_DeleteLink K n k3")
    have v3: "view k3 m = view k m" if "m \<noteq> n" for m
      using link_opD(1)[OF kernel_link_ops(2)[OF assms(1)] c3] v2 that by (metis fun_upd_other)
    have v4: "view k4 m = view k m" if "m \<noteq> n" for m
      using kernel_delete[OF assms(1) c4] v3 that by (cases r4) auto
    have v4n: "r4 = None \<Longrightarrow> view k4 n = None" using kernel_delete(1)[OF assms(1) c4] by simp
    show ?thesis
      using assms(2) c1 c2 c3 c4 Inr v2 v3 v4 v4n ex by (auto simp: deleteInterface_def split: option.splits)
  qed
  then show "m \<noteq> n \<Longrightarrow> view k' m = view k m" "r = None \<Longrightarrow> view k n \<noteq> None \<and> view k' = (view k)(n := None)"
    by (auto simp: fun_eq_iff)
qed

lemma configure_peer_view:
  assumes "kernel_ok K view" "configure_peer K i cfg k = (r, k')"
  shows "m \<noteq> i \<Longrightarrow> view k' m = view k m"
    "r = None \<Longrightarrow> \<exists>c d. cfg = Some c \<and> view k i = Some d \<and>
       view k' = (view k)(i := Some (d\<lparr>v_peers := apply_peer c (v_peers d)\<rparr>))"
proof -
  have *: "view k' = (view k)(i := view k' i) \<and> (r = None \<longrightarrow> (\<exists>c d. cfg = Some c \<and> view k i = Some d \<and>
       view k' i = Some (d\<lparr>v_peers := apply_peer c (v_peers d)\<rparr>)))"
  proof (cases cfg)
    case None
    then show ?thesis using assms(2) by (auto simp: configure_peer_def)
  next
    case (Some c)
    let ?cfg = "no_config\<lparr>dc_Peers := [c]\<rparr>"
    obtain r1 k1 where c1: "k_ConfigureDevice K i ?cfg k = (r1, k1)" by (cases "k_ConfigureDevice K i ?cfg k")
    have ac: "apply_config ?cfg d = d\<lparr>v_peers := apply_peer c (v_peers d)\<rparr>" for d
      by (simp add: apply_config_def no_config_def)
    show ?thesis
      using assms(2) Some c1 link_opD[OF kernel_link_ops(4)[OF assms(1)] c1]
      by (auto simp: configure_peer_def ac split: option.splits)
  qed
  then show "m \<noteq> i \<Longrightarrow> view k' m = view k m" by (metis fun_upd_other)
  show "r = None \<Longrightarrow> \<exists>c d. cfg = Some c \<and> view k i = Some d \<and>
       view k' = (view k)(i := Some (d\<lparr>v_peers := apply_peer c (v_peers d)\<rparr>))" using * by metis
qed

section \<open>A kernel in memory\<close>

text \<open>
  A kernel that keeps its promises, for the witnesses: interfaces and peers in association
  lists, every operation on an existing interface succeeding.
\<close>

record sim_peer =
  sp_allowed :: "IPNet list"
  sp_psk :: string
  sp_endpoint :: string
  sp_keepalive :: int

record sim_dev =
  sd_up :: bool
  sd_addrs :: "string list"
  sd_key :: string
  sd_port :: int
  sd_peers :: "(string \<times> sim_peer) list"

type_synonym sim = "(string \<times> sim_dev) list"

definition view_peer :: "sim_peer \<Rightarrow> vpeer" where
  "view_peer p = \<lparr>v_allowed = set (sp_allowed p), v_psk = sp_psk p, v_endpoint = sp_endpoint p, v_keepalive = sp_keepalive p\<rparr>"

definition view_peers :: "(string \<times> sim_peer) list \<Rightarrow> string \<Rightarrow> vpeer option" where
  "view_peers ps key = map_option view_peer (map_of ps key)"

definition view_dev :: "sim_dev \<Rightarrow> vdev" where
  "view_dev d = \<lparr>v_up = sd_up d, v_addrs = set (sd_addrs d), v_key = sd_key d, v_port = sd_port d, v_peers = view_peers (sd_peers d)\<rparr>"

definition sim_view :: "sim \<Rightarrow> wg_view" where
  "sim_view s n = map_option view_dev (map_of s n)"

definition sim_set :: "WGPeerConfig \<Rightarrow> sim_peer \<Rightarrow> sim_peer" where
  "sim_set c p = \<lparr>
     sp_allowed = (if pc_ReplaceAllowedIPs c then [] else sp_allowed p) @ pc_AllowedIPs c,
     sp_psk = (if pc_PresharedKey c \<noteq> [] then pc_PresharedKey c else sp_psk p),
     sp_endpoint = (if pc_Endpoint c \<noteq> [] then pc_Endpoint c else sp_endpoint p),
     sp_keepalive = (if pc_PersistentKeepaliveInterval c > 0 then pc_PersistentKeepaliveInterval c else sp_keepalive p)\<rparr>"

definition sim_new_peer :: sim_peer where
  "sim_new_peer = \<lparr>sp_allowed = [], sp_psk = [], sp_endpoint = [], sp_keepalive = 0\<rparr>"

definition sim_apply_peer :: "WGPeerConfig \<Rightarrow> (string \<times> sim_peer) list \<Rightarrow> (string \<times> sim_peer) list" where
  "sim_apply_peer c ps = (let key = pc_PublicKey c in
     if pc_Remove c then AList.delete key ps
     else if pc_UpdateOnly c \<and> map_of ps key = None then ps
     else AList.update key (sim_set c (case map_of ps key of None \<Rightarrow> sim_new_peer | Some p \<Rightarrow> p))
            (map (\<lambda>(q, p). (q, p\<lparr>sp_allowed := filter (\<lambda>x. x \<notin> set (pc_AllowedIPs c)) (sp_allowed p)\<rparr>)) ps))"

definition sim_config :: "DeviceConfig \<Rightarrow> sim_dev \<Rightarrow> sim_dev" where
  "sim_config c d = d\<lparr>
     sd_key := (if dc_PrivateKey c \<noteq> [] then dc_PrivateKey c else sd_key d),
     sd_port := (if dc_ListenPort c > 0 then dc_ListenPort c else sd_port d),
     sd_peers := fold sim_apply_peer (dc_Peers c) (if dc_ReplacePeers c then [] else sd_peers d)\<rparr>"

definition sim_new_dev :: sim_dev where
  "sim_new_dev = \<lparr>sd_up = False, sd_addrs = [], sd_key = [], sd_port = 0, sd_peers = []\<rparr>"

definition sim_info :: "string \<Rightarrow> sim_dev \<Rightarrow> DeviceInfo" where
  "sim_info n d = \<lparr>di_Name = n, di_PublicKey = [], di_ListenPort = sd_port d,
     di_Peers = map (\<lambda>key. let p = the (map_of (sd_peers d) key) in
        \<lparr>pi_PublicKey = key, pi_PresharedKey = sp_psk p, pi_Endpoint = sp_endpoint p, pi_AllowedIPs = remdups (sp_allowed p),
         pi_LastHandshake = None, pi_ReceiveBytes = 0, pi_TransmitBytes = 0\<rparr>) (remdups (map fst (sd_peers d)))\<rparr>"

definition sim_on_dev :: "string \<Rightarrow> (sim_dev \<Rightarrow> sim_dev) \<Rightarrow> sim \<Rightarrow> string option \<times> sim" where
  "sim_on_dev n f s = (case map_of s n of
      None \<Rightarrow> (Some ''no such device'', s) | Some d \<Rightarrow> (None, AList.update n (f d) s))"

definition sim_kernel :: "sim wg_kernel" where
  "sim_kernel = \<lparr>
     k_ConfigureDevice = (\<lambda>n c. sim_on_dev n (sim_config c)),
     k_Device = (\<lambda>n s. (case map_of s n of None \<Rightarrow> Inl ''no such device'' | Some d \<Rightarrow> Inr (sim_info n d), s)),
     k_Devices = (\<lambda>s. (Inr (map (\<lambda>n. sim_info n (the (map_of s n))) (remdups (map fst s))), s)),
     k_CreateWireGuardLink = (\<lambda>n s. case map_of s n of None \<Rightarrow> (None, AList.update n sim_new_dev s) | Some _ \<Rightarrow> (Some ''file exists'', s)),
     k_DeleteLink = (\<lambda>n s. case map_of s n of None \<Rightarrow> (Some ''no such device'', s) | Some _ \<Rightarrow> (None, AList.delete n s)),
     k_SetLinkUp = (\<lambda>n. sim_on_dev n (sd_up_update (\<lambda>_. True))),
     k_SetLinkDown = (\<lambda>n. sim_on_dev n (sd_up_update (\<lambda>_. False))),
     k_AddAddress = (\<lambda>n a. sim_on_dev n (sd_addrs_update (Cons a)))\<rparr>"

lemma map_of_map_snd: "map_of (map (\<lambda>(q, p). (q, f p)) ps) key = map_option f (map_of ps key)"
  by (induction ps) auto

lemma view_sim_apply_peer: "view_peers (sim_apply_peer c ps) = apply_peer c (view_peers ps)"
proof
  fix q
  show "view_peers (sim_apply_peer c ps) q = apply_peer c (view_peers ps) q"
    by (auto simp: sim_apply_peer_def apply_peer_def Let_def view_peers_def delete_conv' update_conv' map_of_map_snd
        view_peer_def sim_set_def set_vpeer_def sim_new_peer_def new_vpeer_def option.map_comp comp_def set_diff_eq
        split: option.splits)
qed

lemma view_sim_fold: "view_peers (fold sim_apply_peer cs ps) = fold apply_peer cs (view_peers ps)"
  by (induction cs arbitrary: ps) (simp_all add: view_sim_apply_peer)

lemma view_sim_config: "view_dev (sim_config c d) = apply_config c (view_dev d)"
proof -
  have "view_peers [] = (\<lambda>_. None)" by (auto simp: view_peers_def)
  then show ?thesis by (simp add: view_dev_def sim_config_def apply_config_def view_sim_fold)
qed

lemma sim_field_views:
  "view_dev (d\<lparr>sd_up := b\<rparr>) = (view_dev d)\<lparr>v_up := b\<rparr>"
  "view_dev (sd_addrs_update (Cons a) d) = v_addrs_update (insert a) (view_dev d)"
  "view_dev (sim_config c d) = apply_config c (view_dev d)"
  by (simp_all add: view_sim_config) (simp_all add: view_dev_def)

lemma sim_on_dev_op:
  assumes "\<And>d. view_dev (f d) = g (view_dev d)"
  shows "link_op sim_view n (\<lambda>d d'. d \<noteq> None \<and> d' = map_option g d) (sim_on_dev n f)"
  using assms by (auto simp: link_op_def sim_on_dev_def sim_view_def update_conv' split: option.splits)

lemma sim_info_reports: "reports (sim_info n d) n (view_dev d)"
proof -
  have "map (pi_PublicKey \<circ> (\<lambda>key. let p = the (map_of (sd_peers d) key) in
        \<lparr>pi_PublicKey = key, pi_PresharedKey = sp_psk p, pi_Endpoint = sp_endpoint p, pi_AllowedIPs = remdups (sp_allowed p),
         pi_LastHandshake = None, pi_ReceiveBytes = 0, pi_TransmitBytes = 0\<rparr>)) ks = ks" for ks
    by (simp add: Let_def comp_def)
  then show ?thesis
    by (auto simp: reports_def sim_info_def view_dev_def view_peers_def view_peer_def Let_def map_of_eq_None_iff
        dest: weak_map_of_SomeI)
qed

lemma sim_kernel_ok: "kernel_ok sim_kernel sim_view"
proof -
  have create: "link_op sim_view n (\<lambda>d d'. d = None \<and> d' = Some new_vdev) (k_CreateWireGuardLink sim_kernel n)"
      "fails_clean sim_view (k_CreateWireGuardLink sim_kernel n)" for n
    by (auto simp: sim_kernel_def link_op_def fails_clean_def sim_view_def update_conv' view_dev_def sim_new_dev_def
        new_vdev_def view_peers_def split: option.splits)
  have delete: "link_op sim_view n (\<lambda>d d'. d' = None) (k_DeleteLink sim_kernel n)"
      "fails_clean sim_view (k_DeleteLink sim_kernel n)" for n
    by (auto simp: sim_kernel_def link_op_def fails_clean_def sim_view_def delete_conv' split: option.splits)
  have ops: "link_op sim_view n (\<lambda>d d'. d \<noteq> None \<and> d' = map_option (v_up_update (\<lambda>_. True)) d) (k_SetLinkUp sim_kernel n)"
      "link_op sim_view n (\<lambda>d d'. d \<noteq> None \<and> d' = map_option (v_up_update (\<lambda>_. False)) d) (k_SetLinkDown sim_kernel n)"
      "link_op sim_view n (\<lambda>d d'. d \<noteq> None \<and> d' = map_option (v_addrs_update (insert a)) d) (k_AddAddress sim_kernel n a)"
      "link_op sim_view n (\<lambda>d d'. d \<noteq> None \<and> d' = map_option (apply_config c) d) (k_ConfigureDevice sim_kernel n c)" for n a c
    unfolding sim_kernel_def wg_kernel.simps
    by (rule sim_on_dev_op, simp add: sim_field_views)+
  have dev: "k_Device sim_kernel n k = (r, k') \<Longrightarrow> sim_view k' = sim_view k \<and>
      (\<forall>di. r = Inr di \<longrightarrow> (\<exists>d. sim_view k n = Some d \<and> reports di n d))" for n k r k'
    by (auto simp: sim_kernel_def sim_view_def sim_info_reports split: option.splits)
  have names: "map (di_Name \<circ> (\<lambda>n. sim_info n (the (map_of s n)))) ns = ns" "di_Name (sim_info n d) = n" for ns s n d
    by (simp_all add: sim_info_def comp_def)
  have devs: "k_Devices sim_kernel k = (r, k') \<Longrightarrow> sim_view k' = sim_view k \<and>
      (\<forall>dis. r = Inr dis \<longrightarrow> distinct (map di_Name dis) \<and> (\<forall>n. (\<exists>di\<in>set dis. di_Name di = n) \<longleftrightarrow> sim_view k n \<noteq> None) \<and>
         (\<forall>di\<in>set dis. \<forall>d. sim_view k (di_Name di) = Some d \<longrightarrow> reports di (di_Name di) d))" for k r k'
    by (auto simp: sim_kernel_def sim_view_def names sim_info_reports map_of_eq_None_iff image_iff
        dest: weak_map_of_SomeI) (metis fst_conv)+
  show ?thesis
    unfolding kernel_ok_def using create delete ops dev devs by blast
qed

section \<open>Properties\<close>

text \<open>
  C28.  \<open>CreateInterface\<close> is all or nothing: when it returns no error there was no such
  interface before and now there is exactly one more, up, with the server's address, the
  key and the port of the network and no peers; when it returns an error the kernel's
  interfaces are as before, provided that an existing link can be deleted.
\<close>

theorem CreateInterface_atomic:
  assumes "kernel_ok K view" "CreateInterface K n k = (r, k')"
    and "\<forall>k. view k (nc_Interface n) \<noteq> None \<longrightarrow> fst (k_DeleteLink K (nc_Interface n) k) = None"
  shows "case r of
      Some e \<Rightarrow> view k' = view k
    | None \<Rightarrow> view k (nc_Interface n) = None \<and> (\<exists>ip sn. ParseCIDR (nc_Subnet n) = Some (ip, sn) \<and>
        view k' = (view k)(nc_Interface n := Some \<lparr>v_up = True, v_addrs = {server_addr sn}, v_key = nc_PrivateKey n,
          v_port = (if nc_ListenPort n > 0 then nc_ListenPort n else 0), v_peers = (\<lambda>_. None)\<rparr>))"
  using createInterface_ok[OF assms(1), of n k k'] createInterface_err(2)[OF assms(1), of n k _ k'] assms(2,3)
  by (cases r) (auto simp: CreateInterface_def created_dev_def)

definition sample_network :: "string \<Rightarrow> NetworkConfig" where
  "sample_network cidr = \<lparr>nc_ID = 1, nc_Name = ''home'', nc_Interface = ''wg0'', nc_Mode = ''gateway'', nc_Subnet = cidr,
     nc_ListenPort = 51820, nc_PrivateKey = ''key'', nc_PublicKey = ''pub'', nc_DNSServers = [], nc_NATEnabled = False,
     nc_InterPeerRouting = False, nc_Enabled = True\<rparr>"

lemma sim_delete_reliable: "sim_view k n \<noteq> None \<longrightarrow> fst (k_DeleteLink sim_kernel n k) = None"
  by (auto simp: sim_kernel_def sim_view_def split: option.splits)

theorem CreateInterface_atomic_witness:
  "\<exists>e k'. CreateInterface sim_kernel (sample_network ''bogus'') [] = (Some e, k') \<and> sim_view k' = sim_view []"
proof -
  have p: "ParseCIDR ''bogus'' = None" by (simp add: ParseCIDR_def Cut_def)
  obtain e k' where c: "CreateInterface sim_kernel (sample_network ''bogus'') [] = (Some e, k')"
    by (simp add: CreateInterface_def createInterface_def sample_network_def sim_kernel_def undo_link_def p)
  then show ?thesis using CreateInterface_atomic[OF sim_kernel_ok c] sim_delete_reliable by auto
qed

text \<open>
  C18.  A successful \<open>AddPeer\<close> gives the peer exactly the networks of its list, takes them
  from any other peer of the interface (an address never leads to two peers), and neither adds
  nor removes any other peer.
\<close>

theorem AddPeer_cryptokey_routing:
  assumes "kernel_ok K view" "AddPeer K i p k = (None, k')"
  shows "\<exists>nets d d'. parseAllowedIPs (pr_AllowedIPs p) = Some nets \<and> view k i = Some d \<and> view k' i = Some d' \<and>
    (\<exists>vp. v_peers d' (pr_PublicKey p) = Some vp \<and> v_allowed vp = set nets) \<and>
    (\<forall>q vq. q \<noteq> pr_PublicKey p \<longrightarrow> v_peers d' q = Some vq \<longrightarrow> v_allowed vq \<inter> set nets = {}) \<and>
    (\<forall>q. q \<noteq> pr_PublicKey p \<longrightarrow> (v_peers d' q = None) = (v_peers d q = None)) \<and>
    (\<forall>m. m \<noteq> i \<longrightarrow> view k' m = view k m)"
proof -
  obtain c d where c: "buildPeerConfig p False = Some c" and d: "view k i = Some d"
      and v': "view k' = (view k)(i := Some (d\<lparr>v_peers := apply_peer c (v_peers d)\<rparr>))"
    using configure_peer_view(2)[OF assms(1) assms(2)[unfolded AddPeer_def]] by auto
  obtain nets where "parseAllowedIPs (pr_AllowedIPs p) = Some nets" "pc_AllowedIPs c = nets" "pc_PublicKey c = pr_PublicKey p"
      "\<not> pc_Remove c" "\<not> pc_UpdateOnly c" "pc_ReplaceAllowedIPs c"
    using c by (auto simp: buildPeerConfig_def split: option.splits)
  then show ?thesis
    using d v' by (intro exI[of _ nets] exI[of _ d] exI[of _ "d\<lparr>v_peers := apply_peer c (v_peers d)\<rparr>"])
      (auto simp: apply_peer_def Let_def set_vpeer_def)
qed

definition sample_peer :: "string \<Rightarrow> string \<Rightarrow> PeerConfig" where
  "sample_peer key ips = \<lparr>pr_ID = 1, pr_NetworkID = 1, pr_Name = ''alice'', pr_PublicKey = key, pr_PresharedKey = [],
     pr_AllowedIPs = ips, pr_Endpoint = [], pr_PersistentKeepalive = 25, pr_Role = ''client'', pr_SiteNetworks = [], pr_Enabled = True\<rparr>"

lemma parse_ip2: "parseAllowedIPs ''10.0.0.2/32'' = Some [\<lparr>net_ip = [10, 0, 0, 2], net_mask = mask_bytes 4 32\<rparr>]"
proof -
  have "''10.0.0.2/32'' = v4_string [10, 0, 0, 2] @ ''/'' @ itoa 32" by code_simp
  then have "ParseCIDR ''10.0.0.2/32''
      = Some (v4_prefix @ [10, 0, 0, 2], \<lparr>net_ip = map2 (AND) [10, 0, 0, 2] (mask_bytes 4 32), net_mask = mask_bytes 4 32\<rparr>)"
    using ParseCIDR_v4_string[of "[10, 0, 0, 2]" 32] by simp
  moreover have "map2 (AND) [10, 0, 0, 2] (mask_bytes 4 32) = [10, 0, 0, 2]" by (simp add: eval_nat_numeral)
  moreover have "splitAndTrim ''10.0.0.2/32'' = [''10.0.0.2/32'']" by (simp add: splitAndTrim_def trim_blank_def blank_def)
  ultimately show ?thesis by (simp add: parseAllowedIPs_def)
qed

theorem AddPeer_cryptokey_routing_witness:
  "\<exists>k' d'. AddPeer sim_kernel ''wg0'' (sample_peer ''A'' ''10.0.0.2/32'') [(''wg0'', sim_new_dev)] = (None, k') \<and>
     sim_view k' ''wg0'' = Some d' \<and> v_peers d' ''A'' \<noteq> None"
proof -
  obtain k' where r: "AddPeer sim_kernel ''wg0'' (sample_peer ''A'' ''10.0.0.2/32'') [(''wg0'', sim_new_dev)] = (None, k')"
    by (simp add: AddPeer_def configure_peer_def buildPeerConfig_def sample_peer_def parse_ip2 sim_kernel_def sim_on_dev_def)
  then show ?thesis using AddPeer_cryptokey_routing[OF sim_kernel_ok r] by (auto simp: sample_peer_def)
qed

text \<open>
  A successful \<open>DeleteInterface\<close> removes the interface and nothing else; a failed one
  leaves every other interface alone.
\<close>

theorem DeleteInterface_effect:
  assumes "kernel_ok K view" "DeleteInterface K n k = (r, k')"
  shows "(r = None \<longrightarrow> view k n \<noteq> None \<and> view k' = (view k)(n := None)) \<and> (\<forall>m. m \<noteq> n \<longrightarrow> view k' m = view k m)"
  using deleteInterface_steps[OF assms(1), of n k r k'] assms(2) by (simp add: DeleteInterface_def)

theorem DeleteInterface_effect_witness:
  "\<exists>k'. DeleteInterface sim_kernel ''wg0'' [(''wg0'', sim_new_dev)] = (None, k') \<and> sim_view k' ''wg0'' = None"
proof -
  obtain k' where r: "DeleteInterface sim_kernel ''wg0'' [(''wg0'', sim_new_dev)] = (None, k')"
    by (simp add: DeleteInterface_def deleteInterface_def sim_kernel_def sim_on_dev_def sim_info_def sim_new_dev_def)
  then show ?thesis using DeleteInterface_effect[OF sim_kernel_ok r] by auto
qed

end
