(* ===== verification/NftRules.thy ===== *)
theory NftRules
  imports GoStrings "HOL-Library.List_Lexorder" "HOL-Library.Char_ord"
begin

text \<open>
  \<open>internal/nft/rules.go\<close> and the expression builders of \<open>internal/nft/applier.go\<close>:
  the rules the manager keeps, the keys that identify them, the forward entries a rule stands
  for, and the nftables expressions it is translated to.  Go compares strings bytewise, as the
  lexicographic order on \<open>string\<close> of the library does.
\<close>

section \<open>Rules and keys\<close>

text \<open>\<open>RuleKind\<close> is a string type with four constants; \<open>OtherKind\<close> is any other string.\<close>

datatype RuleKind =
    RuleNATMasquerade
  | RuleInterPeerForward
  | RuleBridgeForward
  | RuleUDPInput
  | OtherKind string

record Rule =
  Kind :: RuleKind
  Iface :: string
  IfaceB :: string
  rule_Subnet :: string
  Direction :: string
  Port :: int

definition sortedPair :: "string \<Rightarrow> string \<Rightarrow> string" where
  "sortedPair a b = (if a > b then b @ '':'' @ a else a @ '':'' @ b)"

definition ruleKey :: "Rule \<Rightarrow> string" where
  "ruleKey r = (case Kind r of
       RuleNATMasquerade \<Rightarrow> ''nat:'' @ Iface r
     | RuleInterPeerForward \<Rightarrow> ''forward:'' @ Iface r
     | RuleBridgeForward \<Rightarrow> ''bridge:'' @ sortedPair (Iface r) (IfaceB r)
     | RuleUDPInput \<Rightarrow> ''udp:'' @ itoa_int (Port r)
     | OtherKind k \<Rightarrow> ''unknown:'' @ k @ '':'' @ Iface r)"

definition bridgeKey :: "string \<Rightarrow> string \<Rightarrow> string" where
  "bridgeKey ifaceA ifaceB = ''bridge:'' @ sortedPair ifaceA ifaceB"

definition validDirection :: "string \<Rightarrow> bool" where
  "validDirection d = (d = ''a_to_b'' \<or> d = ''b_to_a'' \<or> d = ''bidirectional'')"

record forwardEntry =
  ifaceIn :: string
  ifaceOut :: string
  comment :: string

definition expandForwardEntries :: "Rule \<Rightarrow> forwardEntry list" where
  "expandForwardEntries r = (case Kind r of
       RuleInterPeerForward \<Rightarrow>
         [\<lparr>ifaceIn = Iface r, ifaceOut = Iface r, comment = ''inter-peer forwarding''\<rparr>]
     | RuleBridgeForward \<Rightarrow>
         if Direction r = ''a_to_b'' then
           [\<lparr>ifaceIn = Iface r, ifaceOut = IfaceB r, comment = ''bridge '' @ Iface r @ '' -> '' @ IfaceB r\<rparr>]
         else if Direction r = ''b_to_a'' then
           [\<lparr>ifaceIn = IfaceB r, ifaceOut = Iface r, comment = ''bridge '' @ IfaceB r @ '' -> '' @ Iface r\<rparr>]
         else if Direction r = ''bidirectional'' then
           [\<lparr>ifaceIn = Iface r, ifaceOut = IfaceB r, comment = ''bridge '' @ Iface r @ '' <-> '' @ IfaceB r\<rparr>,
            \<lparr>ifaceIn = IfaceB r, ifaceOut = Iface r, comment = ''bridge '' @ Iface r @ '' <-> '' @ IfaceB r\<rparr>]
         else []
     | _ \<Rightarrow> [])"

section \<open>nftables expressions\<close>

text \<open>The expressions of \<open>github.com/google/nftables/expr\<close> the code builds.\<close>

datatype MetaKey = MetaKeyIIFNAME | MetaKeyOIFNAME | MetaKeyL4PROTO

datatype CmpOp = CmpOpEq | CmpOpNeq

datatype nft_expr =
    Meta MetaKey nat
  | Cmp CmpOp nat "byte list"
  | Payload nat nat nat
  | Masq
  | VerdictAccept

definition ifaceBytes :: "string \<Rightarrow> byte list" where
  "ifaceBytes iface = map (\<lambda>c. of_nat (ord c)) iface @ [0]"

definition masqueradeExprs :: "string \<Rightarrow> nft_expr list" where
  "masqueradeExprs iface =
     [Meta MetaKeyIIFNAME 1, Cmp CmpOpEq 1 (ifaceBytes iface),
      Meta MetaKeyOIFNAME 1, Cmp CmpOpNeq 1 (ifaceBytes iface), Masq]"

definition forwardPairExprs :: "string \<Rightarrow> string \<Rightarrow> nft_expr list" where
  "forwardPairExprs ifIn ifOut =
     [Meta MetaKeyIIFNAME 1, Cmp CmpOpEq 1 (ifaceBytes ifIn),
      Meta MetaKeyOIFNAME 1, Cmp CmpOpEq 1 (ifaceBytes ifOut), VerdictAccept]"

definition buildForwardExprs :: "Rule \<Rightarrow> nft_expr list list" where
  "buildForwardExprs r = (case Kind r of
       RuleInterPeerForward \<Rightarrow> [forwardPairExprs (Iface r) (Iface r)]
     | RuleBridgeForward \<Rightarrow>
         if Direction r = ''a_to_b'' then [forwardPairExprs (Iface r) (IfaceB r)]
         else if Direction r = ''b_to_a'' then [forwardPairExprs (IfaceB r) (Iface r)]
         else if Direction r = ''bidirectional'' then
           [forwardPairExprs (Iface r) (IfaceB r), forwardPairExprs (IfaceB r) (Iface r)]
         else []
     | _ \<Rightarrow> [])"

text \<open>\<open>binary.BigEndian.PutUint16(b, uint16(port))\<close>: the conversion keeps the low 16 bits.\<close>

definition PutUint16 :: "16 word \<Rightarrow> byte list" where
  "PutUint16 n = [of_nat (unat n div 256), of_nat (unat n)]"

definition udpInputExprs :: "int \<Rightarrow> nft_expr list" where
  "udpInputExprs port =
     [Meta MetaKeyL4PROTO 1, Cmp CmpOpEq 1 [17], Payload 1 2 2,
      Cmp CmpOpEq 1 (PutUint16 (word_of_int port)), VerdictAccept]"

section \<open>Facts about keys\<close>

lemma sortedPair_commute: "sortedPair a b = sortedPair b a"
  by (auto simp: sortedPair_def)

lemma split_at_colon:
  assumes "CHR '':'' \<notin> set a" "CHR '':'' \<notin> set c"
  shows "a @ CHR '':'' # b = c @ CHR '':'' # d \<longleftrightarrow> a = c \<and> b = d"
proof
  assume "a @ CHR '':'' # b = c @ CHR '':'' # d"
  then have "Cut (CHR '':'') (a @ CHR '':'' # b) = Cut (CHR '':'') (c @ CHR '':'' # d)" by (rule arg_cong)
  then show "a = c \<and> b = d" unfolding Cut_append[OF assms(1)] Cut_append[OF assms(2)] by simp
qed simp

lemma sortedPair_eq_iff:
  assumes "CHR '':'' \<notin> set a" "CHR '':'' \<notin> set b" "CHR '':'' \<notin> set c" "CHR '':'' \<notin> set d"
  shows "sortedPair a b = sortedPair c d \<longleftrightarrow> {a, b} = {c, d}"
  unfolding sortedPair_def using assms
  by (simp add: split_at_colon doubleton_eq_iff) (meson less_asym linorder_less_linear)

lemma ruleKey_simps [simp]:
  "Kind r = RuleNATMasquerade \<Longrightarrow> ruleKey r = ''nat:'' @ Iface r"
  "Kind r = RuleInterPeerForward \<Longrightarrow> ruleKey r = ''forward:'' @ Iface r"
  "Kind r = RuleBridgeForward \<Longrightarrow> ruleKey r = bridgeKey (Iface r) (IfaceB r)"
  "Kind r = RuleUDPInput \<Longrightarrow> ruleKey r = ''udp:'' @ itoa_int (Port r)"
  by (simp_all add: ruleKey_def bridgeKey_def)

lemma itoa_int_inject [simp]: "itoa_int i = itoa_int j \<longleftrightarrow> i = j"
proof -
  have *: "itoa n \<noteq> CHR ''-'' # s" for n s
    using itoa_hd_digit[of n] is_digit_not_sign by (metis list.sel(1))
  then have "CHR ''-'' # s \<noteq> itoa n" for n s by metis
  with * show ?thesis by (auto simp: itoa_int_def)
qed

section \<open>Interface names in comparisons\<close>

text \<open>The kernel keeps an interface name in a 16-byte field, padded with zero bytes.\<close>

definition ifname_field :: "string \<Rightarrow> byte list" where
  "ifname_field name = map (\<lambda>c. of_nat (ord c)) name @ replicate (16 - length name) 0"

lemma of_nat_ord_inject [simp]: "(of_nat (ord c) :: byte) = of_nat (ord d) \<longleftrightarrow> c = d"
proof
  assume "(of_nat (ord c) :: byte) = of_nat (ord d)"
  then have "unat (of_nat (ord c) :: byte) = unat (of_nat (ord d) :: byte)" by simp
  then have "ord c mod 256 = ord d mod 256" by (simp add: unsigned_of_nat take_bit_eq_mod)
  moreover have "ord c < 256" "ord d < 256" by (simp_all add: ord_def)
  ultimately show "c = d" by (simp add: ord_def)
qed simp

lemma of_nat_ord_zero [simp]: "(of_nat (ord c) :: byte) = 0 \<longleftrightarrow> c = CHR 0x00"
  using of_nat_ord_inject[of c "CHR 0x00"] by (simp add: ord_def)

lemma bytes_nul_prefix:
  assumes "CHR 0x00 \<notin> set a" "CHR 0x00 \<notin> set b"
  shows "take (Suc (length a)) (map (\<lambda>c. of_nat (ord c) :: byte) b @ replicate (Suc k) 0)
           = map (\<lambda>c. of_nat (ord c)) a @ [0] \<longleftrightarrow> a = b"
  using assms
proof (induction a arbitrary: b)
  case Nil
  then show ?case by (cases b) auto
next
  case (Cons x a)
  then show ?case by (cases b) auto
qed

section \<open>Properties\<close>

text \<open>
  The trailing NUL makes the comparison in a rule exact: the \<open>Cmp\<close> on
  \<open>ifaceBytes a\<close>, which compares as many bytes as it was given with the kernel's zero-padded
  name field, holds for the interface named \<open>a\<close> and for no other (names of at most 15
  characters without NUL), so that a rule for wg1 never matches wg10.
\<close>

theorem ifaceBytes_exact_match:
  assumes "CHR 0x00 \<notin> set a" "CHR 0x00 \<notin> set b" "length b \<le> 15"
  shows "take (length (ifaceBytes a)) (ifname_field b) = ifaceBytes a \<longleftrightarrow> b = a"
proof -
  obtain k where "16 - length b = Suc k" using assms(3) not0_implies_Suc[of "16 - length b"] by auto
  then show ?thesis
    using bytes_nul_prefix[OF assms(1,2), of k] by (auto simp: ifaceBytes_def ifname_field_def)
qed

theorem ifaceBytes_exact_match_witness:
  "take (length (ifaceBytes ''wg1'')) (ifname_field ''wg10'') \<noteq> ifaceBytes ''wg1''"
  using ifaceBytes_exact_match[of "''wg1''" "''wg10''"] by simp

text \<open>
  Two rules get the same key exactly when they are the same kind of rule for the
  same thing: the interface for masquerading and inter-peer forwarding, the unordered pair of
  interfaces for bridges, the port for UDP input (interface names without a colon,
  kinds among the four the package declares).
\<close>

theorem ruleKey_eq_iff:
  assumes "CHR '':'' \<notin> set (Iface r)" "CHR '':'' \<notin> set (IfaceB r)"
    and "CHR '':'' \<notin> set (Iface q)" "CHR '':'' \<notin> set (IfaceB q)"
    and "Kind r \<notin> range OtherKind" "Kind q \<notin> range OtherKind"
  shows "ruleKey r = ruleKey q \<longleftrightarrow> Kind r = Kind q \<and> (case Kind r of
      RuleBridgeForward \<Rightarrow> {Iface r, IfaceB r} = {Iface q, IfaceB q}
    | RuleUDPInput \<Rightarrow> Port r = Port q
    | _ \<Rightarrow> Iface r = Iface q)"
  using assms
  by (cases "Kind r"; cases "Kind q") (simp_all add: bridgeKey_def sortedPair_eq_iff)

theorem ruleKey_eq_iff_witness:
  "ruleKey \<lparr>Kind = RuleBridgeForward, Iface = ''wg1'', IfaceB = ''wg0'', rule_Subnet = [], Direction = ''a_to_b'', Port = 0\<rparr>
   = ruleKey \<lparr>Kind = RuleBridgeForward, Iface = ''wg0'', IfaceB = ''wg1'', rule_Subnet = [], Direction = ''b_to_a'', Port = 0\<rparr>"
  by (subst ruleKey_eq_iff) auto

text \<open>
  C21.  The forward entries the dump prints and the expressions the kernel gets describe
  the same pairs of interfaces, in the same order, for every rule.
\<close>

theorem dump_entries_match_kernel_exprs:
  "buildForwardExprs r = map (\<lambda>e. forwardPairExprs (ifaceIn e) (ifaceOut e)) (expandForwardEntries r)"
  by (simp add: buildForwardExprs_def expandForwardEntries_def split: RuleKind.split)

end
