(* ===== verification/NftManager.thy ===== *)
theory NftManager
  imports NftRules "HOL-Library.AList" "HOL-Library.Multiset"
begin

text \<open>
  \<open>internal/nft/applier.go\<close> (\<open>Apply\<close>) and \<open>internal/nft/manager.go\<close>.

  The netlink connection of \<open>github.com/google/nftables\<close> is a parameter, the record
  \<open>nft_conn\<close> over an unspecified kernel state \<open>'n\<close>: \<open>DelTable\<close>, \<open>AddTable\<close>, \<open>AddChain\<close>
  and \<open>AddRule\<close> queue a message, and \<open>Flush\<close> sends the queue as one batch.  What its
  documentation promises is \<open>conn_ok\<close>: a batch takes effect as a whole or not at all, and
  \<open>ListTables\<close> lists the tables that exist.

  The map \<open>rules map[string]Rule\<close> is an association list with distinct keys.  Go ranges over a
  map in an unspecified order: \<open>range_order\<close> is a parameter that may permute the rules
  \<open>apply\<close> sends.  The mutex makes every method one step.
\<close>

section \<open>The kernel side\<close>

datatype TableFamily = TableFamilyIPv4 | OtherFamily nat

datatype ChainType = ChainTypeFilter | ChainTypeNAT

datatype ChainHook = ChainHookInput | ChainHookPostrouting | ChainHookForward

record Chain =
  chain_Type :: ChainType
  Hooknum :: ChainHook
  Priority :: int

type_synonym table_id = "string \<times> TableFamily"

datatype nft_cmd =
    DelTable table_id
  | AddTable table_id
  | AddChain table_id string Chain
  | AddRule table_id string "nft_expr list"

datatype nft_error = ConnectFailed | ListTablesFailed | DeleteTableFailed | FlushFailed | InvalidDirection string

record 'n nft_conn =
  conn_New :: "'n \<Rightarrow> bool"
  conn_ListTables :: "'n \<Rightarrow> (nft_error + table_id list)"
  conn_Flush :: "nft_cmd list \<Rightarrow> 'n \<Rightarrow> bool \<times> 'n"

text \<open>A ruleset: for every table its chains with their rules, in order.\<close>

type_synonym ruleset = "table_id \<Rightarrow> (string \<Rightarrow> (Chain \<times> nft_expr list list) option) option"

fun exec_cmd :: "nft_cmd \<Rightarrow> ruleset \<Rightarrow> ruleset" where
  "exec_cmd (DelTable t) rs = rs(t := None)"
| "exec_cmd (AddTable t) rs = (case rs t of None \<Rightarrow> rs(t := Some (\<lambda>_. None)) | Some _ \<Rightarrow> rs)"
| "exec_cmd (AddChain t c ch) rs = (case rs t of None \<Rightarrow> rs
     | Some cs \<Rightarrow> (case cs c of None \<Rightarrow> rs(t := Some (cs(c := Some (ch, [])))) | Some _ \<Rightarrow> rs))"
| "exec_cmd (AddRule t c es) rs = (case rs t of None \<Rightarrow> rs
     | Some cs \<Rightarrow> (case cs c of None \<Rightarrow> rs
         | Some (ch, rules) \<Rightarrow> rs(t := Some (cs(c := Some (ch, rules @ [es]))))))"

definition exec_batch :: "nft_cmd list \<Rightarrow> ruleset \<Rightarrow> ruleset" where
  "exec_batch cmds rs = fold exec_cmd cmds rs"

text \<open>The documented behaviour of the connection, for a \<open>view\<close> of the kernel's ruleset.\<close>

definition conn_ok :: "'n nft_conn \<Rightarrow> ('n \<Rightarrow> ruleset) \<Rightarrow> bool" where
  "conn_ok C view \<longleftrightarrow>
     (\<forall>n ts. conn_ListTables C n = Inr ts \<longrightarrow> set ts = {t. view n t \<noteq> None}) \<and>
     (\<forall>n cmds n'. conn_Flush C cmds n = (True, n') \<longrightarrow> view n' = exec_batch cmds (view n)) \<and>
     (\<forall>n cmds n'. conn_Flush C cmds n = (False, n') \<longrightarrow> view n' = view n)"

section \<open>\<open>Apply\<close>\<close>

definition tableName :: string where
  "tableName = ''wgpilot''"

definition wgp_table :: table_id where
  "wgp_table = (tableName, TableFamilyIPv4)"

definition kind_rules :: "RuleKind list \<Rightarrow> Rule list \<Rightarrow> Rule list" where
  "kind_rules ks rules = filter (\<lambda>r. Kind r \<in> set ks) rules"

text \<open>The messages queued for a non-empty rule list.\<close>

definition input_cmds :: "Rule list \<Rightarrow> nft_cmd list" where
  "input_cmds rules = (if rules = [] then [] else
     AddChain wgp_table ''input'' \<lparr>chain_Type = ChainTypeFilter, Hooknum = ChainHookInput, Priority = 0\<rparr>
     # map (\<lambda>r. AddRule wgp_table ''input'' (udpInputExprs (Port r))) rules)"

definition nat_cmds :: "Rule list \<Rightarrow> nft_cmd list" where
  "nat_cmds rules = (if rules = [] then [] else
     AddChain wgp_table ''postrouting'' \<lparr>chain_Type = ChainTypeNAT, Hooknum = ChainHookPostrouting, Priority = 100\<rparr>
     # map (\<lambda>r. AddRule wgp_table ''postrouting'' (masqueradeExprs (Iface r))) rules)"

definition forward_cmds :: "Rule list \<Rightarrow> nft_cmd list" where
  "forward_cmds rules = (if rules = [] then [] else
     AddChain wgp_table ''forward'' \<lparr>chain_Type = ChainTypeFilter, Hooknum = ChainHookForward, Priority = 0\<rparr>
     # map (AddRule wgp_table ''forward'') (concat (map buildForwardExprs rules)))"

definition table_cmds :: "Rule list \<Rightarrow> nft_cmd list" where
  "table_cmds rules = AddTable wgp_table
     # input_cmds (kind_rules [RuleUDPInput] rules)
     @ nat_cmds (kind_rules [RuleNATMasquerade] rules)
     @ forward_cmds (kind_rules [RuleInterPeerForward, RuleBridgeForward] rules)"

definition Apply :: "'n nft_conn \<Rightarrow> Rule list \<Rightarrow> 'n \<Rightarrow> nft_error option \<times> 'n" where
  "Apply C rules n =
     (if \<not> conn_New C n then (Some ConnectFailed, n)
      else case conn_ListTables C n of
        Inl _ \<Rightarrow> (Some ListTablesFailed, n)
      | Inr ts \<Rightarrow>
          let (ok, n1) = (if wgp_table \<in> set ts then conn_Flush C [DelTable wgp_table] n else (True, n))
          in if \<not> ok then (Some DeleteTableFailed, n1)
             else if rules = [] then (None, n1)
             else (case conn_Flush C (table_cmds rules) n1 of
                     (True, n2) \<Rightarrow> (None, n2)
                   | (False, n2) \<Rightarrow> (Some FlushFailed, n2)))"

text \<open>The second \<open>Applier\<close> of the package, used where there is no kernel access.\<close>

definition noop_Apply :: "Rule list \<Rightarrow> 'n \<Rightarrow> nft_error option \<times> 'n" where
  "noop_Apply rules n = (None, n)"

section \<open>The manager\<close>

record Manager =
  rules :: "(string \<times> Rule) list"

text \<open>The \<open>Applier\<close> interface, and the order in which the map is ranged over.\<close>

record 'n nft_env =
  applier :: "Rule list \<Rightarrow> 'n \<Rightarrow> nft_error option \<times> 'n"
  range_order :: "Rule list \<Rightarrow> Rule list"

definition NewManager :: Manager where
  "NewManager = \<lparr>rules = []\<rparr>"

definition nft_apply :: "'n nft_env \<Rightarrow> (string \<times> Rule) list \<Rightarrow> 'n \<Rightarrow> nft_error option \<times> 'n" where
  "nft_apply E rs n = applier E (range_order E (map snd rs)) n"

type_synonym 'n nft_result = "nft_error option \<times> Manager \<times> 'n"

definition mk_rule :: "RuleKind \<Rightarrow> string \<Rightarrow> string \<Rightarrow> string \<Rightarrow> string \<Rightarrow> int \<Rightarrow> Rule" where
  "mk_rule k i b s d p = \<lparr>Kind = k, Iface = i, IfaceB = b, rule_Subnet = s, Direction = d, Port = p\<rparr>"

definition AddNATMasquerade :: "'n nft_env \<Rightarrow> string \<Rightarrow> string \<Rightarrow> Manager \<Rightarrow> 'n \<Rightarrow> 'n nft_result" where
  "AddNATMasquerade E iface subnet m n =
     (let rule = mk_rule RuleNATMasquerade iface [] subnet [] 0; key = ruleKey rule in
      case map_of (rules m) key of
        Some _ \<Rightarrow> (None, m, n)
      | None \<Rightarrow>
          let rs = AList.update key rule (rules m) in
          (case nft_apply E rs n of
             (Some e, n') \<Rightarrow> (Some e, m\<lparr>rules := AList.delete key rs\<rparr>, n')
           | (None, n') \<Rightarrow> (None, m\<lparr>rules := rs\<rparr>, n')))"

definition RemoveNATMasquerade :: "'n nft_env \<Rightarrow> string \<Rightarrow> Manager \<Rightarrow> 'n \<Rightarrow> 'n nft_result" where
  "RemoveNATMasquerade E iface m n =
     (let key = ''nat:'' @ iface in
      case map_of (rules m) key of
        None \<Rightarrow> (None, m, n)
      | Some old \<Rightarrow>
          let rs = AList.delete key (rules m) in
          (case nft_apply E rs n of
             (Some e, n') \<Rightarrow> (Some e, m\<lparr>rules := AList.update key old rs\<rparr>, n')
           | (None, n') \<Rightarrow> (None, m\<lparr>rules := rs\<rparr>, n')))"

definition EnableInterPeerForwarding :: "'n nft_env \<Rightarrow> string \<Rightarrow> Manager \<Rightarrow> 'n \<Rightarrow> 'n nft_result" where
  "EnableInterPeerForwarding E iface m n =
     (let rule = mk_rule RuleInterPeerForward iface [] [] [] 0; key = ruleKey rule in
      case map_of (rules m) key of
        Some _ \<Rightarrow> (None, m, n)
      | None \<Rightarrow>
          let rs = AList.update key rule (rules m) in
          (case nft_apply E rs n of
             (Some e, n') \<Rightarrow> (Some e, m\<lparr>rules := AList.delete key rs\<rparr>, n')
           | (None, n') \<Rightarrow> (None, m\<lparr>rules := rs\<rparr>, n')))"

definition DisableInterPeerForwarding :: "'n nft_env \<Rightarrow> string \<Rightarrow> Manager \<Rightarrow> 'n \<Rightarrow> 'n nft_result" where
  "DisableInterPeerForwarding E iface m n =
     (let key = ''forward:'' @ iface in
      case map_of (rules m) key of
        None \<Rightarrow> (None, m, n)
      | Some old \<Rightarrow>
          let rs = AList.delete key (rules m) in
          (case nft_apply E rs n of
             (Some e, n') \<Rightarrow> (Some e, m\<lparr>rules := AList.update key old rs\<rparr>, n')
           | (None, n') \<Rightarrow> (None, m\<lparr>rules := rs\<rparr>, n')))"

definition AddNetworkBridge :: "'n nft_env \<Rightarrow> string \<Rightarrow> string \<Rightarrow> string \<Rightarrow> Manager \<Rightarrow> 'n \<Rightarrow> 'n nft_result" where
  "AddNetworkBridge E ifaceA ifaceB direction m n =
     (if \<not> validDirection direction then (Some (InvalidDirection direction), m, n)
      else
        let rule = mk_rule RuleBridgeForward ifaceA ifaceB [] direction 0; key = ruleKey rule;
            rs = AList.update key rule (rules m) in
        (case nft_apply E rs n of
           (Some e, n') \<Rightarrow> (Some e,
              (case map_of (rules m) key of
                 Some old \<Rightarrow> m\<lparr>rules := AList.update key old rs\<rparr>
               | None \<Rightarrow> m\<lparr>rules := AList.delete key rs\<rparr>), n')
         | (None, n') \<Rightarrow> (None, m\<lparr>rules := rs\<rparr>, n')))"

definition RemoveNetworkBridge :: "'n nft_env \<Rightarrow> string \<Rightarrow> string \<Rightarrow> Manager \<Rightarrow> 'n \<Rightarrow> 'n nft_result" where
  "RemoveNetworkBridge E ifaceA ifaceB m n =
     (let key = bridgeKey ifaceA ifaceB in
      case map_of (rules m) key of
        None \<Rightarrow> (None, m, n)
      | Some old \<Rightarrow>
          let rs = AList.delete key (rules m) in
          (case nft_apply E rs n of
             (Some e, n') \<Rightarrow> (Some e, m\<lparr>rules := AList.update key old rs\<rparr>, n')
           | (None, n') \<Rightarrow> (None, m\<lparr>rules := rs\<rparr>, n')))"

definition OpenUDPPort :: "'n nft_env \<Rightarrow> int \<Rightarrow> Manager \<Rightarrow> 'n \<Rightarrow> 'n nft_result" where
  "OpenUDPPort E port m n =
     (let rule = mk_rule RuleUDPInput [] [] [] [] port; key = ruleKey rule in
      case map_of (rules m) key of
        Some _ \<Rightarrow> (None, m, n)
      | None \<Rightarrow>
          let rs = AList.update key rule (rules m) in
          (case nft_apply E rs n of
             (Some e, n') \<Rightarrow> (Some e, m\<lparr>rules := AList.delete key rs\<rparr>, n')
           | (None, n') \<Rightarrow> (None, m\<lparr>rules := rs\<rparr>, n')))"

definition CloseUDPPort :: "'n nft_env \<Rightarrow> int \<Rightarrow> Manager \<Rightarrow> 'n \<Rightarrow> 'n nft_result" where
  "CloseUDPPort E port m n =
     (let key = ''udp:'' @ itoa_int port in
      case map_of (rules m) key of
        None \<Rightarrow> (None, m, n)
      | Some old \<Rightarrow>
          let rs = AList.delete key (rules m) in
          (case nft_apply E rs n of
             (Some e, n') \<Rightarrow> (Some e, m\<lparr>rules := AList.update key old rs\<rparr>, n')
           | (None, n') \<Rightarrow> (None, m\<lparr>rules := rs\<rparr>, n')))"

section \<open>What \<open>Apply\<close> makes of the kernel's table\<close>

definition chain_image :: "Chain \<Rightarrow> nft_expr list list \<Rightarrow> bool \<Rightarrow> (Chain \<times> nft_expr list list) option" where
  "chain_image ch es present = (if present then Some (ch, es) else None)"

text \<open>The specification: the table for a list of rules, no table when there are none.\<close>

definition table_image :: "Rule list \<Rightarrow> (string \<Rightarrow> (Chain \<times> nft_expr list list) option) option" where
  "table_image rs =
     (let inp = kind_rules [RuleUDPInput] rs; nat = kind_rules [RuleNATMasquerade] rs;
          fwd = kind_rules [RuleInterPeerForward, RuleBridgeForward] rs
      in if rs = [] then None else Some (\<lambda>c.
        if c = ''input'' then chain_image \<lparr>chain_Type = ChainTypeFilter, Hooknum = ChainHookInput, Priority = 0\<rparr>
                                (map (\<lambda>r. udpInputExprs (Port r)) inp) (inp \<noteq> [])
        else if c = ''postrouting'' then chain_image \<lparr>chain_Type = ChainTypeNAT, Hooknum = ChainHookPostrouting, Priority = 100\<rparr>
                                (map (\<lambda>r. masqueradeExprs (Iface r)) nat) (nat \<noteq> [])
        else if c = ''forward'' then chain_image \<lparr>chain_Type = ChainTypeFilter, Hooknum = ChainHookForward, Priority = 0\<rparr>
                                (concat (map buildForwardExprs fwd)) (fwd \<noteq> [])
        else None))"

lemma exec_rules:
  "\<lbrakk>rs t = Some cs; cs c = Some (ch, es)\<rbrakk>
   \<Longrightarrow> fold exec_cmd (map (AddRule t c) xs) rs = rs(t := Some (cs(c := Some (ch, es @ xs))))"
  by (induction xs arbitrary: rs cs es) (simp_all add: fun_upd_idem)

lemma exec_chain:
  assumes "rs t = Some cs" "cs c = None"
  shows "fold exec_cmd (AddChain t c ch # map (AddRule t c) xs) rs = rs(t := Some (cs(c := Some (ch, xs))))"
  using assms exec_rules[of "rs(t := Some (cs(c := Some (ch, []))))" t "cs(c := Some (ch, []))" c ch "[]" xs]
  by simp

lemma exec_input_cmds:
  assumes "rs wgp_table = Some cs" "cs ''input'' = None"
  shows "fold exec_cmd (input_cmds rl) rs = rs(wgp_table := Some (cs(''input'' :=
     chain_image \<lparr>chain_Type = ChainTypeFilter, Hooknum = ChainHookInput, Priority = 0\<rparr>
       (map (\<lambda>r. udpInputExprs (Port r)) rl) (rl \<noteq> []))))"
  using assms exec_chain[of rs wgp_table cs "''input''" _ "map (\<lambda>r. udpInputExprs (Port r)) rl"]
  by (auto simp: input_cmds_def chain_image_def comp_def fun_upd_idem)

lemma exec_nat_cmds:
  assumes "rs wgp_table = Some cs" "cs ''postrouting'' = None"
  shows "fold exec_cmd (nat_cmds rl) rs = rs(wgp_table := Some (cs(''postrouting'' :=
     chain_image \<lparr>chain_Type = ChainTypeNAT, Hooknum = ChainHookPostrouting, Priority = 100\<rparr>
       (map (\<lambda>r. masqueradeExprs (Iface r)) rl) (rl \<noteq> []))))"
  using assms exec_chain[of rs wgp_table cs "''postrouting''" _ "map (\<lambda>r. masqueradeExprs (Iface r)) rl"]
  by (auto simp: nat_cmds_def chain_image_def comp_def fun_upd_idem)

lemma exec_forward_cmds:
  assumes "rs wgp_table = Some cs" "cs ''forward'' = None"
  shows "fold exec_cmd (forward_cmds rl) rs = rs(wgp_table := Some (cs(''forward'' :=
     chain_image \<lparr>chain_Type = ChainTypeFilter, Hooknum = ChainHookForward, Priority = 0\<rparr>
       (concat (map buildForwardExprs rl)) (rl \<noteq> []))))"
  using assms exec_chain[of rs wgp_table cs "''forward''" _ "concat (map buildForwardExprs rl)"]
  by (auto simp: forward_cmds_def chain_image_def fun_upd_idem)

lemma exec_table_cmds:
  assumes "rs wgp_table = None" "rl \<noteq> []"
  shows "exec_batch (table_cmds rl) rs = rs(wgp_table := table_image rl)"
proof -
  let ?i = "kind_rules [RuleUDPInput] rl" and ?n = "kind_rules [RuleNATMasquerade] rl"
  let ?f = "kind_rules [RuleInterPeerForward, RuleBridgeForward] rl"
  have "exec_batch (table_cmds rl) rs =
    fold exec_cmd (forward_cmds ?f) (fold exec_cmd (nat_cmds ?n) (fold exec_cmd (input_cmds ?i)
      (rs(wgp_table := Some (\<lambda>_. None)))))"
    using assms(1) by (simp add: exec_batch_def table_cmds_def)
  then show ?thesis
    using assms(2)
    by (simp add: exec_input_cmds exec_nat_cmds exec_forward_cmds table_image_def Let_def)
       (auto simp: fun_eq_iff)
qed

lemma Apply_ok:
  assumes "conn_ok C view" "Apply C rl n = (None, n')"
  shows "view n' = (view n)(wgp_table := table_image rl)"
proof -
  obtain ts where ts: "conn_ListTables C n = Inr ts"
    using assms(2) by (auto simp: Apply_def split: if_splits sum.splits)
  define del where "del = (if wgp_table \<in> set ts then conn_Flush C [DelTable wgp_table] n else (True, n))"
  obtain ok n1 where n1: "del = (ok, n1)" by (cases del)
  have ok: ok using assms(2) ts n1 by (auto simp: Apply_def del_def Let_def split: if_splits prod.splits bool.splits)
  have v1: "view n1 = (view n)(wgp_table := None)"
  proof (cases "wgp_table \<in> set ts")
    case True
    then have "conn_Flush C [DelTable wgp_table] n = (True, n1)" using n1 ok by (simp add: del_def)
    then have "view n1 = exec_batch [DelTable wgp_table] (view n)" using assms(1) by (auto simp: conn_ok_def)
    then show ?thesis by (simp add: exec_batch_def)
  next
    case False
    then have "view n wgp_table = None" using assms(1) ts by (auto simp: conn_ok_def)
    then show ?thesis using False n1 by (auto simp: del_def fun_upd_idem)
  qed
  show ?thesis
  proof (cases "rl = []")
    case True
    then have "n' = n1"
      using assms(2) ts n1 ok by (auto simp: Apply_def del_def[symmetric] Let_def split: if_splits)
    then show ?thesis using v1 True by (simp add: table_image_def)
  next
    case False
    then have "conn_Flush C (table_cmds rl) n1 = (True, n')"
      using assms(2) ts n1 ok
      by (auto simp: Apply_def del_def[symmetric] Let_def split: if_splits prod.splits bool.splits)
    then have "view n' = exec_batch (table_cmds rl) (view n1)" using assms(1) by (simp add: conn_ok_def)
    then show ?thesis using exec_table_cmds[of "view n1" rl] v1 False by simp
  qed
qed

lemma Apply_err:
  assumes "conn_ok C view" "Apply C rl n = (Some e, n')"
  shows "view n' = view n \<or> e = FlushFailed \<and> view n' = (view n)(wgp_table := None)"
proof -
  have del: "view n1 = (view n)(wgp_table := None)" if "conn_Flush C [DelTable wgp_table] n = (True, n1)" for n1
    using assms(1) that by (auto simp: conn_ok_def exec_batch_def)
  have keep: "view n1 = view n0" if "conn_Flush C cmds n0 = (False, n1)" for cmds n0 n1
    using assms(1) that by (auto simp: conn_ok_def)
  show ?thesis
    using assms(2) by (auto simp: Apply_def Let_def del dest: keep split: if_splits sum.splits prod.splits bool.splits)
qed

section \<open>The manager's methods as instances of three steps\<close>

text \<open>Insert a rule unless its key is there; insert or overwrite; delete a key.\<close>

definition insert_rule :: "'n nft_env \<Rightarrow> Rule \<Rightarrow> Manager \<Rightarrow> 'n \<Rightarrow> 'n nft_result" where
  "insert_rule E rule m n = (case map_of (rules m) (ruleKey rule) of
      Some _ \<Rightarrow> (None, m, n)
    | None \<Rightarrow> (case nft_apply E (AList.update (ruleKey rule) rule (rules m)) n of
         (Some e, n') \<Rightarrow> (Some e, m\<lparr>rules := AList.delete (ruleKey rule) (AList.update (ruleKey rule) rule (rules m))\<rparr>, n')
       | (None, n') \<Rightarrow> (None, m\<lparr>rules := AList.update (ruleKey rule) rule (rules m)\<rparr>, n')))"

definition delete_key :: "'n nft_env \<Rightarrow> string \<Rightarrow> Manager \<Rightarrow> 'n \<Rightarrow> 'n nft_result" where
  "delete_key E key m n = (case map_of (rules m) key of
      None \<Rightarrow> (None, m, n)
    | Some old \<Rightarrow> (case nft_apply E (AList.delete key (rules m)) n of
         (Some e, n') \<Rightarrow> (Some e, m\<lparr>rules := AList.update key old (AList.delete key (rules m))\<rparr>, n')
       | (None, n') \<Rightarrow> (None, m\<lparr>rules := AList.delete key (rules m)\<rparr>, n')))"

lemma methods_as_steps [wgp_simps]:
  "AddNATMasquerade E i s m n = insert_rule E (mk_rule RuleNATMasquerade i [] s [] 0) m n"
  "RemoveNATMasquerade E i m n = delete_key E (''nat:'' @ i) m n"
  "EnableInterPeerForwarding E i m n = insert_rule E (mk_rule RuleInterPeerForward i [] [] [] 0) m n"
  "DisableInterPeerForwarding E i m n = delete_key E (''forward:'' @ i) m n"
  "RemoveNetworkBridge E a b m n = delete_key E (bridgeKey a b) m n"
  "OpenUDPPort E p m n = insert_rule E (mk_rule RuleUDPInput [] [] [] [] p) m n"
  "CloseUDPPort E p m n = delete_key E (''udp:'' @ itoa_int p) m n"
  by (simp_all only: AddNATMasquerade_def RemoveNATMasquerade_def EnableInterPeerForwarding_def
      DisableInterPeerForwarding_def RemoveNetworkBridge_def OpenUDPPort_def CloseUDPPort_def
      insert_rule_def delete_key_def Let_def)

text \<open>The invariant: one entry per key, and every rule is stored under its own key.\<close>

definition manager_inv :: "Manager \<Rightarrow> bool" where
  "manager_inv m = (distinct (map fst (rules m)) \<and> (\<forall>(k, r)\<in>set (rules m). k = ruleKey r))"

definition rule_map :: "Manager \<Rightarrow> string \<Rightarrow> Rule option" where
  "rule_map m = map_of (rules m)"

text \<open>The eight methods as operations on a pair of manager and kernel state.\<close>

datatype nft_op =
    OpAddNAT string string | OpRemoveNAT string
  | OpEnableFwd string | OpDisableFwd string
  | OpAddBridge string string string | OpRemoveBridge string string
  | OpOpenUDP int | OpCloseUDP int

definition nft_step :: "'n nft_env \<Rightarrow> nft_op \<Rightarrow> Manager \<times> 'n \<Rightarrow> nft_error option \<times> (Manager \<times> 'n)" where
  "nft_step E op s = (case s of (m, n) \<Rightarrow> (case op of
      OpAddNAT i sn \<Rightarrow> AddNATMasquerade E i sn m n
    | OpRemoveNAT i \<Rightarrow> RemoveNATMasquerade E i m n
    | OpEnableFwd i \<Rightarrow> EnableInterPeerForwarding E i m n
    | OpDisableFwd i \<Rightarrow> DisableInterPeerForwarding E i m n
    | OpAddBridge a b d \<Rightarrow> AddNetworkBridge E a b d m n
    | OpRemoveBridge a b \<Rightarrow> RemoveNetworkBridge E a b m n
    | OpOpenUDP p \<Rightarrow> OpenUDPPort E p m n
    | OpCloseUDP p \<Rightarrow> CloseUDPPort E p m n))"

text \<open>The specification of the methods on the map of rules.\<close>

definition put_new :: "Rule \<Rightarrow> (string \<Rightarrow> Rule option) \<Rightarrow> string \<Rightarrow> Rule option" where
  "put_new r t = (if t (ruleKey r) = None then t(ruleKey r := Some r) else t)"

fun nft_effect :: "nft_op \<Rightarrow> (string \<Rightarrow> Rule option) \<Rightarrow> string \<Rightarrow> Rule option" where
  "nft_effect (OpAddNAT i sn) t = put_new (mk_rule RuleNATMasquerade i [] sn [] 0) t"
| "nft_effect (OpRemoveNAT i) t = t(''nat:'' @ i := None)"
| "nft_effect (OpEnableFwd i) t = put_new (mk_rule RuleInterPeerForward i [] [] [] 0) t"
| "nft_effect (OpDisableFwd i) t = t(''forward:'' @ i := None)"
| "nft_effect (OpAddBridge a b d) t = t(bridgeKey a b := Some (mk_rule RuleBridgeForward a b [] d 0))"
| "nft_effect (OpRemoveBridge a b) t = t(bridgeKey a b := None)"
| "nft_effect (OpOpenUDP p) t = put_new (mk_rule RuleUDPInput [] [] [] [] p) t"
| "nft_effect (OpCloseUDP p) t = t(''udp:'' @ itoa_int p := None)"

lemma mk_rule_simps [simp]:
  "Kind (mk_rule k i b s d p) = k" "Iface (mk_rule k i b s d p) = i" "IfaceB (mk_rule k i b s d p) = b"
  "rule_Subnet (mk_rule k i b s d p) = s" "Direction (mk_rule k i b s d p) = d" "Port (mk_rule k i b s d p) = p"
  by (simp_all add: mk_rule_def)

lemma set_update_subset: "set (AList.update k v al) \<subseteq> insert (k, v) (set al)"
  by (induction al) auto

lemma set_delete_subset: "set (AList.delete k al) \<subseteq> set al"
  by (induction al) auto

lemma delete_absent: "map_of al k = None \<Longrightarrow> AList.delete k al = al"
  by (simp add: map_of_eq_None_iff)

lemma manager_inv_update:
  assumes "manager_inv m" "k = ruleKey r"
  shows "manager_inv (m\<lparr>rules := AList.update k r (rules m)\<rparr>)"
  using assms set_update_subset[of k r "rules m"] by (auto simp: manager_inv_def distinct_update)

lemma manager_inv_delete: "manager_inv m \<Longrightarrow> manager_inv (m\<lparr>rules := AList.delete k (rules m)\<rparr>)"
  using set_delete_subset[of k "rules m"] by (auto simp: manager_inv_def distinct_delete)

lemma manager_inv_key: "\<lbrakk>manager_inv m; map_of (rules m) k = Some r\<rbrakk> \<Longrightarrow> ruleKey r = k"
  by (auto simp: manager_inv_def dest!: map_of_SomeD)

lemma insert_rule_contract:
  assumes "manager_inv m" "insert_rule E r m n = (res, m', n')"
  shows "manager_inv m'" "res = None \<Longrightarrow> rule_map m' = put_new r (rule_map m)"
    "res \<noteq> None \<Longrightarrow> m' = m"
    "res = None \<Longrightarrow> m' = m \<and> n' = n \<or> nft_apply E (rules m') n = (None, n')"
  using assms manager_inv_update[OF assms(1), of "ruleKey r" r]
  by (auto simp: insert_rule_def rule_map_def put_new_def update_conv' delete_update_same delete_absent
      split: option.splits prod.splits)

lemma delete_key_contract:
  assumes "manager_inv m" "delete_key E k m n = (res, m', n')"
  shows "manager_inv m'" "res = None \<Longrightarrow> rule_map m' = (rule_map m)(k := None)"
    "res \<noteq> None \<Longrightarrow> rule_map m' = rule_map m"
    "res = None \<Longrightarrow> m' = m \<and> n' = n \<or> nft_apply E (rules m') n = (None, n')"
proof -
  show "manager_inv m'"
    using assms manager_inv_delete[OF assms(1), of k]
      manager_inv_update[OF manager_inv_delete[OF assms(1)], of k _ k] manager_inv_key[OF assms(1)]
    by (auto simp: delete_key_def split: option.splits prod.splits)
qed (use assms(2) in \<open>auto simp: delete_key_def rule_map_def update_conv' delete_conv' fun_upd_idem
      split: option.splits prod.splits\<close>)

lemma AddNetworkBridge_contract:
  assumes "manager_inv m" "AddNetworkBridge E a b d m n = (res, m', n')"
  shows "manager_inv m'"
    "res = None \<Longrightarrow> rule_map m' = (rule_map m)(bridgeKey a b := Some (mk_rule RuleBridgeForward a b [] d 0))"
    "res \<noteq> None \<Longrightarrow> rule_map m' = rule_map m"
    "res = None \<Longrightarrow> m' = m \<and> n' = n \<or> nft_apply E (rules m') n = (None, n')"
proof -
  let ?r = "mk_rule RuleBridgeForward a b [] d 0"
  have k: "ruleKey ?r = bridgeKey a b" by simp
  have u: "manager_inv (m\<lparr>rules := AList.update (bridgeKey a b) ?r (rules m)\<rparr>)"
    using manager_inv_update[OF assms(1)] k by metis
  have old: "AList.update (bridgeKey a b) x (rules m) = rules m" if "map_of (rules m) (bridgeKey a b) = Some x" for x
    using that by (rule update_triv)
  show "manager_inv m'"
    using assms u manager_inv_delete[OF u] old
    by (auto simp: AddNetworkBridge_def Let_def k simp del: ruleKey_simps split: option.splits prod.splits if_splits)
qed (use assms(2) in \<open>auto simp: AddNetworkBridge_def Let_def rule_map_def update_conv' delete_conv' fun_upd_idem
      split: option.splits prod.splits if_splits\<close>)

lemma nft_step_contract:
  assumes "manager_inv m" "nft_step E op (m, n) = (res, (m', n'))"
  shows "manager_inv m'" "res = None \<Longrightarrow> rule_map m' = nft_effect op (rule_map m)"
    "res \<noteq> None \<Longrightarrow> rule_map m' = rule_map m"
    "res = None \<Longrightarrow> m' = m \<and> n' = n \<or> nft_apply E (rules m') n = (None, n')"
  using assms
  by (cases op; auto simp: nft_step_def wgp_simps
        dest: insert_rule_contract delete_key_contract AddNetworkBridge_contract)+

interpretation nft_tx: transactional "\<lambda>s. manager_inv (fst s)" "nft_step E" "\<lambda>s. rule_map (fst s)" nft_effect
  for E
proof (unfold_locales, goal_cases)
  case (1 s op r s')
  then show ?case using nft_step_contract(1)[of "fst s" E op "snd s" r "fst s'" "snd s'"] by simp
next
  case (2 s op s')
  then show ?case using nft_step_contract(2)[of "fst s" E op "snd s" None "fst s'" "snd s'"] by simp
next
  case (3 s op e s')
  then show ?case using nft_step_contract(3)[of "fst s" E op "snd s" "Some e" "fst s'" "snd s'"] by simp
qed

lemma manager_inv_New: "manager_inv NewManager" "rule_map NewManager = (\<lambda>_. None)"
  by (simp_all add: manager_inv_def NewManager_def rule_map_def)

text \<open>The kernel's table is the image of the rules in memory, in some order.\<close>

definition synced :: "('n \<Rightarrow> ruleset) \<Rightarrow> Manager \<Rightarrow> 'n \<Rightarrow> bool" where
  "synced view m n = (\<exists>rl. mset rl = mset (map snd (rules m)) \<and> view n wgp_table = table_image rl)"

definition kernel_env :: "'n nft_conn \<Rightarrow> (Rule list \<Rightarrow> Rule list) \<Rightarrow> 'n nft_env" where
  "kernel_env C perm = \<lparr>applier = Apply C, range_order = perm\<rparr>"

lemma nft_apply_synced:
  assumes "conn_ok C view" "\<And>rl. mset (perm rl) = mset rl"
    and "nft_apply (kernel_env C perm) rs n = (None, n')" "rules m = rs"
  shows "synced view m n'"
  unfolding synced_def
proof (intro exI[of _ "perm (map snd rs)"] conjI)
  show "mset (perm (map snd rs)) = mset (map snd (rules m))" using assms(2,4) by simp
  have "Apply C (perm (map snd rs)) n = (None, n')" using assms(3) by (simp add: nft_apply_def kernel_env_def)
  then show "view n' wgp_table = table_image (perm (map snd rs))" using Apply_ok[OF assms(1)] by simp
qed

section \<open>A kernel in memory\<close>

text \<open>
  A connection that behaves as documented, for the witnesses: it holds the one table of
  the program and rejects messages about other tables, and a list of verdicts says which
  flushes it accepts (all once the list is empty).
\<close>

type_synonym mem_nft = "(string \<Rightarrow> (Chain \<times> nft_expr list list) option) option \<times> bool list"

definition mem_view :: "mem_nft \<Rightarrow> ruleset" where
  "mem_view s = (\<lambda>t. if t = wgp_table then fst s else None)"

fun cmd_table :: "nft_cmd \<Rightarrow> table_id" where
  "cmd_table (DelTable t) = t"
| "cmd_table (AddTable t) = t"
| "cmd_table (AddChain t c ch) = t"
| "cmd_table (AddRule t c es) = t"

definition mem_conn :: "mem_nft nft_conn" where
  "mem_conn = \<lparr>conn_New = (\<lambda>_. True),
     conn_ListTables = (\<lambda>s. Inr (if fst s = None then [] else [wgp_table])),
     conn_Flush = (\<lambda>cmds s.
       if list_all (\<lambda>c. cmd_table c = wgp_table) cmds \<and> (snd s = [] \<or> hd (snd s))
       then (True, exec_batch cmds (mem_view s) wgp_table, tl (snd s))
       else (False, fst s, tl (snd s)))\<rparr>"

lemma exec_other_table:
  "list_all (\<lambda>c. cmd_table c = t) cmds \<Longrightarrow> t' \<noteq> t \<Longrightarrow> exec_batch cmds rs t' = rs t'"
proof (induction cmds arbitrary: rs)
  case Nil
  then show ?case by (simp add: exec_batch_def)
next
  case (Cons c cmds)
  have "exec_cmd c rs t' = rs t'"
    using Cons.prems by (cases c) (auto split: option.splits)
  then show ?case using Cons by (simp add: exec_batch_def)
qed

lemma mem_conn_ok: "conn_ok mem_conn mem_view"
proof -
  have "mem_view (exec_batch cmds (mem_view s) wgp_table, vs) = exec_batch cmds (mem_view s)"
    if "list_all (\<lambda>c. cmd_table c = wgp_table) cmds" for cmds s vs
    using exec_other_table[OF that] by (auto simp: mem_view_def fun_eq_iff)
  note ok = this
  show ?thesis unfolding conn_ok_def
  proof (intro conjI allI impI, goal_cases)
    case (1 n ts)
    then show ?case by (auto simp: mem_conn_def mem_view_def split: if_splits)
  next
    case (2 n cmds n')
    then show ?case using ok by (cases n) (auto simp: mem_conn_def split: if_splits)
  next
    case (3 n cmds n')
    then show ?case by (auto simp: mem_conn_def mem_view_def split: if_splits)
  qed
qed

section \<open>Properties\<close>

text \<open>
  C22.  \<open>Apply\<close>: when it returns no error, the kernel's wgpilot table is exactly the
  image of the rules it was given (no table for no rules), built from scratch whatever was there
  before, and every other table is untouched.
\<close>

theorem Apply_refines_table:
  assumes "conn_ok C view" "Apply C rl n = (None, n')"
  shows "view n' = (view n)(wgp_table := table_image rl)"
  using assms by (rule Apply_ok)

definition nat_wg0 :: Rule where
  "nat_wg0 = mk_rule RuleNATMasquerade ''wg0'' [] ''10.0.0.0/24'' [] 0"

theorem Apply_refines_table_witness:
  "\<exists>n'. Apply mem_conn [nat_wg0] (None, []) = (None, n') \<and>
        mem_view n' wgp_table = table_image [nat_wg0] \<and> mem_view n' wgp_table \<noteq> None"
proof -
  obtain n' where n': "Apply mem_conn [nat_wg0] (None, []) = (None, n')"
    by (simp add: Apply_def mem_conn_def table_cmds_def input_cmds_def nat_cmds_def forward_cmds_def
        kind_rules_def nat_wg0_def)
  then show ?thesis
    using Apply_refines_table[OF mem_conn_ok n'] by (simp add: table_image_def Let_def)
qed

text \<open>
  C23.  When \<open>Apply\<close> fails the kernel's rules are as before, except that a failure of the
  second flush leaves the kernel without a wgpilot table, the old one having been deleted
  in the first flush; other tables are untouched in every case.
\<close>

theorem Apply_failure_effect:
  assumes "conn_ok C view" "Apply C rl n = (Some e, n')"
  shows "view n' = view n \<or> e = FlushFailed \<and> view n' = (view n)(wgp_table := None)"
  using assms by (rule Apply_err)

theorem Apply_failure_effect_witness:
  "\<exists>n'. Apply mem_conn [nat_wg0] (table_image [nat_wg0], [True, False]) = (Some FlushFailed, n') \<and>
        mem_view n' wgp_table = None"
proof -
  have t: "table_image [nat_wg0] \<noteq> None" by (simp add: table_image_def Let_def)
  obtain n' where n': "Apply mem_conn [nat_wg0] (table_image [nat_wg0], [True, False]) = (Some FlushFailed, n')"
      "fst n' = None"
    using t by (simp add: Apply_def mem_conn_def exec_batch_def table_cmds_def input_cmds_def nat_cmds_def
        forward_cmds_def kind_rules_def nat_wg0_def)
  have "mem_view n' = mem_view (table_image [nat_wg0], [True, False]) \<or>
        mem_view n' = (mem_view (table_image [nat_wg0], [True, False]))(wgp_table := None)"
    using Apply_failure_effect[OF mem_conn_ok n'(1)] by blast
  then show ?thesis using n' t by (auto simp: mem_view_def fun_eq_iff)
qed

text \<open>
  C24.  Every history of calls of the eight methods on a new manager, whichever of them
  fail: the rules in memory are the effects of the calls that returned no error, in order;
  each rule is stored under its own key and each key once.
\<close>

theorem nft_history:
  assumes "nft_tx.run E ops (NewManager, n) = (ok, (m, n'))"
  shows "rule_map m = fold nft_effect ok (\<lambda>_. None) \<and> manager_inv m"
  using nft_tx.run_effects[OF _ assms] manager_inv_New by simp

theorem nft_history_witness:
  "\<exists>m n'. nft_tx.run (kernel_env mem_conn id) [OpAddNAT ''wg0'' ''10.0.0.0/24'', OpEnableFwd ''wg0''] (NewManager, (None, [False]))
     = ([OpEnableFwd ''wg0''], (m, n'))
   \<and> rule_map m = [''forward:wg0'' \<mapsto> mk_rule RuleInterPeerForward ''wg0'' [] [] [] 0]"
proof -
  let ?r = "nft_tx.run (kernel_env mem_conn id) [OpAddNAT ''wg0'' ''10.0.0.0/24'', OpEnableFwd ''wg0''] (NewManager, (None, [False]))"
  obtain m n' where r: "?r = ([OpEnableFwd ''wg0''], (m, n'))"
    by (simp add: nft_step_def wgp_simps insert_rule_def NewManager_def nft_apply_def kernel_env_def Apply_def
        mem_conn_def table_cmds_def input_cmds_def nat_cmds_def forward_cmds_def kind_rules_def buildForwardExprs_def)
  then show ?thesis using nft_history[OF r] by (simp add: put_new_def)
qed



end
