(* ===== verification/Reconcile.thy ===== *)
theory Reconcile
  imports WgManager NftManager
begin

text \<open>
  \<open>internal/wg/reconcile.go\<close>: bringing the kernel in line with the database.  The
  \<open>NetworkStore\<close> the code is given is two arguments, the list of networks and the lister
  of a network's peers, each of which may be an error.  Errors inside the loops are only
  logged by the code, so the functions return the kernel state alone.
\<close>

section \<open>The code\<close>

definition removePeerLocked :: "'k wg_kernel \<Rightarrow> string \<Rightarrow> string \<Rightarrow> 'k \<Rightarrow> wg_error option \<times> 'k" where
  "removePeerLocked K iface publicKey k = configure_peer K iface (Some (remove_cfg publicKey)) k"

definition update_cfg :: "PeerConfig \<Rightarrow> WGPeerConfig option" where
  "update_cfg peer = (case parseAllowedIPs (pr_AllowedIPs peer) of
      None \<Rightarrow> None
    | Some allowedIPs \<Rightarrow> Some (no_peer\<lparr>pc_PublicKey := pr_PublicKey peer, pc_UpdateOnly := True,
        pc_ReplaceAllowedIPs := True, pc_AllowedIPs := allowedIPs\<rparr>))"

definition updatePeerLocked :: "'k wg_kernel \<Rightarrow> string \<Rightarrow> PeerConfig \<Rightarrow> 'k \<Rightarrow> wg_error option \<times> 'k" where
  "updatePeerLocked K iface peer k = configure_peer K iface (update_cfg peer) k"

definition allowedIPsMatch :: "string \<Rightarrow> IPNet list \<Rightarrow> bool" where
  "allowedIPsMatch dbAllowedIPs kernelAllowedIPs = (case parseAllowedIPs dbAllowedIPs of
      None \<Rightarrow> False
    | Some dbNets \<Rightarrow> length dbNets = length kernelAllowedIPs \<and>
        (\<forall>d\<in>set dbNets. IPNet_String d \<in> IPNet_String ` set kernelAllowedIPs))"

text \<open>The map of the kernel's peers by public key; a later entry overwrites an earlier one.\<close>

definition kernel_peer_map :: "DeviceInfo option \<Rightarrow> string \<Rightarrow> WGPeerInfo option" where
  "kernel_peer_map dev = (case dev of
      None \<Rightarrow> (\<lambda>_. None)
    | Some d \<Rightarrow> map_of (rev (map (\<lambda>p. (pi_PublicKey p, p)) (di_Peers d))))"

definition sync_peer :: "'k wg_kernel \<Rightarrow> string \<Rightarrow> (string \<Rightarrow> WGPeerInfo option) \<Rightarrow> PeerConfig \<Rightarrow> 'k \<Rightarrow> 'k" where
  "sync_peer K iface kernelPeers dbPeer k =
     (if \<not> pr_Enabled dbPeer then
        (case kernelPeers (pr_PublicKey dbPeer) of
           Some _ \<Rightarrow> snd (removePeerLocked K iface (pr_PublicKey dbPeer) k)
         | None \<Rightarrow> k)
      else (case kernelPeers (pr_PublicKey dbPeer) of
           None \<Rightarrow> snd (AddPeer K iface dbPeer k)
         | Some kernelPeer \<Rightarrow>
             if \<not> allowedIPsMatch (pr_AllowedIPs dbPeer) (pi_AllowedIPs kernelPeer)
             then snd (updatePeerLocked K iface dbPeer k) else k))"

definition sync_orphan :: "'k wg_kernel \<Rightarrow> string \<Rightarrow> PeerConfig list \<Rightarrow> WGPeerInfo \<Rightarrow> 'k \<Rightarrow> 'k" where
  "sync_orphan K iface dbPeers kp k =
     (if pi_PublicKey kp \<notin> pr_PublicKey ` set dbPeers
      then snd (removePeerLocked K iface (pi_PublicKey kp) k) else k)"

definition syncPeers :: "'k wg_kernel \<Rightarrow> string \<Rightarrow> DeviceInfo option \<Rightarrow> PeerConfig list \<Rightarrow> 'k \<Rightarrow> 'k" where
  "syncPeers K iface dev dbPeers k =
     (let k1 = fold (sync_peer K iface (kernel_peer_map dev)) dbPeers k
      in case dev of None \<Rightarrow> k1 | Some d \<Rightarrow> fold (sync_orphan K iface dbPeers) (di_Peers d) k1)"

definition reconcile_network :: "'k wg_kernel \<Rightarrow> (string \<Rightarrow> DeviceInfo option) \<Rightarrow> (int \<Rightarrow> 'e + PeerConfig list)
    \<Rightarrow> NetworkConfig \<Rightarrow> 'k \<Rightarrow> 'k" where
  "reconcile_network K deviceMap listPeers network k =
     (let iface = nc_Interface network; dev = deviceMap iface in
      if \<not> nc_Enabled network then
        (case dev of None \<Rightarrow> k | Some _ \<Rightarrow> snd (deleteInterface K iface k))
      else
        (case (if dev = None then createInterface K network k else (None, k)) of
           (Some _, k1) \<Rightarrow> k1
         | (None, k1) \<Rightarrow> (case listPeers (nc_ID network) of
               Inl _ \<Rightarrow> k1
             | Inr dbPeers \<Rightarrow> syncPeers K iface dev dbPeers k1)))"

datatype reconcile_error = ReconcileListNetworks | ReconcileListDevices

definition Reconcile :: "'k wg_kernel \<Rightarrow> 'e + NetworkConfig list \<Rightarrow> (int \<Rightarrow> 'e + PeerConfig list) \<Rightarrow> 'k
    \<Rightarrow> reconcile_error option \<times> 'k" where
  "Reconcile K listNetworks listPeers k = (case listNetworks of
      Inl _ \<Rightarrow> (Some ReconcileListNetworks, k)
    | Inr networks \<Rightarrow> (case k_Devices K k of
          (Inl _, k1) \<Rightarrow> (Some ReconcileListDevices, k1)
        | (Inr devices, k1) \<Rightarrow>
            let deviceMap = map_of (rev (map (\<lambda>d. (di_Name d, d)) devices))
            in (None, fold (reconcile_network K deviceMap listPeers) networks k1)))"

record BridgeConfig =
  bc_ID :: int
  bc_InterfaceA :: string
  bc_InterfaceB :: string
  bc_Direction :: string
  bc_Enabled :: bool

definition reconcile_bridge :: "'n nft_env \<Rightarrow> BridgeConfig \<Rightarrow> Manager \<times> 'n \<Rightarrow> Manager \<times> 'n" where
  "reconcile_bridge E b s = (if \<not> bc_Enabled b then s
     else snd (AddNetworkBridge E (bc_InterfaceA b) (bc_InterfaceB b) (bc_Direction b) (fst s) (snd s)))"

definition ReconcileBridges :: "'n nft_env \<Rightarrow> 'e + BridgeConfig list \<Rightarrow> Manager \<Rightarrow> 'n \<Rightarrow> 'e option \<times> Manager \<times> 'n" where
  "ReconcileBridges E listBridges m n = (case listBridges of
      Inl e \<Rightarrow> (Some e, m, n)
    | Inr bs \<Rightarrow> (None, fold (reconcile_bridge E) bs (m, n)))"

section \<open>Comparing allowed networks\<close>

lemma mask_byte_ones:
  assumes "n < 8"
  shows "byte_ones 8 (NOT (drop_bit n 255)) = Some n" "NOT (drop_bit n (255 :: byte)) \<noteq> 255"
proof -
  have n: "n \<in> set [0, 1, 2, 3, 4, 5, 6, 7]" using assms by auto
  have "\<forall>n\<in>set [0, 1, 2, 3, 4, 5, 6, 7]. byte_ones 8 (NOT (drop_bit n 255)) = Some n \<and> NOT (drop_bit n (255 :: byte)) \<noteq> 255"
    by code_simp
  with n show "byte_ones 8 (NOT (drop_bit n 255)) = Some n" "NOT (drop_bit n (255 :: byte)) \<noteq> 255" by blast+
qed

lemma mask_bytes_zero: "list_all (\<lambda>c. c = 0) (mask_bytes l 0)"
  by (induction l) simp_all

lemma simpleMaskLength_mask_bytes: "n \<le> 8 * l \<Longrightarrow> simpleMaskLength (mask_bytes l n) = Some n"
  by (induction l n rule: mask_bytes.induct) (auto simp: mask_byte_ones mask_bytes_zero)

lemma mask_length_v4: "n \<le> 32 \<Longrightarrow> simpleMaskLength (mask_bytes 4 n) = Some n"
  by (rule simpleMaskLength_mask_bytes) simp

lemma IPNet_String_v4:
  assumes "v4_net n x"
  shows "IPNet_String x = v4_string (net_ip x) @ ''/'' @ itoa n"
  using assms by (auto simp: v4_net_def IPNet_String_def networkNumberAndMask_def Let_def mask_length_v4 IP_String_v4)

lemma IPNet_String_inject:
  assumes "v4_net n x" "v4_net m y" "IPNet_String x = IPNet_String y"
  shows "x = y"
proof -
  have nos: "CHR ''/'' \<notin> set (v4_string (net_ip z))" if "v4_net l z" for l z
    using v4_string_chars[of "net_ip z" "CHR ''/''"] that by (auto simp: v4_net_def is_digit_def ord_def)
  have "Cut (CHR ''/'') (IPNet_String x) = Some (v4_string (net_ip x), itoa n)"
    unfolding IPNet_String_v4[OF assms(1)] using Cut_append[OF nos[OF assms(1)]] by simp
  moreover have "Cut (CHR ''/'') (IPNet_String y) = Some (v4_string (net_ip y), itoa m)"
    unfolding IPNet_String_v4[OF assms(2)] using Cut_append[OF nos[OF assms(2)]] by simp
  ultimately have "Some (v4_string (net_ip x), itoa n) = Some (v4_string (net_ip y), itoa m)"
    using arg_cong[OF assms(3), of "Cut (CHR ''/'')"] by (elim trans[OF sym]) (rule trans)
  then have "v4_string (net_ip x) = v4_string (net_ip y)" "n = m" using itoa_inject by blast+
  then have "net_ip x = net_ip y" "net_mask x = net_mask y"
    using assms(1,2) v4_string_inject by (auto simp: v4_net_def)
  then show ?thesis by (cases x; cases y) simp
qed

definition is_v4 :: "IPNet \<Rightarrow> bool" where
  "is_v4 x = (\<exists>n. v4_net n x)"

lemma allowedIPsMatch_sound:
  assumes "allowedIPsMatch s ks" "parseAllowedIPs s = Some ns" "distinct ns" "distinct ks"
    and "\<forall>x\<in>set ns. is_v4 x" "\<forall>x\<in>set ks. is_v4 x"
  shows "set ks = set ns"
proof -
  have sub: "\<forall>d\<in>set ns. IPNet_String d \<in> IPNet_String ` set ks" and len: "length ns = length ks"
    using assms(1,2) by (auto simp: allowedIPsMatch_def)
  have "set ns \<subseteq> set ks"
  proof
    fix d assume d: "d \<in> set ns"
    obtain e where e: "e \<in> set ks" "IPNet_String d = IPNet_String e" using sub d by blast
    obtain n m where "v4_net n d" "v4_net m e" using assms(5,6) d e(1) unfolding is_v4_def by blast
    from IPNet_String_inject[OF this e(2)] e(1) show "d \<in> set ks" by blast
  qed
  moreover have "card (set ns) = card (set ks)" using assms(3,4) len by (simp add: distinct_card)
  ultimately show ?thesis using card_subset_eq[of "set ks" "set ns"] by simp
qed

section \<open>Synchronising the peers of one interface\<close>

text \<open>What the database wants of an interface: the networks of each enabled peer.\<close>

definition peer_nets :: "PeerConfig \<Rightarrow> IPNet set" where
  "peer_nets p = (case parseAllowedIPs (pr_AllowedIPs p) of None \<Rightarrow> {} | Some ns \<Rightarrow> set ns)"

definition wanted :: "PeerConfig list \<Rightarrow> string \<Rightarrow> IPNet set option" where
  "wanted ps = map_of (map (\<lambda>p. (pr_PublicKey p, peer_nets p)) (filter pr_Enabled ps))"

lemma wanted_key:
  assumes "distinct (map pr_PublicKey ps)" "p \<in> set ps"
  shows "wanted ps (pr_PublicKey p) = (if pr_Enabled p then Some (peer_nets p) else None)"
  using assms by (induction ps) (auto simp: wanted_def map_of_eq_None_iff image_iff)

definition peers_wf :: "PeerConfig list \<Rightarrow> bool" where
  "peers_wf ps \<longleftrightarrow> distinct (map pr_PublicKey ps) \<and>
     (\<forall>p\<in>set ps. pr_Enabled p \<longrightarrow>
        (case parseAllowedIPs (pr_AllowedIPs p) of None \<Rightarrow> False | Some ns \<Rightarrow> distinct ns \<and> (\<forall>x\<in>set ns. is_v4 x))) \<and>
     (\<forall>p\<in>set ps. \<forall>q\<in>set ps. pr_Enabled p \<longrightarrow> pr_Enabled q \<longrightarrow> pr_PublicKey p \<noteq> pr_PublicKey q \<longrightarrow>
        peer_nets p \<inter> peer_nets q = {})"

definition allowed :: "(string \<Rightarrow> vpeer option) \<Rightarrow> string \<Rightarrow> IPNet set option" where
  "allowed P q = map_option v_allowed (P q)"

text \<open>The effect of \<open>sync_peer\<close> on the peers of the view.\<close>

definition peer_step :: "(string \<Rightarrow> WGPeerInfo option) \<Rightarrow> PeerConfig \<Rightarrow> (string \<Rightarrow> vpeer option) \<Rightarrow> string \<Rightarrow> vpeer option" where
  "peer_step kp p P =
     (if \<not> pr_Enabled p then (if kp (pr_PublicKey p) = None then P else P(pr_PublicKey p := None))
      else (case kp (pr_PublicKey p) of
           None \<Rightarrow> apply_peer (the (buildPeerConfig p False)) P
         | Some i \<Rightarrow> if \<not> allowedIPsMatch (pr_AllowedIPs p) (pi_AllowedIPs i) then apply_peer (the (update_cfg p)) P else P))"

lemma allowed_None: "allowed P q = None \<longleftrightarrow> P q = None"
  by (simp add: allowed_def)

lemma allowed_add:
  assumes "parseAllowedIPs (pr_AllowedIPs p) = Some ns"
  shows "allowed (apply_peer (the (buildPeerConfig p False)) P) q
    = (if q = pr_PublicKey p then Some (peer_nets p) else map_option (\<lambda>a. a - peer_nets p) (allowed P q))"
  using assms by (auto simp: buildPeerConfig_def apply_peer_def Let_def allowed_def set_vpeer_def peer_nets_def option.map_comp comp_def)

lemma allowed_update:
  assumes "parseAllowedIPs (pr_AllowedIPs p) = Some ns" "P (pr_PublicKey p) \<noteq> None"
  shows "allowed (apply_peer (the (update_cfg p)) P) q
    = (if q = pr_PublicKey p then Some (peer_nets p) else map_option (\<lambda>a. a - peer_nets p) (allowed P q))"
  using assms by (auto simp: update_cfg_def no_peer_def apply_peer_def Let_def allowed_def set_vpeer_def peer_nets_def option.map_comp comp_def)

text \<open>What one step needs to know of the snapshot the code took of the kernel.\<close>

definition snapshot_fits :: "(string \<Rightarrow> WGPeerInfo option) \<Rightarrow> PeerConfig \<Rightarrow> (string \<Rightarrow> vpeer option) \<Rightarrow> bool" where
  "snapshot_fits kp p P \<longleftrightarrow> (kp (pr_PublicKey p) = None) = (P (pr_PublicKey p) = None) \<and>
     (\<forall>i. pr_Enabled p \<longrightarrow> kp (pr_PublicKey p) = Some i \<longrightarrow> allowedIPsMatch (pr_AllowedIPs p) (pi_AllowedIPs i) \<longrightarrow>
        allowed P (pr_PublicKey p) = Some (peer_nets p))"

lemma peer_step_own:
  assumes "snapshot_fits kp p P" "pr_Enabled p \<Longrightarrow> parseAllowedIPs (pr_AllowedIPs p) \<noteq> None"
  shows "allowed (peer_step kp p P) (pr_PublicKey p) = (if pr_Enabled p then Some (peer_nets p) else None)"
proof (cases "pr_Enabled p")
  case True
  then obtain ns where ns: "parseAllowedIPs (pr_AllowedIPs p) = Some ns" using assms(2) by auto
  show ?thesis
    using True assms(1) allowed_add[OF ns] allowed_update[OF ns]
    by (auto simp: peer_step_def snapshot_fits_def split: option.splits)
next
  case False
  then show ?thesis using assms(1) by (auto simp: peer_step_def snapshot_fits_def allowed_def)
qed

lemma peer_step_other:
  assumes "snapshot_fits kp p P" "pr_Enabled p \<Longrightarrow> parseAllowedIPs (pr_AllowedIPs p) \<noteq> None" "q \<noteq> pr_PublicKey p"
  shows "(peer_step kp p P q = None) = (P q = None)"
    "\<lbrakk>allowed P q = Some a; pr_Enabled p \<Longrightarrow> a \<inter> peer_nets p = {}\<rbrakk> \<Longrightarrow> allowed (peer_step kp p P) q = Some a"
proof -
  have cs: "allowed (peer_step kp p P) q = allowed P q
      \<or> pr_Enabled p \<and> allowed (peer_step kp p P) q = map_option (\<lambda>a. a - peer_nets p) (allowed P q)"
  proof (cases "pr_Enabled p")
    case True
    then obtain ns where ns: "parseAllowedIPs (pr_AllowedIPs p) = Some ns" using assms(2) by auto
    show ?thesis
      using True assms(1,3) allowed_add[OF ns, of P q] allowed_update[OF ns, of P q]
      by (auto simp: peer_step_def snapshot_fits_def split: option.splits)
  next
    case False
    then show ?thesis using assms(3) by (auto simp: peer_step_def allowed_def)
  qed
  then show "(peer_step kp p P q = None) = (P q = None)" by (metis allowed_None option.map_disc_iff)
  show "allowed (peer_step kp p P) q = Some a" if "allowed P q = Some a" "pr_Enabled p \<Longrightarrow> a \<inter> peer_nets p = {}"
    using cs that by (auto simp: Diff_triv)
qed

lemma peers_wf_Cons:
  assumes "peers_wf (p # ps)"
  shows "peers_wf ps" "pr_Enabled p \<Longrightarrow> parseAllowedIPs (pr_AllowedIPs p) \<noteq> None" "pr_PublicKey p \<notin> pr_PublicKey ` set ps"
    "\<lbrakk>q \<in> set ps; pr_Enabled p; pr_Enabled q\<rbrakk> \<Longrightarrow> peer_nets p \<inter> peer_nets q = {}"
proof -
  show n: "pr_PublicKey p \<notin> pr_PublicKey ` set ps" using assms by (simp add: peers_wf_def)
  show "peers_wf ps" "pr_Enabled p \<Longrightarrow> parseAllowedIPs (pr_AllowedIPs p) \<noteq> None"
    using assms by (auto simp: peers_wf_def split: option.splits)
  show "peer_nets p \<inter> peer_nets q = {}" if "q \<in> set ps" "pr_Enabled p" "pr_Enabled q"
  proof -
    have "pr_PublicKey p \<noteq> pr_PublicKey q" using n that(1) by (metis imageI)
    then show ?thesis using assms that unfolding peers_wf_def by (meson list.set_intros)
  qed
qed

lemma fold_peer_step:
  assumes "peers_wf ps" "\<forall>p\<in>set ps. snapshot_fits kp p P"
  shows "\<forall>p\<in>set ps. allowed (fold (peer_step kp) ps P) (pr_PublicKey p) = (if pr_Enabled p then Some (peer_nets p) else None)"
    "q \<notin> pr_PublicKey ` set ps \<Longrightarrow> (fold (peer_step kp) ps P q = None) = (P q = None)"
    "\<lbrakk>q \<notin> pr_PublicKey ` set ps; allowed P q = Some a; \<forall>p\<in>set ps. pr_Enabled p \<longrightarrow> a \<inter> peer_nets p = {}\<rbrakk>
      \<Longrightarrow> allowed (fold (peer_step kp) ps P) q = Some a"
  using assms
proof (induction ps arbitrary: P q a)
  case Nil
  { case 1 then show ?case by simp }
  { case 2 then show ?case by simp }
  { case 3 then show ?case by simp }
next
  case (Cons p ps)
  have wf: "peers_wf (p # ps)" and fits: "\<forall>p\<in>set (p # ps). snapshot_fits kp p P"
    if "peers_wf (p # ps)" "\<forall>p\<in>set (p # ps). snapshot_fits kp p P" using that by auto
  have next_fits: "\<forall>q\<in>set ps. snapshot_fits kp q (peer_step kp p P)"
    if w: "peers_wf (p # ps)" and f: "\<forall>p\<in>set (p # ps). snapshot_fits kp p P" for P
  proof
    fix q assume q: "q \<in> set ps"
    then have ne: "pr_PublicKey q \<noteq> pr_PublicKey p" using peers_wf_Cons(3)[OF w] by (metis imageI)
    have fp: "snapshot_fits kp p P" and fq: "snapshot_fits kp q P" using f q by auto
    note o = peer_step_other[OF fp peers_wf_Cons(2)[OF w] ne]
    show "snapshot_fits kp q (peer_step kp p P)"
      using fq o(1) o(2)[of "peer_nets q"] peers_wf_Cons(4)[OF w q]
      unfolding snapshot_fits_def by (metis Int_commute)
  qed
  { case 1
    note w = 1(1) and f = 1(2)
    have own: "allowed (peer_step kp p P) (pr_PublicKey p) = (if pr_Enabled p then Some (peer_nets p) else None)"
      using peer_step_own[of kp p P] peers_wf_Cons(2)[OF w] f by auto
    have "allowed (fold (peer_step kp) ps (peer_step kp p P)) (pr_PublicKey p) = (if pr_Enabled p then Some (peer_nets p) else None)"
    proof (cases "pr_Enabled p")
      case True
      then show ?thesis
        using Cons.IH(3)[OF peers_wf_Cons(3)[OF w] _ _ peers_wf_Cons(1)[OF w] next_fits[OF w f], of "peer_nets p"]
          own peers_wf_Cons(4)[OF w] by auto
    next
      case False
      then show ?thesis
        using Cons.IH(2)[OF peers_wf_Cons(3)[OF w] peers_wf_Cons(1)[OF w] next_fits[OF w f]] own by (simp add: allowed_def)
    qed
    then show ?case using Cons.IH(1)[OF peers_wf_Cons(1)[OF w] next_fits[OF w f]] by simp }
  { case 2
    note w = 2(2) and f = 2(3)
    have fp: "snapshot_fits kp p P" and ne: "q \<noteq> pr_PublicKey p" "q \<notin> pr_PublicKey ` set ps" using f 2(1) by auto
    show ?case
      using Cons.IH(2)[OF ne(2) peers_wf_Cons(1)[OF w] next_fits[OF w f]]
        peer_step_other(1)[OF fp peers_wf_Cons(2)[OF w] ne(1)] by simp }
  { case 3
    note w = 3(4) and f = 3(5)
    have fp: "snapshot_fits kp p P" and ne: "q \<noteq> pr_PublicKey p" "q \<notin> pr_PublicKey ` set ps" using f 3(1) by auto
    have "allowed (peer_step kp p P) q = Some a"
      using peer_step_other(2)[OF fp peers_wf_Cons(2)[OF w] ne(1) 3(2)] 3(3) by auto
    then show ?case using Cons.IH(3)[OF ne(2) _ _ peers_wf_Cons(1)[OF w] next_fits[OF w f]] 3(3) by simp }
qed

text \<open>The kernel does what it is asked for wherever the request makes sense.\<close>

definition kernel_reliable :: "'k wg_kernel \<Rightarrow> ('k \<Rightarrow> wg_view) \<Rightarrow> bool" where
  "kernel_reliable K view \<longleftrightarrow>
     (\<forall>k. \<exists>ds. fst (k_Devices K k) = Inr ds) \<and>
     (\<forall>k n. view k n = None \<longrightarrow> fst (k_CreateWireGuardLink K n k) = None) \<and>
     (\<forall>k n d. view k n = Some d \<longrightarrow> (\<exists>di. fst (k_Device K n k) = Inr di) \<and>
        fst (k_DeleteLink K n k) = None \<and> fst (k_SetLinkUp K n k) = None \<and> fst (k_SetLinkDown K n k) = None \<and>
        (\<forall>a. a \<notin> v_addrs d \<longrightarrow> fst (k_AddAddress K n a k) = None) \<and> (\<forall>c. fst (k_ConfigureDevice K n c k) = None))"

lemma reliable_configure_peer:
  assumes "kernel_ok K view" "kernel_reliable K view" "view k i = Some d"
  shows "view (snd (configure_peer K i (Some c) k)) = (view k)(i := Some (d\<lparr>v_peers := apply_peer c (v_peers d)\<rparr>))"
proof -
  obtain r k' where r: "configure_peer K i (Some c) k = (r, k')" by (cases "configure_peer K i (Some c) k")
  have "fst (k_ConfigureDevice K i (no_config\<lparr>dc_Peers := [c]\<rparr>) k) = None" using assms(2,3) by (auto simp: kernel_reliable_def)
  then have "r = None" using r by (cases "k_ConfigureDevice K i (no_config\<lparr>dc_Peers := [c]\<rparr>) k") (simp add: configure_peer_def)
  then show ?thesis using configure_peer_view(2)[OF assms(1) r] assms(3) r by auto
qed

lemma vdev_peers_same: "v_peers d = P \<Longrightarrow> d\<lparr>v_peers := P\<rparr> = d"
  by simp

lemma sync_peer_view:
  assumes "kernel_ok K view" "kernel_reliable K view" "view k i = Some d"
    and "pr_Enabled p \<Longrightarrow> parseAllowedIPs (pr_AllowedIPs p) \<noteq> None"
  shows "view (sync_peer K i kp p k) = (view k)(i := Some (d\<lparr>v_peers := peer_step kp p (v_peers d)\<rparr>))"
proof -
  note c = reliable_configure_peer[OF assms(1-3)]
  have rm: "apply_peer (remove_cfg key) P = P(key := None)" for key P
    by (simp add: apply_peer_def remove_cfg_def Let_def)
  show ?thesis
  proof (cases "pr_Enabled p")
    case True
    then obtain a b where "buildPeerConfig p False = Some a" "update_cfg p = Some b"
      using assms(4) by (auto simp: buildPeerConfig_def update_cfg_def)
    then show ?thesis
      using True assms(3) c by (auto simp: sync_peer_def peer_step_def AddPeer_def updatePeerLocked_def split: option.splits)
  next
    case False
    then show ?thesis
      using assms(3) c by (auto simp: sync_peer_def peer_step_def removePeerLocked_def rm split: option.splits)
  qed
qed

lemma fold_sync_peer_view:
  assumes "kernel_ok K view" "kernel_reliable K view" "view k i = Some d" "peers_wf ps"
  shows "view (fold (sync_peer K i kp) ps k) = (view k)(i := Some (d\<lparr>v_peers := fold (peer_step kp) ps (v_peers d)\<rparr>))"
  using assms(3,4)
proof (induction ps arbitrary: k d)
  case (Cons p ps)
  let ?d = "d\<lparr>v_peers := peer_step kp p (v_peers d)\<rparr>"
  have v: "view (sync_peer K i kp p k) = (view k)(i := Some ?d)"
    by (rule sync_peer_view[OF assms(1,2) Cons.prems(1) peers_wf_Cons(2)[OF Cons.prems(2)]])
  then show ?case using Cons.IH[of "sync_peer K i kp p k" ?d] peers_wf_Cons(1)[OF Cons.prems(2)] by (simp add: fun_eq_iff)
qed auto

lemma fold_sync_orphan_view:
  assumes "kernel_ok K view" "kernel_reliable K view" "view k i = Some d"
  shows "view (fold (sync_orphan K i ps) kps k) = (view k)(i := Some (d\<lparr>v_peers :=
    (\<lambda>q. if q \<in> pi_PublicKey ` set kps \<and> q \<notin> pr_PublicKey ` set ps then None else v_peers d q)\<rparr>))"
  using assms(3)
proof (induction kps arbitrary: k d)
  case (Cons x kps)
  have rm: "apply_peer (remove_cfg key) P = P(key := None)" for key P
    by (simp add: apply_peer_def remove_cfg_def Let_def)
  let ?d = "if pi_PublicKey x \<notin> pr_PublicKey ` set ps then d\<lparr>v_peers := (v_peers d)(pi_PublicKey x := None)\<rparr> else d"
  have v: "view (sync_orphan K i ps x k) = (view k)(i := Some ?d)"
    using Cons.prems reliable_configure_peer[OF assms(1,2) Cons.prems]
    by (auto simp: sync_orphan_def removePeerLocked_def rm)
  have "(\<lambda>q. if q \<in> pi_PublicKey ` set kps \<and> q \<notin> pr_PublicKey ` set ps then None else v_peers ?d q)
      = (\<lambda>q. if q \<in> pi_PublicKey ` set (x # kps) \<and> q \<notin> pr_PublicKey ` set ps then None else v_peers d q)"
    by (auto simp: fun_eq_iff)
  then show ?case using Cons.IH[of "sync_orphan K i ps x k" ?d] v by (auto simp: fun_upd_idem_iff)
qed auto

lemma map_of_rev_distinct:
  assumes "distinct (map fst xs)"
  shows "map_of (rev xs) = map_of xs"
proof (rule map_of_inject_set[THEN iffD2])
  show "distinct (map fst (rev xs))" using assms by (simp flip: rev_map)
qed (use assms in simp_all)

lemma kernel_peer_map_reports:
  assumes "reports di n d"
  shows "(kernel_peer_map (Some di) key = None) = (v_peers d key = None)"
    "kernel_peer_map (Some di) key = Some p \<Longrightarrow> \<exists>vp. v_peers d key = Some vp \<and> set (pi_AllowedIPs p) = v_allowed vp \<and> distinct (pi_AllowedIPs p)"
proof -
  have "map_of (rev (map (\<lambda>p. (pi_PublicKey p, p)) (di_Peers di))) = map_of (map (\<lambda>p. (pi_PublicKey p, p)) (di_Peers di))"
    using assms by (intro map_of_rev_distinct) (simp add: reports_def comp_def)
  then have m: "kernel_peer_map (Some di) = map_of (map (\<lambda>p. (pi_PublicKey p, p)) (di_Peers di))" by (simp add: kernel_peer_map_def)
  have "kernel_peer_map (Some di) key = None \<longleftrightarrow> \<not> (\<exists>p\<in>set (di_Peers di). pi_PublicKey p = key)"
    unfolding m map_of_eq_None_iff by force
  then show k: "(kernel_peer_map (Some di) key = None) = (v_peers d key = None)" using assms unfolding reports_def by blast
  assume p: "kernel_peer_map (Some di) key = Some p"
  then have "p \<in> set (di_Peers di)" "pi_PublicKey p = key" unfolding m by (auto dest: map_of_SomeD)
  then show "\<exists>vp. v_peers d key = Some vp \<and> set (pi_AllowedIPs p) = v_allowed vp \<and> distinct (pi_AllowedIPs p)"
    using assms k p by (auto simp: reports_def)
qed

lemma syncPeers_view:
  assumes "kernel_ok K view" "kernel_reliable K view" "view k i = Some d" "peers_wf ps"
    and "case dev of None \<Rightarrow> v_peers d = (\<lambda>_. None) | Some di \<Rightarrow> reports di i d"
    and "\<forall>q vp. v_peers d q = Some vp \<longrightarrow> (\<forall>x\<in>v_allowed vp. is_v4 x)"
  shows "\<exists>d'. view (syncPeers K i dev ps k) = (view k)(i := Some d') \<and> (\<forall>q. allowed (v_peers d') q = wanted ps q)"
proof -
  let ?kp = "kernel_peer_map dev" let ?P = "fold (peer_step ?kp) ps (v_peers d)"
  have pres: "(?kp key = None) = (v_peers d key = None)" for key
    using assms(5) kernel_peer_map_reports(1)[of _ i d key] by (cases dev) (simp_all add: kernel_peer_map_def)
  have fits: "\<forall>p\<in>set ps. snapshot_fits ?kp p (v_peers d)"
  proof
    fix p assume p: "p \<in> set ps"
    have "allowed (v_peers d) (pr_PublicKey p) = Some (peer_nets p)"
      if e: "pr_Enabled p" "?kp (pr_PublicKey p) = Some ki" "allowedIPsMatch (pr_AllowedIPs p) (pi_AllowedIPs ki)" for ki
    proof -
      obtain di where di: "dev = Some di" using e(2) by (cases dev) (simp_all add: kernel_peer_map_def)
      obtain vp where vp: "v_peers d (pr_PublicKey p) = Some vp" "set (pi_AllowedIPs ki) = v_allowed vp" "distinct (pi_AllowedIPs ki)"
        using kernel_peer_map_reports(2)[of di i d "pr_PublicKey p" ki] assms(5) e(2) di by auto
      obtain ns where ns: "parseAllowedIPs (pr_AllowedIPs p) = Some ns" "distinct ns" "\<forall>x\<in>set ns. is_v4 x"
        using assms(4) p e(1) by (auto simp: peers_wf_def split: option.splits)
      have "set (pi_AllowedIPs ki) = set ns"
        by (rule allowedIPsMatch_sound[OF e(3) ns(1,2) vp(3) ns(3)]) (use assms(6) vp in blast)
      then show ?thesis using vp ns by (simp add: allowed_def peer_nets_def)
    qed
    then show "snapshot_fits ?kp p (v_peers d)" using pres by (simp add: snapshot_fits_def)
  qed
  note f = fold_peer_step[OF assms(4) fits]
  let ?d1 = "d\<lparr>v_peers := ?P\<rparr>"
  have v1: "view (fold (sync_peer K i ?kp) ps k) = (view k)(i := Some ?d1)"
    by (rule fold_sync_peer_view[OF assms(1-4)])
  define Q where "Q = (\<lambda>q. if q \<notin> pr_PublicKey ` set ps then None else ?P q)"
  have "view (syncPeers K i dev ps k) = (view k)(i := Some (d\<lparr>v_peers := Q\<rparr>))"
  proof (cases dev)
    case None
    then have "Q = ?P" using f(2) assms(5) by (auto simp: Q_def fun_eq_iff)
    then show ?thesis using v1 None by (simp add: syncPeers_def)
  next
    case (Some di)
    have pt: "(if q \<in> pi_PublicKey ` set (di_Peers di) \<and> q \<notin> pr_PublicKey ` set ps then None else ?P q) = Q q" for q
    proof -
      have "q \<in> pi_PublicKey ` set (di_Peers di) \<longleftrightarrow> (\<exists>p\<in>set (di_Peers di). pi_PublicKey p = q)" by auto
      also have "\<dots> \<longleftrightarrow> v_peers d q \<noteq> None" using assms(5) Some unfolding reports_def by simp
      finally show ?thesis using f(2)[of q] by (auto simp: Q_def)
    qed
    have "(\<lambda>q. if q \<in> pi_PublicKey ` set (di_Peers di) \<and> q \<notin> pr_PublicKey ` set ps then None else v_peers ?d1 q) = Q"
    proof
      fix q
      show "(if q \<in> pi_PublicKey ` set (di_Peers di) \<and> q \<notin> pr_PublicKey ` set ps then None else v_peers ?d1 q) = Q q"
        using pt[of q] by (auto split: if_splits)
    qed
    then show ?thesis
      using fold_sync_orphan_view[OF assms(1,2), of "fold (sync_peer K i ?kp) ps k" i ?d1 ps "di_Peers di"] v1 Some
      by (simp add: syncPeers_def)
  qed
  moreover have "allowed Q q = wanted ps q" for q
  proof (cases "q \<in> pr_PublicKey ` set ps")
    case True
    then obtain p where p: "p \<in> set ps" "q = pr_PublicKey p" by blast
    have "wanted ps q = (if pr_Enabled p then Some (peer_nets p) else None)"
      using p assms(4) wanted_key by (simp add: peers_wf_def)
    then show ?thesis using f(1) p True by (simp add: Q_def allowed_def)
  next
    case False
    then have "wanted ps q = None" unfolding wanted_def map_of_eq_None_iff by force
    then show ?thesis using False by (simp add: Q_def allowed_def)
  qed
  ultimately show ?thesis by (intro exI[of _ "d\<lparr>v_peers := Q\<rparr>"]) simp
qed

section \<open>Synchronising all interfaces\<close>

lemma reliable_create:
  assumes "kernel_ok K view" "kernel_reliable K view" "view k (nc_Interface n) = None" "ParseCIDR (nc_Subnet n) = Some (ip, sn)"
  shows "\<exists>k'. createInterface K n k = (None, k') \<and> view k' = (view k)(nc_Interface n := Some (created_dev n sn))"
proof -
  let ?i = "nc_Interface n"
  let ?cfg = "no_config\<lparr>dc_PrivateKey := nc_PrivateKey n, dc_ListenPort := nc_ListenPort n\<rparr>"
  have rel: "view k n = None \<Longrightarrow> fst (k_CreateWireGuardLink K n k) = None"
    "view k n = Some d \<Longrightarrow> a \<notin> v_addrs d \<Longrightarrow> fst (k_AddAddress K n a k) = None"
    "view k n = Some d \<Longrightarrow> fst (k_ConfigureDevice K n c k) = None"
    "view k n = Some d \<Longrightarrow> fst (k_SetLinkUp K n k) = None" for k n d a c
    using assms(2) by (auto simp: kernel_reliable_def)
  obtain k1 where c1: "k_CreateWireGuardLink K ?i k = (None, k1)" using rel(1)[OF assms(3)] by (metis prod.collapse)
  have v1: "view k1 ?i = Some new_vdev" using kernel_create(1)[OF assms(1) c1] by simp
  obtain k2 where c2: "k_AddAddress K ?i (server_addr sn) k1 = (None, k2)"
    using rel(2)[OF v1, of "server_addr sn"] by (metis empty_iff new_vdev_def prod.collapse vdev.select_convs(2))
  then obtain d2 where v2: "view k2 ?i = Some d2" using link_opD(2)[OF kernel_link_ops(3)[OF assms(1)] c2] v1 by auto
  obtain k3 where c3: "k_ConfigureDevice K ?i ?cfg k2 = (None, k3)" using rel(3)[OF v2] by (metis prod.collapse)
  then obtain d3 where v3: "view k3 ?i = Some d3" using link_opD(2)[OF kernel_link_ops(4)[OF assms(1)] c3] v2 by auto
  obtain k4 where c4: "k_SetLinkUp K ?i k3 = (None, k4)" using rel(4)[OF v3] by (metis prod.collapse)
  have r: "createInterface K n k = (None, k4)"
    using c1 c2 c3 c4 assms(4) by (simp add: createInterface_def Let_def server_addr_def)
  then show ?thesis using createInterface_ok[OF assms(1) r] assms(4) by auto
qed

lemma reliable_delete:
  assumes "kernel_ok K view" "kernel_reliable K view" "view k i = Some d"
  shows "view (snd (deleteInterface K i k)) = (view k)(i := None)"
proof -
  have rel: "view k n = Some d \<Longrightarrow> \<exists>di. fst (k_Device K n k) = Inr di" "view k n = Some d \<Longrightarrow> fst (k_DeleteLink K n k) = None"
    "view k n = Some d \<Longrightarrow> fst (k_ConfigureDevice K n c k) = None"
    "view k n = Some d \<Longrightarrow> fst (k_SetLinkDown K n k) = None" for k n d c
    using assms(2) by (auto simp: kernel_reliable_def)
  obtain di k1 where c1: "k_Device K i k = (Inr di, k1)" using rel(1)[OF assms(3)] by (metis prod.collapse)
  have v1: "view k1 i = Some d" using kernel_Device(1)[OF assms(1) c1] assms(3) by simp
  let ?cfg = "no_config\<lparr>dc_Peers := map (\<lambda>p. remove_cfg (pi_PublicKey p)) (di_Peers di)\<rparr>"
  obtain k2 d2 where c2: "(if di_Peers di \<noteq> [] then k_ConfigureDevice K i ?cfg k1 else (None, k1)) = (None, k2)"
      and v2: "view k2 i = Some d2"
  proof (cases "di_Peers di = []")
    case True
    then show ?thesis using that v1 by simp
  next
    case False
    obtain kk where kk: "k_ConfigureDevice K i ?cfg k1 = (None, kk)" using rel(3)[OF v1] by (metis prod.collapse)
    then show ?thesis using that[of kk] False link_opD(2)[OF kernel_link_ops(4)[OF assms(1)] kk] v1 by auto
  qed
  obtain k3 where c3: "k_SetLinkDown K i k2 = (None, k3)" using rel(4)[OF v2] by (metis prod.collapse)
  then obtain d3 where v3: "view k3 i = Some d3" using link_opD(2)[OF kernel_link_ops(2)[OF assms(1)] c3] v2 by auto
  obtain k4 where c4: "k_DeleteLink K i k3 = (None, k4)" using rel(2)[OF v3] by (metis prod.collapse)
  have r: "deleteInterface K i k = (None, k4)" using c1 c2 c3 c4 by (simp add: deleteInterface_def)
  then show ?thesis using deleteInterface_steps(2)[OF assms(1) r] by simp
qed

text \<open>A network of the database the reconciliation can serve, and the state it should reach.\<close>

definition network_wf :: "(int \<Rightarrow> 'e + PeerConfig list) \<Rightarrow> NetworkConfig \<Rightarrow> bool" where
  "network_wf listPeers n \<longleftrightarrow> nc_Enabled n \<longrightarrow> ParseCIDR (nc_Subnet n) \<noteq> None \<and>
     (case listPeers (nc_ID n) of Inl _ \<Rightarrow> False | Inr ps \<Rightarrow> peers_wf ps)"

definition network_synced :: "(int \<Rightarrow> 'e + PeerConfig list) \<Rightarrow> NetworkConfig \<Rightarrow> vdev option \<Rightarrow> bool" where
  "network_synced listPeers n dev = (if \<not> nc_Enabled n then dev = None
     else (case (listPeers (nc_ID n), dev) of
        (Inr ps, Some d) \<Rightarrow> \<forall>q. map_option v_allowed (v_peers d q) = wanted ps q | _ \<Rightarrow> False))"

definition v4_view :: "wg_view \<Rightarrow> bool" where
  "v4_view v \<longleftrightarrow> (\<forall>i d q vp. v i = Some d \<longrightarrow> v_peers d q = Some vp \<longrightarrow> (\<forall>x\<in>v_allowed vp. is_v4 x))"

lemma reconcile_network_view:
  assumes "kernel_ok K view" "kernel_reliable K view" "network_wf listPeers n"
    and dev: "case deviceMap (nc_Interface n) of None \<Rightarrow> view k (nc_Interface n) = None
      | Some di \<Rightarrow> \<exists>d. view k (nc_Interface n) = Some d \<and> reports di (nc_Interface n) d"
    and v4: "\<forall>d q vp. view k (nc_Interface n) = Some d \<longrightarrow> v_peers d q = Some vp \<longrightarrow> (\<forall>x\<in>v_allowed vp. is_v4 x)"
  shows "\<exists>d'. view (reconcile_network K deviceMap listPeers n k) = (view k)(nc_Interface n := d') \<and> network_synced listPeers n d'"
proof (cases "nc_Enabled n")
  case False
  then show ?thesis
    using dev reliable_delete[OF assms(1,2), of k "nc_Interface n"]
    by (cases "deviceMap (nc_Interface n)") (auto simp: reconcile_network_def Let_def network_synced_def fun_upd_idem_iff)
next
  case True
  let ?i = "nc_Interface n"
  obtain ip sn ps where sn: "ParseCIDR (nc_Subnet n) = Some (ip, sn)" and ps: "listPeers (nc_ID n) = Inr ps" "peers_wf ps"
    using assms(3) True by (auto simp: network_wf_def split: sum.splits)
  obtain k1 d where c: "(if deviceMap ?i = None then createInterface K n k else (None, k)) = (None, k1)"
    and v: "view k1 = (view k)(?i := Some d)"
    and d: "case deviceMap ?i of None \<Rightarrow> v_peers d = (\<lambda>_. None) | Some di \<Rightarrow> reports di ?i d"
    and d4: "\<forall>q vp. v_peers d q = Some vp \<longrightarrow> (\<forall>x\<in>v_allowed vp. is_v4 x)"
  proof (cases "deviceMap ?i")
    case None
    then obtain kk where "createInterface K n k = (None, kk)" "view kk = (view k)(?i := Some (created_dev n sn))"
      using reliable_create[OF assms(1,2) _ sn, of k] dev by auto
    then show ?thesis by (intro that[of kk "created_dev n sn"]) (use None in \<open>simp_all add: created_dev_def\<close>)
  next
    case (Some di)
    then obtain d where d: "view k ?i = Some d" "reports di ?i d" using dev by auto
    show ?thesis by (rule that[of k d]) (use Some d v4 in \<open>auto simp: fun_upd_idem_iff\<close>)
  qed
  have "view k1 ?i = Some d" using v by simp
  from syncPeers_view[OF assms(1,2) this ps(2) d d4] obtain d'
    where "view (syncPeers K ?i (deviceMap ?i) ps k1) = (view k1)(?i := Some d')" "\<forall>q. allowed (v_peers d') q = wanted ps q" by blast
  then show ?thesis
    using True c v ps by (intro exI[of _ "Some d'"]) (simp add: reconcile_network_def Let_def network_synced_def allowed_def)
qed

lemma fold_reconcile_view:
  assumes "kernel_ok K view" "kernel_reliable K view" "distinct (map nc_Interface ns)" "\<forall>n\<in>set ns. network_wf listPeers n" "v4_view v0"
    and dev: "\<forall>i. case deviceMap i of None \<Rightarrow> v0 i = None | Some di \<Rightarrow> \<exists>d. v0 i = Some d \<and> reports di i d"
    and "\<forall>n\<in>set ns. view k (nc_Interface n) = v0 (nc_Interface n)"
  shows "(\<forall>n\<in>set ns. network_synced listPeers n (view (fold (reconcile_network K deviceMap listPeers) ns k) (nc_Interface n))) \<and>
    (\<forall>i. i \<notin> nc_Interface ` set ns \<longrightarrow> view (fold (reconcile_network K deviceMap listPeers) ns k) i = view k i)"
  using assms(3,4,7)
proof (induction ns arbitrary: k)
  case (Cons n ns)
  let ?k = "reconcile_network K deviceMap listPeers n k"
  have vn: "view k (nc_Interface n) = v0 (nc_Interface n)" using Cons.prems(3) by simp
  have v4: "\<forall>d q vp. view k (nc_Interface n) = Some d \<longrightarrow> v_peers d q = Some vp \<longrightarrow> (\<forall>x\<in>v_allowed vp. is_v4 x)"
    unfolding vn using assms(5) unfolding v4_view_def by blast
  have dn: "case deviceMap (nc_Interface n) of None \<Rightarrow> view k (nc_Interface n) = None
      | Some di \<Rightarrow> \<exists>d. view k (nc_Interface n) = Some d \<and> reports di (nc_Interface n) d"
    unfolding vn using dev by blast
  obtain d' where d': "view ?k = (view k)(nc_Interface n := d')" "network_synced listPeers n d'"
    using reconcile_network_view[where deviceMap = deviceMap and listPeers = listPeers and n = n, OF assms(1,2) _ dn v4] Cons.prems(2) by auto
  have ne: "nc_Interface n \<notin> nc_Interface ` set ns" "\<forall>m\<in>set ns. nc_Interface m \<noteq> nc_Interface n"
    using Cons.prems(1) by (auto simp: image_iff)
  then have "\<forall>m\<in>set ns. view ?k (nc_Interface m) = v0 (nc_Interface m)" using d'(1) Cons.prems(3) by auto
  note ih = Cons.IH[OF _ _ this]
  show ?case using ih Cons.prems(1,2) ne d' by auto
qed simp

lemma deviceMap_reports:
  assumes "kernel_ok K view" "k_Devices K k = (Inr ds, k')"
  shows "case map_of (rev (map (\<lambda>d. (di_Name d, d)) ds)) i of None \<Rightarrow> view k i = None
    | Some di \<Rightarrow> \<exists>d. view k i = Some d \<and> reports di i d"
proof -
  have k: "distinct (map di_Name ds)" "\<And>n. (\<exists>di\<in>set ds. di_Name di = n) \<longleftrightarrow> view k n \<noteq> None"
    "\<And>di d. di \<in> set ds \<Longrightarrow> view k (di_Name di) = Some d \<Longrightarrow> reports di (di_Name di) d"
    using kernel_Devices(2)[OF assms] by blast+
  have m: "map_of (rev (map (\<lambda>d. (di_Name d, d)) ds)) = map_of (map (\<lambda>d. (di_Name d, d)) ds)"
    using k(1) by (intro map_of_rev_distinct) (simp add: comp_def)
  show ?thesis
  proof (cases "map_of (map (\<lambda>d. (di_Name d, d)) ds) i")
    case None
    then have "\<not> (\<exists>di\<in>set ds. di_Name di = i)" unfolding map_of_eq_None_iff by force
    then show ?thesis using k(2)[of i] None m by auto
  next
    case (Some di)
    then have "di \<in> set ds" "di_Name di = i" by (auto dest: map_of_SomeD)
    then show ?thesis using k(2)[of i] k(3)[of di] Some m by auto
  qed
qed

section \<open>Properties\<close>


lemma sim_kernel_reliable: "kernel_reliable sim_kernel sim_view"
  by (auto simp: kernel_reliable_def sim_kernel_def sim_view_def sim_on_dev_def split: option.splits)

lemma is_v4_ip2: "is_v4 \<lparr>net_ip = [10, 0, 0, 2], net_mask = mask_bytes 4 32\<rparr>"
  unfolding is_v4_def v4_net_def by (intro exI[of _ 32]) simp

definition sample_peers :: "int \<Rightarrow> string + PeerConfig list" where
  "sample_peers i = Inr [sample_peer ''A'' ''10.0.0.2/32'']"


lemma reconcile_bridge_rules:
  assumes "manager_inv m" "reconcile_bridge E b (m, n) = (m', n')"
  shows "manager_inv m' \<and> (\<forall>key. rule_map m' key = rule_map m key \<or>
    bc_Enabled b \<and> key = bridgeKey (bc_InterfaceA b) (bc_InterfaceB b) \<and>
    rule_map m' key = Some (mk_rule RuleBridgeForward (bc_InterfaceA b) (bc_InterfaceB b) [] (bc_Direction b) 0))"
proof (cases "bc_Enabled b")
  case True
  obtain res where "AddNetworkBridge E (bc_InterfaceA b) (bc_InterfaceB b) (bc_Direction b) m n = (res, m', n')"
    using assms(2) True
    by (cases "AddNetworkBridge E (bc_InterfaceA b) (bc_InterfaceB b) (bc_Direction b) m n") (simp add: reconcile_bridge_def)
  from AddNetworkBridge_contract[OF assms(1) this] show ?thesis using True by (cases res) auto
next
  case False
  then show ?thesis using assms by (simp add: reconcile_bridge_def)
qed

text \<open>
  C29.  \<open>ReconcileBridges\<close> never fails on a list of bridges, and a rule of the manager
  changes only to the rule of an enabled bridge under that bridge's key: no rule is
  removed, a disabled bridge contributes nothing, and other rules stay.
\<close>

theorem ReconcileBridges_rules:
  assumes "manager_inv m" "ReconcileBridges E (Inr bs) m n = (r, m', n')"
  shows "r = None \<and> manager_inv m' \<and> (\<forall>key. rule_map m' key = rule_map m key \<or>
    (\<exists>b\<in>set bs. bc_Enabled b \<and> key = bridgeKey (bc_InterfaceA b) (bc_InterfaceB b) \<and>
       rule_map m' key = Some (mk_rule RuleBridgeForward (bc_InterfaceA b) (bc_InterfaceB b) [] (bc_Direction b) 0)))"
proof -
  have "manager_inv m' \<and> (\<forall>key. rule_map m' key = rule_map m key \<or>
    (\<exists>b\<in>set bs. bc_Enabled b \<and> key = bridgeKey (bc_InterfaceA b) (bc_InterfaceB b) \<and>
       rule_map m' key = Some (mk_rule RuleBridgeForward (bc_InterfaceA b) (bc_InterfaceB b) [] (bc_Direction b) 0)))"
    if "manager_inv m" "fold (reconcile_bridge E) bs (m, n) = (m', n')" for m n
    using that
  proof (induction bs arbitrary: m n)
    case (Cons b bs)
    obtain m1 n1 where s1: "reconcile_bridge E b (m, n) = (m1, n1)" by fastforce
    note h = reconcile_bridge_rules[OF Cons.prems(1) s1]
    have "fold (reconcile_bridge E) bs (m1, n1) = (m', n')" using Cons.prems(2) s1 by simp
    from Cons.IH[OF _ this] h show ?case by (metis list.set_intros)
  qed simp
  from this[OF assms(1), of n] show ?thesis using assms(2) by (simp add: ReconcileBridges_def)
qed

definition sample_bridge :: "bool \<Rightarrow> BridgeConfig" where
  "sample_bridge en = \<lparr>bc_ID = 1, bc_InterfaceA = ''wg0'', bc_InterfaceB = ''wg1'', bc_Direction = ''a_to_b'', bc_Enabled = en\<rparr>"

theorem ReconcileBridges_rules_witness:
  "\<exists>m' n'. ReconcileBridges (kernel_env mem_conn id) (Inr [sample_bridge False] :: string + _) NewManager (None, []) = (None, m', n') \<and>
     (\<forall>key. rule_map m' key = None)"
proof -
  obtain r m' n' where r: "ReconcileBridges (kernel_env mem_conn id) (Inr [sample_bridge False] :: string + _) NewManager (None, []) = (r, m', n')"
    by (metis prod.collapse)
  show ?thesis using ReconcileBridges_rules[OF manager_inv_New(1) r] r by (simp add: sample_bridge_def manager_inv_New(2))
qed

end
