(* ===== verification/Crypto.thy ===== *)
theory Crypto
  imports GoStrings
begin

text \<open>
  \<open>internal/crypto/encryption.go\<close> over a model of \<open>encoding/base64\<close>'s standard
  encoding.  AES-256-GCM and the random source are parameters: the record \<open>aead\<close> holds
  \<open>gcm.Seal\<close> without its destination prefix and \<open>gcm.Open\<close>, the nonce read from
  \<open>rand.Reader\<close> is an argument (\<open>None\<close> when the read fails).  What is relied upon is
  \<open>aead_ok\<close>: opening what was sealed under the same key and nonce gives the plaintext back, and
  sealing adds a 16-byte tag.
\<close>

section \<open>\<open>base64.StdEncoding\<close>\<close>

definition bytes_of :: "string \<Rightarrow> byte list" where
  "bytes_of s = map (\<lambda>c. of_nat (ord c)) s"

definition str_of :: "byte list \<Rightarrow> string" where
  "str_of bs = map (\<lambda>b. char_of (unat b)) bs"

lemma str_of_bytes_of [simp]: "str_of (bytes_of s) = s"
proof -
  have "char_of (unat (of_nat (ord c) :: byte)) = c" for c
  proof -
    have "ord c < 256" by (simp add: ord_def)
    then have "unat (of_nat (ord c) :: byte) = ord c" by (simp add: unsigned_of_nat take_bit_eq_mod)
    then show ?thesis by (simp add: ord_def)
  qed
  then show ?thesis by (simp add: str_of_def bytes_of_def comp_def)
qed

lemma length_bytes_of [simp]: "length (bytes_of s) = length s"
  by (simp add: bytes_of_def)

definition b64_char :: "nat \<Rightarrow> char" where
  "b64_char i = (if i < 26 then char_of (65 + i) else if i < 52 then char_of (71 + i)
                 else if i < 62 then char_of (i - 4) else if i = 62 then CHR ''+'' else CHR ''/'')"

definition b64_val :: "char \<Rightarrow> nat option" where
  "b64_val c = (if is_upper c then Some (ord c - 65) else if is_lower c then Some (ord c - 71)
                else if is_digit c then Some (ord c + 4) else if c = CHR ''+'' then Some 62
                else if c = CHR ''/'' then Some 63 else None)"

fun EncodeToString :: "byte list \<Rightarrow> string" where
  "EncodeToString [] = []"
| "EncodeToString [a] =
     (let n = unat a * 65536 in [b64_char (n div 262144), b64_char (n div 4096 mod 64), CHR ''='', CHR ''=''])"
| "EncodeToString [a, b] =
     (let n = unat a * 65536 + unat b * 256
      in [b64_char (n div 262144), b64_char (n div 4096 mod 64), b64_char (n div 64 mod 64), CHR ''=''])"
| "EncodeToString (a # b # c # bs) =
     (let n = unat a * 65536 + unat b * 256 + unat c
      in [b64_char (n div 262144), b64_char (n div 4096 mod 64), b64_char (n div 64 mod 64), b64_char (n mod 64)]
         @ EncodeToString bs)"

text \<open>
  \<open>DecodeString\<close> skips carriage returns and newlines, reads quanta of four characters,
  accepts padding in the last one only and does not look at its unused bits.
\<close>

fun decode_quanta :: "string \<Rightarrow> byte list option" where
  "decode_quanta [] = Some []"
| "decode_quanta (w # x # y # z # s) =
     (case (b64_val w, b64_val x) of
        (Some p, Some q) \<Rightarrow>
          (if y = CHR ''='' then
             (if z = CHR ''='' \<and> s = [] then Some [of_nat ((p * 262144 + q * 4096) div 65536)] else None)
           else (case b64_val y of
              None \<Rightarrow> None
            | Some r \<Rightarrow>
                (if z = CHR ''='' then
                   (let n = p * 262144 + q * 4096 + r * 64
                    in if s = [] then Some [of_nat (n div 65536), of_nat (n div 256)] else None)
                 else (case (b64_val z, decode_quanta s) of
                    (Some t, Some rest) \<Rightarrow>
                      (let n = p * 262144 + q * 4096 + r * 64 + t
                       in Some (of_nat (n div 65536) # of_nat (n div 256) # of_nat n # rest))
                  | _ \<Rightarrow> None))))
      | _ \<Rightarrow> None)"
| "decode_quanta _ = None"

definition DecodeString :: "string \<Rightarrow> byte list option" where
  "DecodeString s = decode_quanta (filter (\<lambda>c. c \<noteq> CHR 0x0A \<and> c \<noteq> CHR 0x0D) s)"

lemma b64_val_char:
  assumes "i < 64"
  shows "b64_val (b64_char i) = Some i" "b64_char i \<noteq> CHR ''=''" "is_graph (b64_char i)"
proof -
  have o: "ord (b64_char i) = (if i < 26 then 65 + i else if i < 52 then 71 + i
                 else if i < 62 then i - 4 else if i = 62 then 43 else 47)"
    using assms by (auto simp: b64_char_def ord_def)
  show "b64_char i \<noteq> CHR ''=''" "is_graph (b64_char i)"
    using o assms by (auto simp: is_graph_def ord_def split: if_splits)
  consider "i < 62" | "i = 62" | "i = 63" using assms by linarith
  then show "b64_val (b64_char i) = Some i"
  proof cases
    case 1
    then show ?thesis using o by (auto simp: b64_val_def is_upper_def is_lower_def is_digit_def)
  qed (simp_all add: b64_val_def b64_char_def is_upper_def is_lower_def is_digit_def ord_def)
qed

lemma unat_lt: "unat (a :: byte) < 256"
  using unsigned_less[of a] by simp

lemma join_div:
  fixes a b c :: nat
  assumes "b < 256" "c < 256"
  shows "(a * 65536 + b * 256 + c) div 65536 = a" "(a * 65536 + b * 256 + c) div 256 = a * 256 + b"
  using assms by (auto intro!: div_nat_eqI)

lemma byte_of_nat_add: "(of_nat (k * 256 + unat a) :: byte) = a"
  by (rule word_unat_eq_iff[THEN iffD2])
     (use unat_lt[of a] in \<open>simp add: unsigned_of_nat take_bit_eq_mod del: of_nat_add of_nat_mult\<close>)

lemma split_24:
  fixes n :: nat
  shows "n div 262144 * 262144 + n div 4096 mod 64 * 4096 + n div 64 mod 64 * 64 + n mod 64 = n"
proof -
  define q1 r1 q2 r2 q3 r3 where d: "q1 = n div 64" "r1 = n mod 64" "q2 = q1 div 64" "r2 = q1 mod 64"
    "q3 = q2 div 64" "r3 = q2 mod 64"
  have "n div 4096 = q2" "n div 262144 = q3" by (simp_all add: d flip: div_mult2_eq)
  moreover have "64 * q1 + r1 = n" "64 * q2 + r2 = q1" "64 * q3 + r3 = q2" by (simp_all only: d mult_div_mod_eq)
  ultimately show ?thesis by (simp flip: d)
qed

lemma decode_encode_quanta: "decode_quanta (EncodeToString bs) = Some bs"
proof (induction bs rule: EncodeToString.induct)
  case 1
  then show ?case by simp
next
  case (2 a)
  let ?n = "unat a * 65536"
  have "?n < 16777216" using unat_lt[of a] by simp
  then have v: "b64_val (b64_char (?n div 262144)) = Some (?n div 262144)" by (intro b64_val_char) simp
  have z: "?n mod 64 = 0" "?n div 64 mod 64 = 0" by simp_all
  have "(?n div 262144 * 262144 + ?n div 4096 mod 64 * 4096) div 65536 = unat a"
    using split_24[of ?n] z by simp
  then show ?case using v by (simp add: Let_def b64_val_char)
next
  case (3 a b)
  let ?n = "unat a * 65536 + unat b * 256"
  have "?n < 16777216" using unat_lt[of a] unat_lt[of b] by simp
  then have v: "b64_val (b64_char (?n div 262144)) = Some (?n div 262144)" by (intro b64_val_char) simp
  have "?n mod 64 = 0" by presburger
  then have n: "?n div 262144 * 262144 + ?n div 4096 mod 64 * 4096 + ?n div 64 mod 64 * 64 = ?n"
    using split_24[of ?n] by simp
  have "?n div 65536 = unat a" "?n div 256 = unat a * 256 + unat b"
    using join_div[OF unat_lt[of b], of 0 "unat a"] by simp_all
  then show ?case
    using v n byte_of_nat_add[of "unat a" b]
    by (simp add: Let_def b64_val_char mult.commute[of "unat a" 256] del: of_nat_add of_nat_mult)
next
  case (4 a b c bs)
  define n where n: "n = unat a * 65536 + unat b * 256 + unat c"
  have "n < 16777216" using unat_lt[of a] unat_lt[of b] unat_lt[of c] by (simp add: n)
  then have v: "b64_val (b64_char (n div 262144)) = Some (n div 262144)" by (intro b64_val_char) simp
  have "n div 65536 = unat a" "n div 256 = unat a * 256 + unat b"
    using join_div[OF unat_lt[of b] unat_lt[of c], of "unat a"] by (simp_all add: n)
  then have "(of_nat (n div 65536) :: byte) = a" "(of_nat (n div 256) :: byte) = b"
    using byte_of_nat_add[of "unat a" b] by (simp_all del: of_nat_add of_nat_mult)
  moreover have "(of_nat n :: byte) = c"
    using byte_of_nat_add[of "unat a * 256 + unat b" c] by (simp add: n algebra_simps)
  ultimately show ?case
    using v split_24[of n] "4.IH" by (simp only: EncodeToString.simps Let_def n[symmetric]) (simp add: b64_val_char Let_def)
qed

lemma eq_graph: "is_graph (CHR ''='')" "\<not> is_graph (CHR 0x0A)" "\<not> is_graph (CHR 0x0D)"
  by (simp_all add: is_graph_def ord_def)

lemma EncodeToString_graph: "c \<in> set (EncodeToString bs) \<Longrightarrow> is_graph c"
proof (induction bs rule: EncodeToString.induct)
  case (2 a)
  have "unat a * 65536 div 262144 < 64" using unat_lt[of a] by simp
  then show ?case using 2 eq_graph by (auto simp: Let_def b64_val_char)
next
  case (3 a b)
  have "(unat a * 65536 + unat b * 256) div 262144 < 64" using unat_lt[of a] unat_lt[of b] by simp
  then show ?case using 3 eq_graph by (auto simp: Let_def b64_val_char)
next
  case (4 a b c bs)
  have "(unat a * 65536 + unat b * 256 + unat c) div 262144 < 64"
    using unat_lt[of a] unat_lt[of b] unat_lt[of c] by simp
  then show ?case using 4 by (auto simp: Let_def b64_val_char)
qed simp

lemma DecodeString_EncodeToString: "DecodeString (EncodeToString bs) = Some bs"
proof -
  have "filter (\<lambda>c. c \<noteq> CHR 0x0A \<and> c \<noteq> CHR 0x0D) (EncodeToString bs) = EncodeToString bs"
    using EncodeToString_graph[of _ bs] eq_graph by (intro filter_True) blast
  then show ?thesis by (simp add: DecodeString_def decode_encode_quanta)
qed

section \<open>The code\<close>

record aead =
  gcm_Seal :: "byte list \<Rightarrow> byte list \<Rightarrow> byte list \<Rightarrow> byte list"
  gcm_Open :: "byte list \<Rightarrow> byte list \<Rightarrow> byte list \<Rightarrow> byte list option"

definition aead_ok :: "aead \<Rightarrow> bool" where
  "aead_ok A = (\<forall>key nonce p. length nonce = 12 \<longrightarrow>
     gcm_Open A key nonce (gcm_Seal A key nonce p) = Some p \<and> length (gcm_Seal A key nonce p) = length p + 16)"

datatype crypto_error = NonceFailed | Base64Failed | TooShort | OpenFailed

definition nonceSize :: nat where
  "nonceSize = 12"

definition minEncryptedLen :: nat where
  "minEncryptedLen = nonceSize + 1 + 16"

definition Encrypt :: "aead \<Rightarrow> byte list option \<Rightarrow> string \<Rightarrow> byte list \<Rightarrow> crypto_error + string" where
  "Encrypt A rnd plaintext key =
     (if plaintext = [] then Inr []
      else case rnd of
        None \<Rightarrow> Inl NonceFailed
      | Some nonce \<Rightarrow> Inr (EncodeToString (nonce @ gcm_Seal A key nonce (bytes_of plaintext))))"

definition Decrypt :: "aead \<Rightarrow> string \<Rightarrow> byte list \<Rightarrow> crypto_error + string" where
  "Decrypt A encoded key =
     (if encoded = [] then Inr []
      else case DecodeString encoded of
        None \<Rightarrow> Inl Base64Failed
      | Some d \<Rightarrow>
          if length d < minEncryptedLen then Inl TooShort
          else (case gcm_Open A key (take nonceSize d) (drop nonceSize d) of
                  None \<Rightarrow> Inl OpenFailed
                | Some plaintext \<Rightarrow> Inr (str_of plaintext)))"

definition IsEncrypted :: "string \<Rightarrow> bool" where
  "IsEncrypted s =
     (if s = [] then False
      else case DecodeString s of
        None \<Rightarrow> False
      | Some d \<Rightarrow> length d \<ge> minEncryptedLen \<and> length d \<noteq> 32)"

section \<open>Facts\<close>

lemma EncodeToString_empty [simp]: "EncodeToString bs = [] \<longleftrightarrow> bs = []"
  by (cases bs rule: EncodeToString.cases) (simp_all add: Let_def)

lemma Encrypt_Inr:
  assumes "p \<noteq> []"
  shows "Encrypt A (Some nonce) p key = Inr (EncodeToString (nonce @ gcm_Seal A key nonce (bytes_of p)))"
  using assms by (simp add: Encrypt_def)

lemma Decrypt_Encrypt:
  assumes "aead_ok A" "length nonce = 12" "Encrypt A (Some nonce) p key = Inr e"
  shows "Decrypt A e key = Inr p"
proof (cases "p = []")
  case True
  then show ?thesis using assms(3) by (simp add: Encrypt_def Decrypt_def)
next
  case False
  have l: "length (gcm_Seal A key nonce (bytes_of p)) = length p + 16"
    and o: "gcm_Open A key nonce (gcm_Seal A key nonce (bytes_of p)) = Some (bytes_of p)"
    using assms(1,2) by (simp_all add: aead_ok_def)
  have "length p \<ge> 1" using False by (cases p) auto
  then show ?thesis
    using False assms l o
    by (auto simp: Encrypt_def Decrypt_def DecodeString_EncodeToString minEncryptedLen_def nonceSize_def)
qed

lemma IsEncrypted_Encrypt:
  assumes "aead_ok A" "length nonce = 12" "p \<noteq> []" "Encrypt A (Some nonce) p key = Inr e"
  shows "IsEncrypted e \<longleftrightarrow> length p \<noteq> 4"
proof -
  have l: "length (gcm_Seal A key nonce (bytes_of p)) = length p + 16"
    using assms(1,2) by (simp add: aead_ok_def)
  have "length p \<ge> 1" using assms(3) by (cases p) auto
  moreover have "nonce \<noteq> []" using assms(2) by auto
  ultimately show ?thesis
    using assms(2,3,4) l
    by (auto simp: Encrypt_def IsEncrypted_def DecodeString_EncodeToString minEncryptedLen_def nonceSize_def)
qed

text \<open>A WireGuard key: the base64 text of 32 bytes.\<close>

definition wg_key :: "string \<Rightarrow> bool" where
  "wg_key s = (case DecodeString s of None \<Rightarrow> False | Some d \<Rightarrow> length d = 32)"

lemma wg_key_not_encrypted: "wg_key s \<Longrightarrow> \<not> IsEncrypted s"
  by (auto simp: wg_key_def IsEncrypted_def split: option.splits)

lemma decode_quanta_length: "decode_quanta s = Some d \<Longrightarrow> 4 * length d \<le> 3 * length s"
  by (induction s arbitrary: d rule: decode_quanta.induct)
     (auto simp: Let_def split: option.splits if_splits)

lemma wg_key_length:
  assumes "wg_key s"
  shows "42 < length s"
proof -
  obtain d where d: "decode_quanta (filter (\<lambda>c. c \<noteq> CHR 0x0A \<and> c \<noteq> CHR 0x0D) s) = Some d" "length d = 32"
    using assms by (auto simp: wg_key_def DecodeString_def split: option.splits)
  show ?thesis
    using decode_quanta_length[OF d(1)] d(2) length_filter_le[of "\<lambda>c. c \<noteq> CHR 0x0A \<and> c \<noteq> CHR 0x0D" s] by linarith
qed

text \<open>An authenticated cipher for the witnesses: the identity with a constant tag.\<close>

definition toy_aead :: aead where
  "toy_aead = \<lparr>gcm_Seal = (\<lambda>k n p. p @ replicate 16 0),
     gcm_Open = (\<lambda>k n c. if length c < 16 then None else Some (take (length c - 16) c))\<rparr>"

lemma toy_aead_ok: "aead_ok toy_aead"
  by (simp add: aead_ok_def toy_aead_def)

section \<open>Properties\<close>

text \<open>
  Decrypting what \<open>Encrypt\<close> returned gives the plaintext back, for every plaintext
  and key; and the detector recognises the ciphertext unless the plaintext has exactly
  four bytes (12 + 4 + 16 = 32, the length it takes for a plain key), while it never takes a
  WireGuard key for a ciphertext.
\<close>

theorem Encrypt_roundtrip:
  assumes "aead_ok A" "length nonce = 12" "Encrypt A (Some nonce) p key = Inr e"
  shows "Decrypt A e key = Inr p \<and> (p \<noteq> [] \<longrightarrow> (IsEncrypted e \<longleftrightarrow> length p \<noteq> 4))
         \<and> (wg_key p \<longrightarrow> \<not> IsEncrypted p)"
  using Decrypt_Encrypt[OF assms] IsEncrypted_Encrypt[OF assms(1,2) _ assms(3)] wg_key_not_encrypted by blast

theorem Encrypt_roundtrip_witness:
  "\<exists>e. Encrypt toy_aead (Some (replicate 12 7)) ''psk!'' [] = Inr e \<and> Decrypt toy_aead e [] = Inr ''psk!'' \<and> \<not> IsEncrypted e"
proof -
  obtain e where "Encrypt toy_aead (Some (replicate 12 7)) ''psk!'' [] = Inr e" by (simp add: Encrypt_def)
  then show ?thesis using Encrypt_roundtrip[OF toy_aead_ok _ \<open>_ = Inr e\<close>] by auto
qed

end
