(* ===== verification/Database.thy ===== *)
theory Database
  imports Crypto
begin

text \<open>
  \<open>internal/db\<close>: the tables of the schema in \<open>internal/db/migrations\<close> and the queries of
  \<open>networks.go\<close>, \<open>peers.go\<close>, \<open>bridges.go\<close>, \<open>settings.go\<close>, \<open>snapshots.go\<close> and \<open>audit.go\<close>; the tables of users, API
  keys and alerts are declared here and queried in \<open>Accounts\<close>.

  A table is the list of its rows in the order of its integer primary key, which is the
  order SQLite stores and scans it in.  The SQL statements are functions on the tables with
  the constraints of the schema: UNIQUE, foreign keys, ON DELETE CASCADE and
  AUTOINCREMENT.  The engine may fail at any statement: \<open>faults\<close> says for each statement to
  come whether it does (no more failures once the list is empty).  \<open>entropy\<close> holds the
  nonces the random source delivers, \<open>now\<close> is the clock in seconds.
\<close>

section \<open>Rows and tables\<close>

record Network =
  n_ID :: int
  n_Name :: string
  n_Interface :: string
  n_Mode :: string
  n_Subnet :: string
  n_ListenPort :: int
  n_PrivateKey :: string
  n_PublicKey :: string
  n_DNSServers :: string
  n_NATEnabled :: bool
  n_InterPeerRouting :: bool
  n_Enabled :: bool
  n_CreatedAt :: int
  n_UpdatedAt :: int

record Peer =
  p_ID :: int
  p_NetworkID :: int
  p_Name :: string
  p_Email :: string
  p_PrivateKey :: string
  p_PublicKey :: string
  p_PresharedKey :: string
  p_AllowedIPs :: string
  p_Endpoint :: string
  p_PersistentKeepalive :: int
  p_Role :: string
  p_SiteNetworks :: string
  p_Enabled :: bool
  p_ExpiresAt :: "int option"
  p_CreatedAt :: int
  p_UpdatedAt :: int

record Bridge =
  b_ID :: int
  b_NetworkAID :: int
  b_NetworkBID :: int
  b_Direction :: string
  b_AllowedCIDRs :: string
  b_Enabled :: bool
  b_CreatedAt :: int
  b_UpdatedAt :: int

record PeerSnapshot =
  s_PeerID :: int
  s_Timestamp :: int
  s_RxBytes :: int
  s_TxBytes :: int
  s_Online :: bool

record AuditEntry =
  a_Timestamp :: int
  a_UserID :: int
  a_Action :: string
  a_Resource :: string
  a_Detail :: string
  a_IPAddress :: string

record User =
  u_ID :: int
  u_Username :: string
  u_PasswordHash :: string
  u_Role :: string
  u_CreatedAt :: int
  u_UpdatedAt :: int

record APIKey =
  ak_ID :: int
  ak_Name :: string
  ak_KeyHash :: string
  ak_KeyPrefix :: string
  ak_UserID :: int
  ak_Role :: string
  ak_ExpiresAt :: "int option"
  ak_CreatedAt :: int
  ak_LastUsed :: "int option"

record Alert =
  al_ID :: int
  al_Type :: string
  al_Threshold :: string
  al_Notify :: string
  al_Enabled :: bool
  al_CreatedAt :: int

record DB =
  networks :: "Network list"
  net_seq :: int
  peers :: "Peer list"
  peer_seq :: int
  bridges :: "Bridge list"
  bridge_seq :: int
  settings :: "(string \<times> string) list"
  snapshots :: "PeerSnapshot list"
  audit_log :: "AuditEntry list"
  encryptionKey :: "byte list option"
  faults :: "bool list"
  entropy :: "byte list list"
  now :: int
  users :: "User list"
  user_seq :: int
  api_keys :: "APIKey list"
  api_key_seq :: int
  alerts :: "Alert list"
  alert_seq :: int

datatype db_error = SQLFault | UniqueViolation | ForeignKeyViolation | CryptoFailed crypto_error

text \<open>Whether the next statement fails in the engine.\<close>

definition db_fault :: "DB \<Rightarrow> bool \<times> DB" where
  "db_fault d = (case faults d of [] \<Rightarrow> (False, d) | f # fs \<Rightarrow> (f, d\<lparr>faults := fs\<rparr>))"

definition read_nonce :: "DB \<Rightarrow> byte list option \<times> DB" where
  "read_nonce d = (case entropy d of [] \<Rightarrow> (None, d) | n # ns \<Rightarrow> (Some n, d\<lparr>entropy := ns\<rparr>))"

section \<open>Keys at rest\<close>

text \<open>
  Encrypting a key column.  \<open>recheck\<close> is set by the update statements, which leave a
  value alone that already looks encrypted.
\<close>

definition encrypt_field :: "aead \<Rightarrow> bool \<Rightarrow> string \<Rightarrow> DB \<Rightarrow> (db_error + string) \<times> DB" where
  "encrypt_field A recheck s d = (case encryptionKey d of
      None \<Rightarrow> (Inr s, d)
    | Some key \<Rightarrow>
        if s = [] \<or> (recheck \<and> IsEncrypted s) then (Inr s, d)
        else (case read_nonce d of (rnd, d1) \<Rightarrow>
               (case Encrypt A rnd s key of
                  Inl e \<Rightarrow> (Inl (CryptoFailed e), d1)
                | Inr c \<Rightarrow> (Inr c, d1))))"

definition decrypt_field :: "aead \<Rightarrow> byte list option \<Rightarrow> string \<Rightarrow> db_error + string" where
  "decrypt_field A key s = (case key of
      None \<Rightarrow> Inr s
    | Some k \<Rightarrow>
        if s = [] \<or> \<not> IsEncrypted s then Inr s
        else (case Decrypt A s k of Inl e \<Rightarrow> Inl (CryptoFailed e) | Inr plain \<Rightarrow> Inr plain))"

definition decryptNetworkKeys :: "aead \<Rightarrow> byte list option \<Rightarrow> Network \<Rightarrow> db_error + Network" where
  "decryptNetworkKeys A key n = (case decrypt_field A key (n_PrivateKey n) of
      Inl e \<Rightarrow> Inl e | Inr plain \<Rightarrow> Inr (n\<lparr>n_PrivateKey := plain\<rparr>))"

definition decryptPeerKeys :: "aead \<Rightarrow> byte list option \<Rightarrow> Peer \<Rightarrow> db_error + Peer" where
  "decryptPeerKeys A key p = (case decrypt_field A key (p_PrivateKey p) of
      Inl e \<Rightarrow> Inl e
    | Inr plain \<Rightarrow> (case decrypt_field A key (p_PresharedKey p) of
          Inl e \<Rightarrow> Inl e
        | Inr psk \<Rightarrow> Inr (p\<lparr>p_PrivateKey := plain, p_PresharedKey := psk\<rparr>)))"

text \<open>Scanning the rows of a result set, stopping at the first error.\<close>

fun scan_rows :: "('a \<Rightarrow> 'e + 'b) \<Rightarrow> 'a list \<Rightarrow> 'e + 'b list" where
  "scan_rows f [] = Inr []"
| "scan_rows f (x # xs) = (case f x of
      Inl e \<Rightarrow> Inl e
    | Inr y \<Rightarrow> (case scan_rows f xs of Inl e \<Rightarrow> Inl e | Inr ys \<Rightarrow> Inr (y # ys)))"

section \<open>\<open>networks.go\<close>\<close>

text \<open>The INSERT, with the unique constraints on the interface and the port.\<close>

definition insert_network :: "Network \<Rightarrow> DB \<Rightarrow> (db_error + int) \<times> DB" where
  "insert_network n d = (case db_fault d of (f, d1) \<Rightarrow>
      if f then (Inl SQLFault, d1)
      else if list_ex (\<lambda>m. n_Interface m = n_Interface n \<or> n_ListenPort m = n_ListenPort n) (networks d1)
      then (Inl UniqueViolation, d1)
      else let id = net_seq d1 + 1 in
        (Inr id, d1\<lparr>networks := networks d1 @ [n\<lparr>n_ID := id, n_CreatedAt := now d1, n_UpdatedAt := now d1\<rparr>],
                    net_seq := id\<rparr>))"

definition CreateNetwork :: "aead \<Rightarrow> Network \<Rightarrow> DB \<Rightarrow> (db_error + int) \<times> DB" where
  "CreateNetwork A n d = (case encrypt_field A False (n_PrivateKey n) d of
      (Inl e, d1) \<Rightarrow> (Inl e, d1)
    | (Inr privateKey, d1) \<Rightarrow> insert_network (n\<lparr>n_PrivateKey := privateKey\<rparr>) d1)"

definition GetNetworkByID :: "aead \<Rightarrow> int \<Rightarrow> DB \<Rightarrow> (db_error + Network option) \<times> DB" where
  "GetNetworkByID A nid d = (case db_fault d of (f, d1) \<Rightarrow>
      if f then (Inl SQLFault, d1)
      else (case find (\<lambda>n. n_ID n = nid) (networks d1) of
          None \<Rightarrow> (Inr None, d1)
        | Some n \<Rightarrow> (case decryptNetworkKeys A (encryptionKey d1) n of
              Inl e \<Rightarrow> (Inl e, d1) | Inr n' \<Rightarrow> (Inr (Some n'), d1))))"

definition ListNetworks :: "aead \<Rightarrow> DB \<Rightarrow> (db_error + Network list) \<times> DB" where
  "ListNetworks A d = (case db_fault d of (f, d1) \<Rightarrow>
      if f then (Inl SQLFault, d1)
      else (scan_rows (decryptNetworkKeys A (encryptionKey d1)) (networks d1), d1))"

text \<open>The UPDATE sets every column but the id, the interface and the creation time.\<close>

definition set_network :: "Network \<Rightarrow> int \<Rightarrow> Network \<Rightarrow> Network" where
  "set_network n t m = n\<lparr>n_ID := n_ID m, n_Interface := n_Interface m, n_CreatedAt := n_CreatedAt m, n_UpdatedAt := t\<rparr>"

definition update_network :: "Network \<Rightarrow> DB \<Rightarrow> db_error option \<times> DB" where
  "update_network n d = (case db_fault d of (f, d1) \<Rightarrow>
      if f then (Some SQLFault, d1)
      else if list_ex (\<lambda>m. n_ID m = n_ID n) (networks d1)
           \<and> list_ex (\<lambda>m. n_ID m \<noteq> n_ID n \<and> n_ListenPort m = n_ListenPort n) (networks d1)
      then (Some UniqueViolation, d1)
      else (None, d1\<lparr>networks := map (\<lambda>m. if n_ID m = n_ID n then set_network n (now d1) m else m) (networks d1)\<rparr>))"

definition UpdateNetwork :: "aead \<Rightarrow> Network \<Rightarrow> DB \<Rightarrow> db_error option \<times> DB" where
  "UpdateNetwork A n d = (case encrypt_field A True (n_PrivateKey n) d of
      (Inl e, d1) \<Rightarrow> (Some e, d1)
    | (Inr privateKey, d1) \<Rightarrow> update_network (n\<lparr>n_PrivateKey := privateKey\<rparr>) d1)"

text \<open>DELETE with its cascades: peers with their snapshots, and bridges.\<close>

definition DeleteNetwork :: "int \<Rightarrow> DB \<Rightarrow> db_error option \<times> DB" where
  "DeleteNetwork nid d = (case db_fault d of (f, d1) \<Rightarrow>
      if f then (Some SQLFault, d1)
      else (None, d1\<lparr>networks := filter (\<lambda>n. n_ID n \<noteq> nid) (networks d1),
              snapshots := filter (\<lambda>s. \<not> list_ex (\<lambda>p. p_ID p = s_PeerID s \<and> p_NetworkID p = nid) (peers d1)) (snapshots d1),
              peers := filter (\<lambda>p. p_NetworkID p \<noteq> nid) (peers d1),
              bridges := filter (\<lambda>b. b_NetworkAID b \<noteq> nid \<and> b_NetworkBID b \<noteq> nid) (bridges d1)\<rparr>))"

section \<open>\<open>peers.go\<close>\<close>

definition insert_peer :: "Peer \<Rightarrow> DB \<Rightarrow> (db_error + int) \<times> DB" where
  "insert_peer p d = (case db_fault d of (f, d1) \<Rightarrow>
      if f then (Inl SQLFault, d1)
      else if \<not> list_ex (\<lambda>n. n_ID n = p_NetworkID p) (networks d1) then (Inl ForeignKeyViolation, d1)
      else let id = peer_seq d1 + 1 in
        (Inr id, d1\<lparr>peers := peers d1 @ [p\<lparr>p_ID := id, p_CreatedAt := now d1, p_UpdatedAt := now d1\<rparr>],
                    peer_seq := id\<rparr>))"

definition CreatePeer :: "aead \<Rightarrow> Peer \<Rightarrow> DB \<Rightarrow> (db_error + int) \<times> DB" where
  "CreatePeer A p d = (case encrypt_field A False (p_PrivateKey p) d of
      (Inl e, d1) \<Rightarrow> (Inl e, d1)
    | (Inr privateKey, d1) \<Rightarrow> (case encrypt_field A False (p_PresharedKey p) d1 of
          (Inl e, d2) \<Rightarrow> (Inl e, d2)
        | (Inr presharedKey, d2) \<Rightarrow>
            insert_peer (p\<lparr>p_PrivateKey := privateKey, p_PresharedKey := presharedKey\<rparr>) d2))"

definition GetPeerByID :: "aead \<Rightarrow> int \<Rightarrow> DB \<Rightarrow> (db_error + Peer option) \<times> DB" where
  "GetPeerByID A pid d = (case db_fault d of (f, d1) \<Rightarrow>
      if f then (Inl SQLFault, d1)
      else (case find (\<lambda>p. p_ID p = pid) (peers d1) of
          None \<Rightarrow> (Inr None, d1)
        | Some p \<Rightarrow> (case decryptPeerKeys A (encryptionKey d1) p of
              Inl e \<Rightarrow> (Inl e, d1) | Inr p' \<Rightarrow> (Inr (Some p'), d1))))"

definition ListPeersByNetworkID :: "aead \<Rightarrow> int \<Rightarrow> DB \<Rightarrow> (db_error + Peer list) \<times> DB" where
  "ListPeersByNetworkID A networkID d = (case db_fault d of (f, d1) \<Rightarrow>
      if f then (Inl SQLFault, d1)
      else (scan_rows (decryptPeerKeys A (encryptionKey d1))
              (filter (\<lambda>p. p_NetworkID p = networkID) (peers d1)), d1))"

definition set_peer :: "Peer \<Rightarrow> int \<Rightarrow> Peer \<Rightarrow> Peer" where
  "set_peer p t q = p\<lparr>p_ID := p_ID q, p_NetworkID := p_NetworkID q, p_CreatedAt := p_CreatedAt q, p_UpdatedAt := t\<rparr>"

definition update_peer :: "Peer \<Rightarrow> DB \<Rightarrow> db_error option \<times> DB" where
  "update_peer p d = (case db_fault d of (f, d1) \<Rightarrow>
      if f then (Some SQLFault, d1)
      else (None, d1\<lparr>peers := map (\<lambda>q. if p_ID q = p_ID p then set_peer p (now d1) q else q) (peers d1)\<rparr>))"

definition UpdatePeer :: "aead \<Rightarrow> Peer \<Rightarrow> DB \<Rightarrow> db_error option \<times> DB" where
  "UpdatePeer A p d = (case encrypt_field A True (p_PrivateKey p) d of
      (Inl e, d1) \<Rightarrow> (Some e, d1)
    | (Inr privateKey, d1) \<Rightarrow> (case encrypt_field A True (p_PresharedKey p) d1 of
          (Inl e, d2) \<Rightarrow> (Some e, d2)
        | (Inr presharedKey, d2) \<Rightarrow>
            update_peer (p\<lparr>p_PrivateKey := privateKey, p_PresharedKey := presharedKey\<rparr>) d2))"

text \<open>The keys stay as they are stored: this query does not decrypt.\<close>

definition ListExpiredPeers :: "DB \<Rightarrow> (db_error + Peer list) \<times> DB" where
  "ListExpiredPeers d = (case db_fault d of (f, d1) \<Rightarrow>
      if f then (Inl SQLFault, d1)
      else (Inr (filter (\<lambda>p. p_Enabled p \<and> (case p_ExpiresAt p of None \<Rightarrow> False | Some t \<Rightarrow> t < now d1)) (peers d1)), d1))"

definition DeletePeer :: "int \<Rightarrow> DB \<Rightarrow> db_error option \<times> DB" where
  "DeletePeer pid d = (case db_fault d of (f, d1) \<Rightarrow>
      if f then (Some SQLFault, d1)
      else (None, d1\<lparr>peers := filter (\<lambda>p. p_ID p \<noteq> pid) (peers d1),
                      snapshots := filter (\<lambda>s. s_PeerID s \<noteq> pid) (snapshots d1)\<rparr>))"

section \<open>\<open>bridges.go\<close>\<close>

definition CreateBridge :: "Bridge \<Rightarrow> DB \<Rightarrow> (db_error + int) \<times> DB" where
  "CreateBridge b d = (case db_fault d of (f, d1) \<Rightarrow>
      if f then (Inl SQLFault, d1)
      else if list_ex (\<lambda>c. b_NetworkAID c = b_NetworkAID b \<and> b_NetworkBID c = b_NetworkBID b) (bridges d1)
      then (Inl UniqueViolation, d1)
      else if \<not> list_ex (\<lambda>n. n_ID n = b_NetworkAID b) (networks d1)
            \<or> \<not> list_ex (\<lambda>n. n_ID n = b_NetworkBID b) (networks d1)
      then (Inl ForeignKeyViolation, d1)
      else let id = bridge_seq d1 + 1 in
        (Inr id, d1\<lparr>bridges := bridges d1 @ [b\<lparr>b_ID := id, b_CreatedAt := now d1, b_UpdatedAt := now d1\<rparr>],
                    bridge_seq := id\<rparr>))"

definition GetBridgeByID :: "int \<Rightarrow> DB \<Rightarrow> (db_error + Bridge option) \<times> DB" where
  "GetBridgeByID bid d = (case db_fault d of (f, d1) \<Rightarrow>
      if f then (Inl SQLFault, d1) else (Inr (find (\<lambda>b. b_ID b = bid) (bridges d1)), d1))"

definition ListBridges :: "DB \<Rightarrow> (db_error + Bridge list) \<times> DB" where
  "ListBridges d = (case db_fault d of (f, d1) \<Rightarrow>
      if f then (Inl SQLFault, d1) else (Inr (bridges d1), d1))"

definition ListBridgesByNetworkID :: "int \<Rightarrow> DB \<Rightarrow> (db_error + Bridge list) \<times> DB" where
  "ListBridgesByNetworkID networkID d = (case db_fault d of (f, d1) \<Rightarrow>
      if f then (Inl SQLFault, d1)
      else (Inr (filter (\<lambda>b. b_NetworkAID b = networkID \<or> b_NetworkBID b = networkID) (bridges d1)), d1))"

definition BridgeExistsBetween :: "int \<Rightarrow> int \<Rightarrow> DB \<Rightarrow> (db_error + bool) \<times> DB" where
  "BridgeExistsBetween a b d = (case db_fault d of (f, d1) \<Rightarrow>
      if f then (Inl SQLFault, d1)
      else (Inr (length (filter (\<lambda>c. b_NetworkAID c = a \<and> b_NetworkBID c = b
                                   \<or> b_NetworkAID c = b \<and> b_NetworkBID c = a) (bridges d1)) > 0), d1))"

definition UpdateBridge :: "Bridge \<Rightarrow> DB \<Rightarrow> db_error option \<times> DB" where
  "UpdateBridge b d = (case db_fault d of (f, d1) \<Rightarrow>
      if f then (Some SQLFault, d1)
      else (None, d1\<lparr>bridges := map (\<lambda>c. if b_ID c = b_ID b
              then c\<lparr>b_Direction := b_Direction b, b_AllowedCIDRs := b_AllowedCIDRs b,
                     b_Enabled := b_Enabled b, b_UpdatedAt := now d1\<rparr> else c) (bridges d1)\<rparr>))"

definition DeleteBridge :: "int \<Rightarrow> DB \<Rightarrow> db_error option \<times> DB" where
  "DeleteBridge bid d = (case db_fault d of (f, d1) \<Rightarrow>
      if f then (Some SQLFault, d1)
      else (None, d1\<lparr>bridges := filter (\<lambda>b. b_ID b \<noteq> bid) (bridges d1)\<rparr>))"

section \<open>\<open>settings.go\<close>, \<open>snapshots.go\<close>, \<open>audit.go\<close>\<close>

definition GetSetting :: "string \<Rightarrow> DB \<Rightarrow> (db_error + string) \<times> DB" where
  "GetSetting key d = (case db_fault d of (f, d1) \<Rightarrow>
      if f then (Inl SQLFault, d1)
      else (Inr (case map_of (settings d1) key of None \<Rightarrow> [] | Some v \<Rightarrow> v), d1))"

fun upsert :: "'k \<Rightarrow> 'v \<Rightarrow> ('k \<times> 'v) list \<Rightarrow> ('k \<times> 'v) list" where
  "upsert k v [] = [(k, v)]"
| "upsert k v (e # es) = (if fst e = k then (k, v) # es else e # upsert k v es)"

definition SetSetting :: "string \<Rightarrow> string \<Rightarrow> DB \<Rightarrow> db_error option \<times> DB" where
  "SetSetting key val d = (case db_fault d of (f, d1) \<Rightarrow>
      if f then (Some SQLFault, d1) else (None, d1\<lparr>settings := upsert key val (settings d1)\<rparr>))"

definition DeleteSetting :: "string \<Rightarrow> DB \<Rightarrow> db_error option \<times> DB" where
  "DeleteSetting key d = (case db_fault d of (f, d1) \<Rightarrow>
      if f then (Some SQLFault, d1)
      else (None, d1\<lparr>settings := filter (\<lambda>e. fst e \<noteq> key) (settings d1)\<rparr>))"

definition InsertSnapshot :: "PeerSnapshot \<Rightarrow> DB \<Rightarrow> db_error option \<times> DB" where
  "InsertSnapshot s d = (case db_fault d of (f, d1) \<Rightarrow>
      if f then (Some SQLFault, d1)
      else if list_ex (\<lambda>t. s_PeerID t = s_PeerID s \<and> s_Timestamp t = s_Timestamp s) (snapshots d1)
      then (Some UniqueViolation, d1)
      else if \<not> list_ex (\<lambda>p. p_ID p = s_PeerID s) (peers d1) then (Some ForeignKeyViolation, d1)
      else (None, d1\<lparr>snapshots := snapshots d1 @ [s]\<rparr>))"

definition CompactSnapshots :: "int \<Rightarrow> DB \<Rightarrow> (db_error + nat) \<times> DB" where
  "CompactSnapshots before d = (case db_fault d of (f, d1) \<Rightarrow>
      if f then (Inl SQLFault, d1)
      else (Inr (length (filter (\<lambda>s. s_Timestamp s < before) (snapshots d1))),
            d1\<lparr>snapshots := filter (\<lambda>s. \<not> s_Timestamp s < before) (snapshots d1)\<rparr>))"

definition InsertAuditEntry :: "AuditEntry \<Rightarrow> DB \<Rightarrow> db_error option \<times> DB" where
  "InsertAuditEntry e d = (case db_fault d of (f, d1) \<Rightarrow>
      if f then (Some SQLFault, d1)
      else (None, d1\<lparr>audit_log := audit_log d1 @ [e\<lparr>a_Timestamp := now d1\<rparr>]\<rparr>))"

section \<open>The invariant of the schema\<close>

definition ids_ok :: "int list \<Rightarrow> int \<Rightarrow> bool" where
  "ids_ok ids seq = (sorted_wrt (<) ids \<and> (\<forall>i\<in>set ids. i \<le> seq))"

definition networks_ok :: "DB \<Rightarrow> bool" where
  "networks_ok d = (ids_ok (map n_ID (networks d)) (net_seq d) \<and>
     distinct (map n_Interface (networks d)) \<and> distinct (map n_ListenPort (networks d)))"

definition peers_ok :: "DB \<Rightarrow> bool" where
  "peers_ok d = (ids_ok (map p_ID (peers d)) (peer_seq d) \<and> p_NetworkID ` set (peers d) \<subseteq> n_ID ` set (networks d))"

definition bridges_ok :: "DB \<Rightarrow> bool" where
  "bridges_ok d = (ids_ok (map b_ID (bridges d)) (bridge_seq d) \<and>
     distinct (map (\<lambda>b. (b_NetworkAID b, b_NetworkBID b)) (bridges d)) \<and>
     b_NetworkAID ` set (bridges d) \<subseteq> n_ID ` set (networks d) \<and>
     b_NetworkBID ` set (bridges d) \<subseteq> n_ID ` set (networks d))"

definition snapshots_ok :: "DB \<Rightarrow> bool" where
  "snapshots_ok d = (distinct (map (\<lambda>s. (s_PeerID s, s_Timestamp s)) (snapshots d)) \<and>
     s_PeerID ` set (snapshots d) \<subseteq> p_ID ` set (peers d))"

definition db_inv :: "DB \<Rightarrow> bool" where
  "db_inv d = (networks_ok d \<and> peers_ok d \<and> bridges_ok d \<and> snapshots_ok d)"

lemmas db_ok_defs = networks_ok_def peers_ok_def bridges_ok_def snapshots_ok_def

text \<open>What is not a table does not matter to the invariant.\<close>

lemma db_inv_frame [simp]:
  "db_inv (d\<lparr>faults := fs\<rparr>) = db_inv d" "db_inv (d\<lparr>entropy := ns\<rparr>) = db_inv d"
  "db_inv (d\<lparr>now := t\<rparr>) = db_inv d" "db_inv (d\<lparr>settings := ss\<rparr>) = db_inv d"
  "db_inv (d\<lparr>audit_log := al\<rparr>) = db_inv d" "db_inv (d\<lparr>encryptionKey := k\<rparr>) = db_inv d"
  by (simp_all add: db_inv_def db_ok_defs)

lemma map_of_upsert: "map_of (upsert k v xs) = (map_of xs)(k \<mapsto> v)"
  by (induction xs) auto

lemma db_fault_frame: "db_fault d = (f, d1) \<Longrightarrow> d1 = d\<lparr>faults := faults d1\<rparr>"
  by (auto simp: db_fault_def split: list.splits)

lemma encrypt_field_frame: "encrypt_field A rc s d = (r, d1) \<Longrightarrow> d1 = d\<lparr>entropy := entropy d1\<rparr>"
  by (auto simp: encrypt_field_def read_nonce_def split: option.splits if_splits sum.splits list.splits)

lemma db_inv_fault: "db_fault d = (f, d1) \<Longrightarrow> db_inv d1 = db_inv d"
  by (metis db_fault_frame db_inv_frame(1))

lemma db_inv_encrypt: "encrypt_field A rc s d = (r, d1) \<Longrightarrow> db_inv d1 = db_inv d"
  by (metis encrypt_field_frame db_inv_frame(2))

lemma ids_ok_snoc: "ids_ok ids seq \<Longrightarrow> ids_ok (ids @ [seq + 1]) (seq + 1)"
  by (fastforce simp: ids_ok_def sorted_wrt_append)

lemma ids_ok_filter: "ids_ok (map f xs) seq \<Longrightarrow> ids_ok (map f (filter P xs)) seq"
  by (auto simp: ids_ok_def sorted_wrt_map sorted_wrt_filter)

lemma ids_ok_map: "(\<And>x. f (g x) = f x) \<Longrightarrow> map f (map g xs) = map f xs"
  by simp

lemma ids_ok_distinct: "ids_ok ids seq \<Longrightarrow> distinct ids"
  by (simp add: ids_ok_def strict_sorted_iff)

text \<open>The parts of the invariant follow from parts of the state.\<close>

lemma networks_ok_cong:
  "\<lbrakk>networks_ok d; networks d' = networks d; net_seq d' = net_seq d\<rbrakk> \<Longrightarrow> networks_ok d'"
  by (simp add: networks_ok_def)

lemma peers_ok_mono:
  "\<lbrakk>peers_ok d; peers d' = peers d; peer_seq d' = peer_seq d;
    n_ID ` set (networks d) \<subseteq> n_ID ` set (networks d')\<rbrakk> \<Longrightarrow> peers_ok d'"
  unfolding peers_ok_def by (metis subset_trans)

lemma bridges_ok_mono:
  "\<lbrakk>bridges_ok d; bridges d' = bridges d; bridge_seq d' = bridge_seq d;
    n_ID ` set (networks d) \<subseteq> n_ID ` set (networks d')\<rbrakk> \<Longrightarrow> bridges_ok d'"
  unfolding bridges_ok_def by (metis subset_trans)

lemma snapshots_ok_mono:
  "\<lbrakk>snapshots_ok d; snapshots d' = snapshots d; p_ID ` set (peers d) \<subseteq> p_ID ` set (peers d')\<rbrakk> \<Longrightarrow> snapshots_ok d'"
  unfolding snapshots_ok_def by (metis subset_trans)

lemma db_invI_networks:
  assumes "db_inv d" "networks_ok d'" "n_ID ` set (networks d) \<subseteq> n_ID ` set (networks d')"
    and "peers d' = peers d" "peer_seq d' = peer_seq d" "bridges d' = bridges d" "bridge_seq d' = bridge_seq d"
    and "snapshots d' = snapshots d"
  shows "db_inv d'"
  using assms peers_ok_mono[of d d'] bridges_ok_mono[of d d'] snapshots_ok_mono[of d d'] by (simp add: db_inv_def)

lemma db_invI_peers:
  assumes "db_inv d" "peers_ok d'" "snapshots_ok d'"
    and "networks d' = networks d" "net_seq d' = net_seq d" "bridges d' = bridges d" "bridge_seq d' = bridge_seq d"
  shows "db_inv d'"
  using assms networks_ok_cong[of d d'] bridges_ok_mono[of d d'] by (simp add: db_inv_def)

lemma db_invI_bridges:
  assumes "db_inv d" "bridges_ok d'"
    and "networks d' = networks d" "net_seq d' = net_seq d" "peers d' = peers d" "peer_seq d' = peer_seq d"
    and "snapshots d' = snapshots d"
  shows "db_inv d'"
  using assms networks_ok_cong[of d d'] peers_ok_mono[of d d'] snapshots_ok_mono[of d d'] by (simp add: db_inv_def)

lemma list_ex_image: "list_ex (\<lambda>x. f x = y) xs \<longleftrightarrow> y \<in> f ` set xs"
  by (auto simp: list_ex_iff image_iff)

lemma insert_network_inv:
  assumes "db_inv d" "insert_network n d = (r, d')"
  shows "db_inv d'"
proof -
  obtain f d1 where f: "db_fault d = (f, d1)" by (cases "db_fault d")
  have d1: "db_inv d1" using db_inv_fault[OF f] assms(1) by simp
  show ?thesis
  proof (cases "\<exists>i. r = Inr i")
    case True
    let ?row = "n\<lparr>n_ID := net_seq d1 + 1, n_CreatedAt := now d1, n_UpdatedAt := now d1\<rparr>"
    have d': "d' = d1\<lparr>networks := networks d1 @ [?row], net_seq := net_seq d1 + 1\<rparr>"
      and u: "\<forall>m\<in>set (networks d1). n_Interface m \<noteq> n_Interface n \<and> n_ListenPort m \<noteq> n_ListenPort n"
      using assms(2) f True by (auto simp: insert_network_def Let_def list_ex_iff split: if_splits)
    have "networks_ok d'"
      using d1 u ids_ok_snoc[of "map n_ID (networks d1)" "net_seq d1"]
      by (auto simp: d' db_inv_def networks_ok_def)
    then show ?thesis by (rule db_invI_networks[OF d1]) (auto simp: d')
  next
    case False
    then show ?thesis using assms(2) f d1 by (auto simp: insert_network_def Let_def split: if_splits)
  qed
qed

text \<open>Rewriting one row keeps the ports distinct when the new port is not another row's.\<close>

lemma ports_distinct_update:
  assumes "distinct (map n_ID xs)" "distinct (map n_ListenPort xs)"
    and "\<And>m. \<lbrakk>m \<in> set xs; n_ID m \<noteq> n_ID n\<rbrakk> \<Longrightarrow> n_ListenPort m \<noteq> n_ListenPort n"
  shows "distinct (map n_ListenPort (map (\<lambda>m. if n_ID m = n_ID n then set_network n t m else m) xs))"
  using assms
proof (induction xs)
  case Nil
  then show ?case by simp
next
  case (Cons a xs)
  have IH: "distinct (map n_ListenPort (map (\<lambda>m. if n_ID m = n_ID n then set_network n t m else m) xs))"
    using Cons by simp
  let ?p = "\<lambda>m. n_ListenPort (if n_ID m = n_ID n then set_network n t m else m)"
  have "?p a \<noteq> ?p m" if "m \<in> set xs" for m
    using Cons.prems that by (auto simp: set_network_def) (metis imageI, metis)
  then have "?p a \<notin> ?p ` set xs" by blast
  then show ?case using IH by (simp add: image_image comp_def)
qed

lemma update_network_inv:
  assumes "db_inv d" "update_network n d = (r, d')"
  shows "db_inv d'"
proof -
  obtain f d1 where f: "db_fault d = (f, d1)" by (cases "db_fault d")
  have d1: "db_inv d1" using db_inv_fault[OF f] assms(1) by simp
  let ?g = "\<lambda>m. if n_ID m = n_ID n then set_network n (now d1) m else m"
  have ids: "map n_ID (map ?g xs) = map n_ID xs" "map n_Interface (map ?g xs) = map n_Interface xs" for xs
    by (simp_all add: set_network_def)
  show ?thesis
  proof (cases "r = None")
    case True
    then have d': "d' = d1\<lparr>networks := map ?g (networks d1)\<rparr>"
      and u: "(\<exists>m\<in>set (networks d1). n_ID m = n_ID n) \<longrightarrow>
              (\<forall>m\<in>set (networks d1). n_ID m \<noteq> n_ID n \<longrightarrow> n_ListenPort m \<noteq> n_ListenPort n)"
      using assms(2) f by (auto simp: update_network_def list_ex_iff split: if_splits)
    have nw: "networks d' = map ?g (networks d1)" "net_seq d' = net_seq d1" by (simp_all add: d')
    have nok: "networks_ok d1" using d1 by (simp add: db_inv_def)
    have "networks_ok d'"
    proof (cases "\<exists>m\<in>set (networks d1). n_ID m = n_ID n")
      case True
      have "distinct (map n_ListenPort (map ?g (networks d1)))"
        by (rule ports_distinct_update) (use nok ids_ok_distinct True u in \<open>auto simp: networks_ok_def\<close>)
      then show ?thesis using nok by (simp only: networks_ok_def nw ids)
    next
      case False
      then have "map ?g (networks d1) = networks d1" by (intro map_idI) auto
      then show ?thesis using nok by (simp add: d' networks_ok_def)
    qed
    moreover have "n_ID ` set (networks d1) \<subseteq> n_ID ` set (networks d')"
      by (simp only: nw ids flip: list.set_map)
    ultimately show ?thesis by (rule db_invI_networks[OF d1]) (simp_all add: d')
  next
    case False
    then show ?thesis using assms(2) f d1 by (auto simp: update_network_def split: if_splits)
  qed
qed

lemma DeleteNetwork_inv:
  assumes "db_inv d" "DeleteNetwork i d = (r, d')"
  shows "db_inv d'"
proof -
  obtain f d1 where f: "db_fault d = (f, d1)" by (cases "db_fault d")
  have d1: "db_inv d1" using db_inv_fault[OF f] assms(1) by simp
  show ?thesis
  proof (cases f)
    case True
    then show ?thesis using assms(2) f d1 by (simp add: DeleteNetwork_def)
  next
    case False
    then have d': "d' = d1\<lparr>networks := filter (\<lambda>n. n_ID n \<noteq> i) (networks d1),
        snapshots := filter (\<lambda>s. \<not> list_ex (\<lambda>p. p_ID p = s_PeerID s \<and> p_NetworkID p = i) (peers d1)) (snapshots d1),
        peers := filter (\<lambda>p. p_NetworkID p \<noteq> i) (peers d1),
        bridges := filter (\<lambda>b. b_NetworkAID b \<noteq> i \<and> b_NetworkBID b \<noteq> i) (bridges d1)\<rparr>"
      using assms(2) f by (simp add: DeleteNetwork_def)
    have parts: "networks_ok d1" "peers_ok d1" "bridges_ok d1" "snapshots_ok d1" using d1 by (simp_all add: db_inv_def)
    have "networks_ok d'" using parts(1) by (simp add: d' networks_ok_def ids_ok_filter distinct_map_filter)
    moreover have "peers_ok d'" using parts(2) by (auto simp: d' peers_ok_def ids_ok_filter)
    moreover have "bridges_ok d'"
      using parts(3) by (auto simp: d' bridges_ok_def ids_ok_filter distinct_map_filter)
    moreover have "snapshots_ok d'"
      using parts(4) by (auto simp: d' snapshots_ok_def distinct_map_filter list_ex_iff image_subset_iff)
    ultimately show ?thesis by (simp add: db_inv_def)
  qed
qed

lemma insert_peer_inv:
  assumes "db_inv d" "insert_peer p d = (r, d')"
  shows "db_inv d'"
proof -
  obtain f d1 where f: "db_fault d = (f, d1)" by (cases "db_fault d")
  have d1: "db_inv d1" using db_inv_fault[OF f] assms(1) by simp
  show ?thesis
  proof (cases "\<exists>i. r = Inr i")
    case True
    let ?row = "p\<lparr>p_ID := peer_seq d1 + 1, p_CreatedAt := now d1, p_UpdatedAt := now d1\<rparr>"
    have d': "d' = d1\<lparr>peers := peers d1 @ [?row], peer_seq := peer_seq d1 + 1\<rparr>"
      and fk: "p_NetworkID p \<in> n_ID ` set (networks d1)"
      using assms(2) f True by (simp_all add: insert_peer_def Let_def list_ex_image split: if_splits)
    have "peers_ok d'"
      using d1 fk ids_ok_snoc[of "map p_ID (peers d1)" "peer_seq d1"] by (simp add: d' db_inv_def peers_ok_def)
    moreover have "snapshots_ok d'"
      by (rule snapshots_ok_mono[of d1]) (use d1 in \<open>auto simp: d' db_inv_def\<close>)
    ultimately show ?thesis by (rule db_invI_peers[OF d1]) (simp_all add: d')
  next
    case False
    then show ?thesis using assms(2) f d1 by (auto simp: insert_peer_def Let_def split: if_splits)
  qed
qed

lemma update_peer_inv:
  assumes "db_inv d" "update_peer p d = (r, d')"
  shows "db_inv d'"
proof -
  obtain f d1 where f: "db_fault d = (f, d1)" by (cases "db_fault d")
  have d1: "db_inv d1" using db_inv_fault[OF f] assms(1) by simp
  let ?g = "\<lambda>q. if p_ID q = p_ID p then set_peer p (now d1) q else q"
  have ids: "map p_ID (map ?g xs) = map p_ID xs" "map p_NetworkID (map ?g xs) = map p_NetworkID xs" for xs
    by (simp_all add: set_peer_def)
  show ?thesis
  proof (cases "r = None")
    case True
    then have pr: "peers d' = map ?g (peers d1)" "peer_seq d' = peer_seq d1" "networks d' = networks d1"
        "snapshots d' = snapshots d1" "net_seq d' = net_seq d1" "bridges d' = bridges d1" "bridge_seq d' = bridge_seq d1"
      using assms(2) f by (auto simp: update_peer_def split: if_splits)
    have "peers_ok d'"
      using d1 by (simp only: db_inv_def peers_ok_def pr ids flip: list.set_map)
    moreover have "snapshots_ok d'"
      using d1 by (simp only: db_inv_def snapshots_ok_def pr ids flip: list.set_map)
    ultimately show ?thesis by (rule db_invI_peers[OF d1]) (simp_all add: pr)
  next
    case False
    then show ?thesis using assms(2) f d1 by (auto simp: update_peer_def split: if_splits)
  qed
qed

lemma DeletePeer_inv:
  assumes "db_inv d" "DeletePeer i d = (r, d')"
  shows "db_inv d'"
proof -
  obtain f d1 where f: "db_fault d = (f, d1)" by (cases "db_fault d")
  have d1: "db_inv d1" using db_inv_fault[OF f] assms(1) by simp
  show ?thesis
  proof (cases f)
    case False
    then have d': "d' = d1\<lparr>peers := filter (\<lambda>p. p_ID p \<noteq> i) (peers d1),
                            snapshots := filter (\<lambda>s. s_PeerID s \<noteq> i) (snapshots d1)\<rparr>"
      using assms(2) f by (simp add: DeletePeer_def)
    have "peers_ok d'" using d1 by (auto simp: d' db_inv_def peers_ok_def ids_ok_filter)
    moreover have "snapshots_ok d'"
      using d1 by (auto simp: d' db_inv_def snapshots_ok_def distinct_map_filter)
    ultimately show ?thesis by (rule db_invI_peers[OF d1]) (simp_all add: d')
  qed (use assms(2) f d1 in \<open>simp add: DeletePeer_def\<close>)
qed

lemma CreateBridge_inv:
  assumes "db_inv d" "CreateBridge b d = (r, d')"
  shows "db_inv d'"
proof -
  obtain f d1 where f: "db_fault d = (f, d1)" by (cases "db_fault d")
  have d1: "db_inv d1" using db_inv_fault[OF f] assms(1) by simp
  show ?thesis
  proof (cases "\<exists>i. r = Inr i")
    case True
    let ?row = "b\<lparr>b_ID := bridge_seq d1 + 1, b_CreatedAt := now d1, b_UpdatedAt := now d1\<rparr>"
    have d': "d' = d1\<lparr>bridges := bridges d1 @ [?row], bridge_seq := bridge_seq d1 + 1\<rparr>"
      and fk: "b_NetworkAID b \<in> n_ID ` set (networks d1)" "b_NetworkBID b \<in> n_ID ` set (networks d1)"
      and u: "\<not> list_ex (\<lambda>c. b_NetworkAID c = b_NetworkAID b \<and> b_NetworkBID c = b_NetworkBID b) (bridges d1)"
      using assms(2) f True by (simp_all add: CreateBridge_def Let_def list_ex_image split: if_splits)
    then have "(b_NetworkAID b, b_NetworkBID b) \<notin> (\<lambda>b. (b_NetworkAID b, b_NetworkBID b)) ` set (bridges d1)"
      by (auto simp: list_ex_iff)
    then have "bridges_ok d'"
      using d1 fk ids_ok_snoc[of "map b_ID (bridges d1)" "bridge_seq d1"]
      by (simp add: d' db_inv_def bridges_ok_def)
    then show ?thesis by (rule db_invI_bridges[OF d1]) (simp_all add: d')
  next
    case False
    then show ?thesis using assms(2) f d1 by (auto simp: CreateBridge_def Let_def split: if_splits)
  qed
qed

lemma UpdateBridge_inv:
  assumes "db_inv d" "UpdateBridge b d = (r, d')"
  shows "db_inv d'"
proof -
  obtain f d1 where f: "db_fault d = (f, d1)" by (cases "db_fault d")
  have d1: "db_inv d1" using db_inv_fault[OF f] assms(1) by simp
  let ?g = "\<lambda>c. if b_ID c = b_ID b then c\<lparr>b_Direction := b_Direction b, b_AllowedCIDRs := b_AllowedCIDRs b,
                     b_Enabled := b_Enabled b, b_UpdatedAt := now d1\<rparr> else c"
  have ids: "map b_ID (map ?g xs) = map b_ID xs" "map b_NetworkAID (map ?g xs) = map b_NetworkAID xs"
      "map b_NetworkBID (map ?g xs) = map b_NetworkBID xs"
      "map (\<lambda>c. (b_NetworkAID c, b_NetworkBID c)) (map ?g xs) = map (\<lambda>c. (b_NetworkAID c, b_NetworkBID c)) xs" for xs
    by simp_all
  show ?thesis
  proof (cases f)
    case False
    then have br: "bridges d' = map ?g (bridges d1)" "networks d' = networks d1" "net_seq d' = net_seq d1"
        "peers d' = peers d1" "peer_seq d' = peer_seq d1" "snapshots d' = snapshots d1" "bridge_seq d' = bridge_seq d1"
      using assms(2) f by (auto simp: UpdateBridge_def)
    have "bridges_ok d'"
      using d1 by (simp only: db_inv_def bridges_ok_def br ids flip: list.set_map)
    then show ?thesis by (rule db_invI_bridges[OF d1]) (simp_all add: br)
  qed (use assms(2) f d1 in \<open>simp add: UpdateBridge_def\<close>)
qed

lemma DeleteBridge_inv:
  assumes "db_inv d" "DeleteBridge i d = (r, d')"
  shows "db_inv d'"
proof -
  obtain f d1 where f: "db_fault d = (f, d1)" by (cases "db_fault d")
  have d1: "db_inv d1" using db_inv_fault[OF f] assms(1) by simp
  show ?thesis
  proof (cases f)
    case False
    then have d': "d' = d1\<lparr>bridges := filter (\<lambda>b. b_ID b \<noteq> i) (bridges d1)\<rparr>"
      using assms(2) f by (simp add: DeleteBridge_def)
    have "bridges_ok d'"
      using d1 by (auto simp: d' db_inv_def bridges_ok_def ids_ok_filter distinct_map_filter)
    then show ?thesis by (rule db_invI_bridges[OF d1]) (simp_all add: d')
  qed (use assms(2) f d1 in \<open>simp add: DeleteBridge_def\<close>)
qed

lemma snapshot_ops_inv:
  assumes "db_inv d"
  shows "InsertSnapshot s d = (r, d') \<Longrightarrow> db_inv d'" "CompactSnapshots t d = (q, d') \<Longrightarrow> db_inv d'"
proof -
  obtain f d1 where f: "db_fault d = (f, d1)" by (cases "db_fault d")
  have d1: "db_inv d1" using db_inv_fault[OF f] assms by simp
  { assume "InsertSnapshot s d = (r, d')"
    then have "d' = d1 \<or> d' = d1\<lparr>snapshots := snapshots d1 @ [s]\<rparr> \<and> s_PeerID s \<in> p_ID ` set (peers d1)
        \<and> (s_PeerID s, s_Timestamp s) \<notin> (\<lambda>s. (s_PeerID s, s_Timestamp s)) ` set (snapshots d1)"
      using f by (auto simp: InsertSnapshot_def list_ex_image list_ex_iff[of "\<lambda>t. _ t \<and> _ t"] split: if_splits)
    then show "db_inv d'"
      using d1 by (elim disjE conjE) (simp_all add: db_inv_def db_ok_defs) }
  { assume "CompactSnapshots t d = (q, d')"
    then have "d' = d1 \<or> d' = d1\<lparr>snapshots := filter (\<lambda>s. \<not> s_Timestamp s < t) (snapshots d1)\<rparr>"
      using f by (auto simp: CompactSnapshots_def split: if_splits)
    then show "db_inv d'"
      using d1 by (elim disjE) (simp_all add: db_inv_def db_ok_defs distinct_map_filter image_subset_iff) }
qed

section \<open>The database as a state machine\<close>

datatype db_op =
    OpCreateNetwork Network | OpUpdateNetwork Network | OpDeleteNetwork int
  | OpCreatePeer Peer | OpUpdatePeer Peer | OpDeletePeer int
  | OpCreateBridge Bridge | OpUpdateBridge Bridge | OpDeleteBridge int
  | OpSetSetting string string | OpDeleteSetting string
  | OpInsertSnapshot PeerSnapshot | OpCompactSnapshots int | OpInsertAuditEntry AuditEntry

definition err_of :: "('e + 'a) \<times> 's \<Rightarrow> 'e option \<times> 's" where
  "err_of r = (case r of (Inl e, s) \<Rightarrow> (Some e, s) | (Inr _, s) \<Rightarrow> (None, s))"

definition db_step :: "aead \<Rightarrow> db_op \<Rightarrow> DB \<Rightarrow> db_error option \<times> DB" where
  "db_step A op d = (case op of
      OpCreateNetwork n \<Rightarrow> err_of (CreateNetwork A n d) | OpUpdateNetwork n \<Rightarrow> UpdateNetwork A n d
    | OpDeleteNetwork i \<Rightarrow> DeleteNetwork i d
    | OpCreatePeer p \<Rightarrow> err_of (CreatePeer A p d) | OpUpdatePeer p \<Rightarrow> UpdatePeer A p d
    | OpDeletePeer i \<Rightarrow> DeletePeer i d
    | OpCreateBridge b \<Rightarrow> err_of (CreateBridge b d) | OpUpdateBridge b \<Rightarrow> UpdateBridge b d
    | OpDeleteBridge i \<Rightarrow> DeleteBridge i d
    | OpSetSetting k v \<Rightarrow> SetSetting k v d | OpDeleteSetting k \<Rightarrow> DeleteSetting k d
    | OpInsertSnapshot s \<Rightarrow> InsertSnapshot s d
    | OpCompactSnapshots t \<Rightarrow> err_of (CompactSnapshots t d)
    | OpInsertAuditEntry e \<Rightarrow> InsertAuditEntry e d)"

definition empty_db :: DB where
  "empty_db = \<lparr>networks = [], net_seq = 0, peers = [], peer_seq = 0, bridges = [], bridge_seq = 0,
     settings = [], snapshots = [], audit_log = [], encryptionKey = None, faults = [], entropy = [], now = 0,
     users = [], user_seq = 0, api_keys = [], api_key_seq = 0, alerts = [], alert_seq = 0\<rparr>"

text \<open>
  The states a database can get into: an empty one after the migrations, any operation, and
  any change of the inputs (clock, random source, failures of the engine, encryption key).
\<close>

inductive db_reach :: "aead \<Rightarrow> DB \<Rightarrow> bool" for A where
  reach_empty: "db_reach A empty_db"
| reach_input: "db_reach A d \<Longrightarrow> db_reach A (d\<lparr>now := t, entropy := ns, faults := fs, encryptionKey := k\<rparr>)"
| reach_step: "db_reach A d \<Longrightarrow> db_step A op d = (r, d') \<Longrightarrow> db_reach A d'"

lemma err_of_eq: "err_of x = (r, d') \<longleftrightarrow> (\<exists>e. x = (Inl e, d') \<and> r = Some e) \<or> (\<exists>v. x = (Inr v, d') \<and> r = None)"
  by (auto simp: err_of_def split: prod.splits sum.splits)

lemma CreateNetwork_inv: "\<lbrakk>db_inv d; CreateNetwork A n d = (r, d')\<rbrakk> \<Longrightarrow> db_inv d'"
  by (auto simp: CreateNetwork_def split: prod.splits sum.splits dest: db_inv_encrypt insert_network_inv)

lemma UpdateNetwork_inv: "\<lbrakk>db_inv d; UpdateNetwork A n d = (r, d')\<rbrakk> \<Longrightarrow> db_inv d'"
  by (auto simp: UpdateNetwork_def split: prod.splits sum.splits dest: db_inv_encrypt update_network_inv)

lemma CreatePeer_inv: "\<lbrakk>db_inv d; CreatePeer A p d = (r, d')\<rbrakk> \<Longrightarrow> db_inv d'"
  by (auto simp: CreatePeer_def split: prod.splits sum.splits dest!: db_inv_encrypt dest: insert_peer_inv)

lemma UpdatePeer_inv: "\<lbrakk>db_inv d; UpdatePeer A p d = (r, d')\<rbrakk> \<Longrightarrow> db_inv d'"
  by (auto simp: UpdatePeer_def split: prod.splits sum.splits dest!: db_inv_encrypt dest: update_peer_inv)

lemma setting_audit_inv:
  assumes "db_inv d"
  shows "SetSetting k v d = (r, d') \<Longrightarrow> db_inv d'" "DeleteSetting k d = (r, d') \<Longrightarrow> db_inv d'"
    "InsertAuditEntry e d = (r, d') \<Longrightarrow> db_inv d'"
  using assms
  by (auto simp: SetSetting_def DeleteSetting_def InsertAuditEntry_def split: prod.splits if_splits dest!: db_inv_fault)

lemmas db_op_invs = CreateNetwork_inv UpdateNetwork_inv DeleteNetwork_inv CreatePeer_inv UpdatePeer_inv
  DeletePeer_inv CreateBridge_inv UpdateBridge_inv DeleteBridge_inv snapshot_ops_inv setting_audit_inv

lemma db_step_inv: "\<lbrakk>db_inv d; db_step A op d = (r, d')\<rbrakk> \<Longrightarrow> db_inv d'"
  by (cases op) (auto simp: db_step_def err_of_eq intro: db_op_invs)

lemma db_inv_empty: "db_inv empty_db"
  by (simp add: db_inv_def db_ok_defs empty_db_def ids_ok_def)

text \<open>The tables, without the inputs.\<close>

definition tables :: "DB \<Rightarrow> DB" where
  "tables d = d\<lparr>faults := [], entropy := [], now := 0, encryptionKey := None\<rparr>"

lemma tables_frame [simp]: "tables (d\<lparr>faults := fs\<rparr>) = tables d" "tables (d\<lparr>entropy := ns\<rparr>) = tables d"
  by (simp_all add: tables_def)

lemma tables_fault: "db_fault d = (f, d1) \<Longrightarrow> tables d1 = tables d"
  by (metis db_fault_frame tables_frame(1))

lemma tables_encrypt: "encrypt_field A rc s d = (r, d1) \<Longrightarrow> tables d1 = tables d"
  by (metis encrypt_field_frame tables_frame(2))

lemmas db_stmt_defs = insert_network_def update_network_def DeleteNetwork_def insert_peer_def update_peer_def
  DeletePeer_def CreateBridge_def UpdateBridge_def DeleteBridge_def SetSetting_def DeleteSetting_def
  InsertSnapshot_def CompactSnapshots_def InsertAuditEntry_def

lemma db_step_err_tables:
  assumes "db_step A op d = (Some e, d')"
  shows "tables d' = tables d"
  using assms
  by (cases op; auto simp: db_step_def err_of_eq CreateNetwork_def UpdateNetwork_def CreatePeer_def UpdatePeer_def
        db_stmt_defs Let_def split: prod.splits sum.splits if_splits dest!: tables_fault tables_encrypt)

lemma find_append_None: "\<forall>x\<in>set xs. \<not> P x \<Longrightarrow> find P (xs @ ys) = find P ys"
  by (induction xs) auto

section \<open>Properties\<close>


definition net_row :: "string \<Rightarrow> int \<Rightarrow> string \<Rightarrow> Network" where
  "net_row iface port pk = \<lparr>n_ID = 0, n_Name = ''home'', n_Interface = iface, n_Mode = ''gateway'',
     n_Subnet = ''10.0.0.0/24'', n_ListenPort = port, n_PrivateKey = pk, n_PublicKey = ''pub'', n_DNSServers = [],
     n_NATEnabled = True, n_InterPeerRouting = False, n_Enabled = True, n_CreatedAt = 0, n_UpdatedAt = 0\<rparr>"

lemma create_first_network:
  "db_step A (OpCreateNetwork (net_row i p k)) empty_db
   = (None, empty_db\<lparr>networks := [(net_row i p k)\<lparr>n_ID := 1\<rparr>], net_seq := 1\<rparr>)"
  by (simp add: db_step_def err_of_def CreateNetwork_def encrypt_field_def insert_network_def db_fault_def empty_db_def
      Let_def net_row_def)




text \<open>
  C17.  Keys at rest: with an encryption key set, the row a new network is stored in holds
  a ciphertext, not its private key, and reading the network back gives the private
  key and every other field the caller wrote, with the id and the time filled in.
\<close>

theorem network_key_at_rest:
  assumes "aead_ok A" "encryptionKey d = Some k" "entropy d = nonce # ns" "length nonce = 12"
    and "wg_key (n_PrivateKey n)" "db_inv d" "CreateNetwork A n d = (Inr i, d')"
  shows "(\<exists>row\<in>set (networks d'). n_ID row = i \<and> IsEncrypted (n_PrivateKey row) \<and> n_PrivateKey row \<noteq> n_PrivateKey n)
    \<and> fst (GetNetworkByID A i (d'\<lparr>faults := []\<rparr>))
        = Inr (Some (n\<lparr>n_ID := i, n_CreatedAt := now d, n_UpdatedAt := now d\<rparr>))"
proof -
  let ?pk = "n_PrivateKey n"
  have ne: "?pk \<noteq> []" and l4: "length ?pk \<noteq> 4" using wg_key_length[OF assms(5)] by auto
  obtain c where c: "Encrypt A (Some nonce) ?pk k = Inr c" using ne by (simp add: Encrypt_def)
  have enc: "IsEncrypted c" "Decrypt A c k = Inr ?pk" "c \<noteq> []"
    using IsEncrypted_Encrypt[OF assms(1,4) ne c] Decrypt_Encrypt[OF assms(1,4) c] l4 by (auto simp: IsEncrypted_def)
  have neq: "c \<noteq> ?pk" using enc(1) wg_key_not_encrypted[OF assms(5)] by auto
  let ?d1 = "d\<lparr>entropy := ns\<rparr>"
  have ins: "insert_network (n\<lparr>n_PrivateKey := c\<rparr>) ?d1 = (Inr i, d')"
    using assms(2,3,7) ne c by (simp add: CreateNetwork_def encrypt_field_def read_nonce_def)
  let ?row = "n\<lparr>n_PrivateKey := c, n_ID := i, n_CreatedAt := now d, n_UpdatedAt := now d\<rparr>"
  have i: "i = net_seq d + 1" and nets: "networks d' = networks d @ [?row]" and key: "encryptionKey d' = Some k"
    using ins assms(2) by (auto simp: insert_network_def Let_def db_fault_def split: prod.splits if_splits list.splits)
  have fresh: "find (\<lambda>m. n_ID m = i) (networks d @ [?row]) = Some ?row"
  proof -
    have "\<forall>m\<in>set (networks d). n_ID m \<noteq> i" using assms(6) i by (auto simp: db_inv_def networks_ok_def ids_ok_def)
    then show ?thesis by (simp add: find_append_None)
  qed
  have "decrypt_field A (Some k) c = Inr ?pk" using enc by (simp add: decrypt_field_def)
  then have "fst (GetNetworkByID A i (d'\<lparr>faults := []\<rparr>))
      = Inr (Some (n\<lparr>n_ID := i, n_CreatedAt := now d, n_UpdatedAt := now d\<rparr>))"
    using fresh nets key by (simp add: GetNetworkByID_def db_fault_def decryptNetworkKeys_def)
  then show ?thesis using nets enc(1) neq by auto
qed

definition some_key :: string where
  "some_key = EncodeToString (replicate 32 1)"

lemma some_key_ok: "wg_key some_key"
  by (simp add: wg_key_def some_key_def DecodeString_EncodeToString)

theorem network_key_at_rest_witness:
  "\<exists>d'. CreateNetwork toy_aead (net_row ''wg0'' 51820 some_key) (empty_db\<lparr>encryptionKey := Some [], entropy := [replicate 12 5]\<rparr>)
        = (Inr 1, d') \<and> (\<forall>row\<in>set (networks d'). n_PrivateKey row \<noteq> some_key)"
proof -
  let ?d = "empty_db\<lparr>encryptionKey := Some [], entropy := [replicate 12 5]\<rparr>" let ?n = "net_row ''wg0'' 51820 some_key"
  have ne: "some_key \<noteq> []" by (simp add: some_key_def)
  obtain d' where d': "CreateNetwork toy_aead ?n ?d = (Inr 1, d')" "length (networks d') = 1"
    using ne by (simp add: CreateNetwork_def encrypt_field_def read_nonce_def Encrypt_def insert_network_def db_fault_def
        empty_db_def Let_def net_row_def)
  have inv: "db_inv ?d" using db_inv_empty by simp
  have "\<exists>row\<in>set (networks d'). n_PrivateKey row \<noteq> some_key"
    using network_key_at_rest[OF toy_aead_ok _ _ _ _ inv d'(1), of "[]" "replicate 12 5" "[]"] some_key_ok
    by (auto simp: net_row_def empty_db_def)
  then show ?thesis using d' by (auto simp: length_Suc_conv)
qed



end
