(* ===== verification/Accounts.thy ===== *)
theory Accounts
  imports Database
begin

text \<open>
  The queries of \<open>internal/db/users.go\<close>, \<open>api_keys.go\<close>, \<open>alerts.go\<close>, and the list queries of
  \<open>settings.go\<close>, \<open>snapshots.go\<close> and \<open>audit.go\<close>, on the tables of \<open>Database\<close>.
\<close>

section \<open>\<open>users.go\<close>\<close>

definition CreateUser :: "User \<Rightarrow> DB \<Rightarrow> (db_error + int) \<times> DB" where
  "CreateUser u d = (case db_fault d of (f, d1) \<Rightarrow>
      if f then (Inl SQLFault, d1)
      else if list_ex (\<lambda>v. u_Username v = u_Username u) (users d1) then (Inl UniqueViolation, d1)
      else let id = user_seq d1 + 1 in
        (Inr id, d1\<lparr>users := users d1 @ [u\<lparr>u_ID := id, u_CreatedAt := now d1, u_UpdatedAt := now d1\<rparr>], user_seq := id\<rparr>))"

definition GetUserByUsername :: "string \<Rightarrow> DB \<Rightarrow> (db_error + User option) \<times> DB" where
  "GetUserByUsername name d = (case db_fault d of (f, d1) \<Rightarrow>
      if f then (Inl SQLFault, d1) else (Inr (find (\<lambda>u. u_Username u = name) (users d1)), d1))"

definition GetUserByID :: "int \<Rightarrow> DB \<Rightarrow> (db_error + User option) \<times> DB" where
  "GetUserByID uid d = (case db_fault d of (f, d1) \<Rightarrow>
      if f then (Inl SQLFault, d1) else (Inr (find (\<lambda>u. u_ID u = uid) (users d1)), d1))"

definition UpdateUserPassword :: "int \<Rightarrow> string \<Rightarrow> DB \<Rightarrow> db_error option \<times> DB" where
  "UpdateUserPassword uid passwordHash d = (case db_fault d of (f, d1) \<Rightarrow>
      if f then (Some SQLFault, d1)
      else (None, d1\<lparr>users := map (\<lambda>u. if u_ID u = uid then u\<lparr>u_PasswordHash := passwordHash, u_UpdatedAt := now d1\<rparr> else u) (users d1)\<rparr>))"

definition ListUsers :: "DB \<Rightarrow> (db_error + User list) \<times> DB" where
  "ListUsers d = (case db_fault d of (f, d1) \<Rightarrow> if f then (Inl SQLFault, d1) else (Inr (users d1), d1))"

text \<open>DELETE with its cascade to the API keys of the user.\<close>

definition DeleteUser :: "int \<Rightarrow> DB \<Rightarrow> db_error option \<times> DB" where
  "DeleteUser uid d = (case db_fault d of (f, d1) \<Rightarrow>
      if f then (Some SQLFault, d1)
      else (None, d1\<lparr>users := filter (\<lambda>u. u_ID u \<noteq> uid) (users d1), api_keys := filter (\<lambda>k. ak_UserID k \<noteq> uid) (api_keys d1)\<rparr>))"

section \<open>\<open>api_keys.go\<close>\<close>

definition CreateAPIKey :: "APIKey \<Rightarrow> DB \<Rightarrow> (db_error + int) \<times> DB" where
  "CreateAPIKey k d = (case db_fault d of (f, d1) \<Rightarrow>
      if f then (Inl SQLFault, d1)
      else if list_ex (\<lambda>j. ak_KeyHash j = ak_KeyHash k) (api_keys d1) then (Inl UniqueViolation, d1)
      else if \<not> list_ex (\<lambda>u. u_ID u = ak_UserID k) (users d1) then (Inl ForeignKeyViolation, d1)
      else let id = api_key_seq d1 + 1 in
        (Inr id, d1\<lparr>api_keys := api_keys d1 @ [k\<lparr>ak_ID := id, ak_CreatedAt := now d1, ak_LastUsed := None\<rparr>], api_key_seq := id\<rparr>))"

definition GetAPIKeyByHash :: "string \<Rightarrow> DB \<Rightarrow> (db_error + APIKey option) \<times> DB" where
  "GetAPIKeyByHash hash d = (case db_fault d of (f, d1) \<Rightarrow>
      if f then (Inl SQLFault, d1) else (Inr (find (\<lambda>k. ak_KeyHash k = hash) (api_keys d1)), d1))"

definition ListAPIKeys :: "int \<Rightarrow> DB \<Rightarrow> (db_error + APIKey list) \<times> DB" where
  "ListAPIKeys userID d = (case db_fault d of (f, d1) \<Rightarrow>
      if f then (Inl SQLFault, d1) else (Inr (filter (\<lambda>k. ak_UserID k = userID) (api_keys d1)), d1))"

definition ListAllAPIKeys :: "DB \<Rightarrow> (db_error + APIKey list) \<times> DB" where
  "ListAllAPIKeys d = (case db_fault d of (f, d1) \<Rightarrow> if f then (Inl SQLFault, d1) else (Inr (api_keys d1), d1))"

definition UpdateAPIKeyLastUsed :: "int \<Rightarrow> DB \<Rightarrow> db_error option \<times> DB" where
  "UpdateAPIKeyLastUsed kid d = (case db_fault d of (f, d1) \<Rightarrow>
      if f then (Some SQLFault, d1)
      else (None, d1\<lparr>api_keys := map (\<lambda>k. if ak_ID k = kid then k\<lparr>ak_LastUsed := Some (now d1)\<rparr> else k) (api_keys d1)\<rparr>))"

definition DeleteAPIKey :: "int \<Rightarrow> DB \<Rightarrow> db_error option \<times> DB" where
  "DeleteAPIKey kid d = (case db_fault d of (f, d1) \<Rightarrow>
      if f then (Some SQLFault, d1) else (None, d1\<lparr>api_keys := filter (\<lambda>k. ak_ID k \<noteq> kid) (api_keys d1)\<rparr>))"

section \<open>\<open>alerts.go\<close>\<close>

definition CreateAlert :: "Alert \<Rightarrow> DB \<Rightarrow> (db_error + int) \<times> DB" where
  "CreateAlert a d = (case db_fault d of (f, d1) \<Rightarrow>
      if f then (Inl SQLFault, d1)
      else let id = alert_seq d1 + 1 in
        (Inr id, d1\<lparr>alerts := alerts d1 @ [a\<lparr>al_ID := id, al_CreatedAt := now d1\<rparr>], alert_seq := id\<rparr>))"

definition GetAlertByID :: "int \<Rightarrow> DB \<Rightarrow> (db_error + Alert option) \<times> DB" where
  "GetAlertByID aid d = (case db_fault d of (f, d1) \<Rightarrow>
      if f then (Inl SQLFault, d1) else (Inr (find (\<lambda>a. al_ID a = aid) (alerts d1)), d1))"

definition ListAlerts :: "DB \<Rightarrow> (db_error + Alert list) \<times> DB" where
  "ListAlerts d = (case db_fault d of (f, d1) \<Rightarrow> if f then (Inl SQLFault, d1) else (Inr (alerts d1), d1))"

definition ListEnabledAlerts :: "DB \<Rightarrow> (db_error + Alert list) \<times> DB" where
  "ListEnabledAlerts d = (case db_fault d of (f, d1) \<Rightarrow>
      if f then (Inl SQLFault, d1) else (Inr (filter al_Enabled (alerts d1)), d1))"

definition UpdateAlert :: "Alert \<Rightarrow> DB \<Rightarrow> db_error option \<times> DB" where
  "UpdateAlert a d = (case db_fault d of (f, d1) \<Rightarrow>
      if f then (Some SQLFault, d1)
      else (None, d1\<lparr>alerts := map (\<lambda>b. if al_ID b = al_ID a then a\<lparr>al_CreatedAt := al_CreatedAt b\<rparr> else b) (alerts d1)\<rparr>))"

definition DeleteAlert :: "int \<Rightarrow> DB \<Rightarrow> db_error option \<times> DB" where
  "DeleteAlert aid d = (case db_fault d of (f, d1) \<Rightarrow>
      if f then (Some SQLFault, d1) else (None, d1\<lparr>alerts := filter (\<lambda>a. al_ID a \<noteq> aid) (alerts d1)\<rparr>))"

section \<open>List queries\<close>

definition ListSettings :: "DB \<Rightarrow> (db_error + (string \<times> string) list) \<times> DB" where
  "ListSettings d = (case db_fault d of (f, d1) \<Rightarrow> if f then (Inl SQLFault, d1) else (Inr (settings d1), d1))"

definition ListSnapshots :: "int \<Rightarrow> int \<Rightarrow> int \<Rightarrow> DB \<Rightarrow> (db_error + PeerSnapshot list) \<times> DB" where
  "ListSnapshots peerID from until d = (case db_fault d of (f, d1) \<Rightarrow>
      if f then (Inl SQLFault, d1)
      else (Inr (sort_key s_Timestamp (filter (\<lambda>s. s_PeerID s = peerID \<and> s_Timestamp s \<ge> from \<and> s_Timestamp s \<le> until) (snapshots d1))), d1))"

record AuditFilter =
  af_Action :: string
  af_Resource :: string
  af_UserID :: int

definition audit_match :: "AuditFilter \<Rightarrow> AuditEntry \<Rightarrow> bool" where
  "audit_match flt e = ((af_Action flt \<noteq> [] \<longrightarrow> a_Action e = af_Action flt) \<and> (af_Resource flt \<noteq> [] \<longrightarrow> a_Resource e = af_Resource flt)
     \<and> (af_UserID flt > 0 \<longrightarrow> a_UserID e = af_UserID flt))"

text \<open>
  Two statements, the count and the page.  In SQLite a negative limit means no limit and a
  negative offset means none.  Entries are never deleted, so the id of an entry is its place in
  the table.
\<close>

definition page :: "int \<Rightarrow> int \<Rightarrow> 'a list \<Rightarrow> 'a list" where
  "page limit offset xs = (let ys = drop (nat offset) xs in if limit < 0 then ys else take (nat limit) ys)"

definition ListAuditLog :: "int \<Rightarrow> int \<Rightarrow> AuditFilter \<Rightarrow> DB \<Rightarrow> (db_error + (nat \<times> AuditEntry) list \<times> int) \<times> DB" where
  "ListAuditLog limit offset flt d = (case db_fault d of (f, d1) \<Rightarrow>
      if f then (Inl SQLFault, d1)
      else let total = int (length (filter (audit_match flt) (audit_log d1))) in
        (case db_fault d1 of (g, d2) \<Rightarrow>
          if g then (Inl SQLFault, d2)
          else (Inr (page limit offset (rev (filter (\<lambda>e. audit_match flt (snd e)) (enumerate 1 (audit_log d2)))), total), d2)))"

section \<open>The constraints on the tables of accounts\<close>

definition accounts_inv :: "DB \<Rightarrow> bool" where
  "accounts_inv d \<longleftrightarrow> distinct (map u_ID (users d)) \<and> (\<forall>i\<in>set (map u_ID (users d)). 0 < i \<and> i \<le> user_seq d) \<and> 0 \<le> user_seq d \<and>
     distinct (map u_Username (users d)) \<and>
     distinct (map ak_ID (api_keys d)) \<and> (\<forall>i\<in>set (map ak_ID (api_keys d)). 0 < i \<and> i \<le> api_key_seq d) \<and> 0 \<le> api_key_seq d \<and>
     distinct (map ak_KeyHash (api_keys d)) \<and> set (map ak_UserID (api_keys d)) \<subseteq> set (map u_ID (users d)) \<and>
     distinct (map al_ID (alerts d)) \<and> (\<forall>i\<in>set (map al_ID (alerts d)). 0 < i \<and> i \<le> alert_seq d) \<and> 0 \<le> alert_seq d"

lemma accounts_frame [simp]:
  "accounts_inv (d\<lparr>faults := fs\<rparr>) = accounts_inv d" "accounts_inv (d\<lparr>entropy := ns\<rparr>) = accounts_inv d"
  "accounts_inv (d\<lparr>audit_log := al\<rparr>) = accounts_inv d" "accounts_inv (d\<lparr>settings := st\<rparr>) = accounts_inv d"
  "accounts_inv (d\<lparr>networks := ns'\<rparr>) = accounts_inv d" "accounts_inv (d\<lparr>peers := ps\<rparr>) = accounts_inv d"
  "accounts_inv (d\<lparr>net_seq := i\<rparr>) = accounts_inv d" "accounts_inv (d\<lparr>peer_seq := i\<rparr>) = accounts_inv d"
  "accounts_inv (d\<lparr>snapshots := ss\<rparr>) = accounts_inv d" "accounts_inv (d\<lparr>bridges := bs\<rparr>) = accounts_inv d"
  by (simp_all add: accounts_inv_def)

lemma accounts_fault: "accounts_inv d \<Longrightarrow> db_fault d = (f, d1) \<Longrightarrow> accounts_inv d1"
  using db_fault_frame by (metis accounts_frame(1))

text \<open>Updates that keep the columns the invariant is about.\<close>

lemma accounts_cong:
  assumes "accounts_inv d"
  shows "\<lbrakk>map u_ID us = map u_ID (users d); map u_Username us = map u_Username (users d)\<rbrakk> \<Longrightarrow> accounts_inv (d\<lparr>users := us\<rparr>)"
    "\<lbrakk>map ak_ID ks = map ak_ID (api_keys d); map ak_KeyHash ks = map ak_KeyHash (api_keys d); map ak_UserID ks = map ak_UserID (api_keys d)\<rbrakk>
       \<Longrightarrow> accounts_inv (d\<lparr>api_keys := ks\<rparr>)"
    "map al_ID as = map al_ID (alerts d) \<Longrightarrow> accounts_inv (d\<lparr>alerts := as\<rparr>)"
  using assms by (simp_all add: accounts_inv_def del: set_map)

lemma account_ops_inv:
  assumes "accounts_inv d"
  shows "CreateUser u d = (r, d') \<Longrightarrow> accounts_inv d'" "UpdateUserPassword i h d = (e, d') \<Longrightarrow> accounts_inv d'"
    "DeleteUser i d = (e, d') \<Longrightarrow> accounts_inv d'"
    "CreateAPIKey k d = (r, d') \<Longrightarrow> accounts_inv d'" "UpdateAPIKeyLastUsed i d = (e, d') \<Longrightarrow> accounts_inv d'"
    "DeleteAPIKey i d = (e, d') \<Longrightarrow> accounts_inv d'"
    "CreateAlert a d = (r, d') \<Longrightarrow> accounts_inv d'" "UpdateAlert a d = (e, d') \<Longrightarrow> accounts_inv d'"
    "DeleteAlert i d = (e, d') \<Longrightarrow> accounts_inv d'"
proof -
  obtain f d1 where f: "db_fault d = (f, d1)" by (cases "db_fault d")
  have inv: "accounts_inv d1" by (rule accounts_fault[OF assms f])
  show "CreateUser u d = (r, d') \<Longrightarrow> accounts_inv d'"
    using f inv by (auto simp: CreateUser_def Let_def accounts_inv_def list_ex_iff image_iff split: if_splits; force)
  show "UpdateUserPassword i h d = (e, d') \<Longrightarrow> accounts_inv d'"
    using f inv by (auto simp: UpdateUserPassword_def intro!: accounts_cong(1) split: if_splits)
  show "DeleteUser i d = (e, d') \<Longrightarrow> accounts_inv d'"
    using f inv by (auto simp: DeleteUser_def accounts_inv_def distinct_map_filter split: if_splits; force)
  show "CreateAPIKey k d = (r, d') \<Longrightarrow> accounts_inv d'"
  proof -
    assume ins: "CreateAPIKey k d = (r, d')"
    have fresh: "api_key_seq d1 + 1 \<notin> ak_ID ` set (api_keys d1)"
      using inv by (auto simp: accounts_inv_def)
    show "accounts_inv d'"
    proof (cases "f \<or> list_ex (\<lambda>j. ak_KeyHash j = ak_KeyHash k) (api_keys d1) \<or> \<not> list_ex (\<lambda>u. u_ID u = ak_UserID k) (users d1)")
      case True
      then show ?thesis using ins f inv by (auto simp: CreateAPIKey_def Let_def split: if_splits)
    next
      case False
      then have h: "ak_KeyHash k \<notin> ak_KeyHash ` set (api_keys d1)" and o: "ak_UserID k \<in> u_ID ` set (users d1)"
        by (auto simp: list_ex_iff image_iff) (metis)
      from False have d': "d' = d1\<lparr>api_keys := api_keys d1 @ [k\<lparr>ak_ID := api_key_seq d1 + 1, ak_CreatedAt := now d1, ak_LastUsed := None\<rparr>],
          api_key_seq := api_key_seq d1 + 1\<rparr>"
        using ins f by (auto simp: CreateAPIKey_def Let_def)
      show ?thesis
        using inv fresh h o by (simp add: d' accounts_inv_def) force
    qed
  qed
  show "UpdateAPIKeyLastUsed i d = (e, d') \<Longrightarrow> accounts_inv d'"
    using f inv by (auto simp: UpdateAPIKeyLastUsed_def intro!: accounts_cong(2) split: if_splits)
  show "DeleteAPIKey i d = (e, d') \<Longrightarrow> accounts_inv d'"
    using f inv by (auto simp: DeleteAPIKey_def accounts_inv_def distinct_map_filter split: if_splits; blast)
  show "CreateAlert a d = (r, d') \<Longrightarrow> accounts_inv d'"
    using f inv by (auto simp: CreateAlert_def Let_def accounts_inv_def image_iff split: if_splits; force)
  show "UpdateAlert a d = (e, d') \<Longrightarrow> accounts_inv d'"
    using f inv by (auto simp: UpdateAlert_def intro!: accounts_cong(3) split: if_splits)
  show "DeleteAlert i d = (e, d') \<Longrightarrow> accounts_inv d'"
    using f inv by (auto simp: DeleteAlert_def accounts_inv_def distinct_map_filter split: if_splits; blast)
qed

lemma accounts_inv_empty: "accounts_inv empty_db"
  by (simp add: accounts_inv_def empty_db_def)

end
