(* ===== verification/WgConfig.thy ===== *)
theory WgConfig
  imports GoNet
begin

text \<open>
  \<open>internal/wg/config_gen.go\<close>, \<open>export.go\<close> and \<open>import.go\<close>: the wg-quick files the
  program writes and reads.  A template of \<open>text/template\<close> is written out as the lines it
  produces (an action that starts with \<open>{{-\<close> removes the newline before it, so an
  absent option leaves no line).  Reading a file goes line by line, as \<open>bufio.Scanner\<close> does:
  lines end at a newline, a carriage return before it is dropped, and a line of
  65536 bytes or more is an error.
\<close>

section \<open>Generating\<close>

abbreviation newline :: char where
  "newline \<equiv> CHR 0x0A"

definition unlines :: "string list \<Rightarrow> string" where
  "unlines ls = concat (map (\<lambda>l. l @ [newline]) ls)"

text \<open>The dash in the header comment is U+2014.\<close>

definition generated_by :: "string \<Rightarrow> string" where
  "generated_by name = ''# Generated by wgpilot '' @ [CHR 0xE2, CHR 0x80, CHR 0x94] @ '' '' @ name"

record ClientConfigParams =
  c_PeerName :: string
  c_PeerPrivateKey :: string
  c_PeerAddress :: string
  c_DNSServers :: string
  c_ServerPublicKey :: string
  c_PresharedKey :: string
  c_ServerEndpoint :: string
  c_AllowedIPs :: string
  c_PersistentKeepalive :: int

datatype config_error =
    PeerPrivateKeyRequired | ServerPublicKeyRequired | ServerEndpointRequired | AllowedIPsRequired
  | PrivateKeyRequired | ListenPortRequired

definition opt_line :: "bool \<Rightarrow> string \<Rightarrow> string list" where
  "opt_line b l = (if b then [l] else [])"

definition clientConfigTmpl :: "ClientConfigParams \<Rightarrow> string list" where
  "clientConfigTmpl c =
     [generated_by (c_PeerName c), ''[Interface]'', ''PrivateKey = '' @ c_PeerPrivateKey c, ''Address = '' @ c_PeerAddress c]
     @ opt_line (c_DNSServers c \<noteq> []) (''DNS = '' @ c_DNSServers c)
     @ [[], ''[Peer]'', ''PublicKey = '' @ c_ServerPublicKey c]
     @ opt_line (c_PresharedKey c \<noteq> []) (''PresharedKey = '' @ c_PresharedKey c)
     @ [''AllowedIPs = '' @ c_AllowedIPs c, ''Endpoint = '' @ c_ServerEndpoint c]
     @ opt_line (c_PersistentKeepalive c > 0) (''PersistentKeepalive = '' @ itoa_int (c_PersistentKeepalive c))"

definition GenerateClientConfig :: "ClientConfigParams \<Rightarrow> config_error + string" where
  "GenerateClientConfig c =
     (if c_PeerPrivateKey c = [] then Inl PeerPrivateKeyRequired
      else if c_ServerPublicKey c = [] then Inl ServerPublicKeyRequired
      else if c_ServerEndpoint c = [] then Inl ServerEndpointRequired
      else if c_AllowedIPs c = [] then Inl AllowedIPsRequired
      else Inr (unlines (clientConfigTmpl c)))"

definition ComputeClientAllowedIPs :: "string \<Rightarrow> string \<Rightarrow> string \<Rightarrow> string" where
  "ComputeClientAllowedIPs mode sn siteNetworks =
     (if mode = ''gateway'' then ''0.0.0.0/0, ::/0''
      else if mode = ''hub-routed'' then sn
      else if mode = ''site-to-site'' then (if siteNetworks \<noteq> [] then siteNetworks else sn)
      else ''0.0.0.0/0, ::/0'')"

record ExportPeer =
  e_Name :: string
  e_PublicKey :: string
  e_PresharedKey :: string
  e_AllowedIPs :: string
  e_Endpoint :: string
  e_PersistentKeepalive :: int

record ServerConfigParams =
  s_InterfaceName :: string
  s_PrivateKey :: string
  s_Address :: string
  s_ListenPort :: int
  s_DNSServers :: string
  s_NATEnabled :: bool
  s_NATInterface :: string
  s_Peers :: "ExportPeer list"

definition export_peer_lines :: "ExportPeer \<Rightarrow> string list" where
  "export_peer_lines e =
     [[], ''# '' @ e_Name e, ''[Peer]'', ''PublicKey = '' @ e_PublicKey e]
     @ opt_line (e_PresharedKey e \<noteq> []) (''PresharedKey = '' @ e_PresharedKey e)
     @ [''AllowedIPs = '' @ e_AllowedIPs e]
     @ opt_line (e_Endpoint e \<noteq> []) (''Endpoint = '' @ e_Endpoint e)
     @ opt_line (e_PersistentKeepalive e > 0) (''PersistentKeepalive = '' @ itoa_int (e_PersistentKeepalive e))"

definition nat_lines :: "string \<Rightarrow> string list" where
  "nat_lines i =
     [''PostUp = iptables -t nat -A POSTROUTING -o '' @ i @ '' -j MASQUERADE; ip6tables -t nat -A POSTROUTING -o '' @ i @ '' -j MASQUERADE'',
      ''PostDown = iptables -t nat -D POSTROUTING -o '' @ i @ '' -j MASQUERADE; ip6tables -t nat -D POSTROUTING -o '' @ i @ '' -j MASQUERADE'']"

definition serverConfigTmpl :: "ServerConfigParams \<Rightarrow> string list" where
  "serverConfigTmpl s =
     [generated_by (s_InterfaceName s), ''[Interface]'', ''PrivateKey = '' @ s_PrivateKey s, ''Address = '' @ s_Address s,
      ''ListenPort = '' @ itoa_int (s_ListenPort s)]
     @ opt_line (s_DNSServers s \<noteq> []) (''DNS = '' @ s_DNSServers s)
     @ (if s_NATEnabled s then nat_lines (s_NATInterface s) else [])
     @ concat (map export_peer_lines (s_Peers s))"

definition GenerateServerConfig :: "ServerConfigParams \<Rightarrow> config_error + string" where
  "GenerateServerConfig p =
     (if s_PrivateKey p = [] then Inl PrivateKeyRequired
      else if s_ListenPort p = 0 then Inl ListenPortRequired
      else let p' = (if s_NATEnabled p \<and> s_NATInterface p = [] then p\<lparr>s_NATInterface := ''eth0''\<rparr> else p)
           in Inr (unlines (serverConfigTmpl p')))"

section \<open>Parsing\<close>

record ImportedPeer =
  i_PublicKey :: string
  i_PresharedKey :: string
  i_AllowedIPs :: string
  i_Endpoint :: string
  i_PersistentKeepalive :: int

record ImportedConfig =
  i_PrivateKey :: string
  i_Address :: string
  i_ListenPort :: int
  i_DNSServers :: string
  i_MTU :: int
  i_Peers :: "ImportedPeer list"

datatype import_error = LineTooLong | NoPrivateKey

text \<open>\<open>bufio.ScanLines\<close>.\<close>

definition drop_cr :: "string \<Rightarrow> string" where
  "drop_cr l = (if l \<noteq> [] \<and> last l = CHR 0x0D then butlast l else l)"

definition scan_lines :: "string \<Rightarrow> import_error + string list" where
  "scan_lines s = (let ls = Split newline s; ts = (if last ls = [] then butlast ls else ls)
     in if list_ex (\<lambda>l. length l \<ge> 65536) ts then Inl LineTooLong else Inr (map drop_cr ts))"

datatype section_kind = NoSection | InterfaceSection | PeerSection

record parse_state =
  ps_cfg :: ImportedConfig
  ps_section :: section_kind
  ps_peer :: "ImportedPeer option"

definition zero_peer :: ImportedPeer where
  "zero_peer = \<lparr>i_PublicKey = [], i_PresharedKey = [], i_AllowedIPs = [], i_Endpoint = [], i_PersistentKeepalive = 0\<rparr>"

definition zero_config :: ImportedConfig where
  "zero_config = \<lparr>i_PrivateKey = [], i_Address = [], i_ListenPort = 0, i_DNSServers = [], i_MTU = 0, i_Peers = []\<rparr>"

definition add_peer :: "ImportedPeer option \<Rightarrow> ImportedConfig \<Rightarrow> ImportedConfig" where
  "add_peer po cfg = (case po of None \<Rightarrow> cfg | Some p \<Rightarrow> cfg\<lparr>i_Peers := i_Peers cfg @ [p]\<rparr>)"

definition set_interface_key :: "string \<Rightarrow> string \<Rightarrow> ImportedConfig \<Rightarrow> ImportedConfig" where
  "set_interface_key key val cfg =
     (if key = ''privatekey'' then cfg\<lparr>i_PrivateKey := val\<rparr>
      else if key = ''address'' then cfg\<lparr>i_Address := val\<rparr>
      else if key = ''listenport'' then (case Atoi val of None \<Rightarrow> cfg | Some n \<Rightarrow> cfg\<lparr>i_ListenPort := n\<rparr>)
      else if key = ''dns'' then cfg\<lparr>i_DNSServers := val\<rparr>
      else if key = ''mtu'' then (case Atoi val of None \<Rightarrow> cfg | Some n \<Rightarrow> cfg\<lparr>i_MTU := n\<rparr>)
      else cfg)"

definition set_peer_key :: "string \<Rightarrow> string \<Rightarrow> ImportedPeer \<Rightarrow> ImportedPeer" where
  "set_peer_key key val p =
     (if key = ''publickey'' then p\<lparr>i_PublicKey := val\<rparr>
      else if key = ''presharedkey'' then p\<lparr>i_PresharedKey := val\<rparr>
      else if key = ''allowedips'' then p\<lparr>i_AllowedIPs := val\<rparr>
      else if key = ''endpoint'' then p\<lparr>i_Endpoint := val\<rparr>
      else if key = ''persistentkeepalive'' then (case Atoi val of None \<Rightarrow> p | Some n \<Rightarrow> p\<lparr>i_PersistentKeepalive := n\<rparr>)
      else p)"

definition parse_line :: "string \<Rightarrow> parse_state \<Rightarrow> parse_state" where
  "parse_line text st =
     (let line = TrimSpace text in
      if line = [] \<or> HasPrefix line ''#'' \<or> HasPrefix line '';'' then st
      else if ToLower line = ''[interface]'' then st\<lparr>ps_section := InterfaceSection\<rparr>
      else if ToLower line = ''[peer]'' then
        st\<lparr>ps_cfg := add_peer (ps_peer st) (ps_cfg st), ps_peer := Some zero_peer, ps_section := PeerSection\<rparr>
      else (case SplitN2 (CHR ''='') line of
         [k, v] \<Rightarrow>
           let key = TrimSpace (ToLower k); val = TrimSpace v in
           (case ps_section st of
              InterfaceSection \<Rightarrow> st\<lparr>ps_cfg := set_interface_key key val (ps_cfg st)\<rparr>
            | PeerSection \<Rightarrow> st\<lparr>ps_peer := map_option (set_peer_key key val) (ps_peer st)\<rparr>
            | NoSection \<Rightarrow> st)
       | _ \<Rightarrow> st))"

definition ParseWgQuickConfig :: "string \<Rightarrow> import_error + ImportedConfig" where
  "ParseWgQuickConfig s = (case scan_lines s of
      Inl e \<Rightarrow> Inl e
    | Inr ls \<Rightarrow>
        let st = fold parse_line ls \<lparr>ps_cfg = zero_config, ps_section = NoSection, ps_peer = None\<rparr>;
            cfg = add_peer (ps_peer st) (ps_cfg st)
        in if i_PrivateKey cfg = [] then Inl NoPrivateKey else Inr cfg)"

section \<open>Lines\<close>

lemma Split_unlines:
  "\<forall>l\<in>set ls. newline \<notin> set l \<Longrightarrow> Split newline (unlines ls) = ls @ [[]]"
  by (induction ls) (simp_all add: unlines_def Split_append_sep)

lemma scan_unlines:
  assumes "\<forall>l\<in>set ls. newline \<notin> set l \<and> CHR 0x0D \<notin> set l \<and> length l < 65536"
  shows "scan_lines (unlines ls) = Inr ls"
proof -
  have sp: "Split newline (unlines ls) = ls @ [[]]" by (rule Split_unlines) (use assms in blast)
  have "drop_cr l = l" if "l \<in> set ls" for l
  proof -
    have "CHR 0x0D \<notin> set l" using that assms by blast
    then have "l \<noteq> [] \<Longrightarrow> last l \<noteq> CHR 0x0D" by (metis last_in_set)
    then show ?thesis by (auto simp: drop_cr_def)
  qed
  then have "map drop_cr ls = ls" by (simp add: map_idI)
  moreover have "\<not> list_ex (\<lambda>l. 65536 \<le> length l) ls" using assms by (auto simp: list_ex_iff not_le)
  ultimately show ?thesis by (simp add: scan_lines_def sp)
qed

text \<open>A first character that is printable survives trimming.\<close>

lemma trim_front_keeps_last:
  assumes "\<forall>r\<in>set rs. c \<notin> set r"
  shows "\<exists>y. trim_front rs (x @ [c]) = y @ [c]"
proof (induction "length x" arbitrary: x rule: less_induct)
  case less
  show ?case
  proof (cases "front_rune rs (x @ [c])")
    case None
    then show ?thesis by (subst trim_front.simps) auto
  next
    case (Some r)
    then have r: "r \<in> set rs" "r \<noteq> []" "HasPrefix (x @ [c]) r"
      unfolding front_rune_def using find_Some_set[of _ rs r] by auto
    have "length r \<le> length x"
    proof (rule ccontr)
      assume "\<not> length r \<le> length x"
      then have "r = x @ [c]" using r(3) by (auto simp: HasPrefix_def)
      then show False using assms r(1) by auto
    qed
    then have "trim_front rs (x @ [c]) = trim_front rs (drop (length r) x @ [c])"
      using Some by (subst trim_front.simps) simp
    moreover have "length (drop (length r) x) < length x" using r(2) \<open>length r \<le> length x\<close> by (cases r) auto
    ultimately show ?thesis using less by presburger
  qed
qed

lemma space_runes_no_graph: "is_graph c \<Longrightarrow> \<forall>r\<in>set (map rev space_runes). c \<notin> set r"
  by (auto simp: space_runes_def is_graph_def ord_def)

lemma TrimSpace_hd:
  assumes "is_graph c"
  shows "\<exists>t. TrimSpace (c # s) = c # t"
proof -
  obtain y where "trim_front (map rev space_runes) (rev s @ [c]) = y @ [c]"
    using trim_front_keeps_last[OF space_runes_no_graph[OF assms]] by blast
  then show ?thesis using assms by (simp add: TrimSpace_def)
qed

text \<open>Values the files can carry: printable first and last characters, no line break.\<close>

definition clean :: "string \<Rightarrow> bool" where
  "clean v = (v \<noteq> [] \<and> is_graph (hd v) \<and> is_graph (last v) \<and> newline \<notin> set v \<and> CHR 0x0D \<notin> set v)"

lemma TrimSpace_space:
  assumes "clean v"
  shows "TrimSpace (CHR '' '' # v) = v"
proof -
  have "front_rune space_runes (CHR '' '' # v) = Some '' ''"
    by (simp add: front_rune_def space_runes_def HasPrefix_def)
  then have "trim_front space_runes (CHR '' '' # v) = trim_front space_runes v"
    by (subst trim_front.simps) simp
  then have "TrimSpace (CHR '' '' # v) = TrimSpace v" by (simp add: TrimSpace_def)
  then show ?thesis using assms TrimSpace_id by (simp add: clean_def)
qed

text \<open>What one \<open>Key = value\<close> line does.\<close>

definition apply_key :: "string \<Rightarrow> string \<Rightarrow> parse_state \<Rightarrow> parse_state" where
  "apply_key key val st = (case ps_section st of
      InterfaceSection \<Rightarrow> st\<lparr>ps_cfg := set_interface_key key val (ps_cfg st)\<rparr>
    | PeerSection \<Rightarrow> st\<lparr>ps_peer := map_option (set_peer_key key val) (ps_peer st)\<rparr>
    | NoSection \<Rightarrow> st)"

lemma is_upper_graph: "is_upper c \<Longrightarrow> is_graph c"
  by (simp add: is_upper_def is_graph_def)

lemma parse_kv:
  assumes "clean v" "is_upper c" "CHR ''='' \<notin> set cs" "TrimSpace (ToLower (c # cs @ '' '')) = key"
  shows "parse_line (c # cs @ '' = '' @ v) st = apply_key key v st"
proof -
  define l where l: "l = c # cs @ '' = '' @ v"
  have v: "v \<noteq> []" "is_graph (last v)" using assms(1) by (simp_all add: clean_def)
  have tr: "TrimSpace l = l" "l \<noteq> []"
    using TrimSpace_id[of l] v is_upper_graph[OF assms(2)] by (simp_all add: l)
  have c: "ord c \<ge> 65" "ord c \<le> 90" using assms(2) by (simp_all add: is_upper_def)
  then have pre: "\<not> HasPrefix l ''#''" "\<not> HasPrefix l '';''" by (auto simp: l HasPrefix_def ord_def)
  have low: "ToLower l = char_of (ord c + 32) # ToLower (tl l)" using assms(2) by (simp add: l)
  have "char_of (ord c + 32) \<noteq> CHR ''[''"
  proof
    assume "char_of (ord c + 32) = CHR ''[''"
    then have "ord (char_of (ord c + 32)) = 91" by (simp add: ord_def)
    then show False using c by (simp add: ord_def[of "char_of _"])
  qed
  then have sec: "ToLower l \<noteq> ''[interface]''" "ToLower l \<noteq> ''[peer]''" unfolding low by auto
  have ne: "c \<noteq> CHR ''=''" using c by (auto simp: ord_def)
  have sp: "SplitN2 (CHR ''='') l = [c # cs @ '' '', CHR '' '' # v]"
    using takeWhile_neq_stop[of "CHR ''=''" "c # cs @ '' ''" "CHR '' '' # v"]
      dropWhile_neq_stop[of "CHR ''=''" "c # cs @ '' ''" "CHR '' '' # v"] assms(3) ne
    by (simp add: SplitN2_def l)
  have "parse_line l st = apply_key (TrimSpace (ToLower (c # cs @ '' ''))) (TrimSpace (CHR '' '' # v)) st"
    unfolding parse_line_def Let_def tr(1) sp apply_key_def by (simp only: tr pre sec if_False simp_thms list.case)
  then show ?thesis by (simp only: assms(4) TrimSpace_space[OF assms(1)] l)
qed

lemma parse_comment: "parse_line (CHR ''#'' # s) st = st"
proof -
  obtain t where "TrimSpace (CHR ''#'' # s) = CHR ''#'' # t"
    using TrimSpace_hd[of "CHR ''#''" s] by (auto simp: is_graph_def ord_def)
  then show ?thesis by (simp add: parse_line_def HasPrefix_def)
qed

lemma parse_empty: "parse_line [] st = st"
  by (simp add: parse_line_def)

lemma key_names:
  shows "TrimSpace (ToLower ''PrivateKey '') = ''privatekey''"
    "TrimSpace (ToLower ''Address '') = ''address''"
    "TrimSpace (ToLower ''ListenPort '') = ''listenport''"
    "TrimSpace (ToLower ''DNS '') = ''dns''"
    "TrimSpace (ToLower ''PostUp '') = ''postup''"
    "TrimSpace (ToLower ''PostDown '') = ''postdown''"
    "TrimSpace (ToLower ''PublicKey '') = ''publickey''"
    "TrimSpace (ToLower ''PresharedKey '') = ''presharedkey''"
    "TrimSpace (ToLower ''AllowedIPs '') = ''allowedips''"
    "TrimSpace (ToLower ''Endpoint '') = ''endpoint''"
    "TrimSpace (ToLower ''PersistentKeepalive '') = ''persistentkeepalive''"
  by code_simp+

lemma key_upper: "is_upper (CHR ''P'')" "is_upper (CHR ''A'')" "is_upper (CHR ''L'')" "is_upper (CHR ''D'')" "is_upper (CHR ''E'')"
  by (simp_all add: is_upper_def ord_def)

lemma parse_keys:
  assumes "clean v"
  shows "parse_line (''PrivateKey = '' @ v) st = apply_key ''privatekey'' v st"
    "parse_line (''Address = '' @ v) st = apply_key ''address'' v st"
    "parse_line (''ListenPort = '' @ v) st = apply_key ''listenport'' v st"
    "parse_line (''DNS = '' @ v) st = apply_key ''dns'' v st"
    "parse_line (''PostUp = '' @ v) st = apply_key ''postup'' v st"
    "parse_line (''PostDown = '' @ v) st = apply_key ''postdown'' v st"
    "parse_line (''PublicKey = '' @ v) st = apply_key ''publickey'' v st"
    "parse_line (''PresharedKey = '' @ v) st = apply_key ''presharedkey'' v st"
    "parse_line (''AllowedIPs = '' @ v) st = apply_key ''allowedips'' v st"
    "parse_line (''Endpoint = '' @ v) st = apply_key ''endpoint'' v st"
    "parse_line (''PersistentKeepalive = '' @ v) st = apply_key ''persistentkeepalive'' v st"
proof -
  show "parse_line (''PrivateKey = '' @ v) st = apply_key ''privatekey'' v st"
    using parse_kv[OF assms, of "CHR ''P''" "''rivateKey''" "''privatekey''" st] by (simp add: key_names key_upper del: ToLower.simps)
  show "parse_line (''Address = '' @ v) st = apply_key ''address'' v st"
    using parse_kv[OF assms, of "CHR ''A''" "''ddress''" "''address''" st] by (simp add: key_names key_upper del: ToLower.simps)
  show "parse_line (''ListenPort = '' @ v) st = apply_key ''listenport'' v st"
    using parse_kv[OF assms, of "CHR ''L''" "''istenPort''" "''listenport''" st] by (simp add: key_names key_upper del: ToLower.simps)
  show "parse_line (''DNS = '' @ v) st = apply_key ''dns'' v st"
    using parse_kv[OF assms, of "CHR ''D''" "''NS''" "''dns''" st] by (simp add: key_names key_upper del: ToLower.simps)
  show "parse_line (''PostUp = '' @ v) st = apply_key ''postup'' v st"
    using parse_kv[OF assms, of "CHR ''P''" "''ostUp''" "''postup''" st] by (simp add: key_names key_upper del: ToLower.simps)
  show "parse_line (''PostDown = '' @ v) st = apply_key ''postdown'' v st"
    using parse_kv[OF assms, of "CHR ''P''" "''ostDown''" "''postdown''" st] by (simp add: key_names key_upper del: ToLower.simps)
  show "parse_line (''PublicKey = '' @ v) st = apply_key ''publickey'' v st"
    using parse_kv[OF assms, of "CHR ''P''" "''ublicKey''" "''publickey''" st] by (simp add: key_names key_upper del: ToLower.simps)
  show "parse_line (''PresharedKey = '' @ v) st = apply_key ''presharedkey'' v st"
    using parse_kv[OF assms, of "CHR ''P''" "''resharedKey''" "''presharedkey''" st] by (simp add: key_names key_upper del: ToLower.simps)
  show "parse_line (''AllowedIPs = '' @ v) st = apply_key ''allowedips'' v st"
    using parse_kv[OF assms, of "CHR ''A''" "''llowedIPs''" "''allowedips''" st] by (simp add: key_names key_upper del: ToLower.simps)
  show "parse_line (''Endpoint = '' @ v) st = apply_key ''endpoint'' v st"
    using parse_kv[OF assms, of "CHR ''E''" "''ndpoint''" "''endpoint''" st] by (simp add: key_names key_upper del: ToLower.simps)
  show "parse_line (''PersistentKeepalive = '' @ v) st = apply_key ''persistentkeepalive'' v st"
    using parse_kv[OF assms, of "CHR ''P''" "''ersistentKeepalive''" "''persistentkeepalive''" st] by (simp add: key_names key_upper del: ToLower.simps)
qed

lemma parse_sections:
  "parse_line ''[Interface]'' st = st\<lparr>ps_section := InterfaceSection\<rparr>"
  "parse_line ''[Peer]'' st
     = st\<lparr>ps_cfg := add_peer (ps_peer st) (ps_cfg st), ps_peer := Some zero_peer, ps_section := PeerSection\<rparr>"
proof -
  have "TrimSpace ''[Interface]'' = ''[Interface]''" "TrimSpace ''[Peer]'' = ''[Peer]''"
    by (rule TrimSpace_id; simp add: is_graph_def ord_def)+
  moreover have "ToLower ''[Interface]'' = ''[interface]''" "ToLower ''[Peer]'' = ''[peer]''" by code_simp+
  ultimately show
    "parse_line ''[Interface]'' st = st\<lparr>ps_section := InterfaceSection\<rparr>"
    "parse_line ''[Peer]'' st
       = st\<lparr>ps_cfg := add_peer (ps_peer st) (ps_cfg st), ps_peer := Some zero_peer, ps_section := PeerSection\<rparr>"
    by (simp_all add: parse_line_def HasPrefix_def)
qed

lemmas parse_simps = parse_keys[unfolded append_Cons append_Nil] parse_sections parse_comment parse_empty

section \<open>Export and import\<close>

definition imported :: "ExportPeer \<Rightarrow> ImportedPeer" where
  "imported e = \<lparr>i_PublicKey = e_PublicKey e, i_PresharedKey = e_PresharedKey e, i_AllowedIPs = e_AllowedIPs e,
     i_Endpoint = e_Endpoint e, i_PersistentKeepalive = max 0 (e_PersistentKeepalive e)\<rparr>"

definition one_line :: "string \<Rightarrow> bool" where
  "one_line v = (newline \<notin> set v \<and> CHR 0x0D \<notin> set v)"

definition export_peer_ok :: "ExportPeer \<Rightarrow> bool" where
  "export_peer_ok e = (clean (e_PublicKey e) \<and> clean (e_AllowedIPs e) \<and>
     (e_PresharedKey e = [] \<or> clean (e_PresharedKey e)) \<and> (e_Endpoint e = [] \<or> clean (e_Endpoint e)) \<and>
     e_PersistentKeepalive e < 2 ^ 63 \<and> one_line (e_Name e))"

definition server_params_ok :: "ServerConfigParams \<Rightarrow> bool" where
  "server_params_ok p = (clean (s_PrivateKey p) \<and> clean (s_Address p) \<and>
     (s_DNSServers p = [] \<or> clean (s_DNSServers p)) \<and> - (2 ^ 63) \<le> s_ListenPort p \<and> s_ListenPort p < 2 ^ 63 \<and>
     one_line (s_InterfaceName p) \<and> one_line (s_NATInterface p) \<and> (\<forall>e\<in>set (s_Peers p). export_peer_ok e))"

lemma clean_one_line: "clean v \<Longrightarrow> one_line v"
  by (simp add: clean_def one_line_def)

lemma one_line_simps [simp]:
  "one_line []" "one_line (c # v) \<longleftrightarrow> c \<noteq> newline \<and> c \<noteq> CHR 0x0D \<and> one_line v"
  "one_line (v @ w) \<longleftrightarrow> one_line v \<and> one_line w"
  by (auto simp: one_line_def)

lemma clean_digits: "\<lbrakk>\<forall>c\<in>set v. is_digit c; v \<noteq> []\<rbrakk> \<Longrightarrow> clean v"
proof -
  assume v: "\<forall>c\<in>set v. is_digit c" "v \<noteq> []"
  then have "is_graph (hd v)" "is_graph (last v)" using is_digit_graph by simp_all
  moreover have "newline \<notin> set v" "CHR 0x0D \<notin> set v" using v(1) by (auto simp: is_digit_def ord_def)
  ultimately show ?thesis using v(2) by (simp add: clean_def)
qed

lemma clean_itoa_int: "clean (itoa_int i)"
proof -
  have d: "clean (itoa n)" for n using itoa_digits itoa_nonempty by (intro clean_digits) blast+
  then have "clean (CHR ''-'' # itoa n)" for n
    by (simp add: clean_def) (simp add: is_graph_def ord_def)
  with d show ?thesis by (simp add: itoa_int_def)
qed

lemma fold_export_peer:
  assumes "export_peer_ok e"
  shows "fold parse_line (export_peer_lines e) st
    = \<lparr>ps_cfg = add_peer (ps_peer st) (ps_cfg st), ps_section = PeerSection, ps_peer = Some (imported e)\<rparr>"
proof -
  have at: "0 < e_PersistentKeepalive e \<Longrightarrow> Atoi (itoa_int (e_PersistentKeepalive e)) = Some (e_PersistentKeepalive e)"
    using assms by (intro Atoi_itoa_int) (auto simp: export_peer_ok_def)
  show ?thesis
    using assms unfolding export_peer_ok_def
    by (auto simp: export_peer_lines_def opt_line_def parse_simps apply_key_def set_peer_key_def zero_peer_def
        imported_def clean_itoa_int at max_def)
qed

lemma fold_export_peers:
  assumes "\<forall>e\<in>set es. export_peer_ok e"
  shows "(let st' = fold parse_line (concat (map export_peer_lines es)) st in add_peer (ps_peer st') (ps_cfg st'))
    = (let c = add_peer (ps_peer st) (ps_cfg st) in c\<lparr>i_Peers := i_Peers c @ map imported es\<rparr>)"
  using assms
proof (induction es arbitrary: st)
  case Nil
  then show ?case by (simp add: Let_def)
next
  case (Cons e es)
  then show ?case by (simp add: fold_export_peer Let_def add_peer_def split: option.splits)
qed

lemma fold_nat_lines:
  assumes "one_line i" "ps_section st = InterfaceSection"
  shows "fold parse_line (nat_lines i) st = st"
proof -
  let ?v = "\<lambda>f. ''iptables -t nat -'' @ f @ '' POSTROUTING -o '' @ i @ '' -j MASQUERADE; ip6tables -t nat -'' @ f @
              '' POSTROUTING -o '' @ i @ '' -j MASQUERADE''"
  have v: "clean (?v ''A'')" "clean (?v ''D'')"
    using assms(1) by (simp_all add: clean_def one_line_def) (simp_all add: is_graph_def ord_def)
  have "parse_line (''PostUp = '' @ ?v ''A'') st = apply_key ''postup'' (?v ''A'') st"
    "parse_line (''PostDown = '' @ ?v ''D'') st = apply_key ''postdown'' (?v ''D'') st"
    using parse_keys(5)[OF v(1)] parse_keys(6)[OF v(2)] by blast+
  then show ?thesis using assms(2) by (simp add: nat_lines_def apply_key_def set_interface_key_def)
qed

lemma serverConfigTmpl_lines:
  assumes "server_params_ok p" "l \<in> set (serverConfigTmpl p)"
  shows "one_line l"
proof -
  have i: "one_line (itoa_int i)" for i by (rule clean_one_line[OF clean_itoa_int])
  have "one_line m" if "e \<in> set (s_Peers p)" "m \<in> set (export_peer_lines e)" for e m
  proof -
    have "export_peer_ok e" using assms(1) that(1) by (simp add: server_params_ok_def)
    then show ?thesis
      using that(2) i by (auto simp: export_peer_ok_def export_peer_lines_def opt_line_def dest: clean_one_line split: if_splits)
  qed
  then show ?thesis
    using assms i
    by (auto simp: server_params_ok_def serverConfigTmpl_def generated_by_def opt_line_def nat_lines_def
        dest: clean_one_line split: if_splits)
qed

section \<open>Properties\<close>

text \<open>
  C16.  Exporting a network and importing the file again gives back the interface settings
  and every peer, in order (a keepalive that is not positive comes back as 0), for values
  without line breaks that start and end with printable characters and lines the
  scanner accepts.
\<close>

theorem export_import_roundtrip:
  assumes "server_params_ok p" "s_NATEnabled p \<longrightarrow> s_NATInterface p \<noteq> []"
    and "\<forall>l\<in>set (serverConfigTmpl p). length l < 65536" "GenerateServerConfig p = Inr s"
  shows "ParseWgQuickConfig s = Inr \<lparr>i_PrivateKey = s_PrivateKey p, i_Address = s_Address p, i_ListenPort = s_ListenPort p,
      i_DNSServers = s_DNSServers p, i_MTU = 0, i_Peers = map imported (s_Peers p)\<rparr>"
proof -
  have s: "s = unlines (serverConfigTmpl p)"
    using assms(2,4) by (auto simp: GenerateServerConfig_def Let_def split: if_splits)
  have sc: "scan_lines s = Inr (serverConfigTmpl p)"
    unfolding s by (rule scan_unlines) (use serverConfigTmpl_lines[OF assms(1)] assms(3) in \<open>auto simp: one_line_def\<close>)
  let ?st0 = "\<lparr>ps_cfg = zero_config, ps_section = NoSection, ps_peer = None\<rparr>"
  let ?st1 = "\<lparr>ps_cfg = \<lparr>i_PrivateKey = s_PrivateKey p, i_Address = s_Address p, i_ListenPort = s_ListenPort p,
      i_DNSServers = s_DNSServers p, i_MTU = 0, i_Peers = []\<rparr>, ps_section = InterfaceSection, ps_peer = None\<rparr>"
  have p: "clean (s_PrivateKey p)" "clean (s_Address p)" "s_DNSServers p = [] \<or> clean (s_DNSServers p)"
      "one_line (s_NATInterface p)" "\<forall>e\<in>set (s_Peers p). export_peer_ok e"
      "Atoi (itoa_int (s_ListenPort p)) = Some (s_ListenPort p)"
    using assms(1) Atoi_itoa_int by (simp_all add: server_params_ok_def)
  have "fold parse_line (serverConfigTmpl p) ?st0 = fold parse_line (concat (map export_peer_lines (s_Peers p))) ?st1"
    using p by (auto simp: serverConfigTmpl_def generated_by_def opt_line_def parse_simps apply_key_def
        set_interface_key_def zero_config_def clean_itoa_int fold_nat_lines)
  then show ?thesis
    using fold_export_peers[OF p(5), of ?st1] p(1) sc
    by (simp add: ParseWgQuickConfig_def Let_def add_peer_def[of None] clean_def)
qed

definition sample_params :: ServerConfigParams where
  "sample_params = \<lparr>s_InterfaceName = ''wg0'', s_PrivateKey = ''KEY='', s_Address = ''10.0.0.1/24'', s_ListenPort = 51820,
     s_DNSServers = [], s_NATEnabled = True, s_NATInterface = ''eth0'',
     s_Peers = [\<lparr>e_Name = ''alice'', e_PublicKey = ''PUB='', e_PresharedKey = [], e_AllowedIPs = ''10.0.0.2/32'',
                 e_Endpoint = [], e_PersistentKeepalive = 25\<rparr>]\<rparr>"

theorem export_import_roundtrip_witness:
  "\<exists>s cfg. GenerateServerConfig sample_params = Inr s \<and> ParseWgQuickConfig s = Inr cfg \<and>
     i_ListenPort cfg = 51820 \<and> map i_PublicKey (i_Peers cfg) = [''PUB='']"
proof -
  obtain s where s: "GenerateServerConfig sample_params = Inr s"
    by (simp add: GenerateServerConfig_def sample_params_def Let_def)
  have ok: "server_params_ok sample_params"
    by (simp add: server_params_ok_def sample_params_def export_peer_ok_def clean_def one_line_def is_graph_def ord_def)
  have port: "length (itoa_int 51820) = 5" "length (itoa_int 25) = 2"
    by (simp_all add: itoa_int_def itoa.simps)
  have "\<forall>l\<in>set (serverConfigTmpl sample_params). length l < 65536"
    by (simp add: serverConfigTmpl_def sample_params_def generated_by_def opt_line_def nat_lines_def export_peer_lines_def port)
  then show ?thesis
    using export_import_roundtrip[OF ok _ _ s] s by (simp add: sample_params_def imported_def)
qed

end
