(* ===== verification/GoMisc.thy ===== *)
theory GoMisc
  imports GoNet
begin

text \<open>
  Functions of the Go standard library the request handlers use: \<open>net.SplitHostPort\<close>,
  \<open>strings.LastIndex\<close>, \<open>time.ParseDuration\<close> and the verbs of \<open>fmt.Sprintf\<close>.
\<close>

section \<open>Positions in strings\<close>

definition IndexByte :: "char \<Rightarrow> string \<Rightarrow> nat option" where
  "IndexByte c s = (if c \<in> set s then Some (length (takeWhile (\<lambda>x. x \<noteq> c) s)) else None)"

definition LastIndexByte :: "char \<Rightarrow> string \<Rightarrow> nat option" where
  "LastIndexByte c s = (if c \<in> set s then Some (length s - 1 - length (takeWhile (\<lambda>x. x \<noteq> c) (rev s))) else None)"

section \<open>\<open>net.SplitHostPort\<close>\<close>

definition SplitHostPort :: "string \<Rightarrow> (string \<times> string) option" where
  "SplitHostPort hp = (case LastIndexByte (CHR '':'') hp of
      None \<Rightarrow> None
    | Some i \<Rightarrow>
        let finish = (\<lambda>host j k.
              if CHR ''['' \<in> set (drop j hp) \<or> CHR '']'' \<in> set (drop k hp) then None
              else Some (host, drop (i + 1) hp)) in
        if hd hp = CHR ''['' then
          (case IndexByte (CHR '']'') hp of
             None \<Rightarrow> None
           | Some e \<Rightarrow> if e + 1 = i then finish (drop 1 (take e hp)) 1 (e + 1) else None)
        else if CHR '':'' \<in> set (take i hp) then None
        else finish (take i hp) 0 0)"

section \<open>\<open>fmt\<close>\<close>

text \<open>
  \<open>%q\<close>.  Bytes of 0x80 and above are kept, which is what Go does for the encoding of a
  printable rune.
\<close>

definition hex_digit :: "nat \<Rightarrow> char" where
  "hex_digit n = (if n < 10 then char_of (48 + n) else char_of (87 + n))"

definition quote_char :: "char \<Rightarrow> string" where
  "quote_char c = (
     if c = CHR 0x22 \<or> c = CHR 0x5C then [CHR 0x5C, c]
     else if 32 \<le> ord c \<and> ord c \<noteq> 127 then [c]
     else if ord c = 7 then [CHR 0x5C, CHR ''a'']
     else if ord c = 8 then [CHR 0x5C, CHR ''b'']
     else if ord c = 12 then [CHR 0x5C, CHR ''f'']
     else if ord c = 10 then [CHR 0x5C, CHR ''n'']
     else if ord c = 13 then [CHR 0x5C, CHR ''r'']
     else if ord c = 9 then [CHR 0x5C, CHR ''t'']
     else if ord c = 11 then [CHR 0x5C, CHR ''v'']
     else [CHR 0x5C, CHR ''x'', hex_digit (ord c div 16), hex_digit (ord c mod 16)])"

definition quote :: "string \<Rightarrow> string" where
  "quote s = CHR 0x22 # concat (map quote_char s) @ [CHR 0x22]"

section \<open>\<open>time.ParseDuration\<close>\<close>

text \<open>
  A duration is a number of nanoseconds in 64 bits.  The one step of the function in
  floating point, \<open>uint64(float64(f) * (float64(unit) / scale))\<close>, is the argument \<open>frac\<close>.
\<close>

definition unitMap :: "(string \<times> nat) list" where
  "unitMap = [(''ns'', 1), (''us'', 1000), ([CHR 0xC2, CHR 0xB5, CHR ''s''], 1000), ([CHR 0xCE, CHR 0xBC, CHR ''s''], 1000),
     (''ms'', 1000000), (''s'', 1000000000), (''m'', 60000000000), (''h'', 3600000000000)]"

text \<open>The fraction after the point: its digits as a number and the power of ten to divide by.\<close>

fun leadingFraction :: "nat \<Rightarrow> nat \<Rightarrow> bool \<Rightarrow> string \<Rightarrow> nat \<times> nat \<times> string" where
  "leadingFraction x scale ov [] = (x, scale, [])"
| "leadingFraction x scale ov (c # cs) =
     (if \<not> is_digit c then (x, scale, c # cs)
      else if ov \<or> x > (2 ^ 63 - 1) div 10 \<or> x * 10 + (ord c - 48) > 2 ^ 63 then leadingFraction x scale True cs
      else leadingFraction (x * 10 + (ord c - 48)) (scale * 10) False cs)"

definition unit_char :: "char \<Rightarrow> bool" where
  "unit_char c = (\<not> (c = CHR ''.'' \<or> is_digit c))"

text \<open>The optional fraction: its digits, its scale, the rest, and whether it had digits.\<close>

definition fraction_part :: "string \<Rightarrow> nat \<times> nat \<times> string \<times> bool" where
  "fraction_part s = (if s \<noteq> [] \<and> hd s = CHR ''.'' then
       (case leadingFraction 0 1 False (tl s) of (f, scale, rest) \<Rightarrow> (f, scale, rest, length rest \<noteq> length (tl s)))
     else (0, 1, s, False))"

text \<open>The value of \<open>v\<close> and a fraction in a unit, unless it overflows.\<close>

definition scale_unit :: "(nat \<Rightarrow> nat \<Rightarrow> nat \<Rightarrow> nat) \<Rightarrow> nat \<Rightarrow> nat \<Rightarrow> nat \<Rightarrow> nat \<Rightarrow> nat option" where
  "scale_unit frac v f scale unit =
     (if v > 2 ^ 63 div unit then None
      else let w = v * unit + (if f > 0 then frac f unit scale else 0) in
        if w > 2 ^ 63 then None else Some w)"

text \<open>One number with its unit: its value and the rest of the string.\<close>

definition duration_part :: "(nat \<Rightarrow> nat \<Rightarrow> nat \<Rightarrow> nat) \<Rightarrow> string \<Rightarrow> (nat \<times> string) option" where
  "duration_part frac s =
     (if dec_val (takeWhile is_digit s) > 2 ^ 63 then None
      else (case fraction_part (dropWhile is_digit s) of (f, scale, s2, post) \<Rightarrow>
        if takeWhile is_digit s = [] \<and> \<not> post then None
        else if takeWhile unit_char s2 = [] then None
        else (case map_of unitMap (takeWhile unit_char s2) of
            None \<Rightarrow> None
          | Some unit \<Rightarrow> map_option (\<lambda>w. (w, dropWhile unit_char s2))
                             (scale_unit frac (dec_val (takeWhile is_digit s)) f scale unit))))"

lemma leadingFraction_rest: "length (snd (snd (leadingFraction x sc ov s))) \<le> length s"
  by (induction x sc ov s rule: leadingFraction.induct) auto

lemma fraction_part_rest: "fraction_part s = (f, sc, r, post) \<Longrightarrow> length r \<le> length s"
  using leadingFraction_rest[of 0 1 False "tl s"] by (auto simp: fraction_part_def split: if_splits prod.splits)

lemma length_dropWhile_less: "takeWhile P s \<noteq> [] \<Longrightarrow> length (dropWhile P s) < length s"
  by (metis add_less_cancel_right add.left_neutral length_append length_greater_0_conv takeWhile_dropWhile_id)

lemma duration_part_shorter:
  assumes "duration_part frac s = Some (v, rest)"
  shows "length rest < length s"
proof -
  obtain f sc s2 post where q: "fraction_part (dropWhile is_digit s) = (f, sc, s2, post)" by (metis prod_cases4)
  have r: "rest = dropWhile unit_char s2" "takeWhile unit_char s2 \<noteq> []"
    using assms q unfolding duration_part_def by (simp_all split: if_splits option.splits)
  have "length (dropWhile is_digit s) \<le> length s" by (rule length_dropWhile_le)
  moreover have "length s2 \<le> length (dropWhile is_digit s)" by (rule fraction_part_rest[OF q])
  moreover have "length rest < length s2" using length_dropWhile_less[OF r(2)] r(1) by simp
  ultimately show ?thesis by simp
qed

function duration_sum :: "(nat \<Rightarrow> nat \<Rightarrow> nat \<Rightarrow> nat) \<Rightarrow> nat \<Rightarrow> string \<Rightarrow> nat option" where
  "duration_sum frac d s = (if s = [] then Some d
     else if \<not> (hd s = CHR ''.'' \<or> is_digit (hd s)) then None
     else (case duration_part frac s of
         None \<Rightarrow> None
       | Some (v, rest) \<Rightarrow> if d + v > 2 ^ 63 then None else duration_sum frac (d + v) rest))"
  by auto
termination
  by (relation "measure (\<lambda>(frac, d, s). length s)") (auto dest: duration_part_shorter)

declare duration_sum.simps [simp del]

definition ParseDuration :: "(nat \<Rightarrow> nat \<Rightarrow> nat \<Rightarrow> nat) \<Rightarrow> string \<Rightarrow> int option" where
  "ParseDuration frac orig =
     (let signed = (orig \<noteq> [] \<and> (hd orig = CHR ''-'' \<or> hd orig = CHR ''+''));
          neg = (signed \<and> hd orig = CHR ''-''); s = (if signed then tl orig else orig) in
      if s = ''0'' then Some 0
      else if s = [] then None
      else (case duration_sum frac 0 s of
          None \<Rightarrow> None
        | Some d \<Rightarrow> if neg then Some (- int d) else if d > 2 ^ 63 - 1 then None else Some (int d)))"

end
