(* ===== verification/LogRing.thy ===== *)
theory LogRing
  imports Prelude
begin

text \<open>
  \<open>internal/logging/ring.go\<close>: the circular buffer of the last log entries, and the log handler
  that fills it.  The buffer is shown to be a queue of bounded length: its abstraction is the
  list of the last \<open>size\<close> entries written.
\<close>

record LogEntry =
  le_Timestamp :: int
  le_Level :: int
  le_Message :: string
  le_Attrs :: "(string \<times> string) list"

record RingBuffer =
  rb_entries :: "LogEntry list"
  rb_size :: nat
  rb_pos :: nat
  rb_count :: nat

definition zero_entry :: LogEntry where
  "zero_entry = \<lparr>le_Timestamp = 0, le_Level = 0, le_Message = [], le_Attrs = []\<rparr>"

definition DefaultRingSize :: nat where
  "DefaultRingSize = 500"

definition NewRingBuffer :: "nat \<Rightarrow> RingBuffer" where
  "NewRingBuffer sz = \<lparr>rb_entries = replicate sz zero_entry, rb_size = sz, rb_pos = 0, rb_count = 0\<rparr>"

text \<open>A write to a buffer of size 0 divides by zero: a panic, here \<open>None\<close>.\<close>

definition Ring_Write :: "LogEntry \<Rightarrow> RingBuffer \<Rightarrow> RingBuffer option" where
  "Ring_Write e rb = (if rb_size rb = 0 then None else Some
     (rb\<lparr>rb_entries := (rb_entries rb)[rb_pos rb mod rb_size rb := e], rb_pos := rb_pos rb + 1,
         rb_count := if rb_count rb < rb_size rb then rb_count rb + 1 else rb_count rb\<rparr>))"

text \<open>
  \<open>n\<close> is an \<open>int\<close>: a negative length makes the allocation of the result panic.  The remainder
  of Go takes the sign of the dividend, hence the correction of a negative index.
\<close>

definition go_mod :: "int \<Rightarrow> int \<Rightarrow> int" where
  "go_mod a b = (if a < 0 then - ((- a) mod b) else a mod b)"

definition ring_index :: "int \<Rightarrow> nat \<Rightarrow> nat \<Rightarrow> nat" where
  "ring_index start i sz = (let idx = go_mod (start + int i) (int sz) in nat (if idx < 0 then idx + int sz else idx))"

definition Recent :: "int \<Rightarrow> RingBuffer \<Rightarrow> LogEntry list option" where
  "Recent n rb = (let n = (if n > int (rb_count rb) then int (rb_count rb) else n) in
     if n = 0 then Some []
     else if n < 0 then None
     else let start = int (rb_pos rb) - n in
       Some (map (\<lambda>i. rb_entries rb ! ring_index start i (rb_size rb)) [0..<nat n]))"

definition Ring_Len :: "RingBuffer \<Rightarrow> nat" where
  "Ring_Len rb = rb_count rb"

text \<open>
  \<open>Handle\<close> of the log handler: records of level WARN (4) and above are also written to the
  ring, with the attributes of the handler before those of the record.  The map of attributes
  holds the last value of a key.
\<close>

definition LevelWarn :: int where "LevelWarn = 4"
definition LevelError :: int where "LevelError = 8"

definition set_attr :: "string \<times> string \<Rightarrow> (string \<times> string) list \<Rightarrow> (string \<times> string) list" where
  "set_attr kv m = (if fst kv \<in> fst ` set m then map (\<lambda>e. if fst e = fst kv then kv else e) m else m @ [kv])"

definition ring_Handle :: "(string \<times> string) list \<Rightarrow> LogEntry \<Rightarrow> RingBuffer \<Rightarrow> RingBuffer option" where
  "ring_Handle attrs r rb = (if le_Level r \<ge> LevelWarn
     then Ring_Write (r\<lparr>le_Attrs := fold set_attr (attrs @ le_Attrs r) []\<rparr>) rb else Some rb)"

section \<open>The buffer as a bounded queue\<close>

fun write_all :: "LogEntry list \<Rightarrow> RingBuffer \<Rightarrow> RingBuffer option" where
  "write_all [] rb = Some rb"
| "write_all (e # es) rb = Option.bind (Ring_Write e rb) (write_all es)"

definition last_n :: "nat \<Rightarrow> 'a list \<Rightarrow> 'a list" where
  "last_n n xs = drop (length xs - n) xs"

text \<open>
  The relation of a buffer to the list of everything written: the entry written as number
  \<open>i\<close> is in slot \<open>i mod size\<close> as long as it is one of the last \<open>size\<close>.
\<close>

definition ring_rel :: "LogEntry list \<Rightarrow> RingBuffer \<Rightarrow> bool" where
  "ring_rel ws rb \<longleftrightarrow> 0 < rb_size rb \<and> length (rb_entries rb) = rb_size rb \<and> rb_pos rb = length ws \<and>
     rb_count rb = min (length ws) (rb_size rb) \<and>
     (\<forall>i < length ws. length ws \<le> i + rb_size rb \<longrightarrow> rb_entries rb ! (i mod rb_size rb) = ws ! i)"

lemma ring_rel_New: "0 < sz \<Longrightarrow> ring_rel [] (NewRingBuffer sz)"
  by (simp add: ring_rel_def NewRingBuffer_def)

lemma mod_window: "\<lbrakk>i < j; j < i + (s::nat)\<rbrakk> \<Longrightarrow> i mod s \<noteq> j mod s"
  by (metis add_less_cancel_left dvd_imp_le le_add_diff_inverse less_imp_le_nat mod_eq_dvd_iff_nat not_le zero_less_diff)

lemma ring_rel_Write:
  assumes "ring_rel ws rb"
  shows "\<exists>rb'. Ring_Write e rb = Some rb' \<and> ring_rel (ws @ [e]) rb' \<and> rb_size rb' = rb_size rb"
proof -
  let ?s = "rb_size rb"
  have s: "0 < ?s" "length (rb_entries rb) = ?s" "rb_pos rb = length ws"
    and old: "\<And>i. \<lbrakk>i < length ws; length ws \<le> i + ?s\<rbrakk> \<Longrightarrow> rb_entries rb ! (i mod ?s) = ws ! i"
    using assms by (auto simp: ring_rel_def)
  have "(rb_entries rb)[length ws mod ?s := e] ! (i mod ?s) = (ws @ [e]) ! i"
    if "i < Suc (length ws)" "Suc (length ws) \<le> i + ?s" for i
  proof (cases "i = length ws")
    case True then show ?thesis using s by (simp add: nth_append)
  next
    case False
    then have "i mod ?s \<noteq> length ws mod ?s" using that by (intro mod_window) auto
    then show ?thesis using that False old[of i] by (simp add: nth_append)
  qed
  then show ?thesis using assms s by (auto simp: Ring_Write_def ring_rel_def)
qed

lemma ring_rel_write_all:
  "ring_rel ws rb \<Longrightarrow> \<exists>rb'. write_all es rb = Some rb' \<and> ring_rel (ws @ es) rb' \<and> rb_size rb' = rb_size rb"
proof (induction es arbitrary: ws rb)
  case (Cons e es)
  obtain rb1 where w: "Ring_Write e rb = Some rb1" "ring_rel (ws @ [e]) rb1" "rb_size rb1 = rb_size rb"
    using ring_rel_Write[OF Cons.prems] by blast
  show ?case using Cons.IH[OF w(2)] w by simp
qed simp

lemma ring_index_nonneg:
  assumes "0 \<le> start" "0 < s"
  shows "ring_index start i s = (nat start + i) mod s"
proof -
  have "\<not> (start + int i) mod int s < 0" using assms(2) by (simp add: not_less)
  then show ?thesis using assms by (simp add: ring_index_def go_mod_def Let_def nat_mod_distrib nat_add_distrib)
qed

lemma Recent_rel:
  assumes "ring_rel ws rb" "0 \<le> n"
  shows "Recent n rb = Some (last_n (min (nat n) (min (length ws) (rb_size rb))) ws)"
proof -
  let ?m = "min (nat n) (min (length ws) (rb_size rb))"
  have r: "0 < rb_size rb" "rb_pos rb = length ws" "rb_count rb = min (length ws) (rb_size rb)"
    and at: "\<And>i. \<lbrakk>i < length ws; length ws \<le> i + rb_size rb\<rbrakk> \<Longrightarrow> rb_entries rb ! (i mod rb_size rb) = ws ! i"
    using assms(1) by (auto simp: ring_rel_def)
  have m: "(if n > int (rb_count rb) then int (rb_count rb) else n) = int ?m" using assms(2) r by auto
  have "map (\<lambda>i. rb_entries rb ! ring_index (int (rb_pos rb) - int ?m) i (rb_size rb)) [0..<?m] = drop (length ws - ?m) ws"
    by (rule nth_equalityI) (auto simp: r ring_index_nonneg nat_diff_distrib intro!: at)
  then show ?thesis by (auto simp: Recent_def Let_def m last_n_def)
qed

text \<open>
  C34.  The ring buffer is a bounded queue: after any sequence of writes to a new buffer,
  \<open>Recent n\<close> returns the last \<open>n\<close> entries written, or the last \<open>size\<close> if \<open>n\<close> is larger, in the order they
  were written; no write panics.
\<close>

theorem Recent_after_writes:
  assumes "0 < sz" "0 \<le> n"
  shows "\<exists>rb. write_all ws (NewRingBuffer sz) = Some rb \<and> Recent n rb = Some (last_n (min (nat n) sz) ws) \<and> Ring_Len rb = min (length ws) sz"
proof -
  obtain rb where rb: "write_all ws (NewRingBuffer sz) = Some rb" "ring_rel ws rb" "rb_size rb = sz"
    using ring_rel_write_all[OF ring_rel_New[OF assms(1)], of ws] by (auto simp: NewRingBuffer_def)
  have "last_n (min (nat n) (min (length ws) sz)) ws = last_n (min (nat n) sz) ws"
    by (cases "length ws \<le> sz") (auto simp: last_n_def min_def)
  then show ?thesis using rb Recent_rel[OF rb(2) assms(2)] by (auto simp: Ring_Len_def ring_rel_def)
qed

definition sample_entry :: "int \<Rightarrow> LogEntry" where
  "sample_entry t = \<lparr>le_Timestamp = t, le_Level = LevelWarn, le_Message = ''m'', le_Attrs = []\<rparr>"

theorem Recent_after_writes_witness:
  "\<exists>rb. write_all (map sample_entry [1, 2, 3]) (NewRingBuffer 2) = Some rb \<and> Recent 5 rb = Some [sample_entry 2, sample_entry 3] \<and> Ring_Len rb = 2"
  using Recent_after_writes[of 2 5 "map sample_entry [1, 2, 3]"] by (simp add: last_n_def numeral_2_eq_2)

end
