(* ===== verification/Handlers.thy ===== *)
theory Handlers
  imports Reconcile Accounts WgConfig GoMisc LogRing
begin

text \<open>
  What the request handlers of \<open>internal/server\<close> share: the server with its two managers,
  the state they act on, requests and responses (\<open>response.go\<close>), the audit log
  (\<open>audit.go\<close>), and the rules for reasoning about a handler.

  A handler is a function from the state to a result and a new state; the result is
  either the response the handler has already written (an early return) or a value to go on
  with.  The managers are optional, as in the code: a call to a missing manager does nothing.
\<close>

section \<open>Responses\<close>

record networkResponse =
  nr_ID :: int
  nr_Name :: string
  nr_Interface :: string
  nr_Mode :: string
  nr_Subnet :: string
  nr_ListenPort :: int
  nr_PublicKey :: string
  nr_DNSServers :: string
  nr_NATEnabled :: bool
  nr_InterPeerRouting :: bool
  nr_Enabled :: bool
  nr_CreatedAt :: int
  nr_UpdatedAt :: int

record networkListItem = networkResponse +
  nr_PeerCount :: int

record peerResponse =
  pp_ID :: int
  pp_NetworkID :: int
  pp_Name :: string
  pp_Email :: string
  pp_PublicKey :: string
  pp_AllowedIPs :: string
  pp_Endpoint :: string
  pp_PersistentKeepalive :: int
  pp_Role :: string
  pp_SiteNetworks :: string
  pp_Enabled :: bool
  pp_Online :: bool
  pp_LastHandshake :: int
  pp_TransferRx :: int
  pp_TransferTx :: int
  pp_ExpiresAt :: "int option"
  pp_CreatedAt :: int
  pp_UpdatedAt :: int

record bridgeResponse =
  br_ID :: int
  br_NetworkAID :: int
  br_NetworkBID :: int
  br_NetworkAName :: string
  br_NetworkBName :: string
  br_InterfaceA :: string
  br_InterfaceB :: string
  br_Direction :: string
  br_AllowedCIDRs :: string
  br_Enabled :: bool
  br_CreatedAt :: int
  br_UpdatedAt :: int

record userResponse =
  ur_ID :: int
  ur_Username :: string
  ur_Role :: string
  ur_CreatedAt :: int
  ur_UpdatedAt :: int

record createAPIKeyResponse =
  ckr_ID :: int
  ckr_Key :: string
  ckr_Name :: string
  ckr_KeyPrefix :: string
  ckr_Role :: string
  ckr_ExpiresAt :: "int option"

record apiKeyResponse =
  kr_ID :: int
  kr_Name :: string
  kr_KeyPrefix :: string
  kr_Role :: string
  kr_ExpiresAt :: "int option"
  kr_CreatedAt :: int
  kr_LastUsed :: "int option"

record alertResponse =
  ar_ID :: int
  ar_Type :: string
  ar_Threshold :: string
  ar_Notify :: string
  ar_Enabled :: bool
  ar_CreatedAt :: int

record auditLogResponse =
  al_Entries :: "(nat \<times> AuditEntry) list"
  al_Total :: int
  al_Limit :: int
  al_Offset :: int

record peerStatus =
  ps_ID :: int
  ps_Name :: string
  ps_PublicKey :: string
  ps_Endpoint :: string
  ps_LastHandshake :: int
  ps_TransferRx :: int
  ps_TransferTx :: int
  ps_Online :: bool

record networkStatus =
  ns_ID :: int
  ns_Name :: string
  ns_Interface :: string
  ns_Enabled :: bool
  ns_Up :: bool
  ns_ListenPort :: int
  ns_Peers :: "peerStatus list"

record sseEvent =
  ev_PeerID :: int
  ev_Online :: bool
  ev_LastHandshake :: int
  ev_TransferRx :: int
  ev_TransferTx :: int
  ev_PublicKey :: string

text \<open>The state of an interface in the debug information: its peers and how many are online, when up.\<close>

datatype debugState = IfaceUp int int | IfaceError string | IfaceDown

record debugIface =
  di_name :: string
  di_listen_port :: int
  di_enabled :: bool
  di_state :: debugState

record snapshotEntry =
  se_Timestamp :: int
  se_TransferRx :: int
  se_TransferTx :: int

record health =
  h_version :: string
  h_uptime :: string
  h_total :: int
  h_healthy :: int
  h_degraded :: int
  h_database :: string

text \<open>The session cookie of a response: its value, its lifetime in seconds and its Secure flag.\<close>

record Cookie =
  ck_Value :: string
  ck_MaxAge :: int
  ck_Secure :: bool

record fieldError =
  fe_Field :: string
  fe_Message :: string

text \<open>
  A body before its encoding as JSON.  \<open>Panicked\<close> stands for a nil dereference in the
  handler and \<open>Looping\<close> for a handler that never answers.
\<close>

datatype response_body =
    ErrorBody string string
  | ValidationBody "fieldError list"
  | NetworkBody networkResponse
  | NetworksBody "networkListItem list"
  | PeerBody peerResponse
  | PeersBody "peerResponse list"
  | BridgeBody bridgeResponse
  | BridgesBody "bridgeResponse list"
  | Attachment string string
  | PNG "byte list"
  | AuthErrorBody string string
  | LoginBody int string
  | StatusBody string
  | MeBody string string string
  | UserBody userResponse
  | UsersBody "userResponse list"
  | CreatedKeyBody createAPIKeyResponse
  | KeysBody "apiKeyResponse list"
  | AlertBody alertResponse
  | AlertsBody "alertResponse list"
  | SettingsBody "(string \<times> string) list"
  | AuditBody auditLogResponse
  | SetupStatusBody bool int "string list"
  | FirstNetworkBody networkResponse
  | FirstPeerBody peerResponse string string
  | PublicIPBody string
  | ImportedBody int string int
  | HealthBody health
  | LiveStatusBody "networkStatus list"
  | StatsBody "snapshotEntry list"
  | PlainText string
  | LogsBody "LogEntry list"
  | EventBody "sseEvent list option"
  | DebugBody "debugIface list option" "(string \<times> int) list"
  | SystemBody string string int
  | NoBody
  | Panicked
  | Looping

record response =
  status :: int
  resp_body :: response_body
  set_cookie :: "Cookie option"

definition writeJSON :: "int \<Rightarrow> response_body \<Rightarrow> response" where
  "writeJSON st b = \<lparr>status = st, resp_body = b, set_cookie = None\<rparr>"

definition writeError :: "string \<Rightarrow> string \<Rightarrow> int \<Rightarrow> response" where
  "writeError msg code st = \<lparr>status = st, resp_body = ErrorBody code msg, set_cookie = None\<rparr>"

definition writeValidationError :: "fieldError list \<Rightarrow> response" where
  "writeValidationError fs = \<lparr>status = 400, resp_body = ValidationBody fs, set_cookie = None\<rparr>"

definition internal_error :: "string \<Rightarrow> response" where
  "internal_error msg = writeError msg ''INTERNAL_ERROR'' 500"

section \<open>The server and its state\<close>

text \<open>The payload of a session token (\<open>internal/auth/jwt.go\<close>); times are in seconds.\<close>

record Claims =
  cl_Subject :: string
  cl_IssuedAt :: "int option"
  cl_ExpiresAt :: "int option"
  cl_Username :: string
  cl_Role :: string

text \<open>
  \<open>duration_frac\<close> is the floating point step of \<open>time.ParseDuration\<close>; \<open>qr_encode\<close> is the
  third-party encoder behind \<open>wg.GenerateQRCode\<close>, \<open>publicKeyOf\<close> the derivation of a public key
  in \<open>wgtypes\<close>.  \<open>jwt_sign\<close> and \<open>jwt_parse\<close> stand for golang-jwt with the secret of the service (the
  second is given the time), \<open>bcrypt_generate\<close> (which is given the salt) and \<open>bcrypt_compare\<close> for
  bcrypt, \<open>sha256\<close> for the hash function and \<open>db_text\<close> and \<open>rand_text\<close> for the texts of the errors of the
  database and of the random source, \<open>wg_text\<close> for those of the WireGuard manager; \<open>seconds_text\<close> is
  the formatting of a duration in nanoseconds as seconds in floating point with \<open>%.0f\<close>;
  \<open>file_exists\<close> and \<open>file_server\<close> are the embedded frontend, which the build makes, and
  \<open>http.FileServer\<close> on it.
\<close>

record ('k, 'n) Server =
  aead_of :: aead
  wgManager :: "'k wg_kernel option"
  nftManager :: "'n nft_env option"
  duration_frac :: "nat \<Rightarrow> nat \<Rightarrow> nat \<Rightarrow> nat"
  qr_encode :: "string \<Rightarrow> nat \<Rightarrow> byte list option"
  publicKeyOf :: "string \<Rightarrow> string option"
  jwt_sign :: "Claims \<Rightarrow> string option"
  jwt_parse :: "int \<Rightarrow> string \<Rightarrow> Claims option"
  jwt_ttl :: int
  bcrypt_generate :: "byte list \<Rightarrow> string \<Rightarrow> string option"
  bcrypt_compare :: "string \<Rightarrow> string \<Rightarrow> bool"
  sha256 :: "byte list \<Rightarrow> byte list"
  cookie_secure :: bool
  login_limit :: int
  login_window :: int
  db_text :: "db_error \<Rightarrow> string"
  rand_text :: string
  wg_text :: "wg_error \<Rightarrow> string"
  seconds_text :: "int \<Rightarrow> string"
  devMode :: bool
  server_version :: string
  startTime :: int
  file_exists :: "string \<Rightarrow> bool"
  file_server :: "string \<Rightarrow> response"

text \<open>
  The key generators of \<open>internal/wg/keys.go\<close> read the random source of the operating
  system: \<open>w_keypairs\<close> and \<open>w_psks\<close> are their results to come, a failure being \<open>None\<close>.
  \<open>w_nanos\<close> is the clock of the Go runtime in nanoseconds.  \<open>w_random\<close> are the results of the reads
  of \<open>crypto/rand\<close> to come, \<open>w_http\<close> the answers of the services that tell the public address: a
  status and a body, or an error.  \<open>w_attempts\<close> is the map of the login rate limiter, \<open>w_ring\<close> the
  buffer of log entries.
\<close>

record ('k, 'n) World =
  w_db :: DB
  w_kernel :: 'k
  w_manager :: Manager
  w_nft :: 'n
  w_keypairs :: "(string \<times> string) option list"
  w_psks :: "string option list"
  w_nanos :: int
  w_random :: "byte list option list"
  w_http :: "(int \<times> string) option list"
  w_attempts :: "string \<Rightarrow> int list option"
  w_ring :: "RingBuffer option"

text \<open>
  The parts of a request the handlers read: path values, the claims the middleware put into
  the context, the peer address, the Authorization header, the session cookie and the query.
\<close>

record Request =
  rq_id :: string
  rq_pid :: string
  rq_Claims :: "Claims option"
  rq_RemoteAddr :: string
  rq_Authorization :: string
  rq_Cookie :: "string option"
  rq_Query :: "string \<Rightarrow> string"

section \<open>Handlers as programs\<close>

type_synonym ('w, 'a) handler = "'w \<Rightarrow> (response + 'a) \<times> 'w"

definition ret :: "'a \<Rightarrow> ('w, 'a) handler" where
  "ret x = (\<lambda>w. (Inr x, w))"

definition stop :: "response \<Rightarrow> ('w, 'a) handler" where
  "stop r = (\<lambda>w. (Inl r, w))"

definition andThen :: "('w, 'a) handler \<Rightarrow> ('a \<Rightarrow> ('w, 'b) handler) \<Rightarrow> ('w, 'b) handler" where
  "andThen m f = (\<lambda>w. case m w of (Inl r, w') \<Rightarrow> (Inl r, w') | (Inr x, w') \<Rightarrow> f x w')"

definition serve :: "('w, response) handler \<Rightarrow> 'w \<Rightarrow> response \<times> 'w" where
  "serve m w = (case m w of (Inl r, w') \<Rightarrow> (r, w') | (Inr r, w') \<Rightarrow> (r, w'))"

definition check :: "bool \<Rightarrow> response \<Rightarrow> ('w, unit) handler" where
  "check b r = (if b then ret () else stop r)"

definition no_error :: "'e option \<Rightarrow> response \<Rightarrow> ('w, unit) handler" where
  "no_error e r = (case e of None \<Rightarrow> ret () | Some _ \<Rightarrow> stop r)"

definition or_error :: "'e + 'a \<Rightarrow> response \<Rightarrow> ('w, 'a) handler" where
  "or_error x r = (case x of Inl _ \<Rightarrow> stop r | Inr v \<Rightarrow> ret v)"

definition or_none :: "'a option \<Rightarrow> response \<Rightarrow> ('w, 'a) handler" where
  "or_none x r = (case x of None \<Rightarrow> stop r | Some v \<Rightarrow> ret v)"

text \<open>\<open>x, _ := f()\<close>: the value, nil on an error.\<close>

definition or_nil :: "'e + 'a option \<Rightarrow> 'a option" where
  "or_nil x = (case x of Inl _ \<Rightarrow> None | Inr v \<Rightarrow> v)"

definition on_db :: "(DB \<Rightarrow> 'a \<times> DB) \<Rightarrow> (('k, 'n) World, 'a) handler" where
  "on_db f = (\<lambda>w. case f (w_db w) of (x, d) \<Rightarrow> (Inr x, w\<lparr>w_db := d\<rparr>))"

definition wg_call :: "('k, 'n) Server \<Rightarrow> ('k wg_kernel \<Rightarrow> 'k \<Rightarrow> wg_error option \<times> 'k)
    \<Rightarrow> (('k, 'n) World, wg_error option) handler" where
  "wg_call S f = (case wgManager S of
      None \<Rightarrow> ret None
    | Some K \<Rightarrow> (\<lambda>w. case f K (w_kernel w) of (e, k) \<Rightarrow> (Inr e, w\<lparr>w_kernel := k\<rparr>)))"

definition nft_call :: "('k, 'n) Server \<Rightarrow> ('n nft_env \<Rightarrow> Manager \<Rightarrow> 'n \<Rightarrow> nft_error option \<times> Manager \<times> 'n)
    \<Rightarrow> (('k, 'n) World, nft_error option) handler" where
  "nft_call S f = (case nftManager S of
      None \<Rightarrow> ret None
    | Some E \<Rightarrow> (\<lambda>w. case f E (w_manager w) (w_nft w) of (e, m, n) \<Rightarrow> (Inr e, w\<lparr>w_manager := m, w_nft := n\<rparr>)))"

text \<open>A loop whose body may return from the handler.\<close>

fun each :: "'a list \<Rightarrow> ('a \<Rightarrow> ('w, 'b) handler) \<Rightarrow> ('w, 'b list) handler" where
  "each [] f = ret []"
| "each (x # xs) f = andThen (f x) (\<lambda>y. andThen (each xs f) (\<lambda>ys. ret (y # ys)))"

definition GenerateKeyPair :: "(('k, 'n) World, (string \<times> string) option) handler" where
  "GenerateKeyPair = (\<lambda>w. case w_keypairs w of [] \<Rightarrow> (Inr None, w) | k # ks \<Rightarrow> (Inr k, w\<lparr>w_keypairs := ks\<rparr>))"

definition GeneratePresharedKey :: "(('k, 'n) World, string option) handler" where
  "GeneratePresharedKey = (\<lambda>w. case w_psks w of [] \<Rightarrow> (Inr None, w) | k # ks \<Rightarrow> (Inr k, w\<lparr>w_psks := ks\<rparr>))"

definition time_Now :: "(('k, 'n) World, int) handler" where
  "time_Now = (\<lambda>w. (Inr (w_nanos w), w))"

text \<open>A read of \<open>crypto/rand\<close>.\<close>

definition rand_Read :: "(('k, 'n) World, byte list option) handler" where
  "rand_Read = (\<lambda>w. case w_random w of [] \<Rightarrow> (Inr None, w) | b # bs \<Rightarrow> (Inr b, w\<lparr>w_random := bs\<rparr>))"

text \<open>A call that only asks a manager.\<close>

definition wg_query :: "('k wg_kernel \<Rightarrow> 'k \<Rightarrow> 'a \<times> 'k) \<Rightarrow> 'k wg_kernel \<Rightarrow> (('k, 'n) World, 'a) handler" where
  "wg_query f K = (\<lambda>w. case f K (w_kernel w) of (x, k) \<Rightarrow> (Inr x, w\<lparr>w_kernel := k\<rparr>))"

text \<open>The outcome of decoding the body is given; \<open>decodeJSON\<close> turns a failure into a response.\<close>

datatype decode_error = MaxBytesError int | BadJSON string

definition decodeJSON :: "decode_error + 'a \<Rightarrow> ('w, 'a) handler" where
  "decodeJSON b = (case b of
      Inr v \<Rightarrow> ret v
    | Inl (MaxBytesError limit) \<Rightarrow>
        stop (writeError (''request body too large (limit '' @ itoa_int limit @ '' bytes)'') ''VALIDATION_ERROR'' 413)
    | Inl (BadJSON e) \<Rightarrow> stop (writeError (''invalid request body: '' @ e) ''VALIDATION_ERROR'' 400))"

definition parse_id :: "string \<Rightarrow> string \<Rightarrow> ('w, int) handler" where
  "parse_id s what = or_none (Atoi s) (writeError (''invalid '' @ what @ '' ID'') ''VALIDATION_ERROR'' 400)"

section \<open>The audit log\<close>

definition auditLog :: "Request \<Rightarrow> string \<Rightarrow> string \<Rightarrow> string \<Rightarrow> (('k, 'n) World, unit) handler" where
  "auditLog r action resource detail =
     (let userID = (case rq_Claims r of None \<Rightarrow> 0 | Some cl \<Rightarrow> (case Atoi (cl_Subject cl) of None \<Rightarrow> 0 | Some i \<Rightarrow> i));
          entry = \<lparr>a_Timestamp = 0, a_UserID = userID, a_Action = action, a_Resource = resource, a_Detail = detail,
                   a_IPAddress = rq_RemoteAddr r\<rparr>
      in andThen (on_db (InsertAuditEntry entry)) (\<lambda>_. ret ()))"

section \<open>Reasoning about handlers\<close>

lemma andThen_ret: "andThen (ret x) f = f x"
  by (simp add: andThen_def ret_def)

lemma andThen_assoc: "andThen (andThen m f) g = andThen m (\<lambda>x. andThen (f x) g)"
  by (auto simp: andThen_def split: prod.splits sum.splits)

lemma serve_andThen: "serve (andThen m f) w = (case m w of (Inl r, w') \<Rightarrow> (r, w') | (Inr x, w') \<Rightarrow> serve (f x) w')"
  by (simp add: serve_def andThen_def split: prod.splits sum.splits)

text \<open>
  \<open>triple P m Q E\<close>: from a state with \<open>P\<close>, \<open>m\<close> goes on with a value and a state in \<open>Q\<close> or
  returns early with a response and a state in \<open>E\<close>.
\<close>

definition triple :: "('w \<Rightarrow> bool) \<Rightarrow> ('w, 'a) handler \<Rightarrow> ('a \<Rightarrow> 'w \<Rightarrow> bool) \<Rightarrow> (response \<Rightarrow> 'w \<Rightarrow> bool) \<Rightarrow> bool" where
  "triple P m Q E \<longleftrightarrow> (\<forall>w. P w \<longrightarrow> (case m w of (Inl r, w') \<Rightarrow> E r w' | (Inr x, w') \<Rightarrow> Q x w'))"

definition keeps :: "('w \<Rightarrow> bool) \<Rightarrow> ('w, 'a) handler \<Rightarrow> bool" where
  "keeps I m = triple I m (\<lambda>_. I) (\<lambda>_. I)"

named_theorems keeps_rules

lemma triple_andThen:
  "\<lbrakk>triple P m R E; \<And>x. triple (R x) (f x) Q E\<rbrakk> \<Longrightarrow> triple P (andThen m f) Q E"
  unfolding triple_def andThen_def by (fastforce split: prod.splits sum.splits)

lemma triple_conseq:
  "\<lbrakk>triple P m Q E; \<And>w. P' w \<Longrightarrow> P w; \<And>x w. Q x w \<Longrightarrow> Q' x w; \<And>r w. E r w \<Longrightarrow> E' r w\<rbrakk> \<Longrightarrow> triple P' m Q' E'"
  unfolding triple_def by (fastforce split: prod.splits sum.splits)

lemma triple_serve:
  assumes "triple P m (\<lambda>r w'. Q r w') Q" "P w" "serve m w = (r, w')"
  shows "Q r w'"
  using assms unfolding triple_def serve_def by (auto split: prod.splits sum.splits)

lemma keeps_ret [keeps_rules]: "keeps I (ret x)"
  by (simp add: keeps_def triple_def ret_def)

lemma keeps_stop [keeps_rules]: "keeps I (stop r)"
  by (simp add: keeps_def triple_def stop_def)

lemma keeps_andThen [keeps_rules]: "\<lbrakk>keeps I m; \<And>x. keeps I (f x)\<rbrakk> \<Longrightarrow> keeps I (andThen m f)"
  unfolding keeps_def by (rule triple_andThen)

lemma keeps_checks [keeps_rules]:
  "keeps I (check b r)" "keeps I (no_error e r)" "keeps I (or_error x r)" "keeps I (or_none y r)"
  "keeps I (decodeJSON body)" "keeps I (parse_id s what)"
  by (auto simp: check_def no_error_def or_error_def or_none_def decodeJSON_def parse_id_def keeps_ret keeps_stop
      split: option.splits sum.splits decode_error.splits)

lemma keeps_if [keeps_rules]: "\<lbrakk>b \<Longrightarrow> keeps I m; \<not> b \<Longrightarrow> keeps I n\<rbrakk> \<Longrightarrow> keeps I (if b then m else n)"
  by simp

lemma keeps_option [keeps_rules]:
  "\<lbrakk>keeps I m; \<And>x. keeps I (f x)\<rbrakk> \<Longrightarrow> keeps I (case y of None \<Rightarrow> m | Some x \<Rightarrow> f x)"
  by (cases y) simp_all

lemma keeps_sum [keeps_rules]:
  "\<lbrakk>\<And>x. keeps I (g x); \<And>x. keeps I (f x)\<rbrakk> \<Longrightarrow> keeps I (case y of Inl x \<Rightarrow> g x | Inr x \<Rightarrow> f x)"
  by (cases y) simp_all

lemma keeps_prod [keeps_rules]: "(\<And>x y. keeps I (f x y)) \<Longrightarrow> keeps I (case p of (x, y) \<Rightarrow> f x y)"
  by (cases p) simp

lemma keeps_each [keeps_rules]: "(\<And>x. keeps I (f x)) \<Longrightarrow> keeps I (each xs f)"
  by (induction xs) (auto intro!: keeps_rules)

lemma keeps_serve:
  assumes "keeps I m" "I w" "serve m w = (r, w')"
  shows "I w'"
  by (rule triple_serve[of I m "\<lambda>_. I", OF assms(1)[unfolded keeps_def] assms(2,3)])

lemma keeps_conj: "\<lbrakk>keeps I m; keeps J m\<rbrakk> \<Longrightarrow> keeps (\<lambda>w. I w \<and> J w) m"
  unfolding keeps_def triple_def by (auto split: prod.splits sum.splits)

text \<open>Properties of one part of the state are kept by calls to the other parts.\<close>

lemma keeps_db:
  "(\<And>d x d'. \<lbrakk>J d; f d = (x, d')\<rbrakk> \<Longrightarrow> J d') \<Longrightarrow> keeps (\<lambda>w. J (w_db w)) (on_db f)"
  by (auto simp: keeps_def triple_def on_db_def split: prod.splits)

lemma keeps_db_other [keeps_rules]:
  "keeps (\<lambda>w. J (w_db w)) (wg_call S g)" "keeps (\<lambda>w. J (w_db w)) (nft_call S h)"
  "keeps (\<lambda>w. J (w_db w)) GenerateKeyPair" "keeps (\<lambda>w. J (w_db w)) GeneratePresharedKey" "keeps (\<lambda>w. J (w_db w)) time_Now"
  "keeps (\<lambda>w. J (w_db w)) rand_Read" "keeps (\<lambda>w. J (w_db w)) (wg_query q K)"
  by (auto simp: rand_Read_def wg_query_def keeps_def triple_def wg_call_def nft_call_def GenerateKeyPair_def GeneratePresharedKey_def time_Now_def ret_def
      split: option.splits prod.splits list.splits)

lemma keeps_manager:
  "(\<And>E m n r m' n'. \<lbrakk>J m; h E m n = (r, m', n')\<rbrakk> \<Longrightarrow> J m') \<Longrightarrow> keeps (\<lambda>w. J (w_manager w)) (nft_call S h)"
  by (auto simp: keeps_def triple_def nft_call_def ret_def split: option.splits prod.splits)

lemma keeps_manager_other [keeps_rules]:
  "keeps (\<lambda>w. J (w_manager w)) (wg_call S g)" "keeps (\<lambda>w. J (w_manager w)) (on_db f)"
  "keeps (\<lambda>w. J (w_manager w)) GenerateKeyPair" "keeps (\<lambda>w. J (w_manager w)) GeneratePresharedKey" "keeps (\<lambda>w. J (w_manager w)) time_Now"
  "keeps (\<lambda>w. J (w_manager w)) rand_Read" "keeps (\<lambda>w. J (w_manager w)) (wg_query q K)"
  by (auto simp: rand_Read_def wg_query_def keeps_def triple_def wg_call_def on_db_def GenerateKeyPair_def GeneratePresharedKey_def time_Now_def ret_def
      split: option.splits prod.splits list.splits)

lemma keeps_audit_manager [keeps_rules]: "keeps (\<lambda>w. J (w_manager w)) (auditLog r a s d)"
  by (auto simp: auditLog_def Let_def intro!: keeps_rules)

text \<open>The operations of the database keep its invariant.\<close>

lemma db_query_inv:
  assumes "db_inv d"
  shows "GetNetworkByID A i d = (a, d') \<Longrightarrow> db_inv d'" "ListNetworks A d = (b, d') \<Longrightarrow> db_inv d'"
    "GetPeerByID A i d = (c, d') \<Longrightarrow> db_inv d'" "ListPeersByNetworkID A i d = (e, d') \<Longrightarrow> db_inv d'"
    "GetBridgeByID i d = (g, d') \<Longrightarrow> db_inv d'" "ListBridges d = (h, d') \<Longrightarrow> db_inv d'"
    "ListBridgesByNetworkID i d = (k, d') \<Longrightarrow> db_inv d'" "BridgeExistsBetween i j d = (l, d') \<Longrightarrow> db_inv d'"
    "GetSetting s d = (m, d') \<Longrightarrow> db_inv d'" "ListExpiredPeers d = (n, d') \<Longrightarrow> db_inv d'"
  using assms
  by (auto simp: GetNetworkByID_def ListNetworks_def GetPeerByID_def ListPeersByNetworkID_def GetBridgeByID_def ListBridges_def
      ListBridgesByNetworkID_def BridgeExistsBetween_def GetSetting_def ListExpiredPeers_def
      split: prod.splits if_splits option.splits sum.splits dest!: db_inv_fault)

lemma keeps_db_inv [keeps_rules]:
  "keeps (\<lambda>w. db_inv (w_db w)) (on_db (GetNetworkByID A i))" "keeps (\<lambda>w. db_inv (w_db w)) (on_db (ListNetworks A))"
  "keeps (\<lambda>w. db_inv (w_db w)) (on_db (GetPeerByID A i))" "keeps (\<lambda>w. db_inv (w_db w)) (on_db (ListPeersByNetworkID A i))"
  "keeps (\<lambda>w. db_inv (w_db w)) (on_db (GetBridgeByID i))" "keeps (\<lambda>w. db_inv (w_db w)) (on_db ListBridges)"
  "keeps (\<lambda>w. db_inv (w_db w)) (on_db (ListBridgesByNetworkID i))" "keeps (\<lambda>w. db_inv (w_db w)) (on_db (BridgeExistsBetween i j))"
  "keeps (\<lambda>w. db_inv (w_db w)) (on_db (GetSetting s))" "keeps (\<lambda>w. db_inv (w_db w)) (on_db (InsertAuditEntry e))"
  "keeps (\<lambda>w. db_inv (w_db w)) (on_db (CreateNetwork A n))" "keeps (\<lambda>w. db_inv (w_db w)) (on_db (UpdateNetwork A n))"
  "keeps (\<lambda>w. db_inv (w_db w)) (on_db (DeleteNetwork i))"
  "keeps (\<lambda>w. db_inv (w_db w)) (on_db (CreatePeer A p))" "keeps (\<lambda>w. db_inv (w_db w)) (on_db (UpdatePeer A p))"
  "keeps (\<lambda>w. db_inv (w_db w)) (on_db (DeletePeer i))"
  "keeps (\<lambda>w. db_inv (w_db w)) (on_db (CreateBridge b))" "keeps (\<lambda>w. db_inv (w_db w)) (on_db (UpdateBridge b))"
  "keeps (\<lambda>w. db_inv (w_db w)) (on_db (DeleteBridge i))"
  by (rule keeps_db, erule (1) db_op_invs db_query_inv)+

lemma keeps_manager_inv [keeps_rules]:
  "keeps (\<lambda>w. manager_inv (w_manager w)) (nft_call S (\<lambda>E. AddNATMasquerade E i sn))"
  "keeps (\<lambda>w. manager_inv (w_manager w)) (nft_call S (\<lambda>E. RemoveNATMasquerade E i))"
  "keeps (\<lambda>w. manager_inv (w_manager w)) (nft_call S (\<lambda>E. EnableInterPeerForwarding E i))"
  "keeps (\<lambda>w. manager_inv (w_manager w)) (nft_call S (\<lambda>E. DisableInterPeerForwarding E i))"
  "keeps (\<lambda>w. manager_inv (w_manager w)) (nft_call S (\<lambda>E. AddNetworkBridge E a b dir))"
  "keeps (\<lambda>w. manager_inv (w_manager w)) (nft_call S (\<lambda>E. RemoveNetworkBridge E a b))"
  "keeps (\<lambda>w. manager_inv (w_manager w)) (nft_call S (\<lambda>E. OpenUDPPort E p))"
  "keeps (\<lambda>w. manager_inv (w_manager w)) (nft_call S (\<lambda>E. CloseUDPPort E p))"
  by (rule keeps_manager; auto simp: wgp_simps intro: insert_rule_contract delete_key_contract AddNetworkBridge_contract)+

lemma keeps_audit_db_inv [keeps_rules]: "keeps (\<lambda>w. db_inv (w_db w)) (auditLog r a s d)"
  by (auto simp: auditLog_def Let_def intro!: keeps_rules)

text \<open>The invariant of the database and of the firewall manager together.\<close>

definition world_inv :: "('k, 'n) World \<Rightarrow> bool" where
  "world_inv w = (db_inv (w_db w) \<and> manager_inv (w_manager w))"

lemma serve_inv:
  assumes "serve m w = (x, w')" "world_inv w"
    and "keeps (\<lambda>w. db_inv (w_db w)) m" "keeps (\<lambda>w. manager_inv (w_manager w)) m"
  shows "world_inv w'"
  using keeps_serve[OF assms(3) _ assms(1)] keeps_serve[OF assms(4) _ assms(1)] assms(2) by (simp add: world_inv_def)

section \<open>Inverting a run\<close>

text \<open>What it means that a program went on, step by step, or returned early.\<close>

named_theorems run_simps

lemma andThen_run [run_simps]:
  "andThen m f w = (Inr x, w') \<longleftrightarrow> (\<exists>y w1. m w = (Inr y, w1) \<and> f y w1 = (Inr x, w'))"
  "andThen m f w = (Inl r, w') \<longleftrightarrow> m w = (Inl r, w') \<or> (\<exists>y w1. m w = (Inr y, w1) \<and> f y w1 = (Inl r, w'))"
  by (auto simp: andThen_def split: prod.splits sum.splits)

lemma basic_run [run_simps]:
  "ret x w = (Inr y, w') \<longleftrightarrow> y = x \<and> w' = w" "ret x w = (Inl r, w') \<longleftrightarrow> False"
  "stop s w = (Inr y, w') \<longleftrightarrow> False" "stop s w = (Inl r, w') \<longleftrightarrow> r = s \<and> w' = w"
  by (auto simp: ret_def stop_def)

lemma check_run [run_simps]:
  "check b s w = (Inr u, w') \<longleftrightarrow> b \<and> w' = w" "check b s w = (Inl r, w') \<longleftrightarrow> \<not> b \<and> r = s \<and> w' = w"
  "no_error e s w = (Inr u, w') \<longleftrightarrow> e = None \<and> w' = w" "no_error e s w = (Inl r, w') \<longleftrightarrow> e \<noteq> None \<and> r = s \<and> w' = w"
  "or_error y s w = (Inr v, w') \<longleftrightarrow> y = Inr v \<and> w' = w" "or_error y s w = (Inl r, w') \<longleftrightarrow> (\<exists>a. y = Inl a) \<and> r = s \<and> w' = w"
  "or_none z s w = (Inr t, w') \<longleftrightarrow> z = Some t \<and> w' = w" "or_none z s w = (Inl r, w') \<longleftrightarrow> z = None \<and> r = s \<and> w' = w"
  by (auto simp: check_def no_error_def or_error_def or_none_def ret_def stop_def split: option.splits sum.splits)

lemma on_db_run [run_simps]:
  "on_db f w = (Inr x, w') \<longleftrightarrow> (\<exists>d. f (w_db w) = (x, d) \<and> w' = w\<lparr>w_db := d\<rparr>)" "on_db f w = (Inl r, w') \<longleftrightarrow> False"
  by (auto simp: on_db_def split: prod.splits)

lemma wg_call_run [run_simps]:
  "wg_call S f w = (Inl r, w') \<longleftrightarrow> False"
  "wgManager S = None \<Longrightarrow> wg_call S f w = (Inr e, w') \<longleftrightarrow> e = None \<and> w' = w"
  "wgManager S = Some K \<Longrightarrow> wg_call S f w = (Inr e, w') \<longleftrightarrow> (\<exists>k. f K (w_kernel w) = (e, k) \<and> w' = w\<lparr>w_kernel := k\<rparr>)"
  by (auto simp: wg_call_def ret_def split: option.splits prod.splits)

lemma nft_call_run [run_simps]:
  "nft_call S f w = (Inl r, w') \<longleftrightarrow> False"
  "nftManager S = None \<Longrightarrow> nft_call S f w = (Inr e, w') \<longleftrightarrow> e = None \<and> w' = w"
  "nftManager S = Some E \<Longrightarrow> nft_call S f w = (Inr e, w') \<longleftrightarrow>
     (\<exists>m n. f E (w_manager w) (w_nft w) = (e, m, n) \<and> w' = w\<lparr>w_manager := m, w_nft := n\<rparr>)"
  by (auto simp: nft_call_def ret_def split: option.splits prod.splits)

lemma input_run [run_simps]:
  "GenerateKeyPair w = (Inr k, w') \<longleftrightarrow> k = (case w_keypairs w of [] \<Rightarrow> None | a # _ \<Rightarrow> a) \<and> w' = w\<lparr>w_keypairs := tl (w_keypairs w)\<rparr>"
  "GenerateKeyPair w = (Inl r, w') \<longleftrightarrow> False"
  "GeneratePresharedKey w = (Inr s, w') \<longleftrightarrow> s = (case w_psks w of [] \<Rightarrow> None | a # _ \<Rightarrow> a) \<and> w' = w\<lparr>w_psks := tl (w_psks w)\<rparr>"
  "GeneratePresharedKey w = (Inl r, w') \<longleftrightarrow> False"
  "time_Now w = (Inr t, w') \<longleftrightarrow> t = w_nanos w \<and> w' = w" "time_Now w = (Inl r, w') \<longleftrightarrow> False"
  "rand_Read w = (Inr b, w') \<longleftrightarrow> b = (case w_random w of [] \<Rightarrow> None | a # _ \<Rightarrow> a) \<and> w' = w\<lparr>w_random := tl (w_random w)\<rparr>"
  "rand_Read w = (Inl r, w') \<longleftrightarrow> False"
  "wg_query q K w = (Inr y, w') \<longleftrightarrow> (\<exists>k. q K (w_kernel w) = (y, k) \<and> w' = w\<lparr>w_kernel := k\<rparr>)" "wg_query q K w = (Inl r, w') \<longleftrightarrow> False"
  by (auto simp: rand_Read_def wg_query_def GenerateKeyPair_def GeneratePresharedKey_def time_Now_def split: list.splits prod.splits)

lemma audit_run [run_simps]:
  "auditLog r a s t w = (Inr u, w') \<longleftrightarrow> w' = snd (auditLog r a s t w)" "auditLog r a s t w = (Inl v, w') \<longleftrightarrow> False"
  by (auto simp: auditLog_def Let_def andThen_def ret_def on_db_def split: prod.splits)

text \<open>The audit log changes nothing but itself.\<close>

lemma audit_frame [simp]:
  "networks (w_db (snd (auditLog r a s t w))) = networks (w_db w)" "peers (w_db (snd (auditLog r a s t w))) = peers (w_db w)"
  "bridges (w_db (snd (auditLog r a s t w))) = bridges (w_db w)" "settings (w_db (snd (auditLog r a s t w))) = settings (w_db w)"
  "w_kernel (snd (auditLog r a s t w)) = w_kernel w" "w_manager (snd (auditLog r a s t w)) = w_manager w"
  "w_nft (snd (auditLog r a s t w)) = w_nft w"
  by (auto simp: auditLog_def Let_def andThen_def ret_def on_db_def InsertAuditEntry_def db_fault_def split: prod.splits list.splits)

text \<open>A program that answers with success only at its end.\<close>

definition never :: "(response \<Rightarrow> bool) \<Rightarrow> ('w, 'a) handler \<Rightarrow> bool" where
  "never P m \<longleftrightarrow> (\<forall>w r w'. m w = (Inl r, w') \<longrightarrow> \<not> P r)"

named_theorems never_rules

lemma never_basic [never_rules]:
  "never P (ret x)" "\<not> P r \<Longrightarrow> never P (stop r)" "\<not> P r \<Longrightarrow> never P (check b r)" "\<not> P r \<Longrightarrow> never P (no_error e r)"
  "\<not> P r \<Longrightarrow> never P (or_error y r)" "\<not> P r \<Longrightarrow> never P (or_none z r)" "never P (on_db f)" "never P (wg_call S g)"
  "never P (nft_call S h)" "never P GenerateKeyPair" "never P GeneratePresharedKey" "never P time_Now" "never P (auditLog r' a s t)"
  "never P rand_Read" "never P (wg_query q K)"
  by (auto simp: never_def run_simps)

lemma never_andThen [never_rules]: "\<lbrakk>never P m; \<And>x. never P (f x)\<rbrakk> \<Longrightarrow> never P (andThen m f)"
  unfolding never_def andThen_run by blast

lemma never_cases [never_rules]:
  "\<lbrakk>b \<Longrightarrow> never P m; \<not> b \<Longrightarrow> never P n\<rbrakk> \<Longrightarrow> never P (if b then m else n)"
  "\<lbrakk>never P m; \<And>x. never P (f x)\<rbrakk> \<Longrightarrow> never P (case y of None \<Rightarrow> m | Some x \<Rightarrow> f x)"
  "\<lbrakk>\<And>x. never P (g x); \<And>x. never P (h x)\<rbrakk> \<Longrightarrow> never P (case z of Inl x \<Rightarrow> g x | Inr x \<Rightarrow> h x)"
  "(\<And>x y. never P (k x y)) \<Longrightarrow> never P (case p of (x, y) \<Rightarrow> k x y)"
  by (auto split: option.splits sum.splits prod.splits)

lemma never_each [never_rules]: "(\<And>x. never P (f x)) \<Longrightarrow> never P (each xs f)"
  by (induction xs) (auto intro!: never_rules)

definition success :: "response \<Rightarrow> bool" where
  "success r = (200 \<le> status r \<and> status r < 300)"

lemma error_status [simp]:
  "success (internal_error m) = False" "success (writeError m c st) = (200 \<le> st \<and> st < 300)" "success (writeValidationError fs) = False"
  "success (writeJSON st b) = (200 \<le> st \<and> st < 300)"
  by (simp_all add: success_def internal_error_def writeError_def writeValidationError_def writeJSON_def)

lemma never_input [never_rules]: "never success (decodeJSON b)" "never success (parse_id s what)"
  by (auto simp: decodeJSON_def parse_id_def intro!: never_rules split: sum.splits decode_error.splits)

lemma serve_success:
  assumes "serve m w = (r, w')" "success r" "never success m"
  shows "m w = (Inr r, w')"
  using assms by (auto simp: serve_def never_def split: prod.splits sum.splits)

lemma case_run:
  "(case y of Inl a \<Rightarrow> f a | Inr b \<Rightarrow> g b) w = z \<longleftrightarrow> (\<exists>a. y = Inl a \<and> f a w = z) \<or> (\<exists>b. y = Inr b \<and> g b w = z)"
  "(case v of None \<Rightarrow> m | Some a \<Rightarrow> h a) w = z \<longleftrightarrow> v = None \<and> m w = z \<or> (\<exists>a. v = Some a \<and> h a w = z)"
  "(case p of (a, b) \<Rightarrow> k a b) w = z \<longleftrightarrow> k (fst p) (snd p) w = z"
  by (auto split: sum.splits option.splits prod.splits)

lemma never_run: "never P m \<Longrightarrow> P r \<Longrightarrow> m w = (Inl r, w') \<longleftrightarrow> False"
  by (auto simp: never_def)

lemma serve_cases:
  assumes "serve m w = (r, w')"
  obtains "m w = (Inr r, w')" | "m w = (Inl r, w')"
  using assms that by (auto simp: serve_def split: prod.splits sum.splits)

lemma response_inject:
  "internal_error a = internal_error b \<longleftrightarrow> a = b" "writeError a c st = writeError b d su \<longleftrightarrow> a = b \<and> c = d \<and> st = su"
  "writeError a c st = internal_error b \<longleftrightarrow> a = b \<and> c = ''INTERNAL_ERROR'' \<and> st = 500"
  "internal_error b = writeError a c st \<longleftrightarrow> a = b \<and> c = ''INTERNAL_ERROR'' \<and> st = 500"
  "internal_error b \<noteq> writeValidationError fs" "writeValidationError fs \<noteq> internal_error b"
  "writeError a c st \<noteq> writeValidationError fs" "writeValidationError fs \<noteq> writeError a c st"
  "status (internal_error b) = 500" "status (writeError a c st) = st" "status (writeValidationError fs) = 400" "status (writeJSON st body) = st"
  by (auto simp: internal_error_def writeError_def writeValidationError_def writeJSON_def)

lemma input_go [run_simps]:
  "decodeJSON b w = (Inr v, w') \<longleftrightarrow> b = Inr v \<and> w' = w" "parse_id s what w = (Inr i, w') \<longleftrightarrow> Atoi s = Some i \<and> w' = w"
  by (auto simp: decodeJSON_def parse_id_def run_simps split: sum.splits decode_error.splits)

end
