(* ===== verification/NetworkRoutes.thy ===== *)
theory NetworkRoutes
  imports Handlers
begin

text \<open>
  \<open>internal/server/routes_networks.go\<close>: the handlers of the networks resource.
\<close>

section \<open>Requests and validation\<close>

record createNetworkRequest =
  cn_Name :: string
  cn_Mode :: string
  cn_Subnet :: string
  cn_ListenPort :: int
  cn_DNSServers :: string
  cn_NATEnabled :: bool
  cn_InterPeerRouting :: bool

record updateNetworkRequest =
  un_Name :: "string option"
  un_DNSServers :: "string option"
  un_NATEnabled :: "bool option"
  un_InterPeerRouting :: "bool option"

definition name_char :: "char \<Rightarrow> bool" where
  "name_char c = (is_alnum c \<or> c = CHR '' '' \<or> c = CHR ''_'' \<or> c = CHR ''-'')"

definition isValidName :: "string \<Rightarrow> bool" where
  "isValidName name = (1 \<le> length name \<and> length name \<le> 64 \<and> list_all name_char name)"

definition isValidMode :: "string \<Rightarrow> bool" where
  "isValidMode mode = (mode = ''gateway'' \<or> mode = ''site-to-site'' \<or> mode = ''hub-routed'')"

definition isValidPrivateCIDR :: "string \<Rightarrow> bool" where
  "isValidPrivateCIDR cidr = (case ParseCIDR cidr of
      None \<Rightarrow> False
    | Some (ip, ipNet) \<Rightarrow>
        (case Mask_Size (net_mask ipNet) of (ones, bits) \<Rightarrow>
          if bits \<noteq> 32 \<or> ones < 16 \<or> ones > 30 then False
          else let ip4 = To4 ip in
            if ip4 = [] then False
            else if ip4 ! 0 = 10 then True
            else if ip4 ! 0 = 172 \<and> ip4 ! 1 \<ge> 16 \<and> ip4 ! 1 \<le> 31 then True
            else if ip4 ! 0 = 192 \<and> ip4 ! 1 = 168 then True
            else False))"

text \<open>
  \<open>isValidHostname\<close>: labels of at most 63 letters, digits and inner hyphens, each followed
  by a point, and a last label of at least two letters.
\<close>

definition host_label :: "string \<Rightarrow> bool" where
  "host_label l = (l \<noteq> [] \<and> length l \<le> 63 \<and> is_alnum (hd l) \<and> is_alnum (last l)
     \<and> list_all (\<lambda>c. is_alnum c \<or> c = CHR ''-'') l)"

definition isValidHostname :: "string \<Rightarrow> bool" where
  "isValidHostname h = (length h \<le> 253 \<and>
     (let ls = Split (CHR ''.'') h in
      length ls \<ge> 2 \<and> list_all host_label (butlast ls) \<and> length (last ls) \<ge> 2 \<and> list_all is_alpha (last ls)))"

definition isValidDNSServers :: "string \<Rightarrow> bool" where
  "isValidDNSServers s = (if s = [] then True
     else let parts = Split (CHR '','') s in
       if length parts > 3 then False else list_all (\<lambda>p. ParseIP (TrimSpace p) \<noteq> None) parts)"

definition fe :: "bool \<Rightarrow> string \<Rightarrow> string \<Rightarrow> fieldError list" where
  "fe valid field msg = (if valid then [] else [\<lparr>fe_Field = field, fe_Message = msg\<rparr>])"

definition validateCreateNetwork :: "createNetworkRequest \<Rightarrow> fieldError list" where
  "validateCreateNetwork req =
     fe (isValidName (cn_Name req)) ''name'' ''1-64 alphanumeric characters, spaces, hyphens, underscores''
   @ fe (isValidMode (cn_Mode req)) ''mode'' ''must be gateway, site-to-site, or hub-routed''
   @ fe (isValidPrivateCIDR (cn_Subnet req)) ''subnet'' ''must be a valid private IPv4 CIDR (/16 to /30)''
   @ fe (\<not> (cn_ListenPort req < 1024 \<or> cn_ListenPort req > 65535)) ''listen_port'' ''must be between 1024 and 65535''
   @ fe (isValidDNSServers (cn_DNSServers req)) ''dns_servers'' ''must be up to 3 valid IP addresses, comma-separated''"

definition opt_ok :: "('a \<Rightarrow> bool) \<Rightarrow> 'a option \<Rightarrow> bool" where
  "opt_ok P x = (case x of None \<Rightarrow> True | Some v \<Rightarrow> P v)"

definition validateUpdateNetwork :: "updateNetworkRequest \<Rightarrow> fieldError list" where
  "validateUpdateNetwork req =
     fe (opt_ok isValidName (un_Name req)) ''name'' ''1-64 alphanumeric characters, spaces, hyphens, underscores''
   @ fe (opt_ok isValidDNSServers (un_DNSServers req)) ''dns_servers'' ''must be up to 3 valid IP addresses, comma-separated''"

text \<open>The loop for a free name has no bound in the code; \<open>None\<close> would be a loop without end.\<close>

partial_function (option) name_loop :: "string list \<Rightarrow> nat \<Rightarrow> string option" where
  "name_loop taken i = (let name = ''wg'' @ itoa i in if name \<notin> set taken then Some name else name_loop taken (i + 1))"

definition nextInterfaceName :: "Network list \<Rightarrow> string option" where
  "nextInterfaceName ns = name_loop (map n_Interface ns) 0"

section \<open>Creating a network\<close>

definition networkToResponse :: "Network \<Rightarrow> networkResponse" where
  "networkToResponse n = \<lparr>nr_ID = n_ID n, nr_Name = n_Name n, nr_Interface = n_Interface n, nr_Mode = n_Mode n,
     nr_Subnet = n_Subnet n, nr_ListenPort = n_ListenPort n, nr_PublicKey = n_PublicKey n, nr_DNSServers = n_DNSServers n,
     nr_NATEnabled = n_NATEnabled n, nr_InterPeerRouting = n_InterPeerRouting n, nr_Enabled = n_Enabled n,
     nr_CreatedAt = n_CreatedAt n, nr_UpdatedAt = n_UpdatedAt n\<rparr>"

definition subnets_overlap :: "IPNet \<Rightarrow> Network \<Rightarrow> bool" where
  "subnets_overlap reqSubnet existing = (case ParseCIDR (n_Subnet existing) of
      None \<Rightarrow> False
    | Some (_, existingSubnet) \<Rightarrow> IPNet_Contains reqSubnet (net_ip existingSubnet) \<or> IPNet_Contains existingSubnet (net_ip reqSubnet))"

text \<open>The two loops that look for a conflict with an existing network.\<close>

definition network_conflict :: "createNetworkRequest \<Rightarrow> IPNet \<Rightarrow> Network list \<Rightarrow> response option" where
  "network_conflict req reqSubnet ns = (case find (subnets_overlap reqSubnet) ns of
      Some e \<Rightarrow> Some (writeError (''subnet '' @ cn_Subnet req @ '' overlaps with network '' @ quote (n_Name e)
                   @ '' ('' @ n_Subnet e @ '')'') ''SUBNET_CONFLICT'' 409)
    | None \<Rightarrow> (case find (\<lambda>e. n_ListenPort e = cn_ListenPort req) ns of
          Some e \<Rightarrow> Some (writeError (''port '' @ itoa_int (cn_ListenPort req) @ '' already in use by network ''
                     @ quote (n_Name e)) ''PORT_IN_USE'' 409)
        | None \<Rightarrow> None))"

definition net_cfg :: "Network \<Rightarrow> NetworkConfig" where
  "net_cfg n = \<lparr>nc_ID = 0, nc_Name = [], nc_Interface = n_Interface n, nc_Mode = [], nc_Subnet = n_Subnet n,
     nc_ListenPort = n_ListenPort n, nc_PrivateKey = n_PrivateKey n, nc_PublicKey = n_PublicKey n, nc_DNSServers = [],
     nc_NATEnabled = False, nc_InterPeerRouting = False, nc_Enabled = False\<rparr>"

text \<open>Deleting the interface again before an error response.\<close>

definition undo_interface :: "('k, 'n) Server \<Rightarrow> string \<Rightarrow> response \<Rightarrow> (('k, 'n) World, 'a) handler" where
  "undo_interface S iface r = andThen (wg_call S (\<lambda>K. DeleteInterface K iface)) (\<lambda>_. stop r)"

definition or_undo :: "('k, 'n) Server \<Rightarrow> string \<Rightarrow> 'e option \<Rightarrow> response \<Rightarrow> (('k, 'n) World, unit) handler" where
  "or_undo S iface e r = (case e of None \<Rightarrow> ret () | Some _ \<Rightarrow> undo_interface S iface r)"

definition apply_firewall :: "('k, 'n) Server \<Rightarrow> Network \<Rightarrow> (('k, 'n) World, unit) handler" where
  "apply_firewall S n =
     andThen (nft_call S (\<lambda>E. OpenUDPPort E (n_ListenPort n))) (\<lambda>e.
     andThen (or_undo S (n_Interface n) e (internal_error ''failed to open firewall port'')) (\<lambda>_.
     andThen (if n_NATEnabled n then nft_call S (\<lambda>E. AddNATMasquerade E (n_Interface n) (n_Subnet n)) else ret None) (\<lambda>e.
     andThen (or_undo S (n_Interface n) e (internal_error ''failed to add NAT rules'')) (\<lambda>_.
     andThen (if n_InterPeerRouting n then nft_call S (\<lambda>E. EnableInterPeerForwarding E (n_Interface n)) else ret None) (\<lambda>e.
     or_undo S (n_Interface n) e (internal_error ''failed to enable inter-peer forwarding''))))))"

definition new_network :: "createNetworkRequest \<Rightarrow> string \<Rightarrow> string \<times> string \<Rightarrow> Network" where
  "new_network req iface keys = \<lparr>n_ID = 0, n_Name = cn_Name req, n_Interface = iface, n_Mode = cn_Mode req,
     n_Subnet = cn_Subnet req, n_ListenPort = cn_ListenPort req, n_PrivateKey = fst keys, n_PublicKey = snd keys,
     n_DNSServers = cn_DNSServers req, n_NATEnabled = cn_NATEnabled req, n_InterPeerRouting = cn_InterPeerRouting req,
     n_Enabled = True, n_CreatedAt = 0, n_UpdatedAt = 0\<rparr>"

definition looping :: response where
  "looping = \<lparr>status = 0, resp_body = Looping, set_cookie = None\<rparr>"

definition panicked :: response where
  "panicked = \<lparr>status = 500, resp_body = Panicked, set_cookie = None\<rparr>"

text \<open>Fetching the created network, the audit entry and the response.\<close>

definition answer_created :: "('k, 'n) Server \<Rightarrow> Request \<Rightarrow> int \<Rightarrow> (('k, 'n) World, response) handler" where
  "answer_created S r nid =
     andThen (on_db (GetNetworkByID (aead_of S) nid)) (\<lambda>g.
     andThen (or_none (or_nil g) (internal_error ''failed to retrieve created network'')) (\<lambda>created.
     andThen (auditLog r ''network.created'' ''network'' (''created network '' @ quote (n_Name created) @ '' (id='' @ itoa_int nid
       @ '', iface='' @ n_Interface created @ '')'')) (\<lambda>_.
     ret (writeJSON 201 (NetworkBody (networkToResponse created))))))"

text \<open>From the new network to the response: interface, firewall, database.\<close>

definition install_network :: "('k, 'n) Server \<Rightarrow> Request \<Rightarrow> Network \<Rightarrow> (('k, 'n) World, response) handler" where
  "install_network S r network =
     andThen (wg_call S (\<lambda>K. CreateInterface K (net_cfg network))) (\<lambda>e.
     andThen (no_error e (writeError ''failed to create WireGuard interface'' ''INTERFACE_CREATE_FAILED'' 500)) (\<lambda>_.
     andThen (apply_firewall S network) (\<lambda>_.
     andThen (on_db (CreateNetwork (aead_of S) network)) (\<lambda>res.
     case res of
       Inl _ \<Rightarrow> undo_interface S (n_Interface network) (internal_error ''failed to create network'')
     | Inr nid \<Rightarrow> answer_created S r nid))))"

definition handleCreateNetwork :: "('k, 'n) Server \<Rightarrow> Request \<Rightarrow> decode_error + createNetworkRequest
    \<Rightarrow> ('k, 'n) World \<Rightarrow> response \<times> ('k, 'n) World" where
  "handleCreateNetwork S r body = serve (
     andThen (decodeJSON body) (\<lambda>req.
     andThen (check (validateCreateNetwork req = []) (writeValidationError (validateCreateNetwork req))) (\<lambda>_.
     andThen (on_db (ListNetworks (aead_of S))) (\<lambda>ns.
     andThen (or_error ns (internal_error ''failed to list networks'')) (\<lambda>existing.
     andThen (or_none (map_option snd (ParseCIDR (cn_Subnet req))) panicked) (\<lambda>reqSubnet.
     (case network_conflict req reqSubnet existing of
        Some resp \<Rightarrow> stop resp
      | None \<Rightarrow>
          andThen GenerateKeyPair (\<lambda>kp.
          andThen (or_none kp (internal_error ''failed to generate server keypair'')) (\<lambda>keys.
          andThen (or_none (nextInterfaceName existing) looping) (\<lambda>iface.
          install_network S r (new_network req iface keys)))))))))))"

section \<open>Reading networks\<close>

definition networkItem :: "Network \<Rightarrow> int \<Rightarrow> networkListItem" where
  "networkItem n peerCount = networkResponse.extend (networkToResponse n) (networkListItem.fields peerCount)"

definition handleListNetworks :: "('k, 'n) Server \<Rightarrow> ('k, 'n) World \<Rightarrow> response \<times> ('k, 'n) World" where
  "handleListNetworks S = serve (
     andThen (on_db (ListNetworks (aead_of S))) (\<lambda>ns.
     andThen (or_error ns (internal_error ''failed to list networks'')) (\<lambda>all.
     andThen (each all (\<lambda>n.
       andThen (on_db (ListPeersByNetworkID (aead_of S) (n_ID n))) (\<lambda>ps.
       andThen (or_error ps (internal_error ''failed to list peers'')) (\<lambda>members.
       ret (networkItem n (int (length members))))))) (\<lambda>result.
     ret (writeJSON 200 (NetworksBody result))))))"

definition not_found :: "string \<Rightarrow> int \<Rightarrow> response" where
  "not_found what i = writeError (what @ '' '' @ itoa_int i @ '' not found'')
     (if what = ''network'' then ''NETWORK_NOT_FOUND'' else ''BRIDGE_NOT_FOUND'') 404"

text \<open>Fetching a network, as most handlers do: 500 on an error, 404 if there is none.\<close>

definition fetch_network :: "('k, 'n) Server \<Rightarrow> int \<Rightarrow> (('k, 'n) World, Network) handler" where
  "fetch_network S nid =
     andThen (on_db (GetNetworkByID (aead_of S) nid)) (\<lambda>g.
     andThen (or_error g (internal_error ''failed to get network'')) (\<lambda>n.
     or_none n (not_found ''network'' nid)))"

definition handleGetNetwork :: "('k, 'n) Server \<Rightarrow> Request \<Rightarrow> ('k, 'n) World \<Rightarrow> response \<times> ('k, 'n) World" where
  "handleGetNetwork S r = serve (
     andThen (parse_id (rq_id r) ''network'') (\<lambda>nid.
     andThen (fetch_network S nid) (\<lambda>n.
     ret (writeJSON 200 (NetworkBody (networkToResponse n))))))"

section \<open>Updating a network\<close>

definition opt_set :: "'a option \<Rightarrow> ('a \<Rightarrow> 'b \<Rightarrow> 'b) \<Rightarrow> 'b \<Rightarrow> 'b" where
  "opt_set x f b = (case x of None \<Rightarrow> b | Some v \<Rightarrow> f v b)"

definition toggle_nat :: "('k, 'n) Server \<Rightarrow> bool option \<Rightarrow> Network \<Rightarrow> (('k, 'n) World, Network) handler" where
  "toggle_nat S want n = (case want of
      None \<Rightarrow> ret n
    | Some b \<Rightarrow> if b = n_NATEnabled n then ret n
        else andThen (if b then nft_call S (\<lambda>E. AddNATMasquerade E (n_Interface n) (n_Subnet n))
                      else nft_call S (\<lambda>E. RemoveNATMasquerade E (n_Interface n))) (\<lambda>e.
             andThen (no_error e (internal_error (if b then ''failed to enable NAT'' else ''failed to disable NAT''))) (\<lambda>_.
             ret (n\<lparr>n_NATEnabled := b\<rparr>))))"

definition toggle_routing :: "('k, 'n) Server \<Rightarrow> bool option \<Rightarrow> Network \<Rightarrow> (('k, 'n) World, Network) handler" where
  "toggle_routing S want n = (case want of
      None \<Rightarrow> ret n
    | Some b \<Rightarrow> if b = n_InterPeerRouting n then ret n
        else andThen (if b then nft_call S (\<lambda>E. EnableInterPeerForwarding E (n_Interface n))
                      else nft_call S (\<lambda>E. DisableInterPeerForwarding E (n_Interface n))) (\<lambda>e.
             andThen (no_error e (internal_error (if b then ''failed to enable inter-peer routing'' else ''failed to disable inter-peer routing''))) (\<lambda>_.
             ret (n\<lparr>n_InterPeerRouting := b\<rparr>))))"

definition handleUpdateNetwork :: "('k, 'n) Server \<Rightarrow> Request \<Rightarrow> decode_error + updateNetworkRequest
    \<Rightarrow> ('k, 'n) World \<Rightarrow> response \<times> ('k, 'n) World" where
  "handleUpdateNetwork S r body = serve (
     andThen (parse_id (rq_id r) ''network'') (\<lambda>nid.
     andThen (decodeJSON body) (\<lambda>req.
     andThen (check (validateUpdateNetwork req = []) (writeValidationError (validateUpdateNetwork req))) (\<lambda>_.
     andThen (fetch_network S nid) (\<lambda>n0.
     andThen (ret (opt_set (un_DNSServers req) (\<lambda>v n. n\<lparr>n_DNSServers := v\<rparr>) (opt_set (un_Name req) (\<lambda>v n. n\<lparr>n_Name := v\<rparr>) n0))) (\<lambda>n1.
     andThen (toggle_nat S (un_NATEnabled req) n1) (\<lambda>n2.
     andThen (toggle_routing S (un_InterPeerRouting req) n2) (\<lambda>n3.
     andThen (on_db (UpdateNetwork (aead_of S) n3)) (\<lambda>e.
     andThen (no_error e (internal_error ''failed to update network'')) (\<lambda>_.
     andThen (on_db (GetNetworkByID (aead_of S) nid)) (\<lambda>g.
     andThen (or_none (or_nil g) (internal_error ''failed to retrieve updated network'')) (\<lambda>updated.
     andThen (auditLog r ''network.updated'' ''network'' (''updated network '' @ quote (n_Name updated) @ '' (id='' @ itoa_int nid @ '')'')) (\<lambda>_.
     ret (writeJSON 200 (NetworkBody (networkToResponse updated))))))))))))))))"

section \<open>Deleting, enabling and disabling\<close>

definition remove_bridge_rules :: "('k, 'n) Server \<Rightarrow> Network \<Rightarrow> int \<Rightarrow> (('k, 'n) World, unit) handler" where
  "remove_bridge_rules S n nid = (if nftManager S = None then ret () else
     andThen (on_db (ListBridgesByNetworkID nid)) (\<lambda>l. case l of
         Inl _ \<Rightarrow> ret ()
       | Inr bs \<Rightarrow>
           andThen (each bs (\<lambda>b.
             andThen (on_db (GetNetworkByID (aead_of S) (if b_NetworkBID b = nid then b_NetworkAID b else b_NetworkBID b))) (\<lambda>g.
             (case or_nil g of
                None \<Rightarrow> ret ()
              | Some other \<Rightarrow> andThen (nft_call S (\<lambda>E. RemoveNetworkBridge E (n_Interface n) (n_Interface other))) (\<lambda>_. ret ()))))) (\<lambda>_.
           ret ())))"

text \<open>Closing the port and removing the rules of a network; errors are only logged.\<close>

definition remove_firewall :: "('k, 'n) Server \<Rightarrow> Network \<Rightarrow> (('k, 'n) World, unit) handler" where
  "remove_firewall S n =
     andThen (nft_call S (\<lambda>E. CloseUDPPort E (n_ListenPort n))) (\<lambda>_.
     andThen (if n_NATEnabled n then nft_call S (\<lambda>E. RemoveNATMasquerade E (n_Interface n)) else ret None) (\<lambda>_.
     andThen (if n_InterPeerRouting n then nft_call S (\<lambda>E. DisableInterPeerForwarding E (n_Interface n)) else ret None) (\<lambda>_.
     ret ())))"

definition handleDeleteNetwork :: "('k, 'n) Server \<Rightarrow> Request \<Rightarrow> ('k, 'n) World \<Rightarrow> response \<times> ('k, 'n) World" where
  "handleDeleteNetwork S r = serve (
     andThen (parse_id (rq_id r) ''network'') (\<lambda>nid.
     andThen (fetch_network S nid) (\<lambda>n.
     andThen (remove_bridge_rules S n nid) (\<lambda>_.
     andThen (remove_firewall S n) (\<lambda>_.
     andThen (wg_call S (\<lambda>K. DeleteInterface K (n_Interface n))) (\<lambda>_.
     andThen (on_db (DeleteNetwork nid)) (\<lambda>e.
     andThen (no_error e (internal_error ''failed to delete network'')) (\<lambda>_.
     andThen (auditLog r ''network.deleted'' ''network'' (''deleted network '' @ quote (n_Name n) @ '' (id='' @ itoa_int nid
       @ '', iface='' @ n_Interface n @ '')'')) (\<lambda>_.
     ret (writeJSON 204 NoBody))))))))))"

definition peer_cfg :: "Peer \<Rightarrow> PeerConfig" where
  "peer_cfg p = \<lparr>pr_ID = 0, pr_NetworkID = 0, pr_Name = p_Name p, pr_PublicKey = p_PublicKey p, pr_PresharedKey = p_PresharedKey p,
     pr_AllowedIPs = p_AllowedIPs p, pr_Endpoint = p_Endpoint p, pr_PersistentKeepalive = p_PersistentKeepalive p,
     pr_Role = [], pr_SiteNetworks = [], pr_Enabled = False\<rparr>"

definition raise_interface :: "('k, 'n) Server \<Rightarrow> Network \<Rightarrow> int \<Rightarrow> (('k, 'n) World, unit) handler" where
  "raise_interface S n nid = (if wgManager S = None then ret () else
     andThen (wg_call S (\<lambda>K. CreateInterface K (net_cfg n))) (\<lambda>e.
     andThen (no_error e (writeError ''failed to create WireGuard interface'' ''INTERFACE_CREATE_FAILED'' 500)) (\<lambda>_.
     andThen (on_db (ListPeersByNetworkID (aead_of S) nid)) (\<lambda>l. case l of
         Inl _ \<Rightarrow> ret ()
       | Inr ps \<Rightarrow> andThen (each ps (\<lambda>p. if \<not> p_Enabled p then ret None
                     else wg_call S (\<lambda>K. AddPeer K (n_Interface n) (peer_cfg p)))) (\<lambda>_. ret ())))))"

definition restore_firewall :: "('k, 'n) Server \<Rightarrow> Network \<Rightarrow> (('k, 'n) World, unit) handler" where
  "restore_firewall S n =
     andThen (nft_call S (\<lambda>E. OpenUDPPort E (n_ListenPort n))) (\<lambda>_.
     andThen (if n_NATEnabled n then nft_call S (\<lambda>E. AddNATMasquerade E (n_Interface n) (n_Subnet n)) else ret None) (\<lambda>_.
     andThen (if n_InterPeerRouting n then nft_call S (\<lambda>E. EnableInterPeerForwarding E (n_Interface n)) else ret None) (\<lambda>_.
     ret ())))"

text \<open>Storing the new state of \<open>enabled\<close> and answering.\<close>

definition store_enabled :: "('k, 'n) Server \<Rightarrow> Request \<Rightarrow> Network \<Rightarrow> int \<Rightarrow> bool \<Rightarrow> (('k, 'n) World, response) handler" where
  "store_enabled S r n nid b = (let n' = n\<lparr>n_Enabled := b\<rparr>; word = (if b then ''enabled'' else ''disabled'') in
     andThen (on_db (UpdateNetwork (aead_of S) n')) (\<lambda>e.
     andThen (no_error e (internal_error ''failed to update network'')) (\<lambda>_.
     andThen (on_db (GetNetworkByID (aead_of S) nid)) (\<lambda>g.
     andThen (auditLog r (''network.'' @ word) ''network'' (word @ '' network '' @ quote (n_Name n) @ '' (id='' @ itoa_int nid @ '')'')) (\<lambda>_.
     ret (writeJSON 200 (NetworkBody (networkToResponse (case or_nil g of None \<Rightarrow> n' | Some u \<Rightarrow> u)))))))))"

definition handleEnableNetwork :: "('k, 'n) Server \<Rightarrow> Request \<Rightarrow> ('k, 'n) World \<Rightarrow> response \<times> ('k, 'n) World" where
  "handleEnableNetwork S r = serve (
     andThen (parse_id (rq_id r) ''network'') (\<lambda>nid.
     andThen (fetch_network S nid) (\<lambda>n.
     if n_Enabled n then ret (writeJSON 200 (NetworkBody (networkToResponse n)))
     else andThen (raise_interface S n nid) (\<lambda>_.
          andThen (restore_firewall S n) (\<lambda>_.
          store_enabled S r n nid True)))))"

definition handleDisableNetwork :: "('k, 'n) Server \<Rightarrow> Request \<Rightarrow> ('k, 'n) World \<Rightarrow> response \<times> ('k, 'n) World" where
  "handleDisableNetwork S r = serve (
     andThen (parse_id (rq_id r) ''network'') (\<lambda>nid.
     andThen (fetch_network S nid) (\<lambda>n.
     if \<not> n_Enabled n then ret (writeJSON 200 (NetworkBody (networkToResponse n)))
     else andThen (remove_firewall S n) (\<lambda>_.
          andThen (wg_call S (\<lambda>K. DeleteInterface K (n_Interface n))) (\<lambda>_.
          store_enabled S r n nid False)))))"

section \<open>Export\<close>

text \<open>The address the export gives the server: the last byte of the subnet's address plus one.\<close>

definition export_address :: "IPNet \<Rightarrow> string" where
  "export_address sn = IP_String ((net_ip sn)[length (net_ip sn) - 1 := last (net_ip sn) + 1])
     @ ''/'' @ itoa (fst (Mask_Size (net_mask sn)))"

definition export_peer :: "Peer \<Rightarrow> ExportPeer" where
  "export_peer p = \<lparr>e_Name = p_Name p, e_PublicKey = p_PublicKey p, e_PresharedKey = p_PresharedKey p,
     e_AllowedIPs = p_AllowedIPs p, e_Endpoint = p_Endpoint p, e_PersistentKeepalive = p_PersistentKeepalive p\<rparr>"

definition handleExportNetwork :: "('k, 'n) Server \<Rightarrow> Request \<Rightarrow> ('k, 'n) World \<Rightarrow> response \<times> ('k, 'n) World" where
  "handleExportNetwork S r = serve (
     andThen (parse_id (rq_id r) ''network'') (\<lambda>nid.
     andThen (fetch_network S nid) (\<lambda>n.
     andThen (on_db (ListPeersByNetworkID (aead_of S) nid)) (\<lambda>l.
     andThen (or_error l (internal_error ''failed to list peers'')) (\<lambda>ps.
     andThen (or_none (map_option snd (ParseCIDR (n_Subnet n))) panicked) (\<lambda>sn.
     andThen (or_error (GenerateServerConfig \<lparr>s_InterfaceName = n_Interface n, s_PrivateKey = n_PrivateKey n,
         s_Address = export_address sn, s_ListenPort = n_ListenPort n, s_DNSServers = n_DNSServers n,
         s_NATEnabled = n_NATEnabled n, s_NATInterface = [], s_Peers = map export_peer (filter p_Enabled ps)\<rparr>)
       (internal_error ''failed to generate config'')) (\<lambda>conf.
     ret (writeJSON 200 (Attachment (n_Interface n @ ''.conf'') conf)))))))))"

section \<open>Lemmas\<close>

text \<open>The search for a name ends after at most as many steps as there are networks.\<close>

lemma name_loop_finds:
  assumes "''wg'' @ itoa (i + m) \<notin> set taken"
  shows "\<exists>j\<le>m. name_loop taken i = Some (''wg'' @ itoa (i + j)) \<and> ''wg'' @ itoa (i + j) \<notin> set taken \<and>
    (\<forall>l<j. ''wg'' @ itoa (i + l) \<in> set taken)"
  using assms
proof (induction m arbitrary: i)
  case 0
  then show ?case by (simp add: name_loop.simps[of taken i])
next
  case (Suc m)
  show ?case
  proof (cases "''wg'' @ itoa i \<notin> set taken")
    case True
    then show ?thesis by (intro exI[of _ 0]) (simp add: name_loop.simps[of taken i])
  next
    case False
    obtain j where j: "j \<le> m" "name_loop taken (i + 1) = Some (''wg'' @ itoa (i + 1 + j))"
        "''wg'' @ itoa (i + 1 + j) \<notin> set taken" "\<forall>l<j. ''wg'' @ itoa (i + 1 + l) \<in> set taken"
      using Suc.IH[of "i + 1"] Suc.prems by auto
    have "\<forall>l<Suc j. ''wg'' @ itoa (i + l) \<in> set taken"
    proof (intro allI impI)
      fix l assume l: "l < Suc j"
      show "''wg'' @ itoa (i + l) \<in> set taken" using False j(4) l by (cases l) auto
    qed
    then show ?thesis using False j(1-3) by (intro exI[of _ "Suc j"]) (simp add: name_loop.simps[of taken i])
  qed
qed

lemma some_name_free: "\<exists>m\<le>length taken. ''wg'' @ itoa m \<notin> set taken"
proof (rule ccontr)
  assume "\<not> ?thesis"
  then have "(\<lambda>m. ''wg'' @ itoa m) ` {..length taken} \<subseteq> set taken" by auto
  then have "card ((\<lambda>m. ''wg'' @ itoa m) ` {..length taken}) \<le> card (set taken)" by (simp add: card_mono)
  moreover have "card ((\<lambda>m. ''wg'' @ itoa m) ` {..length taken}) = Suc (length taken)"
    by (subst card_image) (auto simp: inj_on_def)
  ultimately show False using card_length[of taken] by simp
qed

lemma nextInterfaceName_spec:
  "\<exists>j\<le>length ns. nextInterfaceName ns = Some (''wg'' @ itoa j) \<and> ''wg'' @ itoa j \<notin> n_Interface ` set ns \<and>
     (\<forall>l<j. ''wg'' @ itoa l \<in> n_Interface ` set ns)"
proof -
  obtain m where m: "m \<le> length ns" "''wg'' @ itoa m \<notin> set (map n_Interface ns)"
    using some_name_free[of "map n_Interface ns"] by auto
  obtain j where "j \<le> m" "name_loop (map n_Interface ns) 0 = Some (''wg'' @ itoa j)"
      "''wg'' @ itoa j \<notin> set (map n_Interface ns)" "\<forall>l<j. ''wg'' @ itoa l \<in> set (map n_Interface ns)"
    using name_loop_finds[of 0 m "map n_Interface ns"] m(2) unfolding add_0 by blast
  then show ?thesis using m(1) unfolding nextInterfaceName_def by (intro exI[of _ j]) auto
qed

text \<open>What a valid subnet is, and when two of them overlap.\<close>

lemma isValidPrivateCIDR_parse:
  assumes "isValidPrivateCIDR s"
  shows "\<exists>ip sn n. ParseCIDR s = Some (ip, sn) \<and> v4_net n sn \<and> 16 \<le> n \<and> n \<le> 30"
proof -
  obtain ip sn where p: "ParseCIDR s = Some (ip, sn)"
    using assms by (auto simp: isValidPrivateCIDR_def split: option.splits)
  then have m: "snd (Mask_Size (net_mask sn)) = 32" "16 \<le> fst (Mask_Size (net_mask sn))" "fst (Mask_Size (net_mask sn)) \<le> 30"
    using assms by (auto simp: isValidPrivateCIDR_def split: prod.splits if_splits)
  then have "length (net_mask sn) = 4" by (auto simp: Mask_Size_def split: option.splits)
  then obtain n where n: "v4_net n sn" using ParseCIDR_v4_net[OF p] by blast
  then have "fst (Mask_Size (net_mask sn)) = n" by (simp add: v4_net_def Mask_Size_def mask_length_v4)
  then show ?thesis using p n m by auto
qed

lemma overlap_disjoint:
  assumes "v4_net n x" "v4_net m y" "\<not> IPNet_Contains x (net_ip y)" "\<not> IPNet_Contains y (net_ip x)" "length i = 4"
  shows "\<not> (IPNet_Contains x i \<and> IPNet_Contains y i)"
proof -
  have l: "length (net_ip x) = 4" "length (net_ip y) = 4" "be (net_ip x) = base x" "be (net_ip y) = base y"
    using assms(1,2) by (auto simp: v4_net_def base_def)
  show ?thesis using assms(3-5) l by (auto simp: Contains_v4_net[OF assms(1)] Contains_v4_net[OF assms(2)])
qed

lemma fe_Nil [simp]: "fe b f m = [] \<longleftrightarrow> b"
  by (simp add: fe_def)

lemma validateCreateNetwork_Nil:
  "validateCreateNetwork req = [] \<longleftrightarrow> isValidName (cn_Name req) \<and> isValidMode (cn_Mode req) \<and> isValidPrivateCIDR (cn_Subnet req) \<and>
     1024 \<le> cn_ListenPort req \<and> cn_ListenPort req \<le> 65535 \<and> isValidDNSServers (cn_DNSServers req)"
  by (auto simp: validateCreateNetwork_def)

lemma network_conflict_None:
  assumes "network_conflict req sn ns = None" "e \<in> set ns"
  shows "\<not> subnets_overlap sn e" "n_ListenPort e \<noteq> cn_ListenPort req"
  using assms by (auto simp: network_conflict_def find_None_iff split: option.splits)

text \<open>Every handler of networks keeps the invariants of the database and of the firewall manager.\<close>

lemmas network_step_defs = undo_interface_def or_undo_def apply_firewall_def install_network_def answer_created_def fetch_network_def
  toggle_nat_def toggle_routing_def remove_bridge_rules_def remove_firewall_def raise_interface_def restore_firewall_def
  store_enabled_def Let_def

lemma network_handlers_keep:
  assumes "world_inv w"
  shows "handleCreateNetwork S r cb w = (x, w') \<Longrightarrow> world_inv w'"
    "handleListNetworks S w = (x, w') \<Longrightarrow> world_inv w'"
    "handleGetNetwork S r w = (x, w') \<Longrightarrow> world_inv w'"
    "handleUpdateNetwork S r ub w = (x, w') \<Longrightarrow> world_inv w'"
    "handleDeleteNetwork S r w = (x, w') \<Longrightarrow> world_inv w'"
    "handleEnableNetwork S r w = (x, w') \<Longrightarrow> world_inv w'"
    "handleDisableNetwork S r w = (x, w') \<Longrightarrow> world_inv w'"
    "handleExportNetwork S r w = (x, w') \<Longrightarrow> world_inv w'"
  unfolding handleCreateNetwork_def handleListNetworks_def handleGetNetwork_def handleUpdateNetwork_def handleDeleteNetwork_def
    handleEnableNetwork_def handleDisableNetwork_def handleExportNetwork_def network_step_defs
  by (erule serve_inv[OF _ assms]; intro keeps_rules)+

end
