(* ===== verification/PeerRoutes.thy ===== *)
theory PeerRoutes
  imports NetworkRoutes
begin

text \<open>
  \<open>internal/server/routes_peers.go\<close>: the handlers of the peers resource.
\<close>

section \<open>Requests and validation\<close>

record createPeerRequest =
  cp_Name :: string
  cp_Email :: string
  cp_Role :: string
  cp_PersistentKeepalive :: int
  cp_SiteNetworks :: string
  cp_ExpiresIn :: string

record updatePeerRequest =
  up_Name :: "string option"
  up_Email :: "string option"
  up_Enabled :: "bool option"
  up_PersistentKeepalive :: "int option"
  up_Endpoint :: "string option"
  up_ExpiresIn :: "string option"

definition isValidRole :: "string \<Rightarrow> bool" where
  "isValidRole role = (role = ''client'' \<or> role = ''site-gateway'')"

definition isValidEndpoint :: "string \<Rightarrow> bool" where
  "isValidEndpoint ep = (if ep = [] then True
     else (case SplitHostPort ep of
        None \<Rightarrow> False
      | Some (host, port) \<Rightarrow>
          if host = [] then False
          else (case Atoi port of None \<Rightarrow> False | Some p \<Rightarrow> \<not> (p < 1 \<or> p > 65535))))"

definition isValidEmail :: "string \<Rightarrow> bool" where
  "isValidEmail email = (if email = [] then True
     else if length email > 254 then False
     else (case LastIndexByte (CHR 0x40) email of
        None \<Rightarrow> False
      | Some at \<Rightarrow> if at < 1 \<or> at \<ge> length email - 1 then False else CHR ''.'' \<in> set (drop (at + 1) email)))"

definition isValidSiteNetworks :: "string \<Rightarrow> bool" where
  "isValidSiteNetworks s = (if s = [] then True
     else list_all (\<lambda>p. ParseCIDR (TrimSpace p) \<noteq> None) (Split (CHR '','') s))"

definition keepalive_ok :: "int \<Rightarrow> bool" where
  "keepalive_ok k = (\<not> (k < 0 \<or> k > 65535))"

definition validateCreatePeer :: "createPeerRequest \<Rightarrow> fieldError list" where
  "validateCreatePeer req =
     fe (isValidName (cp_Name req)) ''name'' ''1-64 alphanumeric characters, spaces, hyphens, underscores''
   @ fe (isValidEmail (cp_Email req)) ''email'' ''must be a valid email address''
   @ fe (isValidRole (cp_Role req)) ''role'' ''must be client or site-gateway''
   @ fe (keepalive_ok (cp_PersistentKeepalive req)) ''persistent_keepalive'' ''must be between 0 and 65535''
   @ fe (\<not> (cp_Role req = ''site-gateway'' \<and> \<not> isValidSiteNetworks (cp_SiteNetworks req)))
       ''site_networks'' ''must be valid CIDRs, comma-separated''"

definition validateUpdatePeer :: "updatePeerRequest \<Rightarrow> fieldError list" where
  "validateUpdatePeer req =
     fe (opt_ok isValidName (up_Name req)) ''name'' ''1-64 alphanumeric characters, spaces, hyphens, underscores''
   @ fe (opt_ok isValidEmail (up_Email req)) ''email'' ''must be a valid email address''
   @ fe (opt_ok keepalive_ok (up_PersistentKeepalive req)) ''persistent_keepalive'' ''must be between 0 and 65535''
   @ fe (opt_ok isValidEndpoint (up_Endpoint req)) ''endpoint'' ''must be a valid host:port''"

section \<open>Helpers of the handlers\<close>

definition peerToResponse :: "Peer \<Rightarrow> peerResponse" where
  "peerToResponse p = \<lparr>pp_ID = p_ID p, pp_NetworkID = p_NetworkID p, pp_Name = p_Name p, pp_Email = p_Email p,
     pp_PublicKey = p_PublicKey p, pp_AllowedIPs = p_AllowedIPs p, pp_Endpoint = p_Endpoint p,
     pp_PersistentKeepalive = p_PersistentKeepalive p, pp_Role = p_Role p, pp_SiteNetworks = p_SiteNetworks p,
     pp_Enabled = p_Enabled p, pp_Online = False, pp_LastHandshake = 0, pp_TransferRx = 0, pp_TransferTx = 0,
     pp_ExpiresAt = p_ExpiresAt p, pp_CreatedAt = p_CreatedAt p, pp_UpdatedAt = p_UpdatedAt p\<rparr>"

text \<open>Fetching a peer of a network: 500 on an error, 404 if there is none in that network.\<close>

definition fetch_peer :: "('k, 'n) Server \<Rightarrow> int \<Rightarrow> int \<Rightarrow> (('k, 'n) World, Peer) handler" where
  "fetch_peer S nid pid =
     andThen (on_db (GetPeerByID (aead_of S) pid)) (\<lambda>g.
     andThen (or_error g (internal_error ''failed to get peer'')) (\<lambda>po.
     or_none (case po of None \<Rightarrow> None | Some p \<Rightarrow> if p_NetworkID p \<noteq> nid then None else Some p)
       (writeError (''peer '' @ itoa_int pid @ '' not found in network '' @ itoa_int nid) ''PEER_NOT_FOUND'' 404)))"

text \<open>Its network, where an error of the database is answered like a missing network.\<close>

definition fetch_parent :: "('k, 'n) Server \<Rightarrow> int \<Rightarrow> (('k, 'n) World, Network) handler" where
  "fetch_parent S nid =
     andThen (on_db (GetNetworkByID (aead_of S) nid)) (\<lambda>g. or_none (or_nil g) (not_found ''network'' nid))"

definition bad_duration :: response where
  "bad_duration = writeValidationError [\<lparr>fe_Field = ''expires_in'',
     fe_Message = ''invalid duration format (e.g. '' @ [CHR 0x27] @ ''720h'' @ [CHR 0x27] @ '')''\<rparr>]"

text \<open>The time of expiry in seconds, as the database stores it.\<close>

definition expiry :: "('k, 'n) Server \<Rightarrow> string \<Rightarrow> (('k, 'n) World, int) handler" where
  "expiry S expiresIn =
     andThen (or_none (ParseDuration (duration_frac S) expiresIn) bad_duration) (\<lambda>d.
     andThen time_Now (\<lambda>t. ret ((t + d) div 1000000000)))"

section \<open>Creating a peer\<close>

text \<open>The addresses in use: the first part of every entry of every peer's list that parses.\<close>

definition used_ips :: "Peer list \<Rightarrow> ip list" where
  "used_ips ps = concat (map (\<lambda>p. List.map_filter (\<lambda>part. map_option fst (ParseCIDR (TrimSpace part)))
     (Split (CHR '','') (p_AllowedIPs p))) ps)"

text \<open>Allocating an address in the subnet of the network.\<close>

definition allocate_ip :: "Network \<Rightarrow> Peer list \<Rightarrow> (('k, 'n) World, ip) handler" where
  "allocate_ip n ps =
     andThen (or_error (NewIPAllocator (map_option snd (ParseCIDR (n_Subnet n))) (used_ips ps))
       (internal_error ''failed to create IP allocator'')) (\<lambda>a.
     andThen (or_none (Allocate a) looping) (\<lambda>res.
     or_error (fst res) (writeError (''no available IPs in subnet '' @ n_Subnet n) ''IP_POOL_EXHAUSTED'' 409)))"

definition server_allowed_ips :: "createPeerRequest \<Rightarrow> ip \<Rightarrow> string" where
  "server_allowed_ips req i = IP_String i @ ''/32''
     @ (if cp_Role req = ''site-gateway'' \<and> cp_SiteNetworks req \<noteq> [] then '', '' @ cp_SiteNetworks req else [])"

definition new_peer :: "createPeerRequest \<Rightarrow> int \<Rightarrow> ip \<Rightarrow> string \<times> string \<Rightarrow> string \<Rightarrow> int option \<Rightarrow> Peer" where
  "new_peer req nid i keys psk expires = \<lparr>p_ID = 0, p_NetworkID = nid, p_Name = cp_Name req, p_Email = cp_Email req,
     p_PrivateKey = fst keys, p_PublicKey = snd keys, p_PresharedKey = psk, p_AllowedIPs = server_allowed_ips req i,
     p_Endpoint = [], p_PersistentKeepalive = cp_PersistentKeepalive req, p_Role = cp_Role req,
     p_SiteNetworks = cp_SiteNetworks req, p_Enabled = True, p_ExpiresAt = expires, p_CreatedAt = 0, p_UpdatedAt = 0\<rparr>"

text \<open>Fetching the created peer, the audit entry and the response.\<close>

definition answer_created_peer :: "('k, 'n) Server \<Rightarrow> Request \<Rightarrow> int \<Rightarrow> int \<Rightarrow> (('k, 'n) World, response) handler" where
  "answer_created_peer S r nid pid =
     andThen (on_db (GetPeerByID (aead_of S) pid)) (\<lambda>g.
     andThen (or_none (or_nil g) (internal_error ''failed to retrieve created peer'')) (\<lambda>created.
     andThen (auditLog r ''peer.created'' ''peer'' (''created peer '' @ quote (p_Name created) @ '' (id='' @ itoa_int pid
       @ '') in network '' @ itoa_int nid)) (\<lambda>_.
     ret (writeJSON 201 (PeerBody (peerToResponse created))))))"

text \<open>From the new peer to the response: kernel, database, audit log.\<close>

definition install_peer :: "('k, 'n) Server \<Rightarrow> Request \<Rightarrow> Network \<Rightarrow> int \<Rightarrow> Peer \<Rightarrow> (('k, 'n) World, response) handler" where
  "install_peer S r n nid p =
     andThen (wg_call S (\<lambda>K. AddPeer K (n_Interface n) (peer_cfg p))) (\<lambda>e.
     andThen (no_error e (writeError ''failed to add peer to WireGuard'' ''WG_PEER_ADD_FAILED'' 500)) (\<lambda>_.
     andThen (on_db (CreatePeer (aead_of S) p)) (\<lambda>res. case res of
        Inl _ \<Rightarrow> andThen (wg_call S (\<lambda>K. RemovePeer K (n_Interface n) (p_PublicKey p))) (\<lambda>_.
                 stop (internal_error ''failed to create peer''))
      | Inr pid \<Rightarrow> answer_created_peer S r nid pid)))"

definition handleCreatePeer :: "('k, 'n) Server \<Rightarrow> Request \<Rightarrow> decode_error + createPeerRequest
    \<Rightarrow> ('k, 'n) World \<Rightarrow> response \<times> ('k, 'n) World" where
  "handleCreatePeer S r body = serve (
     andThen (parse_id (rq_id r) ''network'') (\<lambda>nid.
     andThen (decodeJSON body) (\<lambda>req.
     andThen (check (validateCreatePeer req = []) (writeValidationError (validateCreatePeer req))) (\<lambda>_.
     andThen (fetch_network S nid) (\<lambda>n.
     andThen (on_db (ListPeersByNetworkID (aead_of S) nid)) (\<lambda>l.
     andThen (or_error l (internal_error ''failed to list peers'')) (\<lambda>existing.
     andThen (allocate_ip n existing) (\<lambda>i.
     andThen GenerateKeyPair (\<lambda>kp.
     andThen (or_none kp (internal_error ''failed to generate peer keypair'')) (\<lambda>keys.
     andThen GeneratePresharedKey (\<lambda>sk.
     andThen (or_none sk (internal_error ''failed to generate preshared key'')) (\<lambda>psk.
     andThen (if cp_ExpiresIn req = [] then ret None else andThen (expiry S (cp_ExpiresIn req)) (\<lambda>t. ret (Some t))) (\<lambda>expires.
     install_peer S r n nid (new_peer req nid i keys psk expires))))))))))))))"

section \<open>Reading peers\<close>

definition unix_seconds :: "int option \<Rightarrow> int" where
  "unix_seconds t = (case t of None \<Rightarrow> - 62135596800 | Some ns \<Rightarrow> ns div 1000000000)"

text \<open>The live status of the peers by key, empty unless the kernel can be asked.\<close>

definition live_status :: "('k, 'n) Server \<Rightarrow> Network \<Rightarrow> (('k, 'n) World, string \<Rightarrow> PeerStatus option) handler" where
  "live_status S n = (case wgManager S of
      None \<Rightarrow> ret (\<lambda>_. None)
    | Some K \<Rightarrow> if \<not> n_Enabled n then ret (\<lambda>_. None)
        else (\<lambda>w. case PeerStatus_wg K (w_nanos w) (n_Interface n) (w_kernel w) of
            (Inl _, k) \<Rightarrow> (Inr (\<lambda>_. None), w\<lparr>w_kernel := k\<rparr>)
          | (Inr sts, k) \<Rightarrow> (Inr (map_of (rev (map (\<lambda>st. (st_PublicKey st, st)) sts))), w\<lparr>w_kernel := k\<rparr>)))"

definition with_status :: "(string \<Rightarrow> PeerStatus option) \<Rightarrow> Peer \<Rightarrow> peerResponse" where
  "with_status live p = (case live (p_PublicKey p) of
      None \<Rightarrow> peerToResponse p
    | Some st \<Rightarrow> (peerToResponse p)\<lparr>pp_Online := st_Online st, pp_LastHandshake := unix_seconds (st_LastHandshake st),
        pp_TransferRx := st_TransferRx st, pp_TransferTx := st_TransferTx st\<rparr>)"

definition handleListPeers :: "('k, 'n) Server \<Rightarrow> Request \<Rightarrow> ('k, 'n) World \<Rightarrow> response \<times> ('k, 'n) World" where
  "handleListPeers S r = serve (
     andThen (parse_id (rq_id r) ''network'') (\<lambda>nid.
     andThen (fetch_network S nid) (\<lambda>n.
     andThen (on_db (ListPeersByNetworkID (aead_of S) nid)) (\<lambda>l.
     andThen (or_error l (internal_error ''failed to list peers'')) (\<lambda>ps.
     andThen (live_status S n) (\<lambda>live.
     ret (writeJSON 200 (PeersBody (map (with_status live) ps)))))))))"

definition handleGetPeer :: "('k, 'n) Server \<Rightarrow> Request \<Rightarrow> ('k, 'n) World \<Rightarrow> response \<times> ('k, 'n) World" where
  "handleGetPeer S r = serve (
     andThen (parse_id (rq_id r) ''network'') (\<lambda>nid.
     andThen (parse_id (rq_pid r) ''peer'') (\<lambda>pid.
     andThen (fetch_peer S nid pid) (\<lambda>p.
     ret (writeJSON 200 (PeerBody (peerToResponse p)))))))"

section \<open>Updating a peer\<close>

definition apply_expiry :: "('k, 'n) Server \<Rightarrow> string option \<Rightarrow> Peer \<Rightarrow> (('k, 'n) World, Peer) handler" where
  "apply_expiry S expiresIn p = (case expiresIn of
      None \<Rightarrow> ret p
    | Some s \<Rightarrow> if s = [] then ret (p\<lparr>p_ExpiresAt := None\<rparr>)
        else andThen (expiry S s) (\<lambda>t. ret (p\<lparr>p_ExpiresAt := Some t\<rparr>)))"

definition apply_fields :: "updatePeerRequest \<Rightarrow> Peer \<Rightarrow> Peer" where
  "apply_fields req p =
     opt_set (up_Endpoint req) (\<lambda>v p. p\<lparr>p_Endpoint := v\<rparr>) (
     opt_set (up_PersistentKeepalive req) (\<lambda>v p. p\<lparr>p_PersistentKeepalive := v\<rparr>) (
     opt_set (up_Enabled req) (\<lambda>v p. p\<lparr>p_Enabled := v\<rparr>) (
     opt_set (up_Email req) (\<lambda>v p. p\<lparr>p_Email := v\<rparr>) (
     opt_set (up_Name req) (\<lambda>v p. p\<lparr>p_Name := v\<rparr>) p))))"

definition handleUpdatePeer :: "('k, 'n) Server \<Rightarrow> Request \<Rightarrow> decode_error + updatePeerRequest
    \<Rightarrow> ('k, 'n) World \<Rightarrow> response \<times> ('k, 'n) World" where
  "handleUpdatePeer S r body = serve (
     andThen (parse_id (rq_id r) ''network'') (\<lambda>nid.
     andThen (parse_id (rq_pid r) ''peer'') (\<lambda>pid.
     andThen (decodeJSON body) (\<lambda>req.
     andThen (check (validateUpdatePeer req = []) (writeValidationError (validateUpdatePeer req))) (\<lambda>_.
     andThen (fetch_peer S nid pid) (\<lambda>p0.
     andThen (fetch_parent S nid) (\<lambda>n.
     andThen (apply_expiry S (up_ExpiresIn req) (apply_fields req p0)) (\<lambda>p.
     andThen (wg_call S (\<lambda>K. UpdatePeer_wg K (n_Interface n) ((peer_cfg p)\<lparr>pr_Enabled := p_Enabled p\<rparr>))) (\<lambda>e.
     andThen (no_error e (internal_error ''failed to update peer in WireGuard'')) (\<lambda>_.
     andThen (on_db (UpdatePeer (aead_of S) p)) (\<lambda>e.
     andThen (no_error e (internal_error ''failed to update peer'')) (\<lambda>_.
     andThen (on_db (GetPeerByID (aead_of S) pid)) (\<lambda>g.
     andThen (or_none (or_nil g) (internal_error ''failed to retrieve updated peer'')) (\<lambda>updated.
     andThen (auditLog r ''peer.updated'' ''peer'' (''updated peer '' @ quote (p_Name updated) @ '' (id='' @ itoa_int pid
       @ '') in network '' @ itoa_int nid)) (\<lambda>_.
     ret (writeJSON 200 (PeerBody (peerToResponse updated))))))))))))))))))"

section \<open>Deleting, enabling and disabling\<close>

definition handleDeletePeer :: "('k, 'n) Server \<Rightarrow> Request \<Rightarrow> ('k, 'n) World \<Rightarrow> response \<times> ('k, 'n) World" where
  "handleDeletePeer S r = serve (
     andThen (parse_id (rq_id r) ''network'') (\<lambda>nid.
     andThen (parse_id (rq_pid r) ''peer'') (\<lambda>pid.
     andThen (fetch_peer S nid pid) (\<lambda>p.
     andThen (fetch_parent S nid) (\<lambda>n.
     andThen (wg_call S (\<lambda>K. RemovePeer K (n_Interface n) (p_PublicKey p))) (\<lambda>_.
     andThen (on_db (DeletePeer pid)) (\<lambda>e.
     andThen (no_error e (internal_error ''failed to delete peer'')) (\<lambda>_.
     andThen (auditLog r ''peer.deleted'' ''peer'' (''deleted peer '' @ quote (p_Name p) @ '' (id='' @ itoa_int pid
       @ '') from network '' @ itoa_int nid)) (\<lambda>_.
     ret (writeJSON 204 NoBody))))))))))"

text \<open>The end of the enable and disable handlers.\<close>

definition peer_toggled :: "('k, 'n) Server \<Rightarrow> Request \<Rightarrow> int \<Rightarrow> int \<Rightarrow> Peer \<Rightarrow> string \<Rightarrow> (('k, 'n) World, response) handler" where
  "peer_toggled S r nid pid p word =
     andThen (on_db (GetPeerByID (aead_of S) pid)) (\<lambda>g.
     andThen (auditLog r (''peer.'' @ word) ''peer'' (word @ '' peer '' @ quote (p_Name p) @ '' (id='' @ itoa_int pid
       @ '') in network '' @ itoa_int nid)) (\<lambda>_.
     ret (writeJSON 200 (PeerBody (peerToResponse (case or_nil g of None \<Rightarrow> p | Some u \<Rightarrow> u))))))"

definition handleEnablePeer :: "('k, 'n) Server \<Rightarrow> Request \<Rightarrow> ('k, 'n) World \<Rightarrow> response \<times> ('k, 'n) World" where
  "handleEnablePeer S r = serve (
     andThen (parse_id (rq_id r) ''network'') (\<lambda>nid.
     andThen (parse_id (rq_pid r) ''peer'') (\<lambda>pid.
     andThen (fetch_peer S nid pid) (\<lambda>p.
     if p_Enabled p then ret (writeJSON 200 (PeerBody (peerToResponse p)))
     else andThen (fetch_parent S nid) (\<lambda>n.
          andThen (on_db (UpdatePeer (aead_of S) (p\<lparr>p_Enabled := True\<rparr>))) (\<lambda>e.
          andThen (no_error e (internal_error ''failed to update peer'')) (\<lambda>_.
          andThen (if n_Enabled n then wg_call S (\<lambda>K. AddPeer K (n_Interface n) (peer_cfg p)) else ret None) (\<lambda>_.
          peer_toggled S r nid pid (p\<lparr>p_Enabled := True\<rparr>) ''enabled''))))))))"

definition handleDisablePeer :: "('k, 'n) Server \<Rightarrow> Request \<Rightarrow> ('k, 'n) World \<Rightarrow> response \<times> ('k, 'n) World" where
  "handleDisablePeer S r = serve (
     andThen (parse_id (rq_id r) ''network'') (\<lambda>nid.
     andThen (parse_id (rq_pid r) ''peer'') (\<lambda>pid.
     andThen (fetch_peer S nid pid) (\<lambda>p.
     if \<not> p_Enabled p then ret (writeJSON 200 (PeerBody (peerToResponse p)))
     else andThen (fetch_parent S nid) (\<lambda>n.
          andThen (on_db (UpdatePeer (aead_of S) (p\<lparr>p_Enabled := False\<rparr>))) (\<lambda>e.
          andThen (no_error e (internal_error ''failed to update peer'')) (\<lambda>_.
          andThen (if n_Enabled n then wg_call S (\<lambda>K. RemovePeer K (n_Interface n) (p_PublicKey p)) else ret None) (\<lambda>_.
          peer_toggled S r nid pid (p\<lparr>p_Enabled := False\<rparr>) ''disabled''))))))))"

section \<open>The client's configuration\<close>

text \<open>The width of the first rune in UTF-8; one byte where the encoding is invalid.\<close>

definition rune_width :: "string \<Rightarrow> nat" where
  "rune_width s =
     (let b = (\<lambda>i. if i < length s then ord (s ! i) else 0); cont = (\<lambda>i. 128 \<le> b i \<and> b i \<le> 191) in
      if 194 \<le> b 0 \<and> b 0 \<le> 223 \<and> cont 1 then 2
      else if b 0 = 224 \<and> 160 \<le> b 1 \<and> b 1 \<le> 191 \<and> cont 2 then 3
      else if b 0 = 237 \<and> 128 \<le> b 1 \<and> b 1 \<le> 159 \<and> cont 2 then 3
      else if 225 \<le> b 0 \<and> b 0 \<le> 239 \<and> b 0 \<noteq> 237 \<and> cont 1 \<and> cont 2 then 3
      else if b 0 = 240 \<and> 144 \<le> b 1 \<and> b 1 \<le> 191 \<and> cont 2 \<and> cont 3 then 4
      else if 241 \<le> b 0 \<and> b 0 \<le> 243 \<and> cont 1 \<and> cont 2 \<and> cont 3 then 4
      else if b 0 = 244 \<and> 128 \<le> b 1 \<and> b 1 \<le> 143 \<and> cont 2 \<and> cont 3 then 4
      else 1)"

definition safe_char :: "char \<Rightarrow> bool" where
  "safe_char c = (is_alnum c \<or> c = CHR ''-'' \<or> c = CHR ''_'')"

lemma rune_width_pos: "0 < rune_width s"
  by (simp add: rune_width_def Let_def)

function safeName :: "string \<Rightarrow> string" where
  "safeName s = (if s = [] then [] else (if safe_char (hd s) then hd s else CHR ''-'') # safeName (drop (rune_width s) s))"
  by auto
termination
  by (relation "measure length") (auto simp: rune_width_pos)

declare safeName.simps [simp del]

definition client_params :: "Network \<Rightarrow> Peer \<Rightarrow> string \<Rightarrow> ClientConfigParams" where
  "client_params n p publicIP = \<lparr>c_PeerName = p_Name p, c_PeerPrivateKey = p_PrivateKey p, c_PeerAddress = p_AllowedIPs p,
     c_DNSServers = n_DNSServers n, c_ServerPublicKey = n_PublicKey n, c_PresharedKey = p_PresharedKey p,
     c_ServerEndpoint = publicIP @ '':'' @ itoa_int (n_ListenPort n),
     c_AllowedIPs = ComputeClientAllowedIPs (n_Mode n) (n_Subnet n) (p_SiteNetworks p),
     c_PersistentKeepalive = p_PersistentKeepalive p\<rparr>"

text \<open>What the configuration and the QR code handlers share: the peer and its file.\<close>

definition client_config :: "('k, 'n) Server \<Rightarrow> Request \<Rightarrow> (('k, 'n) World, Peer \<times> string) handler" where
  "client_config S r =
     andThen (parse_id (rq_id r) ''network'') (\<lambda>nid.
     andThen (parse_id (rq_pid r) ''peer'') (\<lambda>pid.
     andThen (fetch_peer S nid pid) (\<lambda>p.
     andThen (fetch_parent S nid) (\<lambda>n.
     andThen (on_db (GetSetting ''public_ip'')) (\<lambda>g.
     andThen (ret (case g of Inl _ \<Rightarrow> [] | Inr v \<Rightarrow> v)) (\<lambda>ip.
     andThen (or_error (GenerateClientConfig (client_params n p (if ip = [] then ''YOUR_SERVER_IP'' else ip)))
       (internal_error ''failed to generate config'')) (\<lambda>conf.
     ret (p, conf))))))))"

definition handlePeerConfig :: "('k, 'n) Server \<Rightarrow> Request \<Rightarrow> ('k, 'n) World \<Rightarrow> response \<times> ('k, 'n) World" where
  "handlePeerConfig S r = serve (
     andThen (client_config S r) (\<lambda>(p, conf).
     ret (writeJSON 200 (Attachment (''wgpilot-'' @ safeName (p_Name p) @ ''.conf'') conf))))"

definition GenerateQRCode :: "('k, 'n) Server \<Rightarrow> string \<Rightarrow> int \<Rightarrow> byte list option" where
  "GenerateQRCode S conf sz = (if conf = [] then None else qr_encode S conf (if sz \<le> 0 then 256 else nat sz))"

definition handlePeerQR :: "('k, 'n) Server \<Rightarrow> Request \<Rightarrow> ('k, 'n) World \<Rightarrow> response \<times> ('k, 'n) World" where
  "handlePeerQR S r = serve (
     andThen (client_config S r) (\<lambda>(p, conf).
     andThen (or_none (GenerateQRCode S conf 256) (internal_error ''failed to generate QR code'')) (\<lambda>png.
     ret (writeJSON 200 (PNG png)))))"

section \<open>Lemmas\<close>

lemma keeps_live_status [keeps_rules]:
  "keeps (\<lambda>w. I (w_db w)) (live_status S n)" "keeps (\<lambda>w. J (w_manager w)) (live_status S n)"
  by (auto simp: keeps_def triple_def live_status_def ret_def split: option.splits prod.splits sum.splits)

lemmas peer_step_defs = fetch_network_def fetch_peer_def fetch_parent_def expiry_def allocate_ip_def install_peer_def answer_created_peer_def
  apply_expiry_def peer_toggled_def client_config_def Let_def

lemma peer_handlers_keep:
  assumes "world_inv w"
  shows "handleCreatePeer S r cb w = (x, w') \<Longrightarrow> world_inv w'"
    "handleListPeers S r w = (x, w') \<Longrightarrow> world_inv w'"
    "handleGetPeer S r w = (x, w') \<Longrightarrow> world_inv w'"
    "handleUpdatePeer S r ub w = (x, w') \<Longrightarrow> world_inv w'"
    "handleDeletePeer S r w = (x, w') \<Longrightarrow> world_inv w'"
    "handleEnablePeer S r w = (x, w') \<Longrightarrow> world_inv w'"
    "handleDisablePeer S r w = (x, w') \<Longrightarrow> world_inv w'"
    "handlePeerConfig S r w = (x, w') \<Longrightarrow> world_inv w'"
    "handlePeerQR S r w = (x, w') \<Longrightarrow> world_inv w'"
  unfolding handleCreatePeer_def handleListPeers_def handleGetPeer_def handleUpdatePeer_def handleDeletePeer_def handleEnablePeer_def handleDisablePeer_def handlePeerConfig_def handlePeerQR_def peer_step_defs
  by (erule serve_inv[OF _ assms]; intro keeps_rules)+

end
