(* ===== verification/BridgeRoutes.thy ===== *)
theory BridgeRoutes
  imports NetworkRoutes
begin

text \<open>
  \<open>internal/server/routes_bridges.go\<close>: the handlers of the bridges resource.
\<close>

section \<open>The code\<close>

record createBridgeRequest =
  cb_NetworkAID :: int
  cb_NetworkBID :: int
  cb_Direction :: string
  cb_AllowedCIDRs :: string

record updateBridgeRequest =
  ub_Direction :: "string option"
  ub_AllowedCIDRs :: "string option"
  ub_Enabled :: "bool option"

definition isValidDirection :: "string \<Rightarrow> bool" where
  "isValidDirection d = (d = ''a_to_b'' \<or> d = ''b_to_a'' \<or> d = ''bidirectional'')"

definition bridgeToResponse :: "Bridge \<Rightarrow> Network option \<Rightarrow> Network option \<Rightarrow> bridgeResponse" where
  "bridgeToResponse b netA netB = \<lparr>br_ID = b_ID b, br_NetworkAID = b_NetworkAID b, br_NetworkBID = b_NetworkBID b,
     br_NetworkAName = (case netA of None \<Rightarrow> [] | Some n \<Rightarrow> n_Name n),
     br_NetworkBName = (case netB of None \<Rightarrow> [] | Some n \<Rightarrow> n_Name n),
     br_InterfaceA = (case netA of None \<Rightarrow> [] | Some n \<Rightarrow> n_Interface n),
     br_InterfaceB = (case netB of None \<Rightarrow> [] | Some n \<Rightarrow> n_Interface n),
     br_Direction = b_Direction b, br_AllowedCIDRs = b_AllowedCIDRs b, br_Enabled = b_Enabled b,
     br_CreatedAt = b_CreatedAt b, br_UpdatedAt = b_UpdatedAt b\<rparr>"

definition bad_direction :: response where
  "bad_direction = writeError ''direction must be a_to_b, b_to_a, or bidirectional'' ''VALIDATION_ERROR'' 400"

text \<open>Fetching the created bridge, the audit entry and the response.\<close>

definition answer_created_bridge :: "('k, 'n) Server \<Rightarrow> Request \<Rightarrow> createBridgeRequest \<Rightarrow> Network \<Rightarrow> Network \<Rightarrow> int
    \<Rightarrow> (('k, 'n) World, response) handler" where
  "answer_created_bridge S r req netA netB bid =
     andThen (on_db (GetBridgeByID bid)) (\<lambda>g.
     andThen (or_none (or_nil g) (internal_error ''failed to retrieve created bridge'')) (\<lambda>created.
     andThen (auditLog r ''bridge.created'' ''bridge'' (''created bridge (id='' @ itoa_int bid @ '') between networks ''
       @ itoa_int (cb_NetworkAID req) @ '' and '' @ itoa_int (cb_NetworkBID req))) (\<lambda>_.
     ret (writeJSON 201 (BridgeBody (bridgeToResponse created (Some netA) (Some netB)))))))"

definition new_bridge :: "createBridgeRequest \<Rightarrow> Bridge" where
  "new_bridge req = \<lparr>b_ID = 0, b_NetworkAID = cb_NetworkAID req, b_NetworkBID = cb_NetworkBID req,
     b_Direction = cb_Direction req, b_AllowedCIDRs = cb_AllowedCIDRs req, b_Enabled = True, b_CreatedAt = 0, b_UpdatedAt = 0\<rparr>"

text \<open>From the two networks to the response: firewall, database, audit log.\<close>

definition install_bridge :: "('k, 'n) Server \<Rightarrow> Request \<Rightarrow> createBridgeRequest \<Rightarrow> Network \<Rightarrow> Network
    \<Rightarrow> (('k, 'n) World, response) handler" where
  "install_bridge S r req netA netB =
     andThen (nft_call S (\<lambda>E. AddNetworkBridge E (n_Interface netA) (n_Interface netB) (cb_Direction req))) (\<lambda>e.
     andThen (no_error e (internal_error ''failed to add bridge firewall rules'')) (\<lambda>_.
     andThen (on_db (CreateBridge (new_bridge req))) (\<lambda>res. case res of
        Inl _ \<Rightarrow> andThen (nft_call S (\<lambda>E. RemoveNetworkBridge E (n_Interface netA) (n_Interface netB))) (\<lambda>_.
                 stop (internal_error ''failed to create bridge''))
      | Inr bid \<Rightarrow> answer_created_bridge S r req netA netB bid)))"

definition handleCreateBridge :: "('k, 'n) Server \<Rightarrow> Request \<Rightarrow> decode_error + createBridgeRequest
    \<Rightarrow> ('k, 'n) World \<Rightarrow> response \<times> ('k, 'n) World" where
  "handleCreateBridge S r body = serve (
     andThen (decodeJSON body) (\<lambda>req.
     andThen (check (isValidDirection (cb_Direction req)) bad_direction) (\<lambda>_.
     andThen (check (cb_NetworkAID req \<noteq> cb_NetworkBID req)
       (writeError ''cannot bridge a network to itself'' ''BRIDGE_SELF_REFERENCE'' 400)) (\<lambda>_.
     andThen (fetch_network S (cb_NetworkAID req)) (\<lambda>netA.
     andThen (fetch_network S (cb_NetworkBID req)) (\<lambda>netB.
     andThen (on_db (BridgeExistsBetween (cb_NetworkAID req) (cb_NetworkBID req))) (\<lambda>x.
     andThen (or_error x (internal_error ''failed to check existing bridges'')) (\<lambda>exists.
     andThen (check (\<not> exists) (writeError (''bridge already exists between network '' @ itoa_int (cb_NetworkAID req) @ '' and ''
       @ itoa_int (cb_NetworkBID req)) ''BRIDGE_ALREADY_EXISTS'' 409)) (\<lambda>_.
     install_bridge S r req netA netB)))))))))"

definition handleListBridges :: "('k, 'n) Server \<Rightarrow> ('k, 'n) World \<Rightarrow> response \<times> ('k, 'n) World" where
  "handleListBridges S = serve (
     andThen (on_db ListBridges) (\<lambda>l.
     andThen (or_error l (internal_error ''failed to list bridges'')) (\<lambda>bs.
     andThen (on_db (ListNetworks (aead_of S))) (\<lambda>ns.
     andThen (or_error ns (internal_error ''failed to list networks'')) (\<lambda>all.
     andThen (ret (map_of (rev (map (\<lambda>n. (n_ID n, n)) all)))) (\<lambda>networkMap.
     ret (writeJSON 200 (BridgesBody (map (\<lambda>b. bridgeToResponse b (networkMap (b_NetworkAID b)) (networkMap (b_NetworkBID b))) bs)))))))))"

definition fetch_bridge :: "('k, 'n) Server \<Rightarrow> int \<Rightarrow> (('k, 'n) World, Bridge) handler" where
  "fetch_bridge S bid =
     andThen (on_db (GetBridgeByID bid)) (\<lambda>g.
     andThen (or_error g (internal_error ''failed to get bridge'')) (\<lambda>b.
     or_none b (not_found ''bridge'' bid)))"

text \<open>The two networks of a bridge, each nil on an error.\<close>

definition bridge_networks :: "('k, 'n) Server \<Rightarrow> Bridge \<Rightarrow> (('k, 'n) World, Network option \<times> Network option) handler" where
  "bridge_networks S b =
     andThen (on_db (GetNetworkByID (aead_of S) (b_NetworkAID b))) (\<lambda>ga.
     andThen (on_db (GetNetworkByID (aead_of S) (b_NetworkBID b))) (\<lambda>gb.
     ret (or_nil ga, or_nil gb)))"

definition handleGetBridge :: "('k, 'n) Server \<Rightarrow> Request \<Rightarrow> ('k, 'n) World \<Rightarrow> response \<times> ('k, 'n) World" where
  "handleGetBridge S r = serve (
     andThen (parse_id (rq_id r) ''bridge'') (\<lambda>bid.
     andThen (fetch_bridge S bid) (\<lambda>b.
     andThen (bridge_networks S b) (\<lambda>(netA, netB).
     ret (writeJSON 200 (BridgeBody (bridgeToResponse b netA netB)))))))"

definition update_fields :: "updateBridgeRequest \<Rightarrow> Bridge \<Rightarrow> Bridge" where
  "update_fields req b =
     opt_set (ub_Enabled req) (\<lambda>v b. b\<lparr>b_Enabled := v\<rparr>) (
     opt_set (ub_AllowedCIDRs req) (\<lambda>v b. b\<lparr>b_AllowedCIDRs := v\<rparr>) (
     opt_set (ub_Direction req) (\<lambda>v b. b\<lparr>b_Direction := v\<rparr>) b))"

definition redirect_bridge :: "('k, 'n) Server \<Rightarrow> Bridge \<Rightarrow> Bridge \<Rightarrow> (('k, 'n) World, unit) handler" where
  "redirect_bridge S old b = (if nftManager S = None \<or> b_Direction old = b_Direction b then ret () else
     andThen (bridge_networks S b) (\<lambda>nets. case nets of
         (Some netA, Some netB) \<Rightarrow>
           andThen (nft_call S (\<lambda>E. RemoveNetworkBridge E (n_Interface netA) (n_Interface netB))) (\<lambda>_.
           andThen (nft_call S (\<lambda>E. AddNetworkBridge E (n_Interface netA) (n_Interface netB) (b_Direction b))) (\<lambda>e.
           no_error e (internal_error ''failed to update bridge firewall rules'')))
       | _ \<Rightarrow> ret ()))"

definition handleUpdateBridge :: "('k, 'n) Server \<Rightarrow> Request \<Rightarrow> decode_error + updateBridgeRequest
    \<Rightarrow> ('k, 'n) World \<Rightarrow> response \<times> ('k, 'n) World" where
  "handleUpdateBridge S r body = serve (
     andThen (parse_id (rq_id r) ''bridge'') (\<lambda>bid.
     andThen (fetch_bridge S bid) (\<lambda>b0.
     andThen (decodeJSON body) (\<lambda>req.
     andThen (check (opt_ok isValidDirection (ub_Direction req)) bad_direction) (\<lambda>_.
     andThen (ret (update_fields req b0)) (\<lambda>b.
     andThen (redirect_bridge S b0 b) (\<lambda>_.
     andThen (on_db (UpdateBridge b)) (\<lambda>e.
     andThen (no_error e (internal_error ''failed to update bridge'')) (\<lambda>_.
     andThen (on_db (GetBridgeByID bid)) (\<lambda>g.
     andThen (ret (case or_nil g of None \<Rightarrow> b | Some u \<Rightarrow> u)) (\<lambda>updated.
     andThen (bridge_networks S updated) (\<lambda>(netA, netB).
     andThen (auditLog r ''bridge.updated'' ''bridge'' (''updated bridge (id='' @ itoa_int bid @ '')'')) (\<lambda>_.
     ret (writeJSON 200 (BridgeBody (bridgeToResponse updated netA netB))))))))))))))))"

definition remove_bridge :: "('k, 'n) Server \<Rightarrow> Bridge \<Rightarrow> (('k, 'n) World, unit) handler" where
  "remove_bridge S b = (if nftManager S = None then ret () else
     andThen (bridge_networks S b) (\<lambda>nets. case nets of
         (Some netA, Some netB) \<Rightarrow>
           andThen (nft_call S (\<lambda>E. RemoveNetworkBridge E (n_Interface netA) (n_Interface netB))) (\<lambda>_. ret ())
       | _ \<Rightarrow> ret ()))"

definition handleDeleteBridge :: "('k, 'n) Server \<Rightarrow> Request \<Rightarrow> ('k, 'n) World \<Rightarrow> response \<times> ('k, 'n) World" where
  "handleDeleteBridge S r = serve (
     andThen (parse_id (rq_id r) ''bridge'') (\<lambda>bid.
     andThen (fetch_bridge S bid) (\<lambda>b.
     andThen (remove_bridge S b) (\<lambda>_.
     andThen (on_db (DeleteBridge bid)) (\<lambda>e.
     andThen (no_error e (internal_error ''failed to delete bridge'')) (\<lambda>_.
     andThen (auditLog r ''bridge.deleted'' ''bridge'' (''deleted bridge (id='' @ itoa_int bid @ '') between networks ''
       @ itoa_int (b_NetworkAID b) @ '' and '' @ itoa_int (b_NetworkBID b))) (\<lambda>_.
     ret (writeJSON 204 NoBody))))))))"

section \<open>Lemmas\<close>

lemmas bridge_step_defs = fetch_network_def fetch_bridge_def bridge_networks_def install_bridge_def answer_created_bridge_def redirect_bridge_def
  remove_bridge_def Let_def

lemma bridge_handlers_keep:
  assumes "world_inv w"
  shows "handleCreateBridge S r cb w = (x, w') \<Longrightarrow> world_inv w'"
    "handleListBridges S w = (x, w') \<Longrightarrow> world_inv w'"
    "handleGetBridge S r w = (x, w') \<Longrightarrow> world_inv w'"
    "handleUpdateBridge S r ub w = (x, w') \<Longrightarrow> world_inv w'"
    "handleDeleteBridge S r w = (x, w') \<Longrightarrow> world_inv w'"
  unfolding handleCreateBridge_def handleListBridges_def handleGetBridge_def handleUpdateBridge_def handleDeleteBridge_def bridge_step_defs
  by (erule serve_inv[OF _ assms]; intro keeps_rules)+

end
