(* ===== verification/Samples.thy ===== *)
theory Samples
  imports Handlers
begin

text \<open>
  A server on the simulated kernel and the firewall in memory, for the witnesses about
  handlers, with the equations that evaluate a handler on it.
\<close>

definition sample_server :: "(sim, mem_nft) Server" where
  "sample_server = \<lparr>aead_of = toy_aead, wgManager = Some sim_kernel, nftManager = Some (kernel_env mem_conn id),
     duration_frac = (\<lambda>_ _ _. 0), qr_encode = (\<lambda>_ _. None), publicKeyOf = Some,
     jwt_sign = (\<lambda>c. Some (cl_Subject c)), jwt_parse = (\<lambda>t s. None), jwt_ttl = 86400000000000,
     bcrypt_generate = (\<lambda>salt p. Some p), bcrypt_compare = (\<lambda>h p. h = p), sha256 = id, cookie_secure = True, login_limit = 5,
     login_window = 60000000000, db_text = (\<lambda>_. ''db error''), rand_text = ''rand error'', wg_text = (\<lambda>_. ''wg error''), seconds_text = (\<lambda>_. ''0''), devMode = False, server_version = ''1'', startTime = 0,
     file_exists = (\<lambda>_. False), file_server = (\<lambda>p. writeJSON 200 (PlainText p))\<rparr>"

definition sample_world :: "DB \<Rightarrow> sim \<Rightarrow> (sim, mem_nft) World" where
  "sample_world d k = \<lparr>w_db = d, w_kernel = k, w_manager = NewManager, w_nft = (None, []),
     w_keypairs = [Some (''priv'', ''pub'')], w_psks = [Some ''psk''], w_nanos = 0, w_random = [], w_http = [], w_attempts = (\<lambda>_. None), w_ring = None\<rparr>"

definition sample_request :: Request where
  "sample_request = \<lparr>rq_id = ''1'', rq_pid = ''1'', rq_Claims = None, rq_RemoteAddr = ''192.0.2.1:5000'', rq_Authorization = [], rq_Cookie = None,
     rq_Query = (\<lambda>_. [])\<rparr>"

lemmas handler_eval = serve_def andThen_def ret_def stop_def check_def no_error_def or_error_def or_none_def or_nil_def
  on_db_def wg_call_def nft_call_def GenerateKeyPair_def GeneratePresharedKey_def time_Now_def decodeJSON_def parse_id_def
  auditLog_def writeJSON_def sample_server_def sample_world_def sample_request_def

lemmas db_eval = ListNetworks_def GetNetworkByID_def CreateNetwork_def insert_network_def encrypt_field_def decrypt_field_def
  decryptNetworkKeys_def decryptPeerKeys_def InsertAuditEntry_def db_fault_def empty_db_def UpdateNetwork_def update_network_def set_network_def
  DeleteNetwork_def GetPeerByID_def ListPeersByNetworkID_def CreatePeer_def insert_peer_def UpdatePeer_def update_peer_def set_peer_def
  DeletePeer_def GetBridgeByID_def ListBridgesByNetworkID_def BridgeExistsBetween_def CreateBridge_def UpdateBridge_def DeleteBridge_def

lemmas nft_eval = wgp_simps insert_rule_def delete_key_def AddNetworkBridge_def NewManager_def nft_apply_def kernel_env_def Apply_def
  mem_conn_def table_cmds_def input_cmds_def nat_cmds_def forward_cmds_def kind_rules_def buildForwardExprs_def

lemmas wg_eval = CreateInterface_def createInterface_def DeleteInterface_def deleteInterface_def sim_kernel_def undo_link_def sim_on_dev_def

lemma parse_net24:
  "ParseCIDR ''10.0.0.0/24'' = Some (v4_prefix @ [10, 0, 0, 0], \<lparr>net_ip = map2 (AND) [10, 0, 0, 0] (mask_bytes 4 24), net_mask = mask_bytes 4 24\<rparr>)"
proof -
  have "''10.0.0.0/24'' = v4_string [10, 0, 0, 0] @ ''/'' @ itoa 24" by code_simp
  then show ?thesis using ParseCIDR_v4_string[of "[10, 0, 0, 0]" 24] by simp
qed

lemma Atoi_1: "Atoi ''1'' = Some 1"
  by code_simp

end
