(* ===== verification/NetworkEffects.thy ===== *)
theory NetworkEffects
  imports NetworkRoutes Samples
begin

text \<open>
  What the handlers of networks do when they succeed and when they fail.
\<close>

section \<open>Runs that succeed\<close>

lemma or_undo_run [run_simps]: "or_undo S i e r w = (Inr u, w') \<longleftrightarrow> e = None \<and> w' = w"
  by (auto simp: or_undo_def undo_interface_def run_simps split: option.splits)

lemma never_undo [never_rules]: "\<not> P r \<Longrightarrow> never P (undo_interface S i r)" "\<not> P r \<Longrightarrow> never P (or_undo S i e r)"
  by (auto simp: undo_interface_def or_undo_def intro!: never_rules)

lemma fetch_network_run [run_simps]:
  "fetch_network S nid w = (Inr n, w') \<longleftrightarrow> (\<exists>d. GetNetworkByID (aead_of S) nid (w_db w) = (Inr (Some n), d) \<and> w' = w\<lparr>w_db := d\<rparr>)"
  by (auto simp: fetch_network_def run_simps)

lemma never_fetch [never_rules]: "never success (fetch_network S nid)"
  by (auto simp: fetch_network_def not_found_def intro!: never_rules)

text \<open>The firewall operations of a network that is set up.\<close>

definition setup_ops :: "Network \<Rightarrow> nft_op list" where
  "setup_ops n = OpOpenUDP (n_ListenPort n) # (if n_NATEnabled n then [OpAddNAT (n_Interface n) (n_Subnet n)] else [])
     @ (if n_InterPeerRouting n then [OpEnableFwd (n_Interface n)] else [])"

lemma nft_op_effect:
  assumes "manager_inv m" "nft_step E op (m, k) = (None, (m', k'))"
  shows "manager_inv m' \<and> rule_map m' = nft_effect op (rule_map m)"
  using nft_step_contract(1,2)[OF assms] by simp

lemma nft_steps:
  "nft_step E (OpOpenUDP p) (m, k) = OpenUDPPort E p m k" "nft_step E (OpCloseUDP p) (m, k) = CloseUDPPort E p m k"
  "nft_step E (OpAddNAT i sn) (m, k) = AddNATMasquerade E i sn m k" "nft_step E (OpRemoveNAT i) (m, k) = RemoveNATMasquerade E i m k"
  "nft_step E (OpEnableFwd i) (m, k) = EnableInterPeerForwarding E i m k"
  "nft_step E (OpDisableFwd i) (m, k) = DisableInterPeerForwarding E i m k"
  "nft_step E (OpAddBridge a b dir) (m, k) = AddNetworkBridge E a b dir m k"
  "nft_step E (OpRemoveBridge a b) (m, k) = RemoveNetworkBridge E a b m k"
  by (simp_all add: nft_step_def)

lemma nft_opt_run:
  assumes "(if b then nft_call S h else ret None) w = (Inr None, w1)" "nftManager S = Some E" "manager_inv (w_manager w)"
    and "\<And>m k. h E m k = nft_step E op (m, k)"
  shows "\<exists>m k. w1 = w\<lparr>w_manager := m, w_nft := k\<rparr> \<and> manager_inv m \<and>
    rule_map m = fold nft_effect (if b then [op] else []) (rule_map (w_manager w))"
proof (cases b)
  case True
  then obtain m k where st: "nft_step E op (w_manager w, w_nft w) = (None, (m, k))" and "w1 = w\<lparr>w_manager := m, w_nft := k\<rparr>"
    using assms by (auto simp: run_simps)
  then show ?thesis using nft_op_effect[OF assms(3) st] True by (intro exI[of _ m] exI[of _ k]) simp
next
  case False
  then show ?thesis using assms(1,3) by (intro exI[of _ "w_manager w"] exI[of _ "w_nft w"]) (simp add: run_simps)
qed

lemma apply_firewall_run:
  assumes "apply_firewall S n w = (Inr u, w')" "nftManager S = Some E" "manager_inv (w_manager w)"
  shows "\<exists>m k. w' = w\<lparr>w_manager := m, w_nft := k\<rparr> \<and> manager_inv m \<and>
    rule_map m = fold nft_effect (setup_ops n) (rule_map (w_manager w))"
proof -
  obtain w1 w2 where s1: "(if True then nft_call S (\<lambda>E. OpenUDPPort E (n_ListenPort n)) else ret None) w = (Inr None, w1)"
    and s2: "(if n_NATEnabled n then nft_call S (\<lambda>E. AddNATMasquerade E (n_Interface n) (n_Subnet n)) else ret None) w1 = (Inr None, w2)"
    and s3: "(if n_InterPeerRouting n then nft_call S (\<lambda>E. EnableInterPeerForwarding E (n_Interface n)) else ret None) w2 = (Inr None, w')"
    using assms(1) unfolding apply_firewall_def andThen_run or_undo_run by auto
  obtain m1 k1 where 1: "w1 = w\<lparr>w_manager := m1, w_nft := k1\<rparr>" "manager_inv m1"
      "rule_map m1 = fold nft_effect [OpOpenUDP (n_ListenPort n)] (rule_map (w_manager w))"
    using nft_opt_run[OF s1 assms(2,3), of "OpOpenUDP (n_ListenPort n)"] by (auto simp: nft_steps)
  obtain m2 k2 where 2: "w2 = w1\<lparr>w_manager := m2, w_nft := k2\<rparr>" "manager_inv m2"
      "rule_map m2 = fold nft_effect (if n_NATEnabled n then [OpAddNAT (n_Interface n) (n_Subnet n)] else []) (rule_map m1)"
    using nft_opt_run[OF s2 assms(2), of "OpAddNAT (n_Interface n) (n_Subnet n)"] 1 by (auto simp: nft_steps)
  obtain m3 k3 where 3: "w' = w2\<lparr>w_manager := m3, w_nft := k3\<rparr>" "manager_inv m3"
      "rule_map m3 = fold nft_effect (if n_InterPeerRouting n then [OpEnableFwd (n_Interface n)] else []) (rule_map m2)"
    using nft_opt_run[OF s3 assms(2), of "OpEnableFwd (n_Interface n)"] 2 by (auto simp: nft_steps)
  have "rule_map m3 = fold nft_effect (setup_ops n) (rule_map (w_manager w))"
    unfolding setup_ops_def fold_Cons_rev fold_append comp_def 3(3) 2(3) 1(3) by simp
  then show ?thesis using 1(1) 2(1) 3(1,2) by (intro exI[of _ m3] exI[of _ k3]) simp
qed

lemma CreateNetwork_row:
  assumes "CreateNetwork A n d = (Inr i, d')"
  shows "\<exists>m. networks d' = networks d @ [m] \<and> n_ID m = i \<and> m = n\<lparr>n_ID := i, n_PrivateKey := n_PrivateKey m, n_CreatedAt := now d', n_UpdatedAt := now d'\<rparr>"
proof -
  obtain k d1 where e: "encrypt_field A False (n_PrivateKey n) d = (k, d1)" by (cases "encrypt_field A False (n_PrivateKey n) d")
  obtain f d2 where f: "db_fault d1 = (f, d2)" by (cases "db_fault d1")
  have "networks d2 = networks d" using db_fault_frame[OF f] encrypt_field_frame[OF e]
    by (metis DB.ext_inject DB.surjective DB.update_convs(11,12))
  then show ?thesis
    using assms e f by (auto simp: CreateNetwork_def insert_network_def Let_def split: sum.splits if_splits)
qed

lemma query_frame:
  "GetNetworkByID A i d = (a, d') \<Longrightarrow> networks d' = networks d \<and> peers d' = peers d \<and> bridges d' = bridges d"
  "ListNetworks A d = (b, d') \<Longrightarrow> networks d' = networks d \<and> peers d' = peers d \<and> bridges d' = bridges d"
  "GetPeerByID A i d = (c, d') \<Longrightarrow> networks d' = networks d \<and> peers d' = peers d \<and> bridges d' = bridges d"
  "ListPeersByNetworkID A i d = (e, d') \<Longrightarrow> networks d' = networks d \<and> peers d' = peers d \<and> bridges d' = bridges d"
  "GetBridgeByID i d = (g, d') \<Longrightarrow> networks d' = networks d \<and> peers d' = peers d \<and> bridges d' = bridges d"
  "ListBridgesByNetworkID i d = (h, d') \<Longrightarrow> networks d' = networks d \<and> peers d' = peers d \<and> bridges d' = bridges d"
  "BridgeExistsBetween i j d = (k, d') \<Longrightarrow> networks d' = networks d \<and> peers d' = peers d \<and> bridges d' = bridges d"
  by (auto simp: GetNetworkByID_def ListNetworks_def GetPeerByID_def ListPeersByNetworkID_def GetBridgeByID_def
      ListBridgesByNetworkID_def BridgeExistsBetween_def db_fault_def
      split: prod.splits if_splits option.splits sum.splits list.splits)

lemma GetNetworkByID_row:
  assumes "GetNetworkByID A i d = (Inr (Some n), d')"
  shows "\<exists>row\<in>set (networks d). n_ID row = i \<and> n = row\<lparr>n_PrivateKey := n_PrivateKey n\<rparr>"
proof -
  obtain f d1 where f: "db_fault d = (f, d1)" by (cases "db_fault d")
  have "networks d1 = networks d" using f by (auto simp: db_fault_def split: list.splits)
  then obtain m where m: "find (\<lambda>n. n_ID n = i) (networks d) = Some m" "decryptNetworkKeys A (encryptionKey d1) m = Inr n"
    using assms f by (auto simp: GetNetworkByID_def split: if_splits option.splits sum.splits)
  then show ?thesis using find_Some_set[OF m(1)] by (auto simp: decryptNetworkKeys_def split: sum.splits)
qed

lemma key_unique:
  assumes "distinct (map f xs)" "x \<in> set xs" "y \<in> set xs" "f x = f y"
  shows "x = y"
  using assms by (metis distinct_map inj_onD)

lemma ListNetworks_rows:
  assumes "ListNetworks A d = (Inr ns, d')"
  shows "map n_Interface ns = map n_Interface (networks d)" "map n_ListenPort ns = map n_ListenPort (networks d)"
proof -
  have "scan_rows (decryptNetworkKeys A k) xs = Inr ys \<Longrightarrow> map n_Interface ys = map n_Interface xs \<and> map n_ListenPort ys = map n_ListenPort xs" for k xs ys
    by (induction xs arbitrary: ys) (auto simp: decryptNetworkKeys_def split: sum.splits)
  then show "map n_Interface ns = map n_Interface (networks d)" "map n_ListenPort ns = map n_ListenPort (networks d)"
    using assms by (auto simp: ListNetworks_def db_fault_def split: prod.splits if_splits list.splits)
qed

lemma never_install [never_rules]: "never success (apply_firewall S n)" "never success (install_network S r n)"
  unfolding apply_firewall_def install_network_def answer_created_def by (intro never_rules; simp)+

lemma answer_created_frame:
  assumes "answer_created S r nid w = (Inr x, w')"
  shows "networks (w_db w') = networks (w_db w)" "w_kernel w' = w_kernel w" "w_manager w' = w_manager w"
  using assms query_frame(1)[of "aead_of S" nid "w_db w"] unfolding answer_created_def by (auto simp: run_simps)

lemma install_network_run:
  assumes "install_network S r n w = (Inr x, w')" "wgManager S = Some K"
  shows "\<exists>k1 w2 nid d2. CreateInterface K (net_cfg n) (w_kernel w) = (None, k1) \<and>
    apply_firewall S n (w\<lparr>w_kernel := k1\<rparr>) = (Inr (), w2) \<and> CreateNetwork (aead_of S) n (w_db w2) = (Inr nid, d2) \<and>
    networks (w_db w') = networks d2 \<and> w_kernel w' = w_kernel w2 \<and> w_manager w' = w_manager w2"
proof -
  obtain k1 w2 res d2 where 1: "CreateInterface K (net_cfg n) (w_kernel w) = (None, k1)"
      "apply_firewall S n (w\<lparr>w_kernel := k1\<rparr>) = (Inr (), w2)" "CreateNetwork (aead_of S) n (w_db w2) = (res, d2)"
    and rest: "(case res of Inl _ \<Rightarrow> undo_interface S (n_Interface n) (internal_error ''failed to create network'')
      | Inr nid \<Rightarrow> answer_created S r nid) (w2\<lparr>w_db := d2\<rparr>) = (Inr x, w')"
    using assms unfolding install_network_def by (auto simp: run_simps)
  obtain nid where nid: "res = Inr nid" using rest by (cases res) (auto simp: undo_interface_def run_simps)
  then show ?thesis using 1 rest answer_created_frame[of S r nid "w2\<lparr>w_db := d2\<rparr>" x w'] by auto
qed

lemma no_panic [simp]: "success panicked = False" "success looping = False"
  by (simp_all add: success_def panicked_def looping_def)

lemma never_remove: "never P (remove_bridge_rules S n i)" "never P (remove_firewall S n)"
  unfolding remove_bridge_rules_def remove_firewall_def by (intro never_rules)+

lemma never_conflict:
  "never success m \<Longrightarrow> never success (case network_conflict req sn ns of Some resp \<Rightarrow> stop resp | None \<Rightarrow> m)"
  by (auto simp: network_conflict_def intro!: never_rules split: option.splits)

section \<open>A database and a firewall that answer\<close>

text \<open>
  With no failures of the engine to come, a query leaves the database as it is; an applier
  that never fails lets every removal of a rule succeed.
\<close>

lemma no_faults: "faults d = [] \<Longrightarrow> db_fault d = (False, d)"
  by (simp add: db_fault_def)

lemma quiet_queries:
  assumes "faults d = []"
  shows "snd (GetNetworkByID A i d) = d" "snd (ListNetworks A d) = d" "snd (GetPeerByID A i d) = d" "snd (ListPeersByNetworkID A i d) = d"
    "snd (GetBridgeByID i d) = d" "ListBridgesByNetworkID i d = (Inr (filter (\<lambda>b. b_NetworkAID b = i \<or> b_NetworkBID b = i) (bridges d)), d)"
  by (simp_all add: GetNetworkByID_def ListNetworks_def GetPeerByID_def ListPeersByNetworkID_def GetBridgeByID_def
      ListBridgesByNetworkID_def no_faults[OF assms] split: option.splits sum.splits)

definition nft_reliable :: "'n nft_env \<Rightarrow> bool" where
  "nft_reliable E = (\<forall>rs n. fst (applier E rs n) = None)"

lemma delete_key_reliable: "nft_reliable E \<Longrightarrow> fst (delete_key E key m n) = None"
  by (auto simp: nft_reliable_def delete_key_def nft_apply_def split: option.splits prod.splits)
     (metis fst_conv option.distinct(1))

lemma noop_reliable: "nft_reliable \<lparr>applier = noop_Apply, range_order = perm\<rparr>"
  by (simp add: nft_reliable_def noop_Apply_def)

lemma remove_run:
  assumes "nft_call S h w = (Inr e, w1)" "nftManager S = Some E" "nft_reliable E" "manager_inv (w_manager w)"
    and "\<And>m k. h E m k = delete_key E key m k"
  shows "\<exists>m k. w1 = w\<lparr>w_manager := m, w_nft := k\<rparr> \<and> manager_inv m \<and> rule_map m = (rule_map (w_manager w))(key := None)"
proof -
  obtain m k where d: "delete_key E key (w_manager w) (w_nft w) = (e, m, k)" and w1: "w1 = w\<lparr>w_manager := m, w_nft := k\<rparr>"
    using assms(1,2,5) by (auto simp: run_simps)
  have "e = None" using delete_key_reliable[OF assms(3), of key "w_manager w" "w_nft w"] d by simp
  then show ?thesis using delete_key_contract(1,2)[OF assms(4) d] w1 by blast
qed

text \<open>The rules of a run of removals: those under the removed keys are gone, the others stay.\<close>

definition without :: "string set \<Rightarrow> (string \<Rightarrow> 'a option) \<Rightarrow> string \<Rightarrow> 'a option" where
  "without ks t = t |` (- ks)"

lemma without_simps [simp]: "without {} t = t" "(without ks t)(key := None) = without (insert key ks) t" "without ks (without ls t) = without (ks \<union> ls) t"
  by (auto simp: without_def fun_eq_iff restrict_map_def)

text \<open>The keys of the rules of a network.\<close>

definition network_keys :: "Network \<Rightarrow> string set" where
  "network_keys n = {''udp:'' @ itoa_int (n_ListenPort n)} \<union> (if n_NATEnabled n then {''nat:'' @ n_Interface n} else {})
     \<union> (if n_InterPeerRouting n then {''forward:'' @ n_Interface n} else {})"

lemma remove_opt_run:
  assumes "(if b then nft_call S h else ret None) w = (Inr e, w1)" "nftManager S = Some E" "nft_reliable E" "manager_inv (w_manager w)"
    and "\<And>m k. h E m k = delete_key E key m k"
  shows "\<exists>m k. w1 = w\<lparr>w_manager := m, w_nft := k\<rparr> \<and> manager_inv m \<and> rule_map m = without (if b then {key} else {}) (rule_map (w_manager w))"
proof (cases b)
  case True
  then show ?thesis using remove_run[of S h w e w1 E key] assms by (auto simp: without_def fun_eq_iff restrict_map_def)
next
  case False
  then show ?thesis using assms(1,4) by (intro exI[of _ "w_manager w"] exI[of _ "w_nft w"]) (simp add: run_simps)
qed

lemma remove_firewall_run:
  assumes "remove_firewall S n w = (Inr u, w')" "nftManager S = Some E" "nft_reliable E" "manager_inv (w_manager w)"
  shows "\<exists>m k. w' = w\<lparr>w_manager := m, w_nft := k\<rparr> \<and> manager_inv m \<and> rule_map m = without (network_keys n) (rule_map (w_manager w))"
proof -
  obtain e1 e2 e3 w1 w2 where s1: "(if True then nft_call S (\<lambda>E. CloseUDPPort E (n_ListenPort n)) else ret None) w = (Inr e1, w1)"
    and s2: "(if n_NATEnabled n then nft_call S (\<lambda>E. RemoveNATMasquerade E (n_Interface n)) else ret None) w1 = (Inr e2, w2)"
    and s3: "(if n_InterPeerRouting n then nft_call S (\<lambda>E. DisableInterPeerForwarding E (n_Interface n)) else ret None) w2 = (Inr e3, w')"
    using assms(1) unfolding remove_firewall_def by (auto simp: andThen_run basic_run)
  note run = remove_opt_run[OF _ assms(2,3)]
  obtain m1 k1 where 1: "w1 = w\<lparr>w_manager := m1, w_nft := k1\<rparr>" "manager_inv m1"
      "rule_map m1 = without {''udp:'' @ itoa_int (n_ListenPort n)} (rule_map (w_manager w))"
    using run[OF s1 assms(4), of "''udp:'' @ itoa_int (n_ListenPort n)"] by (auto simp: wgp_simps)
  obtain m2 k2 where 2: "w2 = w1\<lparr>w_manager := m2, w_nft := k2\<rparr>" "manager_inv m2"
      "rule_map m2 = without (if n_NATEnabled n then {''nat:'' @ n_Interface n} else {}) (rule_map m1)"
    using run[OF s2, of "''nat:'' @ n_Interface n"] 1 by (auto simp: wgp_simps)
  obtain m3 k3 where 3: "w' = w2\<lparr>w_manager := m3, w_nft := k3\<rparr>" "manager_inv m3"
      "rule_map m3 = without (if n_InterPeerRouting n then {''forward:'' @ n_Interface n} else {}) (rule_map m2)"
    using run[OF s3, of "''forward:'' @ n_Interface n"] 2 by (auto simp: wgp_simps)
  have "rule_map m3 = without (network_keys n) (rule_map (w_manager w))"
    unfolding 3(3) 2(3) 1(3) without_simps network_keys_def by (simp add: Un_commute)
  then show ?thesis using 1(1) 2(1) 3(1,2) by (intro exI[of _ m3] exI[of _ k3]) simp
qed

text \<open>The rules of the bridges of a network.\<close>

definition bridge_other :: "int \<Rightarrow> Bridge \<Rightarrow> int" where
  "bridge_other nid b = (if b_NetworkBID b = nid then b_NetworkAID b else b_NetworkBID b)"

definition bridge_keys :: "Network \<Rightarrow> int \<Rightarrow> Bridge list \<Rightarrow> Network list \<Rightarrow> string set" where
  "bridge_keys n nid bs ns = {bridgeKey (n_Interface n) (n_Interface m) |m b. b \<in> set bs \<and> m \<in> set ns \<and> n_ID m = bridge_other nid b}"

text \<open>Every stored key can be read, and the numbers of the rows are unique.\<close>

definition readable :: "aead \<Rightarrow> DB \<Rightarrow> bool" where
  "readable A d = (\<forall>n\<in>set (networks d). \<exists>n'. decryptNetworkKeys A (encryptionKey d) n = Inr n')"

lemma get_readable:
  assumes "faults d = []" "readable A d" "distinct (map n_ID (networks d))"
  shows "GetNetworkByID A i d = (Inr (Some n), d) \<and> m \<in> set (networks d) \<and> n_ID m = i \<Longrightarrow> n_Interface n = n_Interface m"
    "m \<in> set (networks d) \<Longrightarrow> n_ID m = i \<Longrightarrow> \<exists>n. GetNetworkByID A i d = (Inr (Some n), d) \<and> n_Interface n = n_Interface m"
    "(\<And>m. m \<in> set (networks d) \<Longrightarrow> n_ID m \<noteq> i) \<Longrightarrow> GetNetworkByID A i d = (Inr None, d)"
proof -
  have found: "\<exists>n. GetNetworkByID A i d = (Inr (Some n), d) \<and> n_Interface n = n_Interface m" if m: "m \<in> set (networks d)" "n_ID m = i" for m
  proof -
    obtain y where y: "find (\<lambda>n. n_ID n = i) (networks d) = Some y" 
      using m find_None_iff[of "\<lambda>n. n_ID n = i" "networks d"] by (cases "find (\<lambda>n. n_ID n = i) (networks d)") auto
    then have "y \<in> set (networks d)" "n_ID y = i" by (auto dest: find_Some_set)
    then have "y = m" using assms(3) m by (metis distinct_map inj_onD)
    moreover obtain n where n: "decryptNetworkKeys A (encryptionKey d) m = Inr n" using assms(2) m by (auto simp: readable_def)
    ultimately have "GetNetworkByID A i d = (Inr (Some n), d)" using y by (simp add: GetNetworkByID_def no_faults[OF assms(1)])
    moreover have "n_Interface n = n_Interface m" using n by (auto simp: decryptNetworkKeys_def split: sum.splits)
    ultimately show ?thesis by blast
  qed
  then show "m \<in> set (networks d) \<Longrightarrow> n_ID m = i \<Longrightarrow> \<exists>n. GetNetworkByID A i d = (Inr (Some n), d) \<and> n_Interface n = n_Interface m" .
  show "GetNetworkByID A i d = (Inr (Some n), d) \<and> m \<in> set (networks d) \<and> n_ID m = i \<Longrightarrow> n_Interface n = n_Interface m"
    using found by fastforce
  show "(\<And>m. m \<in> set (networks d) \<Longrightarrow> n_ID m \<noteq> i) \<Longrightarrow> GetNetworkByID A i d = (Inr None, d)"
  proof -
    assume none: "\<And>m. m \<in> set (networks d) \<Longrightarrow> n_ID m \<noteq> i"
    then have "find (\<lambda>n. n_ID n = i) (networks d) = None" by (simp add: find_None_iff)
    then show ?thesis by (simp add: GetNetworkByID_def no_faults[OF assms(1)])
  qed
qed

text \<open>The loop over the bridges removes their rules and changes nothing else.\<close>

definition remove_one :: "('k, 'n) Server \<Rightarrow> Network \<Rightarrow> int \<Rightarrow> Bridge \<Rightarrow> (('k, 'n) World, unit) handler" where
  "remove_one S n nid b = andThen (on_db (GetNetworkByID (aead_of S) (bridge_other nid b))) (\<lambda>g.
     (case or_nil g of
        None \<Rightarrow> ret ()
      | Some other \<Rightarrow> andThen (nft_call S (\<lambda>E. RemoveNetworkBridge E (n_Interface n) (n_Interface other))) (\<lambda>_. ret ())))"

lemma remove_one_run:
  assumes "remove_one S n nid b w = (Inr u, w')" "nftManager S = Some E" "nft_reliable E" "manager_inv (w_manager w)"
    and "faults (w_db w) = []" "readable (aead_of S) (w_db w)" "distinct (map n_ID (networks (w_db w)))"
  shows "\<exists>m k. w' = w\<lparr>w_manager := m, w_nft := k\<rparr> \<and> manager_inv m \<and>
    rule_map m = without (bridge_keys n nid [b] (networks (w_db w))) (rule_map (w_manager w))"
proof (cases "\<exists>m\<in>set (networks (w_db w)). n_ID m = bridge_other nid b")
  case True
  then obtain m where m: "m \<in> set (networks (w_db w))" "n_ID m = bridge_other nid b" by blast
  obtain other where g: "GetNetworkByID (aead_of S) (bridge_other nid b) (w_db w) = (Inr (Some other), w_db w)"
      and i: "n_Interface other = n_Interface m"
    using get_readable(2)[OF assms(5-7) m] by blast
  have "y = m" if y: "y \<in> set (networks (w_db w))" "n_ID y = bridge_other nid b" for y
    by (rule key_unique[OF assms(7) y(1) m(1)]) (simp add: y m)
  then have "{y \<in> set (networks (w_db w)). n_ID y = bridge_other nid b} = {m}" using m by blast
  moreover have "bridge_keys n nid [b] (networks (w_db w)) =
      (\<lambda>y. bridgeKey (n_Interface n) (n_Interface y)) ` {y \<in> set (networks (w_db w)). n_ID y = bridge_other nid b}"
    unfolding bridge_keys_def by auto
  ultimately have keys: "bridge_keys n nid [b] (networks (w_db w)) = {bridgeKey (n_Interface n) (n_Interface m)}"
    by simp
  obtain e w1 where c: "nft_call S (\<lambda>E. RemoveNetworkBridge E (n_Interface n) (n_Interface m)) w = (Inr e, w1)" "w' = w1"
    using assms(1) g i unfolding remove_one_def by (auto simp: andThen_run on_db_run basic_run or_nil_def)
  from remove_run[OF c(1) assms(2-4), of "bridgeKey (n_Interface n) (n_Interface m)"] show ?thesis
    unfolding c(2) keys by (auto simp: wgp_simps without_def fun_eq_iff restrict_map_def)
next
  case False
  then have "GetNetworkByID (aead_of S) (bridge_other nid b) (w_db w) = (Inr None, w_db w)"
    using get_readable(3)[OF assms(5-7)] by blast
  moreover have "bridge_keys n nid [b] (networks (w_db w)) = {}" using False by (auto simp: bridge_keys_def)
  ultimately show ?thesis
    using assms(1,4) unfolding remove_one_def
    by (intro exI[of _ "w_manager w"] exI[of _ "w_nft w"]) (auto simp: andThen_run on_db_run basic_run or_nil_def)
qed

lemma bridge_keys_Cons: "bridge_keys n nid (b # bs) ns = bridge_keys n nid [b] ns \<union> bridge_keys n nid bs ns"
  by (auto simp: bridge_keys_def)

lemma remove_each_run:
  assumes "each bs (remove_one S n nid) w = (Inr us, w')" "nftManager S = Some E" "nft_reliable E" "manager_inv (w_manager w)"
    and "faults (w_db w) = []" "readable (aead_of S) (w_db w)" "distinct (map n_ID (networks (w_db w)))"
  shows "\<exists>m k. w' = w\<lparr>w_manager := m, w_nft := k\<rparr> \<and> manager_inv m \<and>
    rule_map m = without (bridge_keys n nid bs (networks (w_db w))) (rule_map (w_manager w))"
  using assms(1,4-7)
proof (induction bs arbitrary: w us)
  case Nil
  then show ?case by (intro exI[of _ "w_manager w"] exI[of _ "w_nft w"]) (simp add: basic_run bridge_keys_def)
next
  case (Cons b bs)
  obtain w1 us' where 1: "remove_one S n nid b w = (Inr (), w1)" and 2: "each bs (remove_one S n nid) w1 = (Inr us', w')"
    using Cons.prems(1) by (auto simp: andThen_run basic_run)
  obtain m1 k1 where w1: "w1 = w\<lparr>w_manager := m1, w_nft := k1\<rparr>" "manager_inv m1"
      "rule_map m1 = without (bridge_keys n nid [b] (networks (w_db w))) (rule_map (w_manager w))"
    using remove_one_run[OF 1 assms(2,3) Cons.prems(2-5)] by blast
  obtain m2 k2 where w2: "w' = w1\<lparr>w_manager := m2, w_nft := k2\<rparr>" "manager_inv m2"
      "rule_map m2 = without (bridge_keys n nid bs (networks (w_db w))) (rule_map m1)"
    using Cons.IH[OF 2] w1 Cons.prems(3-5) by auto
  show ?case using w1 w2 bridge_keys_Cons[of n nid b bs] by (intro exI[of _ m2] exI[of _ k2]) (simp add: Un_commute)
qed

lemma remove_bridge_rules_run:
  assumes "remove_bridge_rules S n nid w = (Inr u, w')" "nftManager S = Some E" "nft_reliable E" "manager_inv (w_manager w)"
    and "faults (w_db w) = []" "readable (aead_of S) (w_db w)" "distinct (map n_ID (networks (w_db w)))"
  shows "\<exists>m k. w' = w\<lparr>w_manager := m, w_nft := k\<rparr> \<and> manager_inv m \<and>
    rule_map m = without (bridge_keys n nid (filter (\<lambda>b. b_NetworkAID b = nid \<or> b_NetworkBID b = nid) (bridges (w_db w))) (networks (w_db w)))
      (rule_map (w_manager w))"
proof -
  obtain us where "each (filter (\<lambda>b. b_NetworkAID b = nid \<or> b_NetworkBID b = nid) (bridges (w_db w))) (remove_one S n nid) w = (Inr us, w')"
    using assms(1,2) unfolding remove_bridge_rules_def remove_one_def bridge_other_def
    by (auto simp: andThen_run on_db_run basic_run quiet_queries(6)[OF assms(5)])
  from remove_each_run[OF this assms(2-7)] show ?thesis .
qed

section \<open>Properties\<close>

text \<open>
  C33.  \<open>nextInterfaceName\<close> always returns: the name is wg followed by the least number, at most
  the number of networks, whose name no network has.
\<close>

theorem nextInterfaceName_least_free:
  "\<exists>j\<le>length ns. nextInterfaceName ns = Some (''wg'' @ itoa j) \<and> ''wg'' @ itoa j \<notin> n_Interface ` set ns \<and>
     (\<forall>l<j. ''wg'' @ itoa l \<in> n_Interface ` set ns)"
  by (rule nextInterfaceName_spec)

theorem nextInterfaceName_least_free_witness:
  "\<exists>name. nextInterfaceName [net_row ''wg0'' 51820 ''k''] = Some name \<and> name \<noteq> ''wg0''"
  using nextInterfaceName_least_free[of "[net_row ''wg0'' 51820 ''k'']"] by (auto simp: net_row_def)

lemma fresh_network:
  assumes "ListNetworks A (w_db w) = (Inr existing, d1)" "nextInterfaceName existing = Some iface" "network_conflict req sn existing = None"
    "m \<in> set (networks (w_db w))"
  shows "n_Interface m \<noteq> iface \<and> n_ListenPort m \<noteq> cn_ListenPort req"
proof -
  have "iface \<notin> n_Interface ` set existing" using nextInterfaceName_spec[of existing] assms(2) by auto
  moreover have "n_ListenPort ` set existing = n_ListenPort ` set (networks (w_db w))" "n_Interface ` set existing = n_Interface ` set (networks (w_db w))"
    using ListNetworks_rows[OF assms(1)] by (metis list.set_map)+
  moreover have "cn_ListenPort req \<notin> n_ListenPort ` set existing" using network_conflict_None(2)[OF assms(3)] by (metis imageE)
  ultimately show ?thesis using assms(4) by (metis imageI)
qed

text \<open>
  C3.  \<open>handleCreateNetwork\<close>: when it answers 201, the database has one more network, with the
  requested name, subnet and port, enabled, on an interface and a port no other network has;
  the kernel has exactly one more interface, up, with the server's address, the port and no
  peers; and the firewall has the rules of the network: the open port, and the masquerading and
  forwarding rules that were asked for.
\<close>

theorem handleCreateNetwork_effect:
  assumes "handleCreateNetwork S r (Inr req) w = (x, w')" "status x = 201"
    and "wgManager S = Some K" "kernel_ok K view" "nftManager S = Some E" "manager_inv (w_manager w)"
  shows "\<exists>n ip sn d. networks (w_db w') = networks (w_db w) @ [n] \<and>
    n_Name n = cn_Name req \<and> n_Subnet n = cn_Subnet req \<and> n_ListenPort n = cn_ListenPort req \<and> n_Enabled n \<and>
    (\<forall>m\<in>set (networks (w_db w)). n_Interface m \<noteq> n_Interface n \<and> n_ListenPort m \<noteq> n_ListenPort n) \<and>
    ParseCIDR (cn_Subnet req) = Some (ip, sn) \<and>
    view (w_kernel w) (n_Interface n) = None \<and> view (w_kernel w') = (view (w_kernel w))(n_Interface n := Some d) \<and>
    v_up d \<and> v_addrs d = {server_addr sn} \<and> v_port d = cn_ListenPort req \<and> v_peers d = (\<lambda>_. None) \<and>
    rule_map (w_manager w') = fold nft_effect (setup_ops n) (rule_map (w_manager w))"
proof -
  have "success x" using assms(2) by (simp add: success_def)
  from serve_success[OF assms(1)[unfolded handleCreateNetwork_def] this]
  obtain existing d1 ip sn keys iface where L: "ListNetworks (aead_of S) (w_db w) = (Inr existing, d1)"
    and P: "ParseCIDR (cn_Subnet req) = Some (ip, sn)" and V: "validateCreateNetwork req = []"
    and C: "network_conflict req sn existing = None" and N: "nextInterfaceName existing = Some iface"
    and I: "install_network S r (new_network req iface keys) (w\<lparr>w_db := d1, w_keypairs := tl (w_keypairs w)\<rparr>) = (Inr x, w')"
    by (simp add: never_rules never_conflict) (auto simp: run_simps split: option.splits)
  let ?n = "new_network req iface keys" let ?w1 = "w\<lparr>w_db := d1, w_keypairs := tl (w_keypairs w)\<rparr>"
  obtain k1 w2 nid d2 where K1: "CreateInterface K (net_cfg ?n) (w_kernel w) = (None, k1)"
    and F: "apply_firewall S ?n (?w1\<lparr>w_kernel := k1\<rparr>) = (Inr (), w2)"
    and D: "CreateNetwork (aead_of S) ?n (w_db w2) = (Inr nid, d2)"
    and W: "networks (w_db w') = networks d2" "w_kernel w' = w_kernel w2" "w_manager w' = w_manager w2"
    using install_network_run[OF I assms(3)] by auto
  obtain m k where w2: "w2 = ?w1\<lparr>w_kernel := k1, w_manager := m, w_nft := k\<rparr>"
    "rule_map m = fold nft_effect (setup_ops ?n) (rule_map (w_manager w))"
    using apply_firewall_run[OF F assms(5)] assms(6) by auto
  obtain row where row: "networks d2 = networks d1 @ [row]" "n_ID row = nid"
      "row = ?n\<lparr>n_ID := nid, n_PrivateKey := n_PrivateKey row, n_CreatedAt := now d2, n_UpdatedAt := now d2\<rparr>"
    using CreateNetwork_row[OF D] w2(1) by auto
  have f: "n_Name row = cn_Name req" "n_Interface row = iface" "n_Subnet row = cn_Subnet req" "n_ListenPort row = cn_ListenPort req"
    "n_Enabled row" "n_NATEnabled row = n_NATEnabled ?n" "n_InterPeerRouting row = n_InterPeerRouting ?n"
    by (subst row(3), simp add: new_network_def)+
  have nets: "networks (w_db w') = networks (w_db w) @ [row]"
    using W(1) row(1) query_frame(2)[OF L] by simp
  have fresh: "n_Interface m \<noteq> iface \<and> n_ListenPort m \<noteq> cn_ListenPort req" if "m \<in> set (networks (w_db w))" for m
    using fresh_network[OF L N C that] .
  have dev: "view (w_kernel w) iface = None" "view k1 = (view (w_kernel w))(iface := Some (created_dev (net_cfg ?n) sn))"
    using createInterface_ok[OF assms(4), of "net_cfg ?n" "w_kernel w" k1] K1 P
    by (auto simp: CreateInterface_def net_cfg_def new_network_def)
  have port: "0 < cn_ListenPort req" using V by (simp add: validateCreateNetwork_Nil)
  have ops: "setup_ops row = setup_ops ?n" using f by (simp add: setup_ops_def new_network_def)
  show ?thesis
    using nets f fresh P dev W w2 port ops
    by (intro exI[of _ row] exI[of _ ip] exI[of _ sn] exI[of _ "created_dev (net_cfg ?n) sn"])
       (simp add: created_dev_def net_cfg_def new_network_def)
qed

definition sample_create :: createNetworkRequest where
  "sample_create = \<lparr>cn_Name = ''home'', cn_Mode = ''gateway'', cn_Subnet = ''10.0.0.0/24'', cn_ListenPort = 51820,
     cn_DNSServers = [], cn_NATEnabled = False, cn_InterPeerRouting = False\<rparr>"

lemma sample_create_valid: "validateCreateNetwork sample_create = []"
proof -
  have v: "isValidPrivateCIDR ''10.0.0.0/24''" by (simp add: isValidPrivateCIDR_def parse_net24) code_simp
  show ?thesis by (simp add: validateCreateNetwork_Nil sample_create_def v) code_simp
qed

lemma first_name: "nextInterfaceName [] = Some ''wg0''"
  by (simp add: nextInterfaceName_def name_loop.simps) code_simp

lemmas create_eval = handleCreateNetwork_def handler_eval db_eval first_name network_conflict_def parse_net24 sample_create_def
  install_network_def wg_eval net_cfg_def new_network_def apply_firewall_def or_undo_def undo_interface_def nft_eval answer_created_def

theorem handleCreateNetwork_effect_witness:
  "\<exists>x w' n. handleCreateNetwork sample_server sample_request (Inr sample_create) (sample_world empty_db []) = (x, w') \<and>
     networks (w_db w') = [n] \<and> n_Name n = ''home'' \<and> sim_view (w_kernel w') (n_Interface n) \<noteq> None"
proof -
  let ?w = "sample_world empty_db []"
  obtain x w' where r: "handleCreateNetwork sample_server sample_request (Inr sample_create) ?w = (x, w')" and x: "status x = 201"
    using sample_create_valid by (simp add: create_eval)
  have s: "wgManager sample_server = Some sim_kernel" "nftManager sample_server = Some (kernel_env mem_conn id)" "manager_inv (w_manager ?w)"
    by (simp_all add: sample_server_def sample_world_def manager_inv_New)
  have "networks (w_db ?w) = []" by (simp add: sample_world_def empty_db_def)
  then show ?thesis using handleCreateNetwork_effect[OF r x s(1) sim_kernel_ok s(2,3)] r by (auto simp: sample_create_def)
qed

text \<open>
  C7.  \<open>handleDeleteNetwork\<close> leaves nothing behind: when it answers 204, with an engine, a kernel
  and a firewall that do not fail, the network is gone with its peers and bridges; its interface
  is gone and every other interface is as it was; and the rules of the network and of its
  bridges are gone, the other rules being as they were.
\<close>

theorem handleDeleteNetwork_effect:
  assumes "handleDeleteNetwork S r w = (x, w')" "status x = 204" "Atoi (rq_id r) = Some i"
    and "wgManager S = Some K" "kernel_ok K view" "kernel_reliable K view"
    and "nftManager S = Some E" "nft_reliable E" "world_inv w" "faults (w_db w) = []" "readable (aead_of S) (w_db w)"
  shows "\<exists>n\<in>set (networks (w_db w)). n_ID n = i \<and>
    networks (w_db w') = filter (\<lambda>m. n_ID m \<noteq> i) (networks (w_db w)) \<and>
    peers (w_db w') = filter (\<lambda>p. p_NetworkID p \<noteq> i) (peers (w_db w)) \<and>
    bridges (w_db w') = filter (\<lambda>b. b_NetworkAID b \<noteq> i \<and> b_NetworkBID b \<noteq> i) (bridges (w_db w)) \<and>
    (view (w_kernel w) (n_Interface n) \<noteq> None \<longrightarrow> view (w_kernel w') = (view (w_kernel w))(n_Interface n := None)) \<and>
    rule_map (w_manager w') = without (network_keys n \<union>
      bridge_keys n i (filter (\<lambda>b. b_NetworkAID b = i \<or> b_NetworkBID b = i) (bridges (w_db w))) (networks (w_db w))) (rule_map (w_manager w))"
proof -
  have inv: "manager_inv (w_manager w)" "distinct (map n_ID (networks (w_db w)))"
    using assms(9) by (auto simp: world_inv_def db_inv_def networks_ok_def dest: ids_ok_distinct)
  have "success x" using assms(2) by (simp add: success_def)
  from serve_success[OF assms(1)[unfolded handleDeleteNetwork_def] this]
  obtain n d0 w1 w2 e k3 d4 where g: "GetNetworkByID (aead_of S) i (w_db w) = (Inr (Some n), d0)"
    and b: "remove_bridge_rules S n i (w\<lparr>w_db := d0\<rparr>) = (Inr (), w1)" and f: "remove_firewall S n w1 = (Inr (), w2)"
    and k: "DeleteInterface K (n_Interface n) (w_kernel w2) = (e, k3)" and d: "DeleteNetwork i (w_db w2) = (None, d4)"
    and w': "networks (w_db w') = networks d4" "peers (w_db w') = peers d4" "bridges (w_db w') = bridges d4"
      "w_kernel w' = k3" "w_manager w' = w_manager w2"
    using assms(3,4) by (simp add: never_rules never_remove) (auto simp: run_simps)
  obtain row where row: "row \<in> set (networks (w_db w))" "n_ID row = i" "n = row\<lparr>n_PrivateKey := n_PrivateKey n\<rparr>"
    using GetNetworkByID_row[OF g] by blast
  have same: "n_Interface n = n_Interface row" "network_keys n = network_keys row" "bridge_keys n = bridge_keys row"
    by (subst row(3), simp add: network_keys_def bridge_keys_def fun_eq_iff)+
  have d0: "d0 = w_db w" using quiet_queries(1)[OF assms(10), of "aead_of S" i] g by simp
  let ?bs = "filter (\<lambda>b. b_NetworkAID b = i \<or> b_NetworkBID b = i) (bridges (w_db w))"
  obtain m1 k1 where 1: "w1 = w\<lparr>w_manager := m1, w_nft := k1\<rparr>" "manager_inv m1"
      "rule_map m1 = without (bridge_keys row i ?bs (networks (w_db w))) (rule_map (w_manager w))"
    using remove_bridge_rules_run[OF b assms(7,8)] inv assms(10,11) d0 same by auto
  obtain m2 k2 where 2: "w2 = w1\<lparr>w_manager := m2, w_nft := k2\<rparr>" "rule_map m2 = without (network_keys row) (rule_map m1)"
    using remove_firewall_run[OF f assms(7,8)] 1 same by auto
  have "view k3 = (view (w_kernel w))(n_Interface row := None)" if "view (w_kernel w) (n_Interface row) \<noteq> None"
    using reliable_delete[OF assms(5,6), of "w_kernel w2" "n_Interface row"] that k 1 2 same by (auto simp: DeleteInterface_def)
  moreover have "networks d4 = filter (\<lambda>m. n_ID m \<noteq> i) (networks (w_db w))" "peers d4 = filter (\<lambda>p. p_NetworkID p \<noteq> i) (peers (w_db w))"
      "bridges d4 = filter (\<lambda>b. b_NetworkAID b \<noteq> i \<and> b_NetworkBID b \<noteq> i) (bridges (w_db w))"
    using d 1 2 no_faults[OF assms(10)] by (auto simp: DeleteNetwork_def)
  ultimately show ?thesis using row(1,2) w' 1 2 by (intro bexI[of _ row]) auto
qed

lemmas delete_eval = handleDeleteNetwork_def handler_eval db_eval fetch_network_def remove_bridge_rules_def remove_firewall_def
  wg_eval nft_eval sim_info_def sim_new_dev_def

definition quiet_server :: "(sim, mem_nft) Server" where
  "quiet_server = sample_server\<lparr>nftManager := Some \<lparr>applier = noop_Apply, range_order = id\<rparr>\<rparr>"

definition one_network :: DB where
  "one_network = empty_db\<lparr>networks := [(net_row ''wg0'' 51820 ''k'')\<lparr>n_ID := 1\<rparr>], net_seq := 1\<rparr>"

lemma one_network_inv: "db_inv one_network"
  unfolding one_network_def by (rule db_step_inv[OF db_inv_empty create_first_network])

theorem handleDeleteNetwork_effect_witness:
  "\<exists>x w'. handleDeleteNetwork quiet_server sample_request (sample_world one_network [(''wg0'', sim_new_dev)]) = (x, w') \<and>
     networks (w_db w') = [] \<and> sim_view (w_kernel w') ''wg0'' = None"
proof -
  let ?w = "sample_world one_network [(''wg0'', sim_new_dev)]"
  obtain x w' where r: "handleDeleteNetwork quiet_server sample_request ?w = (x, w')" and x: "status x = 204"
    by (simp add: delete_eval quiet_server_def one_network_def net_row_def Atoi_1 noop_Apply_def)
  have i: "Atoi (rq_id sample_request) = Some 1" by (simp add: sample_request_def Atoi_1)
  have s: "wgManager quiet_server = Some sim_kernel" "nftManager quiet_server = Some \<lparr>applier = noop_Apply, range_order = id\<rparr>"
    by (simp_all add: quiet_server_def sample_server_def)
  have inv: "world_inv ?w" by (simp add: world_inv_def sample_world_def one_network_inv manager_inv_New)
  have d: "faults (w_db ?w) = []" "readable (aead_of quiet_server) (w_db ?w)"
    by (simp_all add: sample_world_def one_network_def empty_db_def readable_def decryptNetworkKeys_def decrypt_field_def)
  have k: "sim_view (w_kernel ?w) ''wg0'' \<noteq> None" "networks (w_db ?w) = [(net_row ''wg0'' 51820 ''k'')\<lparr>n_ID := 1\<rparr>]"
      "n_Interface (net_row ''wg0'' 51820 ''k'') = ''wg0''"
    by (simp_all add: sample_world_def sim_view_def one_network_def net_row_def)
  show ?thesis
    using handleDeleteNetwork_effect[OF r x i s(1) sim_kernel_ok sim_kernel_reliable s(2) noop_reliable inv d] r k by auto
qed

text \<open>
  C30.  When storing a new network fails after the firewall was set up, the handler removes the
  interface but not the rules: no network is stored, and the firewall keeps the open port and the
  masquerading and forwarding rules of a network that does not exist.
\<close>

lemma wg_call_frame: "wg_call S f w = (Inr e, w1) \<Longrightarrow> \<exists>k. w1 = w\<lparr>w_kernel := k\<rparr>"
  by (cases "wgManager S") (auto simp: run_simps intro: exI[of _ "w_kernel w"])

lemma install_network_fail:
  assumes "install_network S r n w = (Inl (internal_error ''failed to create network''), w')"
  shows "\<exists>k1 w2 d2 e. apply_firewall S n (w\<lparr>w_kernel := k1\<rparr>) = (Inr (), w2) \<and> CreateNetwork (aead_of S) n (w_db w2) = (Inl e, d2) \<and>
    w_db w' = d2 \<and> w_manager w' = w_manager w2"
proof -
  let ?P = "\<lambda>r. r = internal_error ''failed to create network''"
  have nv: "never ?P (apply_firewall S n)" "never ?P (answer_created S r i)" for i
    unfolding apply_firewall_def answer_created_def by (intro never_rules; simp add: response_inject)+
  obtain k1 w2 res d2 where 1: "apply_firewall S n (w\<lparr>w_kernel := k1\<rparr>) = (Inr (), w2)" "CreateNetwork (aead_of S) n (w_db w2) = (res, d2)"
    and rest: "(case res of Inl _ \<Rightarrow> undo_interface S (n_Interface n) (internal_error ''failed to create network'')
      | Inr nid \<Rightarrow> answer_created S r nid) (w2\<lparr>w_db := d2\<rparr>) = (Inl (internal_error ''failed to create network''), w')"
    using assms unfolding install_network_def
    by (auto simp: andThen_run on_db_run check_run wg_call_run(1) response_inject never_run[OF nv(1)] dest!: wg_call_frame)
  obtain e where "res = Inl e" using rest by (cases res) (auto simp: never_run[OF nv(2)])
  moreover from this have "w_db w' = d2" "w_manager w' = w_manager w2"
    using rest by (auto simp: undo_interface_def andThen_run basic_run wg_call_run(1) dest!: wg_call_frame)
  ultimately show ?thesis using 1 by blast
qed

lemma install_network_answer: "install_network S r n w = (Inr x, w') \<Longrightarrow> status x = 201"
  by (auto simp: install_network_def answer_created_def undo_interface_def run_simps case_run response_inject)

lemma conflict_response: "network_conflict req sn ns = Some x \<Longrightarrow> status x = 409"
  by (auto simp: network_conflict_def writeError_def split: option.splits)

lemma create_fails:
  assumes "handleCreateNetwork S r (Inr req) w = (internal_error ''failed to create network'', w')"
  shows "\<exists>existing d1 iface keys. ListNetworks (aead_of S) (w_db w) = (Inr existing, d1) \<and>
    install_network S r (new_network req iface keys) (w\<lparr>w_db := d1, w_keypairs := tl (w_keypairs w)\<rparr>)
      = (Inl (internal_error ''failed to create network''), w')"
  using assms unfolding handleCreateNetwork_def
  by (elim serve_cases; auto simp: run_simps case_run response_inject decodeJSON_def panicked_def looping_def
      internal_error_def writeError_def writeValidationError_def dest!: install_network_answer conflict_response; blast)

lemma create_error_rows:
  assumes "CreateNetwork A n d = (Inl e, d')"
  shows "networks d' = networks d"
proof -
  have "db_step A (OpCreateNetwork n) d = (Some e, d')" using assms by (simp add: db_step_def err_of_eq)
  then have "networks (tables d') = networks (tables d)" by (simp only: db_step_err_tables)
  then show ?thesis by (simp add: tables_def)
qed

theorem handleCreateNetwork_leaves_rules:
  assumes "handleCreateNetwork S r (Inr req) w = (internal_error ''failed to create network'', w')"
    and "nftManager S = Some E" "manager_inv (w_manager w)"
  shows "networks (w_db w') = networks (w_db w) \<and> (\<exists>iface keys. rule_map (w_manager w') =
    fold nft_effect (setup_ops (new_network req iface keys)) (rule_map (w_manager w)))"
proof -
  obtain existing d1 iface keys where L: "ListNetworks (aead_of S) (w_db w) = (Inr existing, d1)"
    and I: "install_network S r (new_network req iface keys) (w\<lparr>w_db := d1, w_keypairs := tl (w_keypairs w)\<rparr>)
      = (Inl (internal_error ''failed to create network''), w')"
    using create_fails[OF assms(1)] by blast
  obtain k1 w2 d2 e where F: "apply_firewall S (new_network req iface keys) (w\<lparr>w_db := d1, w_keypairs := tl (w_keypairs w), w_kernel := k1\<rparr>) = (Inr (), w2)"
    and D: "CreateNetwork (aead_of S) (new_network req iface keys) (w_db w2) = (Inl e, d2)" "w_db w' = d2" "w_manager w' = w_manager w2"
    using install_network_fail[OF I] by auto
  obtain m k where w2: "w2 = w\<lparr>w_db := d1, w_keypairs := tl (w_keypairs w), w_kernel := k1, w_manager := m, w_nft := k\<rparr>"
    "rule_map m = fold nft_effect (setup_ops (new_network req iface keys)) (rule_map (w_manager w))"
    using apply_firewall_run[OF F assms(2)] assms(3) by auto
  have "networks d2 = networks (w_db w)" using create_error_rows[OF D(1)] w2(1) query_frame(2)[OF L] by simp
  then show ?thesis using D w2 by (intro conjI exI[of _ iface] exI[of _ keys]) auto
qed

theorem handleCreateNetwork_leaves_rules_witness:
  "\<exists>w'. handleCreateNetwork sample_server sample_request (Inr sample_create) (sample_world (empty_db\<lparr>faults := [False, True]\<rparr>) [])
       = (internal_error ''failed to create network'', w') \<and>
     networks (w_db w') = [] \<and> (\<exists>key. rule_map (w_manager w') key \<noteq> None)"
proof -
  let ?w = "sample_world (empty_db\<lparr>faults := [False, True]\<rparr>) []"
  obtain w' where r: "handleCreateNetwork sample_server sample_request (Inr sample_create) ?w = (internal_error ''failed to create network'', w')"
    using sample_create_valid by (simp add: create_eval sim_info_def sim_new_dev_def sim_config_def no_config_def)
  have s: "nftManager sample_server = Some (kernel_env mem_conn id)" "manager_inv (w_manager ?w)" "networks (w_db ?w) = []"
      "rule_map (w_manager ?w) = (\<lambda>_. None)"
    by (simp_all add: sample_server_def sample_world_def manager_inv_New empty_db_def)
  have "rule_map (w_manager w') (ruleKey (mk_rule RuleUDPInput [] [] [] [] 51820)) \<noteq> None" "networks (w_db w') = []"
    using handleCreateNetwork_leaves_rules[OF r s(1,2)] s(3,4)
    by (auto simp: setup_ops_def new_network_def sample_create_def put_new_def)
  then show ?thesis using r by blast
qed

end
