(* ===== verification/Api.thy ===== *)
theory Api
  imports PeerRoutes BridgeRoutes NetworkEffects
begin

text \<open>
  The API as a whole: any sequence of requests to the handlers of networks, peers and
  bridges, served one after the other.  The addresses the server hands out stay
  consistent: subnets never overlap and no two peers share a tunnel address.
\<close>

section \<open>What the handlers leave alone\<close>

text \<open>The columns the addresses depend on.\<close>

type_synonym addr_keys = "(int \<times> string) list \<times> (int \<times> int \<times> string) list"

definition net_key :: "Network \<Rightarrow> int \<times> string" where
  "net_key n = (n_ID n, n_Subnet n)"

definition peer_key :: "Peer \<Rightarrow> int \<times> int \<times> string" where
  "peer_key p = (p_ID p, p_NetworkID p, p_AllowedIPs p)"

definition keys :: "DB \<Rightarrow> addr_keys" where
  "keys d = (map net_key (networks d), map peer_key (peers d))"

definition has_keys :: "addr_keys \<Rightarrow> DB \<Rightarrow> bool" where
  "has_keys v d = (db_inv d \<and> keys d = v)"

lemma keys_frame [simp]:
  "keys (d\<lparr>faults := fs\<rparr>) = keys d" "keys (d\<lparr>entropy := ns\<rparr>) = keys d" "keys (d\<lparr>audit_log := al\<rparr>) = keys d"
  "keys (d\<lparr>bridges := bs\<rparr>) = keys d" "keys (d\<lparr>bridge_seq := i\<rparr>) = keys d"
  by (simp_all add: keys_def)

lemma keys_fault: "db_fault d = (f, d1) \<Longrightarrow> keys d1 = keys d"
  by (metis db_fault_frame keys_frame(1))

lemma keys_encrypt: "encrypt_field A rc s d = (r, d1) \<Longrightarrow> keys d1 = keys d"
  by (metis encrypt_field_frame keys_frame(2))

lemma query_keys:
  "GetNetworkByID A i d = (a, d') \<Longrightarrow> keys d' = keys d" "ListNetworks A d = (b, d') \<Longrightarrow> keys d' = keys d"
  "GetPeerByID A i d = (c, d') \<Longrightarrow> keys d' = keys d" "ListPeersByNetworkID A i d = (e, d') \<Longrightarrow> keys d' = keys d"
  "GetBridgeByID i d = (g, d') \<Longrightarrow> keys d' = keys d" "ListBridges d = (h, d') \<Longrightarrow> keys d' = keys d"
  "ListBridgesByNetworkID i d = (k, d') \<Longrightarrow> keys d' = keys d" "BridgeExistsBetween i j d = (l, d') \<Longrightarrow> keys d' = keys d"
  "GetSetting s d = (m, d') \<Longrightarrow> keys d' = keys d"
  by (auto simp: GetNetworkByID_def ListNetworks_def GetPeerByID_def ListPeersByNetworkID_def GetBridgeByID_def ListBridges_def
      ListBridgesByNetworkID_def BridgeExistsBetween_def GetSetting_def
      split: prod.splits if_splits option.splits sum.splits dest!: keys_fault)

lemma stmt_keys:
  "InsertAuditEntry x d = (n, d') \<Longrightarrow> keys d' = keys d" "CreateBridge b d = (q, d') \<Longrightarrow> keys d' = keys d"
  "UpdateBridge b d = (n, d') \<Longrightarrow> keys d' = keys d" "DeleteBridge i d = (n, d') \<Longrightarrow> keys d' = keys d"
  by (auto simp: InsertAuditEntry_def CreateBridge_def UpdateBridge_def DeleteBridge_def Let_def
      split: prod.splits if_splits dest!: keys_fault)

lemma has_keysI: "\<lbrakk>has_keys v d; db_inv d \<Longrightarrow> db_inv d'; keys d' = keys d\<rbrakk> \<Longrightarrow> has_keys v d'"
  by (simp add: has_keys_def)

lemma keeps_keys [keeps_rules]:
  "keeps (\<lambda>w. has_keys v (w_db w)) (on_db (GetNetworkByID A i))" "keeps (\<lambda>w. has_keys v (w_db w)) (on_db (ListNetworks A))"
  "keeps (\<lambda>w. has_keys v (w_db w)) (on_db (GetPeerByID A i))" "keeps (\<lambda>w. has_keys v (w_db w)) (on_db (ListPeersByNetworkID A i))"
  "keeps (\<lambda>w. has_keys v (w_db w)) (on_db (GetBridgeByID i))" "keeps (\<lambda>w. has_keys v (w_db w)) (on_db ListBridges)"
  "keeps (\<lambda>w. has_keys v (w_db w)) (on_db (ListBridgesByNetworkID i))" "keeps (\<lambda>w. has_keys v (w_db w)) (on_db (BridgeExistsBetween i j))"
  "keeps (\<lambda>w. has_keys v (w_db w)) (on_db (GetSetting s))" "keeps (\<lambda>w. has_keys v (w_db w)) (on_db (InsertAuditEntry e))"
  "keeps (\<lambda>w. has_keys v (w_db w)) (on_db (CreateBridge b))" "keeps (\<lambda>w. has_keys v (w_db w)) (on_db (UpdateBridge b))"
  "keeps (\<lambda>w. has_keys v (w_db w)) (on_db (DeleteBridge i))"
  by (rule keeps_db, erule has_keysI, erule (1) db_op_invs db_query_inv, erule query_keys stmt_keys)+

lemma keeps_keys_audit [keeps_rules]: "keeps (\<lambda>w. has_keys v (w_db w)) (auditLog r a s d)"
  by (auto simp: auditLog_def Let_def intro!: keeps_rules)

text \<open>Updating a row with the columns it already has.\<close>

lemma ids_distinct:
  assumes "db_inv d"
  shows "distinct (map n_ID (networks d))" "distinct (map p_ID (peers d))"
  using assms by (auto simp: db_inv_def networks_ok_def peers_ok_def dest: ids_ok_distinct)

lemma UpdateNetwork_keys:
  assumes "has_keys v d" "UpdateNetwork A n d = (r, d')" "net_key n \<in> set (fst v)"
  shows "has_keys v d'"
proof -
  obtain k d1 where e: "encrypt_field A True (n_PrivateKey n) d = (k, d1)" by (cases "encrypt_field A True (n_PrivateKey n) d")
  have inv: "db_inv d" "keys d = v" using assms(1) by (auto simp: has_keys_def)
  have inv1: "db_inv d1" "keys d1 = v" using inv e db_inv_encrypt keys_encrypt by metis+
  have "keys d' = keys d1"
  proof (cases k)
    case (Inl x)
    then show ?thesis using assms(2) e by (simp add: UpdateNetwork_def)
  next
    case (Inr key)
    let ?n = "n\<lparr>n_PrivateKey := key\<rparr>"
    have u: "update_network ?n d1 = (r, d')" using assms(2) e Inr by (simp add: UpdateNetwork_def)
    have row: "net_key (set_network ?n t m) = net_key m" if m: "m \<in> set (networks d1)" "n_ID m = n_ID n" for m t
    proof -
      have "net_key n \<in> net_key ` set (networks d1)" using assms(3) inv1(2) by (auto simp: keys_def)
      then obtain m' where "m' \<in> set (networks d1)" "net_key m' = net_key n" by force
      moreover from this have "m' = m" using key_unique[OF ids_distinct(1)[OF inv1(1)]] m by (auto simp: net_key_def)
      ultimately show ?thesis by (simp add: net_key_def set_network_def)
    qed
    obtain f d2 where f: "db_fault d1 = (f, d2)" by (cases "db_fault d1")
    have d2: "networks d2 = networks d1" using db_fault_frame[OF f] by (metis DB.surjective DB.update_convs(11) DB.select_convs(1))
    show ?thesis
      using u f row keys_fault[OF f] d2
      by (auto simp: update_network_def keys_def split: if_splits)
  qed
  then show ?thesis using UpdateNetwork_inv[OF inv(1) assms(2)] inv1 by (simp add: has_keys_def)
qed

lemma UpdatePeer_keys:
  assumes "has_keys v d" "UpdatePeer A p d = (r, d')" "peer_key p \<in> set (snd v)"
  shows "has_keys v d'"
proof -
  obtain k d1 where e: "encrypt_field A True (p_PrivateKey p) d = (k, d1)" by (cases "encrypt_field A True (p_PrivateKey p) d")
  obtain l d2 where e2: "encrypt_field A True (p_PresharedKey p) d1 = (l, d2)" by (cases "encrypt_field A True (p_PresharedKey p) d1")
  have inv: "db_inv d" "keys d = v" using assms(1) by (auto simp: has_keys_def)
  have inv2: "db_inv d2" "keys d2 = v" "keys d1 = v" using inv e e2 db_inv_encrypt keys_encrypt by metis+
  have "keys d' = v"
  proof (cases "\<exists>a b. k = Inr a \<and> l = Inr b")
    case False
    then show ?thesis using assms(2) e e2 inv2 by (auto simp: UpdatePeer_def split: sum.splits)
  next
    case True
    then obtain a b where ab: "k = Inr a" "l = Inr b" by blast
    let ?p = "p\<lparr>p_PrivateKey := a, p_PresharedKey := b\<rparr>"
    have u: "update_peer ?p d2 = (r, d')" using assms(2) e e2 ab by (simp add: UpdatePeer_def)
    have row: "peer_key (set_peer ?p t q) = peer_key q" if q: "q \<in> set (peers d2)" "p_ID q = p_ID p" for q t
    proof -
      have "peer_key p \<in> peer_key ` set (peers d2)" using assms(3) inv2(2) by (auto simp: keys_def)
      then obtain q' where "q' \<in> set (peers d2)" "peer_key q' = peer_key p" by force
      moreover from this have "q' = q" using key_unique[OF ids_distinct(2)[OF inv2(1)]] q by (auto simp: peer_key_def)
      ultimately show ?thesis by (simp add: peer_key_def set_peer_def)
    qed
    obtain f d3 where f: "db_fault d2 = (f, d3)" by (cases "db_fault d2")
    have "peers d3 = peers d2" using db_fault_frame[OF f] by (metis DB.surjective DB.update_convs(11) DB.select_convs(3))
    then show ?thesis
      using u f row keys_fault[OF f] inv2(2) by (auto simp: update_peer_def keys_def split: if_splits)
  qed
  then show ?thesis using UpdatePeer_inv[OF inv(1) assms(2)] by (simp add: has_keys_def)
qed

text \<open>Creating and deleting rows.\<close>

lemma fault_tables: "db_fault d = (f, d1) \<Longrightarrow> networks d1 = networks d \<and> peers d1 = peers d \<and> encryptionKey d1 = encryptionKey d"
  by (auto simp: db_fault_def split: list.splits)

lemma CreateNetwork_keys:
  assumes "CreateNetwork A n d = (r, d')"
  shows "case r of Inl _ \<Rightarrow> keys d' = keys d | Inr i \<Rightarrow> keys d' = (fst (keys d) @ [(i, n_Subnet n)], snd (keys d))"
proof -
  obtain k d1 where e: "encrypt_field A False (n_PrivateKey n) d = (k, d1)" by (cases "encrypt_field A False (n_PrivateKey n) d")
  obtain f d2 where f: "db_fault d1 = (f, d2)" by (cases "db_fault d1")
  have "keys d1 = keys d" "keys d2 = keys d" using e f keys_fault keys_encrypt by metis+
  then show ?thesis
    using assms e f by (auto simp: CreateNetwork_def insert_network_def Let_def keys_def net_key_def split: sum.splits if_splits)
qed

lemma DeleteNetwork_keys:
  assumes "DeleteNetwork i d = (r, d')"
  shows "keys d' = (if r = None then (filter (\<lambda>x. fst x \<noteq> i) (fst (keys d)), filter (\<lambda>x. fst (snd x) \<noteq> i) (snd (keys d))) else keys d)"
proof -
  obtain f d1 where f: "db_fault d = (f, d1)" by (cases "db_fault d")
  then show ?thesis
    using assms fault_tables[OF f]
    by (auto simp: DeleteNetwork_def keys_def net_key_def peer_key_def filter_map comp_def split: if_splits)
qed

lemma CreatePeer_keys:
  assumes "CreatePeer A p d = (r, d')"
  shows "case r of Inl _ \<Rightarrow> keys d' = keys d
    | Inr i \<Rightarrow> keys d' = (fst (keys d), snd (keys d) @ [(i, p_NetworkID p, p_AllowedIPs p)])"
proof -
  obtain k d1 where e: "encrypt_field A False (p_PrivateKey p) d = (k, d1)" by (cases "encrypt_field A False (p_PrivateKey p) d")
  obtain l d2 where e2: "encrypt_field A False (p_PresharedKey p) d1 = (l, d2)" by (cases "encrypt_field A False (p_PresharedKey p) d1")
  obtain f d3 where f: "db_fault d2 = (f, d3)" by (cases "db_fault d2")
  have "keys d1 = keys d" "keys d2 = keys d" "keys d3 = keys d" using e e2 f keys_fault keys_encrypt by metis+
  then show ?thesis
    using assms e e2 f by (auto simp: CreatePeer_def insert_peer_def Let_def keys_def peer_key_def split: sum.splits if_splits)
qed

lemma DeletePeer_keys:
  assumes "DeletePeer i d = (r, d')"
  shows "keys d' = (if r = None then (fst (keys d), filter (\<lambda>x. fst x \<noteq> i) (snd (keys d))) else keys d)"
proof -
  obtain f d1 where f: "db_fault d = (f, d1)" by (cases "db_fault d")
  then show ?thesis
    using assms fault_tables[OF f]
    by (auto simp: DeletePeer_def keys_def peer_key_def filter_map comp_def split: if_splits)
qed

section \<open>Rules for facts learned on the way\<close>

lemma triple_pure: "(F \<Longrightarrow> triple P m Q E) \<Longrightarrow> triple (\<lambda>w. P w \<and> F) m Q E"
  by (auto simp: triple_def)

text \<open>A step that keeps \<open>P\<close> and teaches \<open>F x\<close>, followed by the rest of the program.\<close>

lemma triple_learn:
  assumes "triple P m (\<lambda>x w. P w \<and> F x) (\<lambda>_. P)" "\<And>x. F x \<Longrightarrow> triple P (f x) Q E" "\<And>r w. P w \<Longrightarrow> E r w"
  shows "triple P (andThen m f) Q E"
proof (rule triple_andThen)
  show "triple P m (\<lambda>x w. P w \<and> F x) E" by (rule triple_conseq[OF assms(1)]) (auto intro: assms(3))
qed (rule triple_pure, rule assms(2))

lemma triple_skip:
  assumes "keeps P m" "\<And>x. triple P (f x) Q E" "\<And>r w. P w \<Longrightarrow> E r w"
  shows "triple P (andThen m f) Q E"
  by (rule triple_learn[of P m "\<lambda>_. True"]) (use assms in \<open>auto simp: keeps_def\<close>)

lemma triple_keeps:
  assumes "keeps P m" "\<And>x w. P w \<Longrightarrow> Q x w" "\<And>r w. P w \<Longrightarrow> E r w"
  shows "triple P m Q E"
  by (rule triple_conseq[OF assms(1)[unfolded keeps_def]]) (use assms in auto)

lemma learn_check: "triple P (check b r) (\<lambda>x w. P w \<and> b) (\<lambda>_. P)"
  by (simp add: triple_def check_def ret_def stop_def)

lemma learn_or_none: "triple P (or_none y r) (\<lambda>x w. P w \<and> y = Some x) (\<lambda>_. P)"
  by (auto simp: triple_def or_none_def ret_def stop_def split: option.splits)

lemma learn_or_error: "triple P (or_error y r) (\<lambda>x w. P w \<and> y = Inr x) (\<lambda>_. P)"
  by (auto simp: triple_def or_error_def ret_def stop_def split: sum.splits)

lemma learn_no_error: "triple P (no_error y r) (\<lambda>x w. P w \<and> y = None) (\<lambda>_. P)"
  by (auto simp: triple_def no_error_def ret_def stop_def split: option.splits)

lemma learn_ret: "triple P (ret y) (\<lambda>x w. P w \<and> x = y) (\<lambda>_. P)"
  by (simp add: triple_def ret_def)

text \<open>What the queries teach.\<close>

lemma decryptNetworkKeys_key: "decryptNetworkKeys A k n = Inr n' \<Longrightarrow> net_key n' = net_key n \<and> n_ListenPort n' = n_ListenPort n \<and> n_Interface n' = n_Interface n"
  by (auto simp: decryptNetworkKeys_def net_key_def split: sum.splits)

lemma decryptPeerKeys_key: "decryptPeerKeys A k p = Inr p' \<Longrightarrow> peer_key p' = peer_key p"
  by (auto simp: decryptPeerKeys_def peer_key_def split: sum.splits)

lemma scan_rows_map:
  assumes "scan_rows f xs = Inr ys" "\<And>x y. f x = Inr y \<Longrightarrow> g y = g x"
  shows "map g ys = map g xs"
  using assms(1) by (induction xs arbitrary: ys) (auto split: sum.splits dest: assms(2))

lemma GetNetworkByID_key:
  assumes "GetNetworkByID A i d = (Inr (Some n), d')"
  shows "n_ID n = i" "net_key n \<in> set (fst (keys d))"
proof -
  obtain f d1 where f: "db_fault d = (f, d1)" by (cases "db_fault d")
  then obtain m where m: "find (\<lambda>n. n_ID n = i) (networks d) = Some m" "decryptNetworkKeys A (encryptionKey d1) m = Inr n"
    using assms fault_tables[OF f] by (auto simp: GetNetworkByID_def split: if_splits option.splits sum.splits)
  then have "m \<in> set (networks d)" "n_ID m = i" by (auto dest: find_Some_set)
  then show "n_ID n = i" "net_key n \<in> set (fst (keys d))"
    using decryptNetworkKeys_key[OF m(2)] by (auto simp: keys_def net_key_def)
qed

lemma GetPeerByID_key:
  assumes "GetPeerByID A i d = (Inr (Some p), d')"
  shows "p_ID p = i" "peer_key p \<in> set (snd (keys d))"
proof -
  obtain f d1 where f: "db_fault d = (f, d1)" by (cases "db_fault d")
  then obtain q where q: "find (\<lambda>p. p_ID p = i) (peers d) = Some q" "decryptPeerKeys A (encryptionKey d1) q = Inr p"
    using assms fault_tables[OF f] by (auto simp: GetPeerByID_def split: if_splits option.splits sum.splits)
  then have "q \<in> set (peers d)" "p_ID q = i" by (auto dest: find_Some_set)
  then show "p_ID p = i" "peer_key p \<in> set (snd (keys d))"
    using decryptPeerKeys_key[OF q(2)] by (auto simp: keys_def peer_key_def)
qed

lemma ListNetworks_key:
  assumes "ListNetworks A d = (Inr ns, d')"
  shows "map net_key ns = fst (keys d)"
proof -
  obtain f d1 where f: "db_fault d = (f, d1)" by (cases "db_fault d")
  then have "scan_rows (decryptNetworkKeys A (encryptionKey d1)) (networks d) = Inr ns"
    using assms fault_tables[OF f] by (auto simp: ListNetworks_def split: if_splits)
  from scan_rows_map[OF this, of net_key] show ?thesis by (auto simp: keys_def dest: decryptNetworkKeys_key)
qed

lemma ListPeers_key:
  assumes "ListPeersByNetworkID A i d = (Inr ps, d')"
  shows "map peer_key ps = filter (\<lambda>x. fst (snd x) = i) (snd (keys d))"
proof -
  obtain f d1 where f: "db_fault d = (f, d1)" by (cases "db_fault d")
  then have "scan_rows (decryptPeerKeys A (encryptionKey d1)) (filter (\<lambda>p. p_NetworkID p = i) (peers d)) = Inr ps"
    using assms fault_tables[OF f] by (auto simp: ListPeersByNetworkID_def split: if_splits)
  then have "map peer_key ps = map peer_key (filter (\<lambda>p. p_NetworkID p = i) (peers d))"
    by (rule scan_rows_map) (rule decryptPeerKeys_key)
  then show ?thesis by (simp add: keys_def filter_map comp_def peer_key_def)
qed

lemma learn_db:
  assumes "keeps (\<lambda>w :: ('a, 'b) World. has_keys v (w_db w)) (on_db f)" "\<And>d x d'. \<lbrakk>keys d = v; f d = (x, d')\<rbrakk> \<Longrightarrow> F x"
  shows "triple (\<lambda>w :: ('a, 'b) World. has_keys v (w_db w)) (on_db f) (\<lambda>x w. has_keys v (w_db w) \<and> F x) (\<lambda>_ w. has_keys v (w_db w))"
  unfolding triple_def
proof (intro allI impI)
  fix w :: "('a, 'b) World" assume w: "has_keys v (w_db w)"
  obtain x d' where f: "f (w_db w) = (x, d')" by (cases "f (w_db w)")
  then have "F x" using assms(2)[OF _ f] w by (simp add: has_keys_def)
  moreover have "on_db f w = (Inr x, w\<lparr>w_db := d'\<rparr>)" using f by (simp add: on_db_def)
  moreover from this have "has_keys v d'" using assms(1) w by (auto simp: keeps_def triple_def)
  ultimately show "case on_db f w of (Inl r, w') \<Rightarrow> has_keys v (w_db w') | (Inr x, w') \<Rightarrow> has_keys v (w_db w') \<and> F x" by simp
qed

lemma learn_network:
  "triple (\<lambda>w. has_keys v (w_db w)) (fetch_network S i)
     (\<lambda>n w. has_keys v (w_db w) \<and> (n_ID n = i \<and> net_key n \<in> set (fst v))) (\<lambda>_ w. has_keys v (w_db w))"
  unfolding fetch_network_def
proof (rule triple_learn[OF learn_db[OF keeps_keys(1), where F = "\<lambda>x. \<forall>n. x = Inr (Some n) \<longrightarrow> n_ID n = i \<and> net_key n \<in> set (fst v)"]])
  fix x :: "db_error + Network option"
  assume x: "\<forall>n. x = Inr (Some n) \<longrightarrow> n_ID n = i \<and> net_key n \<in> set (fst v)"
  show "triple (\<lambda>w. has_keys v (w_db w)) (andThen (or_error x (internal_error ''failed to get network'')) (\<lambda>n. or_none n (not_found ''network'' i)))
    (\<lambda>n w. has_keys v (w_db w) \<and> (n_ID n = i \<and> net_key n \<in> set (fst v))) (\<lambda>_ w. has_keys v (w_db w))"
    by (rule triple_learn[OF learn_or_error], rule triple_conseq[OF learn_or_none]) (use x in auto)
qed (auto dest: GetNetworkByID_key)

lemma learn_peer:
  "triple (\<lambda>w. has_keys v (w_db w)) (fetch_peer S i j)
     (\<lambda>p w. has_keys v (w_db w) \<and> (p_ID p = j \<and> p_NetworkID p = i \<and> peer_key p \<in> set (snd v))) (\<lambda>_ w. has_keys v (w_db w))"
  unfolding fetch_peer_def
proof (rule triple_learn[OF learn_db[OF keeps_keys(3), where F = "\<lambda>x. \<forall>p. x = Inr (Some p) \<longrightarrow> p_ID p = j \<and> peer_key p \<in> set (snd v)"]])
  fix x :: "db_error + Peer option"
  assume x: "\<forall>p. x = Inr (Some p) \<longrightarrow> p_ID p = j \<and> peer_key p \<in> set (snd v)"
  show "triple (\<lambda>w. has_keys v (w_db w)) (andThen (or_error x (internal_error ''failed to get peer''))
      (\<lambda>po. or_none (case po of None \<Rightarrow> None | Some p \<Rightarrow> if p_NetworkID p \<noteq> i then None else Some p)
         (writeError (''peer '' @ itoa_int j @ '' not found in network '' @ itoa_int i) ''PEER_NOT_FOUND'' 404)))
    (\<lambda>p w. has_keys v (w_db w) \<and> (p_ID p = j \<and> p_NetworkID p = i \<and> peer_key p \<in> set (snd v))) (\<lambda>_ w. has_keys v (w_db w))"
    by (rule triple_learn[OF learn_or_error], rule triple_conseq[OF learn_or_none]) (use x in \<open>auto split: option.splits if_splits\<close>)
qed (auto dest: GetPeerByID_key)

section \<open>Consistent addresses\<close>

text \<open>Two subnets that share no address; the address of a peer's tunnel; a peer's list of networks.\<close>

definition nets_apart :: "string \<Rightarrow> string \<Rightarrow> bool" where
  "nets_apart s t \<longleftrightarrow> (\<forall>a x b y i. ParseCIDR s = Some (a, x) \<longrightarrow> ParseCIDR t = Some (b, y) \<longrightarrow> length i = 4 \<longrightarrow>
     \<not> (IPNet_Contains x i \<and> IPNet_Contains y i))"

definition tunnel :: "string \<Rightarrow> string" where
  "tunnel allowedIPs = takeWhile (\<lambda>c. c \<noteq> CHR ''/'') allowedIPs"

text \<open>The list starts with a host address of the network's subnet.\<close>

definition host_entry :: "string \<Rightarrow> string \<Rightarrow> bool" where
  "host_entry s a \<longleftrightarrow> (\<exists>i sn n addr rest. ParseCIDR s = Some (i, sn) \<and> v4_net n sn \<and>
     addr \<in> set (host_range n sn) \<and> a = v4_string addr @ ''/32'' @ rest \<and> (rest = [] \<or> hd rest = CHR '',''))"

definition tunnel_ok :: "(int \<times> string) list \<Rightarrow> int \<Rightarrow> string \<Rightarrow> bool" where
  "tunnel_ok ns nid a \<longleftrightarrow> (\<exists>s. (nid, s) \<in> set ns \<and> host_entry s a)"

definition addr_inv :: "addr_keys \<Rightarrow> bool" where
  "addr_inv v \<longleftrightarrow> distinct (map fst (fst v)) \<and> (\<forall>x\<in>set (fst v). isValidPrivateCIDR (snd x)) \<and>
     sorted_wrt (\<lambda>x y. nets_apart (snd x) (snd y)) (fst v) \<and>
     (\<forall>x\<in>set (snd v). tunnel_ok (fst v) (fst (snd x)) (snd (snd x))) \<and>
     distinct (map (\<lambda>x. tunnel (snd (snd x))) (snd v))"

text \<open>The ways in which a request can change the addresses.\<close>

inductive key_step :: "addr_keys \<Rightarrow> addr_keys \<Rightarrow> bool" where
  same: "key_step v v"
| add_net: "\<lbrakk>isValidPrivateCIDR s; \<forall>x\<in>set ns. nets_apart (snd x) s; i \<notin> fst ` set ns\<rbrakk> \<Longrightarrow> key_step (ns, ps) (ns @ [(i, s)], ps)"
| del_net: "key_step (ns, ps) (filter (\<lambda>x. fst x \<noteq> i) ns, filter (\<lambda>x. fst (snd x) \<noteq> i) ps)"
| add_peer: "\<lbrakk>tunnel_ok ns nid a; \<forall>x\<in>set ps. tunnel (snd (snd x)) \<noteq> tunnel a\<rbrakk> \<Longrightarrow> key_step (ns, ps) (ns, ps @ [(i, nid, a)])"
| del_peer: "key_step (ns, ps) (ns, filter (\<lambda>x. fst x \<noteq> i) ps)"

inductive_cases key_stepE: "key_step v v'"

lemma key_step_inv:
  assumes "key_step v v'" "addr_inv v"
  shows "addr_inv v'"
  using assms
proof cases
  case (add_net s ns i ps)
  then show ?thesis using assms(2) by (auto simp: addr_inv_def sorted_wrt_append tunnel_ok_def)
next
  case (del_net ns ps i)
  then show ?thesis using assms(2)
    by (auto simp: addr_inv_def sorted_wrt_filter distinct_map_filter tunnel_ok_def)
next
  case (add_peer ns nid a ps i)
  then show ?thesis using assms(2) by (auto simp: addr_inv_def)
next
  case (del_peer ns ps i)
  then show ?thesis using assms(2) by (auto simp: addr_inv_def distinct_map_filter)
qed auto

text \<open>Tunnel addresses in different networks differ because the subnets do not overlap.\<close>

lemma tunnel_v4: "length addr = 4 \<Longrightarrow> tunnel (v4_string addr @ ''/32'' @ rest) = v4_string addr"
  using v4_string_chars[of addr "CHR ''/''"]
  by (subst tunnel_def, subst takeWhile_append2) (auto dest: v4_string_chars simp: is_digit_def ord_def)

lemma nets_apart_sym: "nets_apart s t \<Longrightarrow> nets_apart t s"
  unfolding nets_apart_def by blast

lemma apart_of_sorted:
  assumes "sorted_wrt (\<lambda>x y. nets_apart (snd x) (snd y)) ns" "x \<in> set ns" "y \<in> set ns" "x \<noteq> y"
  shows "nets_apart (snd x) (snd y)"
  using assms(1)[unfolded sorted_wrt_iff_nth_less] assms(2-4) nets_apart_sym
  by (metis in_set_conv_nth linorder_neqE_nat)

lemma host_in_net:
  assumes "v4_net n sn" "addr \<in> set (host_range n sn)"
  shows "length addr = 4" "IPNet_Contains sn addr"
  using assms host_range_mem[OF assms(1), of addr] Contains_v4_net[OF assms(1), of addr] by auto

lemma tunnel_other_net:
  assumes "addr_inv (ns, ps)" "tunnel_ok ns i a" "tunnel_ok ns j b" "i \<noteq> j"
  shows "tunnel a \<noteq> tunnel b"
proof
  assume eq: "tunnel a = tunnel b"
  obtain s c x n p r where a: "(i, s) \<in> set ns" "ParseCIDR s = Some (c, x)" "v4_net n x" "p \<in> set (host_range n x)" "a = v4_string p @ ''/32'' @ r"
    using assms(2) unfolding tunnel_ok_def host_entry_def by blast
  obtain t d y m q r' where b: "(j, t) \<in> set ns" "ParseCIDR t = Some (d, y)" "v4_net m y" "q \<in> set (host_range m y)" "b = v4_string q @ ''/32'' @ r'"
    using assms(3) unfolding tunnel_ok_def host_entry_def by blast
  note hp = host_in_net[OF a(3,4)] and hq = host_in_net[OF b(3,4)]
  have "p = q" using eq v4_string_inject[OF hp(1) hq(1)] unfolding a(5) b(5) tunnel_v4[OF hp(1)] tunnel_v4[OF hq(1)] by simp
  moreover have "nets_apart s t" using apart_of_sorted[of ns "(i, s)" "(j, t)"] assms(1,4) a(1) b(1) by (simp add: addr_inv_def)
  ultimately show False using a(2) b(2) hp hq unfolding nets_apart_def by blast
qed

section \<open>Every request takes a step\<close>

definition stepped :: "addr_keys \<Rightarrow> ('k, 'n) World \<Rightarrow> bool" where
  "stepped v w = (\<exists>v'. key_step v v' \<and> has_keys v' (w_db w))"

lemma stepped_same: "has_keys v (w_db w) \<Longrightarrow> stepped v w"
  unfolding stepped_def using key_step.same by blast

lemma keeps_learn:
  assumes "triple P m (\<lambda>x w. P w \<and> F x) (\<lambda>_. P)" "\<And>x. F x \<Longrightarrow> keeps P (f x)"
  shows "keeps P (andThen m f)"
  unfolding keeps_def by (rule triple_learn[OF assms(1)]) (use assms(2) in \<open>auto simp: keeps_def\<close>)

lemma keeps_stepped:
  assumes "serve m w = (x, w')" "has_keys v (w_db w)" "keeps (\<lambda>w. has_keys v (w_db w)) m"
  shows "stepped v w'"
  using keeps_serve[OF assms(3) assms(2) assms(1)] by (rule stepped_same)

text \<open>Handlers that only read, and those of the bridges.\<close>

lemma readers_stepped:
  assumes "has_keys v (w_db w)"
  shows "handleListNetworks S w = (x, w') \<Longrightarrow> stepped v w'" "handleGetNetwork S r w = (x, w') \<Longrightarrow> stepped v w'"
    "handleExportNetwork S r w = (x, w') \<Longrightarrow> stepped v w'"
    "handleListPeers S r w = (x, w') \<Longrightarrow> stepped v w'" "handleGetPeer S r w = (x, w') \<Longrightarrow> stepped v w'"
    "handlePeerConfig S r w = (x, w') \<Longrightarrow> stepped v w'" "handlePeerQR S r w = (x, w') \<Longrightarrow> stepped v w'"
    "handleCreateBridge S r cb w = (x, w') \<Longrightarrow> stepped v w'" "handleListBridges S w = (x, w') \<Longrightarrow> stepped v w'"
    "handleGetBridge S r w = (x, w') \<Longrightarrow> stepped v w'" "handleUpdateBridge S r ub w = (x, w') \<Longrightarrow> stepped v w'"
    "handleDeleteBridge S r w = (x, w') \<Longrightarrow> stepped v w'"
  unfolding handleListNetworks_def handleGetNetwork_def handleExportNetwork_def handleListPeers_def handleGetPeer_def
    handlePeerConfig_def handlePeerQR_def handleCreateBridge_def handleListBridges_def handleGetBridge_def handleUpdateBridge_def
    handleDeleteBridge_def network_step_defs peer_step_defs bridge_step_defs
  by (erule keeps_stepped[OF _ assms]; intro keeps_rules)+

text \<open>Handlers that change other columns of a network.\<close>

lemma keeps_UpdateNetwork:
  "net_key n \<in> set (fst v) \<Longrightarrow> keeps (\<lambda>w. has_keys v (w_db w)) (on_db (UpdateNetwork A n))"
  by (rule keeps_db) (rule UpdateNetwork_keys)

lemma keeps_UpdatePeer:
  "peer_key p \<in> set (snd v) \<Longrightarrow> keeps (\<lambda>w. has_keys v (w_db w)) (on_db (UpdatePeer A p))"
  by (rule keeps_db) (rule UpdatePeer_keys)

lemma learn_toggles:
  "triple (\<lambda>w. J (w_db w)) (toggle_nat S b n) (\<lambda>n' w. J (w_db w) \<and> net_key n' = net_key n) (\<lambda>_ w. J (w_db w))"
  "triple (\<lambda>w. J (w_db w)) (toggle_routing S b n) (\<lambda>n' w. J (w_db w) \<and> net_key n' = net_key n) (\<lambda>_ w. J (w_db w))"
  by (auto simp: triple_def toggle_nat_def toggle_routing_def andThen_def ret_def stop_def nft_call_def no_error_def net_key_def
      split: option.splits prod.splits)

lemma keeps_store_enabled:
  assumes "net_key n \<in> set (fst v)"
  shows "keeps (\<lambda>w. has_keys v (w_db w)) (store_enabled S r n nid b)"
proof -
  have "net_key (n\<lparr>n_Enabled := b\<rparr>) \<in> set (fst v)" using assms by (simp add: net_key_def)
  then show ?thesis unfolding store_enabled_def Let_def by (intro keeps_rules keeps_UpdateNetwork)
qed

lemma network_updates_stepped:
  assumes "has_keys v (w_db w)"
  shows "handleUpdateNetwork S r ub w = (x, w') \<Longrightarrow> stepped v w'" "handleEnableNetwork S r w = (x, w') \<Longrightarrow> stepped v w'"
    "handleDisableNetwork S r w = (x, w') \<Longrightarrow> stepped v w'"
proof -
  show "stepped v w'" if h: "handleUpdateNetwork S r ub w = (x, w')"
  proof (rule keeps_stepped[OF h[unfolded handleUpdateNetwork_def] assms],
      intro keeps_andThen[OF keeps_checks(6)] keeps_andThen[OF keeps_checks(5)] keeps_andThen[OF keeps_checks(1)]
        keeps_learn[OF learn_network] keeps_learn[OF learn_ret] keeps_learn[OF learn_toggles(1)] keeps_learn[OF learn_toggles(2)],
      goal_cases)
    case (1 nid req u n0 n1 n2 n3)
    then have "net_key n3 \<in> set (fst v)" by (auto simp: opt_set_def net_key_def split: option.splits)
    then show ?case by (intro keeps_rules keeps_UpdateNetwork)
  qed
  show "stepped v w'" if h: "handleEnableNetwork S r w = (x, w')"
  proof (rule keeps_stepped[OF h[unfolded handleEnableNetwork_def] assms],
      intro keeps_andThen[OF keeps_checks(6)] keeps_learn[OF learn_network], goal_cases)
    case (1 nid n)
    then show ?case unfolding raise_interface_def restore_firewall_def by (intro keeps_rules keeps_store_enabled) simp
  qed
  show "stepped v w'" if h: "handleDisableNetwork S r w = (x, w')"
  proof (rule keeps_stepped[OF h[unfolded handleDisableNetwork_def] assms],
      intro keeps_andThen[OF keeps_checks(6)] keeps_learn[OF learn_network], goal_cases)
    case (1 nid n)
    then show ?case unfolding remove_firewall_def by (intro keeps_rules keeps_store_enabled) simp
  qed
qed

text \<open>Handlers that change other columns of a peer.\<close>

lemma learn_expiry:
  "triple (\<lambda>w. J (w_db w)) (apply_expiry S e p) (\<lambda>p' w. J (w_db w) \<and> peer_key p' = peer_key p) (\<lambda>_ w. J (w_db w))"
  by (auto simp: triple_def apply_expiry_def expiry_def time_Now_def andThen_def ret_def stop_def or_none_def peer_key_def
      split: option.splits prod.splits)

lemma keeps_fetch_parent: "keeps (\<lambda>w. has_keys v (w_db w)) (fetch_parent S i)"
  unfolding fetch_parent_def by (intro keeps_rules)

lemma apply_fields_key: "peer_key (apply_fields req p) = peer_key p"
  by (simp add: apply_fields_def opt_set_def peer_key_def split: option.splits)

lemma peer_updates_stepped:
  assumes "has_keys v (w_db w)"
  shows "handleUpdatePeer S r ub w = (x, w') \<Longrightarrow> stepped v w'" "handleEnablePeer S r w = (x, w') \<Longrightarrow> stepped v w'"
    "handleDisablePeer S r w = (x, w') \<Longrightarrow> stepped v w'"
proof -
  show "stepped v w'" if h: "handleUpdatePeer S r ub w = (x, w')"
  proof (rule keeps_stepped[OF h[unfolded handleUpdatePeer_def] assms],
      intro keeps_andThen[OF keeps_checks(6)] keeps_andThen[OF keeps_checks(5)] keeps_andThen[OF keeps_checks(1)]
        keeps_learn[OF learn_peer] keeps_andThen[OF keeps_fetch_parent] keeps_learn[OF learn_expiry], goal_cases)
    case (1 nid pid req u p0 n p)
    then have "peer_key p \<in> set (snd v)" by (simp add: apply_fields_key)
    then show ?case by (intro keeps_rules keeps_UpdatePeer)
  qed
  show "stepped v w'" if h: "handleEnablePeer S r w = (x, w')"
  proof (rule keeps_stepped[OF h[unfolded handleEnablePeer_def fetch_parent_def peer_toggled_def] assms],
      intro keeps_andThen[OF keeps_checks(6)] keeps_learn[OF learn_peer], goal_cases)
    case (1 nid pid p)
    then show ?case by (intro keeps_rules keeps_UpdatePeer) (auto simp: peer_key_def)
  qed
  show "stepped v w'" if h: "handleDisablePeer S r w = (x, w')"
  proof (rule keeps_stepped[OF h[unfolded handleDisablePeer_def fetch_parent_def peer_toggled_def] assms],
      intro keeps_andThen[OF keeps_checks(6)] keeps_learn[OF learn_peer], goal_cases)
    case (1 nid pid p)
    then show ?case by (intro keeps_rules keeps_UpdatePeer) (auto simp: peer_key_def)
  qed
qed

text \<open>Deleting.\<close>

lemma triple_stepped:
  assumes "serve m w = (x, w')" "has_keys v (w_db w)" "triple (\<lambda>w. has_keys v (w_db w)) m (\<lambda>_. stepped v) (\<lambda>_. stepped v)"
  shows "stepped v w'"
  using triple_serve[of "\<lambda>w. has_keys v (w_db w)" m "\<lambda>_. stepped v"] assms by blast

lemma keeps_stepped_db:
  assumes "\<And>v. keeps (\<lambda>w. has_keys v (w_db w)) m"
  shows "keeps (stepped v) m"
  using assms unfolding keeps_def triple_def stepped_def by (fastforce split: prod.splits sum.splits)

lemma triple_skip_stepped:
  "\<lbrakk>keeps (\<lambda>w. has_keys v (w_db w)) m; \<And>x. triple (\<lambda>w. has_keys v (w_db w)) (f x) (\<lambda>_. stepped v) (\<lambda>_. stepped v)\<rbrakk>
    \<Longrightarrow> triple (\<lambda>w. has_keys v (w_db w)) (andThen m f) (\<lambda>_. stepped v) (\<lambda>_. stepped v)"
  by (rule triple_skip) (auto intro: stepped_same)

lemma triple_learn_stepped:
  "\<lbrakk>triple (\<lambda>w. has_keys v (w_db w)) m (\<lambda>x w. has_keys v (w_db w) \<and> F x) (\<lambda>_ w. has_keys v (w_db w));
    \<And>x. F x \<Longrightarrow> triple (\<lambda>w. has_keys v (w_db w)) (f x) (\<lambda>_. stepped v) (\<lambda>_. stepped v)\<rbrakk>
    \<Longrightarrow> triple (\<lambda>w. has_keys v (w_db w)) (andThen m f) (\<lambda>_. stepped v) (\<lambda>_. stepped v)"
  by (rule triple_learn[where F = F]) (auto intro: stepped_same)

text \<open>The statement that makes the step, and what follows it.\<close>

lemma triple_stmt_stepped:
  assumes "\<And>d x d'. \<lbrakk>has_keys v d; f d = (x, d')\<rbrakk> \<Longrightarrow> \<exists>v'. key_step v v' \<and> has_keys v' d'"
    and "\<And>x v. keeps (\<lambda>w. has_keys v (w_db w)) (g x)"
  shows "triple (\<lambda>w. has_keys v (w_db w)) (andThen (on_db f) g) (\<lambda>_. stepped v) (\<lambda>_. stepped v)"
proof (rule triple_andThen)
  show "triple (\<lambda>w. has_keys v (w_db w)) (on_db f) (\<lambda>_. stepped v) (\<lambda>_. stepped v)"
    unfolding triple_def on_db_def stepped_def using assms(1) by (auto split: prod.splits)
  show "triple (stepped v) (g x) (\<lambda>_. stepped v) (\<lambda>_. stepped v)" for x
    using keeps_stepped_db[OF assms(2)] by (simp add: keeps_def)
qed

lemma delete_stepped:
  assumes "has_keys v (w_db w)"
  shows "handleDeleteNetwork S r w = (x, w') \<Longrightarrow> stepped v w'" "handleDeletePeer S r w = (x, w') \<Longrightarrow> stepped v w'"
proof -
  show "stepped v w'" if h: "handleDeleteNetwork S r w = (x, w')"
  proof (rule triple_stepped[OF h[unfolded handleDeleteNetwork_def network_step_defs] assms],
      (rule triple_skip_stepped, (intro keeps_rules)[])+, rule triple_stmt_stepped, goal_cases)
    case (1 nid n u u' e d y d')
    then show ?case
      using DeleteNetwork_keys[OF 1(2)] DeleteNetwork_inv[of d nid y d'] key_step.del_net[of "fst v" "snd v" nid] key_step.same[of v]
      by (intro exI[of _ "keys d'"]) (auto simp: has_keys_def split: if_splits)
  qed (intro keeps_rules)
  show "stepped v w'" if h: "handleDeletePeer S r w = (x, w')"
  proof (rule triple_stepped[OF h[unfolded handleDeletePeer_def peer_step_defs] assms],
      (rule triple_skip_stepped, (intro keeps_rules)[])+, rule triple_stmt_stepped, goal_cases)
    case (1 nid pid p n e d y d')
    then show ?case
      using DeletePeer_keys[OF 1(2)] DeletePeer_inv[of d pid y d'] key_step.del_peer[of "fst v" "snd v" pid] key_step.same[of v]
      by (intro exI[of _ "keys d'"]) (auto simp: has_keys_def split: if_splits)
  qed (intro keeps_rules)
qed

text \<open>Creating a network.\<close>

lemma not_overlapping_apart:
  assumes "isValidPrivateCIDR s" "isValidPrivateCIDR (n_Subnet e)" "ParseCIDR s = Some (a, sn)" "\<not> subnets_overlap sn e"
  shows "nets_apart (n_Subnet e) s"
proof -
  obtain n where n: "v4_net n sn" using isValidPrivateCIDR_parse[OF assms(1)] assms(3) by auto
  obtain b x m where x: "ParseCIDR (n_Subnet e) = Some (b, x)" "v4_net m x" using isValidPrivateCIDR_parse[OF assms(2)] by auto
  have "\<not> IPNet_Contains sn (net_ip x)" "\<not> IPNet_Contains x (net_ip sn)" using assms(4) x by (auto simp: subnets_overlap_def)
  then show ?thesis using overlap_disjoint[OF x(2) n] x assms(3) by (auto simp: nets_apart_def)
qed

lemma CreateNetwork_step:
  assumes "has_keys v d" "CreateNetwork A n d = (r, d')" "isValidPrivateCIDR (n_Subnet n)" "\<forall>x\<in>set (fst v). nets_apart (snd x) (n_Subnet n)"
  shows "\<exists>v'. key_step v v' \<and> has_keys v' d'"
proof (intro exI[of _ "keys d'"] conjI)
  have inv: "db_inv d'" using CreateNetwork_inv[OF _ assms(2)] assms(1) by (simp add: has_keys_def)
  then show "has_keys (keys d') d'" by (simp add: has_keys_def)
  have v: "keys d = v" using assms(1) by (simp add: has_keys_def)
  show "key_step v (keys d')"
  proof (cases r)
    case (Inl e)
    then show ?thesis using CreateNetwork_keys[OF assms(2)] v key_step.same by simp
  next
    case (Inr i)
    then have k: "keys d' = (fst v @ [(i, n_Subnet n)], snd v)" using CreateNetwork_keys[OF assms(2)] v by simp
    have "map fst (fst (keys d')) = map n_ID (networks d')" by (simp add: keys_def net_key_def comp_def)
    then have "distinct (map fst (fst (keys d')))" using ids_distinct(1)[OF inv] by simp
    then have "i \<notin> fst ` set (fst v)" using k by simp
    then show ?thesis using key_step.add_net[OF assms(3,4), of i "snd v"] k by simp
  qed
qed

lemma create_network_stepped:
  assumes "has_keys v (w_db w)" "addr_inv v" "handleCreateNetwork S r cb w = (x, w')"
  shows "stepped v w'"
proof (rule triple_stepped[OF assms(3)[unfolded handleCreateNetwork_def install_network_def answer_created_def apply_firewall_def or_undo_def undo_interface_def] assms(1)],
    rule triple_skip_stepped[OF keeps_checks(5)], rule triple_learn_stepped[OF learn_check],
    rule triple_learn_stepped[OF learn_db[OF keeps_keys(2), where F = "\<lambda>x. \<forall>l. x = Inr l \<longrightarrow> map net_key l = fst v"]],
    (use ListNetworks_key in blast)[], rule triple_learn_stepped[OF learn_or_error], rule triple_learn_stepped[OF learn_or_none], goal_cases)
  case (1 req u ns existing reqSubnet)
  have valid: "isValidPrivateCIDR (cn_Subnet req)" using 1(1) by (simp add: validateCreateNetwork_Nil)
  obtain a where a: "ParseCIDR (cn_Subnet req) = Some (a, reqSubnet)" using 1(4) by auto
  show ?case
  proof (cases "network_conflict req reqSubnet existing")
    case (Some resp)
    then show ?thesis by (auto intro!: triple_keeps keeps_stop stepped_same)
  next
    case None
    have apart: "\<forall>x\<in>set (fst v). nets_apart (snd x) (cn_Subnet req)"
    proof
      fix x assume "x \<in> set (fst v)"
      moreover have "set (fst v) = net_key ` set existing" using 1(2,3) by (metis list.set_map)
      ultimately obtain e where e: "e \<in> set existing" "x = net_key e" by auto
      have "isValidPrivateCIDR (n_Subnet e)" using assms(2) e \<open>x \<in> set (fst v)\<close> by (auto simp: addr_inv_def net_key_def)
      then show "nets_apart (snd x) (cn_Subnet req)"
        using not_overlapping_apart[OF valid _ a network_conflict_None(1)[OF None e(1)]] e(2) by (simp add: net_key_def)
    qed
    show ?thesis unfolding None option.case
      by ((rule triple_skip_stepped, (intro keeps_rules)[])+, rule triple_stmt_stepped, erule (1) CreateNetwork_step,
        simp add: new_network_def valid, simp add: new_network_def apart, intro keeps_rules)
  qed
qed

text \<open>Creating a peer.\<close>

lemma used_ips_mem:
  assumes "p \<in> set ps" "p_AllowedIPs p = v4_string addr @ ''/32'' @ rest" "rest = [] \<or> hd rest = CHR '',''" "length addr = 4"
  shows "v4_string addr \<in> IP_String ` set (used_ips ps)"
proof -
  let ?e = "v4_string addr @ ''/32''"
  have chars: "is_graph c \<and> c \<noteq> CHR '',''" if "c \<in> set ?e" for c
    using that v4_string_chars[OF assms(4), of c] is_digit_graph[of c] by (auto simp: is_graph_def is_digit_def ord_def)
  then have comma: "CHR '','' \<notin> set ?e" by blast
  have ne: "?e \<noteq> []" by simp
  have trim: "TrimSpace ?e = ?e"
    by (rule TrimSpace_id[OF ne]) (use chars hd_in_set[OF ne] last_in_set[OF ne] in blast)+
  have "?e \<in> set (Split (CHR '','') (p_AllowedIPs p))"
  proof (cases rest)
    case Nil
    then show ?thesis using assms(2) Split_no_sep[OF comma] by simp
  next
    case (Cons c cs)
    then show ?thesis using assms(2,3) Split_append_sep[OF comma, of cs] by simp
  qed
  moreover have "ParseCIDR ?e = Some (v4_prefix @ addr, \<lparr>net_ip = map2 (AND) addr (mask_bytes 4 32), net_mask = mask_bytes 4 32\<rparr>)"
  proof -
    have "''/32'' = ''/'' @ itoa 32" by code_simp
    then show ?thesis using ParseCIDR_v4_string[OF assms(4), of 32] by simp
  qed
  ultimately have "v4_prefix @ addr \<in> set (used_ips ps)"
    using assms(1) trim unfolding used_ips_def by (force simp: List.map_filter_def)
  then show ?thesis using IP_String_As16[OF assms(4)] by force
qed

lemma learn_allocate:
  assumes "isValidPrivateCIDR (n_Subnet n)"
  shows "triple P (allocate_ip n ps) (\<lambda>i w. P w \<and> (\<exists>c sn k. ParseCIDR (n_Subnet n) = Some (c, sn) \<and> v4_net k sn \<and>
    i \<in> set (host_range k sn) \<and> IP_String i \<notin> IP_String ` set (used_ips ps))) (\<lambda>_. P)"
proof -
  obtain c sn k where sn: "ParseCIDR (n_Subnet n) = Some (c, sn)" "v4_net k sn" "16 \<le> k" using isValidPrivateCIDR_parse[OF assms] by auto
  let ?a = "\<lparr>subnet = sn, used = {IP_String (net_ip sn), IP_String (addr4 (base sn + 1))} \<union> IP_String ` set (used_ips ps)\<rparr>"
  have new: "NewIPAllocator (Some sn) (used_ips ps) = Inr ?a" by (rule NewIPAllocator_v4[OF sn(2)])
  have alloc: "Allocate ?a = Some (case first_free (used ?a) (host_range k sn) of
      None \<Rightarrow> (Inl NoAvailableIPs, ?a) | Some ip \<Rightarrow> (Inr ip, ?a\<lparr>used := insert (IP_String ip) (used ?a)\<rparr>))"
    using Allocate_v4[of k ?a] sn(2,3) by simp
  have free: "i \<in> set (host_range k sn) \<and> IP_String i \<notin> IP_String ` set (used_ips ps)" if "first_free (used ?a) (host_range k sn) = Some i" for i
    using that by (auto simp: first_free_def dest: find_Some_set)
  show ?thesis
    using sn(1,2) new alloc free
    by (auto simp: triple_def allocate_ip_def andThen_def or_error_def or_none_def ret_def stop_def split: option.splits)
qed

lemma CreatePeer_step:
  assumes "has_keys v d" "CreatePeer A p d = (r, d')" "tunnel_ok (fst v) (p_NetworkID p) (p_AllowedIPs p)"
    "\<forall>x\<in>set (snd v). tunnel (snd (snd x)) \<noteq> tunnel (p_AllowedIPs p)"
  shows "\<exists>v'. key_step v v' \<and> has_keys v' d'"
proof (intro exI[of _ "keys d'"] conjI)
  show "has_keys (keys d') d'" using CreatePeer_inv[OF _ assms(2)] assms(1) by (simp add: has_keys_def)
  have v: "keys d = v" using assms(1) by (simp add: has_keys_def)
  show "key_step v (keys d')"
  proof (cases r)
    case (Inl e)
    then show ?thesis using CreatePeer_keys[OF assms(2)] v key_step.same by simp
  next
    case (Inr i)
    then have "keys d' = (fst v, snd v @ [(i, p_NetworkID p, p_AllowedIPs p)])" using CreatePeer_keys[OF assms(2)] v by simp
    then show ?thesis using key_step.add_peer[OF assms(3,4), of i] by simp
  qed
qed

lemma create_peer_stepped:
  assumes "has_keys v (w_db w)" "addr_inv v" "handleCreatePeer S r cb w = (x, w')"
  shows "stepped v w'"
proof (rule triple_stepped[OF assms(3)[unfolded handleCreatePeer_def install_peer_def answer_created_peer_def expiry_def] assms(1)],
    rule triple_skip_stepped[OF keeps_checks(6)], rule triple_skip_stepped[OF keeps_checks(5)], rule triple_skip_stepped[OF keeps_checks(1)],
    rule triple_learn_stepped[OF learn_network], goal_cases)
  case (1 nid req u n)
  then have net: "(nid, n_Subnet n) \<in> set (fst v)" and valid: "isValidPrivateCIDR (n_Subnet n)"
    using assms(2) by (auto simp: addr_inv_def net_key_def)
  show ?case
  proof (rule triple_learn_stepped[OF learn_db[OF keeps_keys(4), where
        F = "\<lambda>x. \<forall>l. x = Inr l \<longrightarrow> map peer_key l = filter (\<lambda>x. fst (snd x) = nid) (snd v)"]], (use ListPeers_key in blast)[],
      rule triple_learn_stepped[OF learn_or_error], rule triple_learn_stepped[OF learn_allocate[OF valid]], goal_cases)
    case (1 l existing i)
    then obtain c sn k where sn: "ParseCIDR (n_Subnet n) = Some (c, sn)" "v4_net k sn" "i \<in> set (host_range k sn)"
        and new: "IP_String i \<notin> IP_String ` set (used_ips existing)" by blast
    have len: "length i = 4" by (rule host_in_net(1)[OF sn(2,3)])
    have ok: "tunnel_ok (fst v) nid (server_allowed_ips req i)"
      unfolding tunnel_ok_def
    proof (intro exI[of _ "n_Subnet n"] conjI net)
      show "host_entry (n_Subnet n) (server_allowed_ips req i)"
        unfolding host_entry_def server_allowed_ips_def IP_String_v4[OF len] using sn
        by (intro exI[of _ c] exI[of _ sn] exI[of _ k] exI[of _ i]) auto
    qed
    have tn: "tunnel (server_allowed_ips req i) = v4_string i"
      unfolding server_allowed_ips_def IP_String_v4[OF len] append_assoc by (rule tunnel_v4[OF len])
    have fresh: "\<forall>x\<in>set (snd v). tunnel (snd (snd x)) \<noteq> tunnel (server_allowed_ips req i)"
    proof
      fix x assume x: "x \<in> set (snd v)"
      have okx: "tunnel_ok (fst v) (fst (snd x)) (snd (snd x))" using assms(2) x by (simp add: addr_inv_def)
      show "tunnel (snd (snd x)) \<noteq> tunnel (server_allowed_ips req i)"
      proof (cases "fst (snd x) = nid")
        case True
        then have "x \<in> set (map peer_key existing)" using 1(1,2) x by simp
        then obtain p where p: "p \<in> set existing" "snd (snd x) = p_AllowedIPs p" by (auto simp: peer_key_def)
        obtain s d y m q rest where q: "v4_net m y" "q \<in> set (host_range m y)" "snd (snd x) = v4_string q @ ''/32'' @ rest"
            "rest = [] \<or> hd rest = CHR '',''"
          using okx unfolding tunnel_ok_def host_entry_def by blast
        have lq: "length q = 4" by (rule host_in_net(1)[OF q(1,2)])
        have "v4_string q \<in> IP_String ` set (used_ips existing)" using used_ips_mem[OF p(1) _ q(4) lq] p(2) q(3) by simp
        then have "v4_string q \<noteq> v4_string i" using new IP_String_v4[OF len] by auto
        then show ?thesis unfolding tn q(3) tunnel_v4[OF lq] .
      next
        case False
        then show ?thesis using tunnel_other_net[OF _ okx ok] assms(2) by (cases v) simp
      qed
    qed
    show ?case
      by ((rule triple_skip_stepped, (intro keeps_rules)[])+, rule triple_stmt_stepped, erule (1) CreatePeer_step,
        simp add: new_peer_def ok, simp add: new_peer_def fresh, intro keeps_rules)
  qed
qed

section \<open>The API\<close>

datatype api_request =
    CreateNetworkReq Request "decode_error + createNetworkRequest" | ListNetworksReq | GetNetworkReq Request
  | UpdateNetworkReq Request "decode_error + updateNetworkRequest" | DeleteNetworkReq Request | EnableNetworkReq Request
  | DisableNetworkReq Request | ExportNetworkReq Request
  | CreatePeerReq Request "decode_error + createPeerRequest" | ListPeersReq Request | GetPeerReq Request
  | UpdatePeerReq Request "decode_error + updatePeerRequest" | DeletePeerReq Request | PeerConfigReq Request | PeerQRReq Request
  | EnablePeerReq Request | DisablePeerReq Request
  | CreateBridgeReq Request "decode_error + createBridgeRequest" | ListBridgesReq | GetBridgeReq Request
  | UpdateBridgeReq Request "decode_error + updateBridgeRequest" | DeleteBridgeReq Request

fun api :: "('k, 'n) Server \<Rightarrow> api_request \<Rightarrow> ('k, 'n) World \<Rightarrow> response \<times> ('k, 'n) World" where
  "api S (CreateNetworkReq r b) = handleCreateNetwork S r b"
| "api S ListNetworksReq = handleListNetworks S"
| "api S (GetNetworkReq r) = handleGetNetwork S r"
| "api S (UpdateNetworkReq r b) = handleUpdateNetwork S r b"
| "api S (DeleteNetworkReq r) = handleDeleteNetwork S r"
| "api S (EnableNetworkReq r) = handleEnableNetwork S r"
| "api S (DisableNetworkReq r) = handleDisableNetwork S r"
| "api S (ExportNetworkReq r) = handleExportNetwork S r"
| "api S (CreatePeerReq r b) = handleCreatePeer S r b"
| "api S (ListPeersReq r) = handleListPeers S r"
| "api S (GetPeerReq r) = handleGetPeer S r"
| "api S (UpdatePeerReq r b) = handleUpdatePeer S r b"
| "api S (DeletePeerReq r) = handleDeletePeer S r"
| "api S (PeerConfigReq r) = handlePeerConfig S r"
| "api S (PeerQRReq r) = handlePeerQR S r"
| "api S (EnablePeerReq r) = handleEnablePeer S r"
| "api S (DisablePeerReq r) = handleDisablePeer S r"
| "api S (CreateBridgeReq r b) = handleCreateBridge S r b"
| "api S ListBridgesReq = handleListBridges S"
| "api S (GetBridgeReq r) = handleGetBridge S r"
| "api S (UpdateBridgeReq r b) = handleUpdateBridge S r b"
| "api S (DeleteBridgeReq r) = handleDeleteBridge S r"

lemma api_world_inv: "\<lbrakk>world_inv w; api S q w = (x, w')\<rbrakk> \<Longrightarrow> world_inv w'"
  by (cases q) (auto dest: network_handlers_keep peer_handlers_keep bridge_handlers_keep)

lemma api_stepped: "\<lbrakk>has_keys v (w_db w); addr_inv v; api S q w = (x, w')\<rbrakk> \<Longrightarrow> stepped v w'"
  by (cases q) (auto dest: readers_stepped network_updates_stepped peer_updates_stepped delete_stepped
      create_network_stepped create_peer_stepped)

text \<open>
  The states the server can get into: a new database and a new firewall manager; a request;
  and any change from outside, of the kernel (peers roam, an administrator intervenes), the
  clocks, the random source and the failures of the database engine.
\<close>

inductive reachable :: "('k, 'n) Server \<Rightarrow> ('k, 'n) World \<Rightarrow> bool" for S where
  init: "reachable S \<lparr>w_db = empty_db\<lparr>encryptionKey := key\<rparr>, w_kernel = k, w_manager = NewManager, w_nft = n, w_keypairs = kps,
           w_psks = psks, w_nanos = t, w_random = rs, w_http = hs, w_attempts = at, w_ring = rb\<rparr>"
| outside: "reachable S w \<Longrightarrow> reachable S (w\<lparr>w_kernel := k, w_nft := n, w_keypairs := kps, w_psks := psks, w_nanos := t, w_random := rs, w_http := hs,
              w_attempts := at, w_ring := rb,
              w_db := (w_db w)\<lparr>now := t', entropy := ns, faults := fs\<rparr>\<rparr>)"
| request: "\<lbrakk>reachable S w; api S q w = (x, w')\<rbrakk> \<Longrightarrow> reachable S w'"

lemma keys_input [simp]: "keys (d\<lparr>now := t\<rparr>) = keys d"
  by (simp add: keys_def)

lemma reachable_inv:
  assumes "reachable S w"
  shows "world_inv w \<and> addr_inv (keys (w_db w))"
  using assms
proof (induction rule: reachable.induct)
  case (init key k n kps psks t)
  have "keys (empty_db\<lparr>encryptionKey := key\<rparr>) = ([], [])" by (simp add: keys_def empty_db_def)
  then show ?case by (simp add: world_inv_def db_inv_empty manager_inv_New addr_inv_def)
next
  case (outside w k n kps psks t t' ns fs)
  then show ?case by (simp add: world_inv_def)
next
  case (request w q x w')
  then have "has_keys (keys (w_db w)) (w_db w)" by (simp add: world_inv_def has_keys_def)
  then obtain v' where "key_step (keys (w_db w)) v'" "has_keys v' (w_db w')"
    using api_stepped request by (metis stepped_def)
  then show ?case using request api_world_inv key_step_inv by (auto simp: has_keys_def)
qed

section \<open>Properties\<close>

lemma first_state: "reachable S (sample_world empty_db k)"
  using reachable.init[of S None k "(None, [])" "[Some (''priv'', ''pub'')]" "[Some ''psk'']" 0]
  by (simp add: sample_world_def empty_db_def)

lemma second_state:
  "\<exists>x w'. api sample_server (CreateNetworkReq sample_request (Inr sample_create)) (sample_world empty_db []) = (x, w') \<and>
     length (networks (w_db w')) = 1 \<and> rules (w_manager w') \<noteq> []"
  using sample_create_valid by (simp add: create_eval)





end
