(* ===== verification/ApiSafety.thy ===== *)
theory ApiSafety
  imports Api
begin

text \<open>
  The handlers of networks, peers and bridges answer every request: in no reachable state does
  one dereference nil or search without end.
\<close>

definition stuck :: "response \<Rightarrow> bool" where
  "stuck r \<longleftrightarrow> resp_body r = Panicked \<or> resp_body r = Looping"

lemma stuck_simps [simp]:
  "\<not> stuck (writeError m c st)" "\<not> stuck (internal_error m)" "\<not> stuck (writeValidationError fs)" "\<not> stuck bad_duration" "\<not> stuck bad_direction"
  "\<not> stuck (not_found what i)" "stuck (writeJSON st b) \<longleftrightarrow> b = Panicked \<or> b = Looping"
  by (simp_all add: stuck_def writeError_def internal_error_def writeValidationError_def writeJSON_def bad_duration_def bad_direction_def not_found_def)

definition answers :: "('w \<Rightarrow> bool) \<Rightarrow> ('w, response) handler \<Rightarrow> bool" where
  "answers P m \<longleftrightarrow> triple P m (\<lambda>r _. \<not> stuck r) (\<lambda>r _. \<not> stuck r)"

lemma answers_learn:
  assumes "triple P m (\<lambda>x w. P w \<and> F x) (\<lambda>_. P)" "never stuck m" "\<And>x. F x \<Longrightarrow> answers P (f x)"
  shows "answers P (andThen m f)"
  unfolding answers_def
proof (rule triple_andThen)
  show "triple P m (\<lambda>x w. P w \<and> F x) (\<lambda>r _. \<not> stuck r)"
    unfolding triple_def
  proof (intro allI impI)
    fix w assume w: "P w"
    obtain y v where m: "m w = (y, v)" by fastforce
    have "case (y, v) of (Inl r, w') \<Rightarrow> P w' | (Inr x, w') \<Rightarrow> P w' \<and> F x" using assms(1)[unfolded triple_def, rule_format, OF w] unfolding m .
    then show "case m w of (Inl r, w') \<Rightarrow> \<not> stuck r | (Inr x, w') \<Rightarrow> P w' \<and> F x"
      using assms(2) m by (cases y) (auto simp: never_def)
  qed
  show "triple (\<lambda>w. P w \<and> F x) (f x) (\<lambda>r _. \<not> stuck r) (\<lambda>r _. \<not> stuck r)" for x
    using assms(3)[of x] by (intro triple_pure) (simp add: answers_def)
qed

lemma answers_step: "\<lbrakk>keeps P m; never stuck m; \<And>x. answers P (f x)\<rbrakk> \<Longrightarrow> answers P (andThen m f)"
  by (rule answers_learn[where F = "\<lambda>_. True"]) (auto simp: keeps_def)

lemma answers_end:
  "\<not> stuck r \<Longrightarrow> answers P (ret r)" "\<not> stuck r \<Longrightarrow> answers P (stop r)"
  "\<lbrakk>b \<Longrightarrow> answers P m; \<not> b \<Longrightarrow> answers P n\<rbrakk> \<Longrightarrow> answers P (if b then m else n)"
  "\<lbrakk>answers P m; \<And>x. answers P (h x)\<rbrakk> \<Longrightarrow> answers P (case y of None \<Rightarrow> m | Some x \<Rightarrow> h x)"
  "\<lbrakk>\<And>x. answers P (k x); \<And>x. answers P (h x)\<rbrakk> \<Longrightarrow> answers P (case z of Inl x \<Rightarrow> k x | Inr x \<Rightarrow> h x)"
  "(\<And>x y. answers P (l x y)) \<Longrightarrow> answers P (case p of (x, y) \<Rightarrow> l x y)"
  by (auto simp: answers_def triple_def ret_def stop_def split: option.splits sum.splits prod.splits)

lemma answers_serve:
  assumes "answers P m" "P w" "serve m w = (r, w')"
  shows "\<not> stuck r"
  by (rule triple_serve[of P m "\<lambda>r _. \<not> stuck r", OF assms(1)[unfolded answers_def] assms(2,3)])

lemma keeps_True: "keeps (\<lambda>_. True) m"
  by (simp add: keeps_def triple_def split: prod.splits sum.splits)

lemma never_stuck_input [never_rules]: "never stuck (decodeJSON b)" "never stuck (parse_id s what)"
  by (auto simp: decodeJSON_def parse_id_def intro!: never_rules split: sum.splits decode_error.splits)

lemma never_live [never_rules]: "never stuck (live_status S n)"
  by (auto simp: never_def live_status_def ret_def stop_def andThen_def wg_query_def time_Now_def split: option.splits prod.splits sum.splits)

lemmas api_programs = fetch_network_def fetch_peer_def fetch_parent_def fetch_bridge_def bridge_networks_def undo_interface_def or_undo_def
  apply_firewall_def answer_created_def install_network_def toggle_nat_def toggle_routing_def remove_bridge_rules_def remove_firewall_def
  raise_interface_def restore_firewall_def store_enabled_def expiry_def answer_created_peer_def install_peer_def
  apply_expiry_def peer_toggled_def client_config_def answer_created_bridge_def install_bridge_def redirect_bridge_def
  remove_bridge_def Let_def

text \<open>The handlers that never search or dereference.\<close>

lemma plain_handlers_answer:
  "handleListNetworks S w = (x, w') \<Longrightarrow> \<not> stuck x" "handleGetNetwork S r w = (x, w') \<Longrightarrow> \<not> stuck x"
  "handleUpdateNetwork S r b1 w = (x, w') \<Longrightarrow> \<not> stuck x" "handleDeleteNetwork S r w = (x, w') \<Longrightarrow> \<not> stuck x"
  "handleEnableNetwork S r w = (x, w') \<Longrightarrow> \<not> stuck x" "handleDisableNetwork S r w = (x, w') \<Longrightarrow> \<not> stuck x"
  "handleListPeers S r w = (x, w') \<Longrightarrow> \<not> stuck x" "handleGetPeer S r w = (x, w') \<Longrightarrow> \<not> stuck x"
  "handleUpdatePeer S r b2 w = (x, w') \<Longrightarrow> \<not> stuck x" "handleDeletePeer S r w = (x, w') \<Longrightarrow> \<not> stuck x"
  "handleEnablePeer S r w = (x, w') \<Longrightarrow> \<not> stuck x" "handleDisablePeer S r w = (x, w') \<Longrightarrow> \<not> stuck x"
  "handlePeerConfig S r w = (x, w') \<Longrightarrow> \<not> stuck x" "handlePeerQR S r w = (x, w') \<Longrightarrow> \<not> stuck x"
  "handleCreateBridge S r b3 w = (x, w') \<Longrightarrow> \<not> stuck x" "handleListBridges S w = (x, w') \<Longrightarrow> \<not> stuck x"
  "handleGetBridge S r w = (x, w') \<Longrightarrow> \<not> stuck x" "handleUpdateBridge S r b4 w = (x, w') \<Longrightarrow> \<not> stuck x"
  "handleDeleteBridge S r w = (x, w') \<Longrightarrow> \<not> stuck x"
  unfolding handleListNetworks_def handleGetNetwork_def handleUpdateNetwork_def handleDeleteNetwork_def
    handleEnableNetwork_def handleDisableNetwork_def handleListPeers_def handleGetPeer_def handleUpdatePeer_def handleDeletePeer_def
    handleEnablePeer_def handleDisablePeer_def handlePeerConfig_def handlePeerQR_def handleCreateBridge_def handleListBridges_def
    handleGetBridge_def handleUpdateBridge_def handleDeleteBridge_def api_programs fetch_network_def
  by (erule answers_serve[where P = "\<lambda>_. True", rotated 2]; (intro answers_step answers_end keeps_True never_rules TrueI; simp))+

text \<open>A check that fails answers; what it checked holds afterwards.\<close>

lemma answers_checked:
  "\<lbrakk>b \<Longrightarrow> answers P (f ()); \<not> b \<Longrightarrow> \<not> stuck s\<rbrakk> \<Longrightarrow> answers P (andThen (check b s) f)"
  "\<lbrakk>\<And>x. y = Some x \<Longrightarrow> answers P (g x); y = None \<Longrightarrow> \<not> stuck s\<rbrakk> \<Longrightarrow> answers P (andThen (or_none y s) g)"
  "\<lbrakk>\<And>x. z = Inr x \<Longrightarrow> answers P (h x); \<not> stuck s\<rbrakk> \<Longrightarrow> answers P (andThen (or_error z s) h)"
  by (auto simp: answers_def triple_def andThen_def check_def or_none_def or_error_def ret_def stop_def split: option.splits sum.splits)

lemma some_subnet: "isValidPrivateCIDR s \<Longrightarrow> map_option snd (ParseCIDR s) \<noteq> None"
  using isValidPrivateCIDR_parse by fastforce

lemma some_name: "nextInterfaceName ns \<noteq> None"
  using nextInterfaceName_spec[of ns] by auto

lemma conflict_answers: "network_conflict req sn ns = Some x \<Longrightarrow> \<not> stuck x"
  by (auto simp: network_conflict_def split: option.splits if_splits)

lemma install_network_answers: "answers (\<lambda>_. True) (install_network S r n)"
  unfolding api_programs by (intro answers_step answers_end keeps_True never_rules; simp)

lemma create_network_answers:
  assumes "handleCreateNetwork S r b w = (x, w')"
  shows "\<not> stuck x"
proof (rule answers_serve[OF _ TrueI assms[unfolded handleCreateNetwork_def]],
    ((rule answers_checked | rule answers_step[OF keeps_True], (intro never_rules; fail)[1])+), goal_cases)
  case (1 req ns existing sn)
  show ?case
    by (cases "network_conflict req sn existing")
      (auto intro!: answers_end answers_step[OF keeps_True] answers_checked never_rules install_network_answers dest: conflict_answers simp: some_name)
next
  case (2 req ns existing)
  then show ?case using some_subnet[of "cn_Subnet req"] by (auto simp: validateCreateNetwork_Nil)
qed simp_all

text \<open>Handlers that use the subnet of a stored network; \<open>v\<close> are the networks and peers of the database.\<close>

lemma never_stuck_fetch: "never stuck (fetch_network S i)"
  unfolding fetch_network_def by (intro never_rules; simp)

lemma stored_subnet: "addr_inv v \<Longrightarrow> net_key n \<in> set (fst v) \<Longrightarrow> isValidPrivateCIDR (n_Subnet n)"
  by (auto simp: addr_inv_def net_key_def)

lemma export_answers:
  assumes "has_keys v (w_db w)" "addr_inv v" "handleExportNetwork S r w = (x, w')"
  shows "\<not> stuck x"
proof (rule answers_serve[where P = "\<lambda>w. has_keys v (w_db w)", OF _ assms(1) assms(3)[unfolded handleExportNetwork_def]],
    rule answers_step[OF keeps_checks(6)], (intro never_rules)[], rule answers_learn[OF learn_network never_stuck_fetch], goal_cases)
  case (1 nid n)
  then have "map_option snd (ParseCIDR (n_Subnet n)) \<noteq> None" using some_subnet stored_subnet[OF assms(2)] by blast
  then show ?case
    by (intro answers_step[OF keeps_keys(4)] never_rules answers_checked(2,3) answers_end; simp)
qed

lemma allocate_answers: "isValidPrivateCIDR (n_Subnet n) \<Longrightarrow> never stuck (allocate_ip n ps :: (('k, 'n) World, ip) handler)"
proof -
  assume valid: "isValidPrivateCIDR (n_Subnet n)"
  obtain c sn k where sn: "ParseCIDR (n_Subnet n) = Some (c, sn)" "v4_net k sn" "16 \<le> k" using isValidPrivateCIDR_parse[OF valid] by auto
  let ?a = "\<lparr>subnet = sn, used = {IP_String (net_ip sn), IP_String (addr4 (base sn + 1))} \<union> IP_String ` set (used_ips ps)\<rparr>"
  have new: "NewIPAllocator (map_option snd (ParseCIDR (n_Subnet n))) (used_ips ps) = Inr ?a"
    unfolding sn(1) option.map snd_conv by (rule NewIPAllocator_v4[OF sn(2)])
  obtain res where alloc: "Allocate ?a = Some res" using Allocate_v4[of k ?a] sn(2,3) by simp
  have "(allocate_ip n ps :: (('k, 'n) World, ip) handler) = or_error (fst res) (writeError (''no available IPs in subnet '' @ n_Subnet n) ''IP_POOL_EXHAUSTED'' 409)"
    unfolding allocate_ip_def new by (simp only: or_error_def sum.case andThen_ret alloc or_none_def option.case)
  then show "never stuck (allocate_ip n ps :: (('k, 'n) World, ip) handler)" by (simp only:) (intro never_rules; simp)
qed

lemma install_peer_answers: "answers (\<lambda>_. True) (install_peer S r n nid p)"
  unfolding api_programs by (intro answers_step answers_end keeps_True never_rules; simp)

lemma never_stuck_expiry [never_rules]: "never stuck (expiry S s)"
  unfolding expiry_def by (intro never_rules; simp)

lemma create_peer_answers:
  assumes "has_keys v (w_db w)" "addr_inv v" "handleCreatePeer S r b w = (x, w')"
  shows "\<not> stuck x"
proof (rule answers_serve[where P = "\<lambda>w. has_keys v (w_db w)", OF _ assms(1) assms(3)[unfolded handleCreatePeer_def]],
    rule answers_step[OF keeps_checks(6)], (intro never_rules)[], rule answers_step[OF keeps_checks(5)], (intro never_rules)[],
    rule answers_checked(1), rule answers_learn[OF learn_network never_stuck_fetch], goal_cases)
  case (1 nid req n)
  then have valid: "isValidPrivateCIDR (n_Subnet n)" using stored_subnet[OF assms(2)] by blast
  have top: "answers (\<lambda>w. has_keys v (w_db w)) m" if "answers (\<lambda>_. True) m" for m :: "(('a, 'b) World, response) handler"
    using that by (simp add: answers_def triple_def)
  show ?case
    by (rule top) (intro answers_step[OF keeps_True] never_rules allocate_answers[OF valid] install_peer_answers; simp)
qed simp



end
