(* ===== verification/PeerEffects.thy ===== *)
theory PeerEffects
  imports PeerRoutes NetworkEffects
begin

text \<open>
  What the handlers of peers do to the database and to the kernel.
\<close>

section \<open>Runs\<close>

lemma fetch_peer_run [run_simps]:
  "fetch_peer S nid pid w = (Inr p, w') \<longleftrightarrow> (\<exists>d. GetPeerByID (aead_of S) pid (w_db w) = (Inr (Some p), d) \<and> p_NetworkID p = nid \<and> w' = w\<lparr>w_db := d\<rparr>)"
  by (auto simp: fetch_peer_def run_simps split: option.splits if_splits)

lemma or_nil_Some [simp]: "or_nil g = Some v \<longleftrightarrow> g = Inr (Some v)"
  by (auto simp: or_nil_def split: sum.splits)

lemma fetch_parent_run [run_simps]:
  "fetch_parent S nid w = (Inr n, w') \<longleftrightarrow> (\<exists>d. GetNetworkByID (aead_of S) nid (w_db w) = (Inr (Some n), d) \<and> w' = w\<lparr>w_db := d\<rparr>)"
  by (auto simp: fetch_parent_def run_simps)

lemma never_peer [never_rules]: "never success (fetch_peer S nid pid)" "never success (fetch_parent S nid)"
  "never success (expiry S e)" "never success (apply_expiry S f p)" "never success (allocate_ip n ps)" "never success (install_peer S r n nid q)"
  unfolding fetch_peer_def fetch_parent_def expiry_def apply_expiry_def allocate_ip_def install_peer_def answer_created_peer_def bad_duration_def
  by (intro never_rules; simp add: not_found_def)+

lemma GetPeerByID_row:
  assumes "GetPeerByID A i d = (Inr (Some p), d')"
  shows "\<exists>row\<in>set (peers d). p_ID row = i \<and> p = row\<lparr>p_PrivateKey := p_PrivateKey p, p_PresharedKey := p_PresharedKey p\<rparr>"
proof -
  obtain f d1 where f: "db_fault d = (f, d1)" by (cases "db_fault d")
  have "peers d1 = peers d" using f by (auto simp: db_fault_def split: list.splits)
  then obtain q where q: "find (\<lambda>p. p_ID p = i) (peers d) = Some q" "decryptPeerKeys A (encryptionKey d1) q = Inr p"
    using assms f by (auto simp: GetPeerByID_def split: if_splits option.splits sum.splits)
  then show ?thesis using find_Some_set[OF q(1)] by (auto simp: decryptPeerKeys_def split: sum.splits)
qed

text \<open>A fetched row is the stored one but for the keys.\<close>

lemma fetched_peer:
  assumes "GetPeerByID A j d = (Inr (Some p0), d')" "distinct (map p_ID (peers d))" "p \<in> set (peers d)" "p_ID p = j"
  shows "\<exists>sk psk. p0 = p\<lparr>p_PrivateKey := sk, p_PresharedKey := psk\<rparr>"
  using GetPeerByID_row[OF assms(1)] key_unique[OF assms(2) _ assms(3)] assms(4) by metis

lemma fetched_network:
  assumes "GetNetworkByID A i d = (Inr (Some n0), d')" "distinct (map n_ID (networks d))" "n \<in> set (networks d)" "n_ID n = i"
  shows "\<exists>sk. n0 = n\<lparr>n_PrivateKey := sk\<rparr>"
  using GetNetworkByID_row[OF assms(1)] key_unique[OF assms(2) _ assms(3)] assms(4) by metis

lemma UpdatePeer_rows:
  assumes "UpdatePeer A p d = (None, d')"
  shows "networks d' = networks d \<and> (\<exists>sk psk t. peers d' =
    map (\<lambda>q. if p_ID q = p_ID p then set_peer (p\<lparr>p_PrivateKey := sk, p_PresharedKey := psk\<rparr>) t q else q) (peers d))"
proof -
  obtain k d1 where e: "encrypt_field A True (p_PrivateKey p) d = (k, d1)" by (cases "encrypt_field A True (p_PrivateKey p) d")
  obtain l d2 where e2: "encrypt_field A True (p_PresharedKey p) d1 = (l, d2)" by (cases "encrypt_field A True (p_PresharedKey p) d1")
  have same: "peers d2 = peers d" "networks d2 = networks d"
    using encrypt_field_frame[OF e] encrypt_field_frame[OF e2] by (metis DB.ext_inject DB.surjective DB.update_convs(12))+
  obtain a b where ab: "k = Inr a" "l = Inr b" using assms e e2 by (auto simp: UpdatePeer_def split: sum.splits)
  obtain f d3 where f: "db_fault d2 = (f, d3)" by (cases "db_fault d2")
  have "peers d3 = peers d2" "networks d3 = networks d2" using f by (auto simp: db_fault_def split: list.splits)
  then show ?thesis using assms e e2 ab f same
    by (intro conjI exI[of _ a] exI[of _ b] exI[of _ "now d3"]) (auto simp: UpdatePeer_def update_peer_def split: if_splits)
qed

lemma CreatePeer_row:
  assumes "CreatePeer A p d = (Inr i, d')"
  shows "\<exists>q. peers d' = peers d @ [q] \<and> networks d' = networks d \<and> p_ID q = i \<and>
    q = p\<lparr>p_ID := i, p_PrivateKey := p_PrivateKey q, p_PresharedKey := p_PresharedKey q, p_CreatedAt := now d', p_UpdatedAt := now d'\<rparr>"
proof -
  obtain k d1 where e: "encrypt_field A False (p_PrivateKey p) d = (k, d1)" by (cases "encrypt_field A False (p_PrivateKey p) d")
  obtain l d2 where e2: "encrypt_field A False (p_PresharedKey p) d1 = (l, d2)" by (cases "encrypt_field A False (p_PresharedKey p) d1")
  have same: "peers d2 = peers d" "networks d2 = networks d"
    using encrypt_field_frame[OF e] encrypt_field_frame[OF e2] by (metis DB.ext_inject DB.surjective DB.update_convs(12))+
  obtain f d3 where f: "db_fault d2 = (f, d3)" by (cases "db_fault d2")
  have "peers d3 = peers d2" "networks d3 = networks d2" using f by (auto simp: db_fault_def split: list.splits)
  then show ?thesis
    using assms e e2 f same by (auto simp: CreatePeer_def insert_peer_def Let_def split: sum.splits if_splits)
qed

text \<open>The end of the two toggling handlers only reads.\<close>

lemma peer_toggled_frame:
  assumes "peer_toggled S r nid pid p word w = (Inr x, w')"
  shows "peers (w_db w') = peers (w_db w)" "networks (w_db w') = networks (w_db w)" "w_kernel w' = w_kernel w"
  using assms query_frame(3)[of "aead_of S" pid "w_db w"] unfolding peer_toggled_def by (auto simp: run_simps)

lemma never_toggled [never_rules]: "never P (peer_toggled S r nid pid p word)"
  unfolding peer_toggled_def by (intro never_rules)

text \<open>Removing a peer from an interface that exists, on a kernel that does not fail.\<close>

lemma RemovePeer_reliable:
  assumes "kernel_ok K view" "kernel_reliable K view" "view k i = Some d" "RemovePeer K i key k = (e, k')"
  shows "view k' = (view k)(i := Some (d\<lparr>v_peers := (v_peers d)(key := None)\<rparr>))"
  using reliable_configure_peer[OF assms(1-3), of "remove_cfg key"] assms(4)
  by (simp add: RemovePeer_def apply_peer_def remove_cfg_def Let_def)

lemma build_cfg:
  assumes "buildPeerConfig q up = Some c"
  shows "pc_PublicKey c = pr_PublicKey q" "\<not> pc_Remove c" "pc_UpdateOnly c = up" "pc_ReplaceAllowedIPs c"
    "parseAllowedIPs (pr_AllowedIPs q) = Some (pc_AllowedIPs c)"
  using assms by (auto simp: buildPeerConfig_def split: option.splits)

lemma UpdatePeer_wg_keeps:
  assumes "kernel_ok K view" "UpdatePeer_wg K i q k = (None, k')" "view k i = Some d" "v_peers d key \<noteq> None"
  shows "\<exists>d'. view k' i = Some d' \<and> v_peers d' key \<noteq> None"
proof -
  obtain c where c: "buildPeerConfig q True = Some c" and v: "view k' = (view k)(i := Some (d\<lparr>v_peers := apply_peer c (v_peers d)\<rparr>))"
    using configure_peer_view(2)[OF assms(1) assms(2)[unfolded UpdatePeer_wg_def]] assms(3) by auto
  have "apply_peer c (v_peers d) key \<noteq> None" using build_cfg(2)[OF c] assms(4) by (auto simp: apply_peer_def Let_def)
  then show ?thesis using v by simp
qed

lemma AddPeer_adds:
  assumes "kernel_ok K view" "AddPeer K i q k = (None, k')"
  shows "\<exists>nets d d' vp. parseAllowedIPs (pr_AllowedIPs q) = Some nets \<and> view k i = Some d \<and> view k' = (view k)(i := Some d') \<and>
    v_peers d' (pr_PublicKey q) = Some vp \<and> v_allowed vp = set nets"
proof -
  obtain c d where c: "buildPeerConfig q False = Some c" and d: "view k i = Some d"
      and v: "view k' = (view k)(i := Some (d\<lparr>v_peers := apply_peer c (v_peers d)\<rparr>))"
    using configure_peer_view(2)[OF assms(1) assms(2)[unfolded AddPeer_def]] by auto
  then show ?thesis using build_cfg[OF c]
    by (intro exI[of _ "pc_AllowedIPs c"] exI[of _ d] exI[of _ "d\<lparr>v_peers := apply_peer c (v_peers d)\<rparr>"]) (auto simp: apply_peer_def set_vpeer_def Let_def)
qed

lemma install_peer_run:
  assumes "install_peer S r n nid p w = (Inr x, w')" "wgManager S = Some K"
  shows "\<exists>k pid d. AddPeer K (n_Interface n) (peer_cfg p) (w_kernel w) = (None, k) \<and> CreatePeer (aead_of S) p (w_db w) = (Inr pid, d) \<and>
    peers (w_db w') = peers d \<and> networks (w_db w') = networks d \<and> w_kernel w' = k"
proof -
  obtain k res d where 1: "AddPeer K (n_Interface n) (peer_cfg p) (w_kernel w) = (None, k)" "CreatePeer (aead_of S) p (w_db w) = (res, d)"
    and rest: "(case res of
        Inl _ \<Rightarrow> andThen (wg_call S (\<lambda>K. RemovePeer K (n_Interface n) (p_PublicKey p))) (\<lambda>_.
                 stop (internal_error ''failed to create peer''))
      | Inr pid \<Rightarrow> answer_created_peer S r nid pid) (w\<lparr>w_kernel := k, w_db := d\<rparr>) = (Inr x, w')"
    using assms unfolding install_peer_def by (auto simp: run_simps)
  obtain pid where pid: "res = Inr pid" using rest by (cases res) (auto simp: run_simps)
  then show ?thesis using 1 rest query_frame(3)[of "aead_of S" pid d]
    by (intro exI[of _ k] exI[of _ pid] exI[of _ d]) (auto simp: answer_created_peer_def run_simps)
qed

lemma apply_expiry_frame: "apply_expiry S e p w = (Inr p', w') \<Longrightarrow> w' = w"
  by (auto simp: apply_expiry_def expiry_def run_simps split: option.splits if_splits)

lemma apply_expiry_fields:
  assumes "apply_expiry S e p w = (Inr p', w')"
  shows "\<exists>t. p' = p\<lparr>p_ExpiresAt := t\<rparr>"
  using assms by (auto simp: apply_expiry_def expiry_def run_simps split: option.splits if_splits intro: exI[of _ "p_ExpiresAt p"])

text \<open>A network with one peer, for the witnesses.\<close>

definition peer_row :: Peer where
  "peer_row = \<lparr>p_ID = 1, p_NetworkID = 1, p_Name = ''laptop'', p_Email = [], p_PrivateKey = ''a'', p_PublicKey = ''A'',
     p_PresharedKey = ''s'', p_AllowedIPs = ''10.0.0.2/32'', p_Endpoint = [], p_PersistentKeepalive = 25, p_Role = ''client'',
     p_SiteNetworks = [], p_Enabled = True, p_ExpiresAt = None, p_CreatedAt = 0, p_UpdatedAt = 0\<rparr>"

definition one_peer :: DB where
  "one_peer = one_network\<lparr>peers := [peer_row], peer_seq := 1\<rparr>"

definition one_dev :: sim_dev where
  "one_dev = sim_new_dev\<lparr>sd_peers := [(''A'', sim_new_peer)]\<rparr>"

lemma one_peer_inv: "world_inv (sample_world one_peer k)"
  using one_network_inv
  by (simp add: world_inv_def sample_world_def manager_inv_New db_inv_def peers_ok_def bridges_ok_def snapshots_ok_def ids_ok_def
      networks_ok_def one_peer_def one_network_def empty_db_def peer_row_def net_row_def)

lemmas peer_eval = handler_eval db_eval fetch_peer_def fetch_parent_def fetch_network_def peer_toggled_def RemovePeer_def UpdatePeer_wg_def
  AddPeer_def configure_peer_def sim_kernel_def sim_on_dev_def one_peer_def one_network_def peer_row_def net_row_def Atoi_1

lemma sample_peer_facts:
  "Atoi (rq_id sample_request) = Some 1" "Atoi (rq_pid sample_request) = Some 1" "wgManager sample_server = Some sim_kernel"
  "peer_row \<in> set (peers (w_db (sample_world one_peer k)))" "p_ID peer_row = 1" "p_Enabled peer_row" "p_PublicKey peer_row = ''A''"
  "(net_row ''wg0'' 51820 ''k'')\<lparr>n_ID := 1\<rparr> \<in> set (networks (w_db (sample_world one_peer k)))" "n_ID ((net_row ''wg0'' 51820 ''k'')\<lparr>n_ID := 1\<rparr>) = 1"
  "n_Enabled ((net_row ''wg0'' 51820 ''k'')\<lparr>n_ID := 1\<rparr>)" "n_Interface ((net_row ''wg0'' 51820 ''k'')\<lparr>n_ID := 1\<rparr>) = ''wg0''"
  "w_kernel (sample_world one_peer k) = k" "sim_view [(''wg0'', one_dev)] ''wg0'' = Some (view_dev one_dev)" "v_peers (view_dev one_dev) ''A'' \<noteq> None"
  by (simp_all add: sample_request_def sample_server_def sample_world_def one_peer_def one_network_def peer_row_def net_row_def Atoi_1
      sim_view_def view_dev_def view_peers_def one_dev_def)

section \<open>Properties\<close>

text \<open>
  C8.  \<open>handleDisablePeer\<close> cuts the peer off: when it answers 200 for an enabled peer of an
  enabled network whose interface exists, and the kernel does not fail, then the peer's row is
  disabled, the interface no longer has the peer, and every other row, peer and interface is as
  it was.
\<close>

theorem handleDisablePeer_effect:
  assumes "handleDisablePeer S r w = (x, w')" "status x = 200" "Atoi (rq_id r) = Some i" "Atoi (rq_pid r) = Some j"
    and "wgManager S = Some K" "kernel_ok K view" "kernel_reliable K view" "world_inv w"
    and "p \<in> set (peers (w_db w))" "p_ID p = j" "p_Enabled p"
    and "n \<in> set (networks (w_db w))" "n_ID n = i" "n_Enabled n" "view (w_kernel w) (n_Interface n) = Some d"
  shows "view (w_kernel w') = (view (w_kernel w))(n_Interface n := Some (d\<lparr>v_peers := (v_peers d)(p_PublicKey p := None)\<rparr>)) \<and>
    map p_ID (peers (w_db w')) = map p_ID (peers (w_db w)) \<and>
    (\<forall>q\<in>set (peers (w_db w')). if p_ID q = j then \<not> p_Enabled q else q \<in> set (peers (w_db w)))"
proof -
  have u: "distinct (map p_ID (peers (w_db w)))" "distinct (map n_ID (networks (w_db w)))"
    using assms(8) by (auto simp: world_inv_def db_inv_def networks_ok_def peers_ok_def dest: ids_ok_distinct)
  have "success x" using assms(2) by (simp add: success_def)
  from serve_success[OF assms(1)[unfolded handleDisablePeer_def] this]
  obtain p0 d0 where g: "GetPeerByID (aead_of S) j (w_db w) = (Inr (Some p0), d0)" "p_NetworkID p0 = i"
    and rest: "(if \<not> p_Enabled p0 then ret (writeJSON 200 (PeerBody (peerToResponse p0)))
     else andThen (fetch_parent S i) (\<lambda>n.
          andThen (on_db (UpdatePeer (aead_of S) (p0\<lparr>p_Enabled := False\<rparr>))) (\<lambda>e.
          andThen (no_error e (internal_error ''failed to update peer'')) (\<lambda>_.
          andThen (if n_Enabled n then wg_call S (\<lambda>K. RemovePeer K (n_Interface n) (p_PublicKey p0)) else ret None) (\<lambda>_.
          peer_toggled S r i j (p0\<lparr>p_Enabled := False\<rparr>) ''disabled''))))) (w\<lparr>w_db := d0\<rparr>) = (Inr x, w')"
    using assms(3,4) by (simp add: never_rules) (auto simp: run_simps)
  obtain sk0 psk0 where p0: "p0 = p\<lparr>p_PrivateKey := sk0, p_PresharedKey := psk0\<rparr>"
    using fetched_peer[OF g(1) u(1) assms(9,10)] by blast
  have fr0: "peers d0 = peers (w_db w)" "networks d0 = networks (w_db w)" using query_frame(3)[OF g(1)] by auto
  obtain n0 d1 d2 e k w3 where 1: "GetNetworkByID (aead_of S) i d0 = (Inr (Some n0), d1)"
    "UpdatePeer (aead_of S) (p0\<lparr>p_Enabled := False\<rparr>) d1 = (None, d2)"
    "(if n_Enabled n0 then wg_call S (\<lambda>K. RemovePeer K (n_Interface n0) (p_PublicKey p0)) else ret None) (w\<lparr>w_db := d2\<rparr>) = (Inr e, w3)"
    "peer_toggled S r i j (p0\<lparr>p_Enabled := False\<rparr>) ''disabled'' w3 = (Inr x, w')"
    using rest p0 assms(11) by (auto simp: andThen_run on_db_run check_run fetch_parent_run)
  obtain nk where n0: "n0 = n\<lparr>n_PrivateKey := nk\<rparr>"
    using fetched_network[OF 1(1) _ _ assms(13)] u(2) assms(12) fr0(2) by auto
  obtain k where k: "RemovePeer K (n_Interface n) (p_PublicKey p) (w_kernel w) = (e, k)" "w3 = w\<lparr>w_db := d2, w_kernel := k\<rparr>"
    using 1(3) n0 p0 assms(5,14) by (auto simp: run_simps)
  have fr1: "peers d1 = peers (w_db w)" using query_frame(1)[OF 1(1)] fr0 by auto
  obtain sk psk t where rows: "peers d2 = map (\<lambda>q. if p_ID q = j then set_peer (p0\<lparr>p_Enabled := False, p_PrivateKey := sk, p_PresharedKey := psk\<rparr>) t q else q) (peers (w_db w))"
    using UpdatePeer_rows[OF 1(2)] p0 assms(10) fr1 by auto
  have "view (w_kernel w') = (view (w_kernel w))(n_Interface n := Some (d\<lparr>v_peers := (v_peers d)(p_PublicKey p := None)\<rparr>))"
    using RemovePeer_reliable[OF assms(6,7,15) k(1)] peer_toggled_frame(3)[OF 1(4)] k(2) by simp
  moreover have "peers (w_db w') = peers d2" using peer_toggled_frame(1)[OF 1(4)] k(2) by simp
  ultimately show ?thesis by (auto simp: rows set_peer_def)
qed

theorem handleDisablePeer_effect_witness:
  "\<exists>x w' d. handleDisablePeer sample_server sample_request (sample_world one_peer [(''wg0'', one_dev)]) = (x, w') \<and>
     sim_view (w_kernel w') ''wg0'' = Some d \<and> v_peers d ''A'' = None"
proof -
  let ?w = "sample_world one_peer [(''wg0'', one_dev)]"
  obtain x w' where r: "handleDisablePeer sample_server sample_request ?w = (x, w')" and x: "status x = 200"
    by (simp add: handleDisablePeer_def peer_eval)
  from handleDisablePeer_effect[OF r x sample_peer_facts(1-3) sim_kernel_ok sim_kernel_reliable one_peer_inv sample_peer_facts(4-6) sample_peer_facts(8-10),
    unfolded sample_peer_facts, OF refl]
  show ?thesis using r by (intro exI[of _ x] exI[of _ w'] exI) auto
qed

text \<open>
  C6.  \<open>handleCreatePeer\<close>: when it answers 201, the database has one more peer, of the network of
  the path, with the requested name and role, enabled; and the interface of that network has
  the peer under its key with exactly the networks of its list, the other interfaces being
  as they were.
\<close>

theorem handleCreatePeer_effect:
  assumes "handleCreatePeer S r (Inr req) w = (x, w')" "status x = 201" "Atoi (rq_id r) = Some i"
    and "wgManager S = Some K" "kernel_ok K view" "world_inv w"
  shows "\<exists>p n nets d d' vp. peers (w_db w') = peers (w_db w) @ [p] \<and> networks (w_db w') = networks (w_db w) \<and>
    p_NetworkID p = i \<and> p_Name p = cp_Name req \<and> p_Role p = cp_Role req \<and> p_Enabled p \<and>
    n \<in> set (networks (w_db w)) \<and> n_ID n = i \<and> parseAllowedIPs (p_AllowedIPs p) = Some nets \<and>
    view (w_kernel w) (n_Interface n) = Some d \<and> view (w_kernel w') = (view (w_kernel w))(n_Interface n := Some d') \<and>
    v_peers d' (p_PublicKey p) = Some vp \<and> v_allowed vp = set nets"
proof -
  have "success x" using assms(2) by (simp add: success_def)
  from serve_success[OF assms(1)[unfolded handleCreatePeer_def] this]
  obtain n d0 l d1 ip keys psk ex where g: "GetNetworkByID (aead_of S) i (w_db w) = (Inr (Some n), d0)"
    and l: "ListPeersByNetworkID (aead_of S) i d0 = (Inr l, d1)"
    and I: "install_peer S r n i (new_peer req i ip keys psk ex) (w\<lparr>w_db := d1, w_keypairs := tl (w_keypairs w), w_psks := tl (w_psks w)\<rparr>) = (Inr x, w')"
    using assms(3)
    by (simp add: never_rules) (auto simp: run_simps allocate_ip_def expiry_def split: if_splits)
  let ?p = "new_peer req i ip keys psk ex"
  obtain k pid d2 where 1: "AddPeer K (n_Interface n) (peer_cfg ?p) (w_kernel w) = (None, k)" "CreatePeer (aead_of S) ?p d1 = (Inr pid, d2)"
      "peers (w_db w') = peers d2" "networks (w_db w') = networks d2" "w_kernel w' = k"
    using install_peer_run[OF I assms(4)] by auto
  obtain q where q: "peers d2 = peers d1 @ [q]" "networks d2 = networks d1"
      "q = ?p\<lparr>p_ID := pid, p_PrivateKey := p_PrivateKey q, p_PresharedKey := p_PresharedKey q, p_CreatedAt := now d2, p_UpdatedAt := now d2\<rparr>"
    using CreatePeer_row[OF 1(2)] by auto
  have f: "p_NetworkID q = i" "p_Name q = cp_Name req" "p_Role q = cp_Role req" "p_Enabled q" "p_PublicKey q = p_PublicKey ?p" "p_AllowedIPs q = p_AllowedIPs ?p"
    by (subst q(3), simp add: new_peer_def)+
  obtain row where row: "row \<in> set (networks (w_db w))" "n_ID row = i" "n = row\<lparr>n_PrivateKey := n_PrivateKey n\<rparr>"
    using GetNetworkByID_row[OF g] by blast
  have iface: "n_Interface n = n_Interface row" by (subst row(3)) simp
  have fr: "peers d1 = peers (w_db w)" "networks d1 = networks (w_db w)" using query_frame(1)[OF g] query_frame(4)[OF l] by auto
  obtain nets d d' vp where a: "parseAllowedIPs (p_AllowedIPs q) = Some nets" "view (w_kernel w) (n_Interface row) = Some d"
      "view k = (view (w_kernel w))(n_Interface row := Some d')" "v_peers d' (p_PublicKey q) = Some vp" "v_allowed vp = set nets"
    using AddPeer_adds[OF assms(5) 1(1)] f iface by (auto simp: peer_cfg_def)
  show ?thesis
    using f row(1,2) a 1(3-5) q(1,2) fr
    by (intro exI[of _ q] exI[of _ row] exI[of _ nets] exI[of _ d] exI[of _ d'] exI[of _ vp]) auto
qed

lemma first_ip:
  assumes "n_Subnet n = ''10.0.0.0/24''"
  shows "allocate_ip n [] w = (Inr [10, 0, 0, 2], w)"
proof -
  let ?sn = "\<lparr>net_ip = [10, 0, 0, 0], net_mask = mask_bytes 4 24\<rparr>"
  have sn: "map_option snd (ParseCIDR (n_Subnet n)) = Some ?sn"
    unfolding assms parse_net24 by (simp add: eval_nat_numeral)
  have v: "v4_net 24 ?sn" by (simp add: v4_net_def)
  have b: "base ?sn = 167772160" "block 24 = 256" by (simp_all add: base_def block_def)
  have a: "addr4 167772161 = [10, 0, 0, 1]" "addr4 167772162 = [10, 0, 0, 2]" by (simp_all add: addr4_def PutUint32_def)
  have h: "host_range 24 ?sn = [10, 0, 0, 2] # map addr4 [167772163..<167772415]"
    unfolding host_range_def b by (subst upt_conv_Cons) (simp_all add: a)
  have s: "IP_String [10, 0, 0, 0] = ''10.0.0.0''" "IP_String [10, 0, 0, 1] = ''10.0.0.1''" "IP_String [10, 0, 0, 2] = ''10.0.0.2''" by code_simp+
  let ?a = "\<lparr>subnet = ?sn, used = {''10.0.0.0'', ''10.0.0.1''}\<rparr>"
  have new: "NewIPAllocator (Some ?sn) [] = Inr ?a" by (simp add: NewIPAllocator_v4[OF v] b a s insert_commute)
  have alloc: "Allocate ?a = Some (Inr [10, 0, 0, 2], ?a\<lparr>used := insert ''10.0.0.2'' (used ?a)\<rparr>)"
    using Allocate_v4[of 24 ?a] v by (simp add: h first_free_def s)
  show ?thesis by (simp add: allocate_ip_def used_ips_def sn new alloc andThen_def or_error_def or_none_def ret_def)
qed

definition sample_new_peer :: createPeerRequest where
  "sample_new_peer = \<lparr>cp_Name = ''laptop'', cp_Email = [], cp_Role = ''client'', cp_PersistentKeepalive = 25, cp_SiteNetworks = [],
     cp_ExpiresIn = []\<rparr>"

lemma sample_new_peer_valid: "validateCreatePeer sample_new_peer = []"
  by code_simp

theorem handleCreatePeer_effect_witness:
  "\<exists>x w' p. handleCreatePeer sample_server sample_request (Inr sample_new_peer) (sample_world one_network [(''wg0'', sim_new_dev)]) = (x, w') \<and>
     peers (w_db w') = [p] \<and> p_Name p = ''laptop''"
proof -
  let ?w = "sample_world one_network [(''wg0'', sim_new_dev)]"
  obtain x w' where r: "handleCreatePeer sample_server sample_request (Inr sample_new_peer) ?w = (x, w')" and x: "status x = 201"
  proof -
    have "IP_String [10, 0, 0, 2] = ''10.0.0.2''" by code_simp
    then have "AddPeer sim_kernel ''wg0'' (peer_cfg (new_peer sample_new_peer 1 [10, 0, 0, 2] (''priv'', ''pub'') ''psk'' None)) [(''wg0'', sim_new_dev)]
        = (None, snd (sim_on_dev ''wg0'' (sim_config (no_config\<lparr>dc_Peers := [the (buildPeerConfig (peer_cfg (new_peer sample_new_peer 1 [10, 0, 0, 2] (''priv'', ''pub'') ''psk'' None)) False)]\<rparr>)) [(''wg0'', sim_new_dev)]))"
      by (simp add: AddPeer_def configure_peer_def buildPeerConfig_def new_peer_def server_allowed_ips_def sample_new_peer_def peer_cfg_def parse_ip2
          sim_kernel_def sim_on_dev_def)
    then show ?thesis
      using sample_new_peer_valid that
      by (simp add: handleCreatePeer_def first_ip sample_new_peer_def handler_eval db_eval fetch_network_def one_network_def net_row_def Atoi_1
          install_peer_def answer_created_peer_def new_peer_def)
  qed
  have s: "Atoi (rq_id sample_request) = Some 1" "wgManager sample_server = Some sim_kernel" "world_inv ?w" "peers (w_db ?w) = []"
    by (simp_all add: sample_request_def sample_server_def Atoi_1 world_inv_def sample_world_def one_network_inv manager_inv_New)
       (simp add: one_network_def empty_db_def)
  show ?thesis using handleCreatePeer_effect[OF r x s(1,2) sim_kernel_ok s(3)] s(4) r by (auto simp: sample_new_peer_def)
qed

text \<open>
  C31.  Disabling a peer through \<open>handleUpdatePeer\<close> does not cut it off: when the request sets
  \<open>enabled\<close> to false and the answer is 200, the peer's row is disabled and the interface still has
  the peer.
\<close>

theorem handleUpdatePeer_disable_leaves_peer:
  assumes "handleUpdatePeer S r (Inr req) w = (x, w')" "status x = 200" "Atoi (rq_id r) = Some i" "Atoi (rq_pid r) = Some j"
    and "up_Enabled req = Some False" "wgManager S = Some K" "kernel_ok K view" "world_inv w"
    and "p \<in> set (peers (w_db w))" "p_ID p = j" "n \<in> set (networks (w_db w))" "n_ID n = i"
    and "view (w_kernel w) (n_Interface n) = Some d" "v_peers d (p_PublicKey p) \<noteq> None"
  shows "(\<exists>q\<in>set (peers (w_db w')). p_ID q = j \<and> \<not> p_Enabled q \<and> p_PublicKey q = p_PublicKey p) \<and>
    (\<exists>d'. view (w_kernel w') (n_Interface n) = Some d' \<and> v_peers d' (p_PublicKey p) \<noteq> None)"
proof -
  have u: "distinct (map p_ID (peers (w_db w)))" "distinct (map n_ID (networks (w_db w)))"
    using assms(8) by (auto simp: world_inv_def db_inv_def networks_ok_def peers_ok_def dest: ids_ok_distinct)
  have "success x" using assms(2) by (simp add: success_def)
  from serve_success[OF assms(1)[unfolded handleUpdatePeer_def] this]
  obtain p0 d0 n0 d1 p1 w1 k d3 g d4 where g: "GetPeerByID (aead_of S) j (w_db w) = (Inr (Some p0), d0)"
      "GetNetworkByID (aead_of S) i d0 = (Inr (Some n0), d1)"
      "apply_expiry S (up_ExpiresIn req) (apply_fields req p0) (w\<lparr>w_db := d1\<rparr>) = (Inr p1, w1)"
      "UpdatePeer_wg K (n_Interface n0) ((peer_cfg p1)\<lparr>pr_Enabled := p_Enabled p1\<rparr>) (w_kernel w1) = (None, k)"
      "UpdatePeer (aead_of S) p1 (w_db w1) = (None, d3)" "GetPeerByID (aead_of S) j d3 = (g, d4)"
      "peers (w_db w') = peers d4" "w_kernel w' = k"
    using assms(3,4,6) by (simp add: never_rules) (auto simp: run_simps)
  note 1 = g[unfolded apply_expiry_frame[OF g(3)], simplified]
  obtain sk psk where p0: "p0 = p\<lparr>p_PrivateKey := sk, p_PresharedKey := psk\<rparr>"
    using fetched_peer[OF 1(1) u(1) assms(9,10)] by blast
  have fr: "peers d0 = peers (w_db w)" "networks d0 = networks (w_db w)" "peers d1 = peers (w_db w)" "peers d4 = peers d3"
    using query_frame(3)[OF 1(1)] query_frame(1)[OF 1(2)] query_frame(3)[OF 1(6)] by auto
  obtain nk where n0: "n0 = n\<lparr>n_PrivateKey := nk\<rparr>" using fetched_network[OF 1(2) _ _ assms(12)] u(2) assms(11) fr(2) by auto
  have p1: "\<not> p_Enabled p1" "p_PublicKey p1 = p_PublicKey p" "p_ID p1 = j"
    using apply_expiry_fields[OF 1(3)] p0 assms(5,10) by (auto simp: apply_fields_def opt_set_def split: option.splits)
  obtain a b t where rows: "peers d3 = map (\<lambda>q. if p_ID q = j then set_peer (p1\<lparr>p_PrivateKey := a, p_PresharedKey := b\<rparr>) t q else q) (peers (w_db w))"
    using UpdatePeer_rows[OF 1(5)] p1(3) fr(3) by auto
  have "set_peer (p1\<lparr>p_PrivateKey := a, p_PresharedKey := b\<rparr>) t p \<in> set (peers (w_db w'))"
    using assms(9,10) fr(4) 1(7) unfolding rows by (auto intro!: image_eqI[of _ _ p])
  then have "\<exists>q\<in>set (peers (w_db w')). p_ID q = j \<and> \<not> p_Enabled q \<and> p_PublicKey q = p_PublicKey p"
    using p1 assms(10) by (intro bexI) (simp_all add: set_peer_def)
  moreover have "\<exists>d'. view k (n_Interface n) = Some d' \<and> v_peers d' (p_PublicKey p) \<noteq> None"
    using UpdatePeer_wg_keeps[OF assms(7) 1(4)] n0 assms(13,14) by simp
  ultimately show ?thesis using 1(8) by simp
qed

definition disable_request :: updatePeerRequest where
  "disable_request = \<lparr>up_Name = None, up_Email = None, up_Enabled = Some False, up_PersistentKeepalive = None, up_Endpoint = None,
     up_ExpiresIn = None\<rparr>"

theorem handleUpdatePeer_disable_leaves_peer_witness:
  "\<exists>x w' d. handleUpdatePeer sample_server sample_request (Inr disable_request) (sample_world one_peer [(''wg0'', one_dev)]) = (x, w') \<and>
     sim_view (w_kernel w') ''wg0'' = Some d \<and> v_peers d ''A'' \<noteq> None"
proof -
  let ?w = "sample_world one_peer [(''wg0'', one_dev)]"
  have v: "validateUpdatePeer disable_request = []" "up_Enabled disable_request = Some False"
    by (simp_all add: validateUpdatePeer_def disable_request_def opt_ok_def)
  obtain x w' where r: "handleUpdatePeer sample_server sample_request (Inr disable_request) ?w = (x, w')" and x: "status x = 200"
    by (simp add: handleUpdatePeer_def peer_eval validateUpdatePeer_def opt_ok_def parse_ip2 apply_expiry_def apply_fields_def disable_request_def opt_set_def peer_cfg_def buildPeerConfig_def)
  from handleUpdatePeer_disable_leaves_peer[OF r x sample_peer_facts(1,2) v(2) sample_peer_facts(3) sim_kernel_ok one_peer_inv
      sample_peer_facts(4,5,8,9), unfolded sample_peer_facts, OF refl]
  show ?thesis using r sample_peer_facts(14) by auto
qed

end
