(* ===== verification/BridgeEffects.thy ===== *)
theory BridgeEffects
  imports BridgeRoutes NetworkEffects
begin

text \<open>
  What the handlers of bridges do to the database and to the firewall.
\<close>

section \<open>Runs\<close>

lemma never_bridge [never_rules]: "never success (fetch_bridge S i)" "never P (bridge_networks S b)" "never success (install_bridge S r req n m)"
  unfolding fetch_bridge_def bridge_networks_def install_bridge_def answer_created_bridge_def not_found_def by (intro never_rules; simp)+

lemma CreateBridge_row:
  assumes "CreateBridge b d = (Inr i, d')"
  shows "bridges d' = bridges d @ [b\<lparr>b_ID := i, b_CreatedAt := now d', b_UpdatedAt := now d'\<rparr>]" "networks d' = networks d"
  using assms by (auto simp: CreateBridge_def Let_def db_fault_def split: prod.splits if_splits list.splits)

lemma bridge_query_frame:
  "GetBridgeByID i d = (r, d') \<Longrightarrow> bridges d' = bridges d \<and> networks d' = networks d"
  "BridgeExistsBetween i j d = (q, d') \<Longrightarrow> bridges d' = bridges d \<and> networks d' = networks d"
  by (auto simp: GetBridgeByID_def BridgeExistsBetween_def db_fault_def split: prod.splits if_splits list.splits)

lemma BridgeExistsBetween_False:
  assumes "BridgeExistsBetween i j d = (Inr False, d')"
  shows "\<forall>c\<in>set (bridges d). \<not> (b_NetworkAID c = i \<and> b_NetworkBID c = j \<or> b_NetworkAID c = j \<and> b_NetworkBID c = i)"
  using assms by (auto simp: BridgeExistsBetween_def db_fault_def filter_empty_conv split: prod.splits if_splits list.splits)

lemma install_bridge_run:
  assumes "install_bridge S r req n m w = (Inr x, w')" "nftManager S = Some E"
  shows "\<exists>ma k bid d. AddNetworkBridge E (n_Interface n) (n_Interface m) (cb_Direction req) (w_manager w) (w_nft w) = (None, ma, k) \<and>
    CreateBridge (new_bridge req) (w_db w) = (Inr bid, d) \<and> bridges (w_db w') = bridges d \<and> networks (w_db w') = networks d \<and> w_manager w' = ma"
proof -
  obtain ma k res d where 1: "AddNetworkBridge E (n_Interface n) (n_Interface m) (cb_Direction req) (w_manager w) (w_nft w) = (None, ma, k)"
      "CreateBridge (new_bridge req) (w_db w) = (res, d)"
    and rest: "(case res of
        Inl _ \<Rightarrow> andThen (nft_call S (\<lambda>E. RemoveNetworkBridge E (n_Interface n) (n_Interface m))) (\<lambda>_.
                 stop (internal_error ''failed to create bridge''))
      | Inr bid \<Rightarrow> answer_created_bridge S r req n m bid) (w\<lparr>w_manager := ma, w_nft := k, w_db := d\<rparr>) = (Inr x, w')"
    using assms unfolding install_bridge_def by (auto simp: run_simps)
  obtain bid where bid: "res = Inr bid" using rest by (cases res) (auto simp: run_simps)
  then show ?thesis using 1 rest bridge_query_frame(1)[of bid d]
    by (intro exI[of _ ma] exI[of _ k] exI[of _ bid] exI[of _ d]) (auto simp: answer_created_bridge_def run_simps)
qed

text \<open>Programs that do not touch the firewall.\<close>

lemma keeps_firewall:
  "keeps (\<lambda>w. F (w_manager w) (w_nft w)) (on_db f)" "keeps (\<lambda>w. F (w_manager w) (w_nft w)) (auditLog r a s t)"
  by (auto simp: keeps_def triple_def on_db_def auditLog_def Let_def andThen_def ret_def split: prod.splits)

declare andThen_ret [simp]

lemma same_direction: "ub_Direction req = None \<Longrightarrow> redirect_bridge S b (update_fields req b) = ret ()"
  by (auto simp: redirect_bridge_def update_fields_def opt_set_def split: option.splits)

lemma fetch_bridge_run [run_simps]:
  "fetch_bridge S i w = (Inr b, w') \<longleftrightarrow> (\<exists>d. GetBridgeByID i (w_db w) = (Inr (Some b), d) \<and> w' = w\<lparr>w_db := d\<rparr>)"
  by (auto simp: fetch_bridge_def run_simps)

lemma GetBridgeByID_row:
  "GetBridgeByID i d = (Inr (Some b), d') \<Longrightarrow> b \<in> set (bridges d) \<and> b_ID b = i"
  by (auto simp: GetBridgeByID_def db_fault_def split: prod.splits if_splits list.splits dest: find_Some_set)

lemma UpdateBridge_rows:
  assumes "UpdateBridge b d = (None, d')"
  shows "\<exists>t. bridges d' = map (\<lambda>c. if b_ID c = b_ID b then c\<lparr>b_Direction := b_Direction b, b_AllowedCIDRs := b_AllowedCIDRs b,
    b_Enabled := b_Enabled b, b_UpdatedAt := t\<rparr> else c) (bridges d)"
  using assms by (intro exI[of _ "now d'"]) (auto simp: UpdateBridge_def db_fault_def split: prod.splits if_splits list.splits)

lemma bridge_networks_frame:
  assumes "bridge_networks S b w = (Inr ns, w')"
  shows "bridges (w_db w') = bridges (w_db w)"
  using assms query_frame(1) unfolding bridge_networks_def by (fastforce simp: run_simps)

section \<open>Properties\<close>

text \<open>
  C9.  \<open>handleCreateBridge\<close>: when it answers 201, two different existing networks that had no
  bridge in either direction are joined by one more row, enabled, with the requested direction;
  and the firewall has the rule of that bridge between their interfaces, the other rules being
  as they were.
\<close>

theorem handleCreateBridge_effect:
  assumes "handleCreateBridge S r (Inr req) w = (x, w')" "status x = 201" "nftManager S = Some E" "world_inv w"
  shows "\<exists>b n m. bridges (w_db w') = bridges (w_db w) @ [b] \<and> b_NetworkAID b = cb_NetworkAID req \<and> b_NetworkBID b = cb_NetworkBID req \<and>
    b_Direction b = cb_Direction req \<and> b_Enabled b \<and> b_NetworkAID b \<noteq> b_NetworkBID b \<and>
    (\<forall>c\<in>set (bridges (w_db w)). {b_NetworkAID c, b_NetworkBID c} \<noteq> {b_NetworkAID b, b_NetworkBID b}) \<and>
    n \<in> set (networks (w_db w)) \<and> n_ID n = b_NetworkAID b \<and> m \<in> set (networks (w_db w)) \<and> n_ID m = b_NetworkBID b \<and>
    rule_map (w_manager w') = (rule_map (w_manager w))(bridgeKey (n_Interface n) (n_Interface m) :=
      Some (mk_rule RuleBridgeForward (n_Interface n) (n_Interface m) [] (cb_Direction req) 0))"
proof -
  have "success x" using assms(2) by (simp add: success_def)
  from serve_success[OF assms(1)[unfolded handleCreateBridge_def] this]
  obtain netA d0 netB d1 d2 where ne: "cb_NetworkAID req \<noteq> cb_NetworkBID req"
    and g: "GetNetworkByID (aead_of S) (cb_NetworkAID req) (w_db w) = (Inr (Some netA), d0)"
      "GetNetworkByID (aead_of S) (cb_NetworkBID req) d0 = (Inr (Some netB), d1)"
      "BridgeExistsBetween (cb_NetworkAID req) (cb_NetworkBID req) d1 = (Inr False, d2)"
    and I: "install_bridge S r req netA netB (w\<lparr>w_db := d2\<rparr>) = (Inr x, w')"
    by (simp add: never_rules bad_direction_def) (auto simp: run_simps)
  obtain n where n: "n \<in> set (networks (w_db w))" "n_ID n = cb_NetworkAID req" "netA = n\<lparr>n_PrivateKey := n_PrivateKey netA\<rparr>"
    using GetNetworkByID_row[OF g(1)] by blast
  obtain m where m: "m \<in> set (networks d0)" "n_ID m = cb_NetworkBID req" "netB = m\<lparr>n_PrivateKey := n_PrivateKey netB\<rparr>"
    using GetNetworkByID_row[OF g(2)] by blast
  have i: "n_Interface netA = n_Interface n" "n_Interface netB = n_Interface m"
    by (subst n(3), simp) (subst m(3), simp)
  have fr: "networks d0 = networks (w_db w)" "bridges d1 = bridges (w_db w)" "bridges d2 = bridges (w_db w)"
    using query_frame(1)[OF g(1)] query_frame(1)[OF g(2)] bridge_query_frame(2)[OF g(3)] by auto
  obtain ma k bid d where 1: "AddNetworkBridge E (n_Interface n) (n_Interface m) (cb_Direction req) (w_manager w) (w_nft w) = (None, ma, k)"
      "CreateBridge (new_bridge req) d2 = (Inr bid, d)" "bridges (w_db w') = bridges d" "w_manager w' = ma"
    using install_bridge_run[OF I assms(3)] i by auto
  have inv: "manager_inv (w_manager w)" using assms(4) by (simp add: world_inv_def)
  have apart: "\<forall>c\<in>set (bridges (w_db w)). {b_NetworkAID c, b_NetworkBID c} \<noteq> {cb_NetworkAID req, cb_NetworkBID req}"
    using BridgeExistsBetween_False[OF g(3)] fr(2) by (auto simp: doubleton_eq_iff)
  show ?thesis
    using 1(3,4) CreateBridge_row(1)[OF 1(2)] AddNetworkBridge_contract(2)[OF inv 1(1) refl] fr n(1,2) m(1,2) ne apart
    by (intro exI[of _ "(new_bridge req)\<lparr>b_ID := bid, b_CreatedAt := now d, b_UpdatedAt := now d\<rparr>"] exI[of _ n] exI[of _ m])
       (auto simp: new_bridge_def)
qed

lemma handleUpdateBridge_stores:
  assumes "handleUpdateBridge S r (Inr req) w = (x, w')" "ub_Direction req = None" "Atoi (rq_id r) = Some i" "status x = 200"
  shows "(\<exists>b\<in>set (bridges (w_db w')). b_ID b = i) \<and>
    (\<forall>b\<in>set (bridges (w_db w')). b_ID b = i \<longrightarrow> ub_Enabled req = Some (b_Enabled b) \<or> ub_Enabled req = None)"
proof -
  have "success x" using assms(4) by (simp add: success_def)
  from serve_success[OF assms(1)[unfolded handleUpdateBridge_def] this]
  obtain b0 d0 d1 g d2 u ns w1 where 1: "GetBridgeByID i (w_db w) = (Inr (Some b0), d0)" "UpdateBridge (update_fields req b0) d0 = (None, d1)"
      "GetBridgeByID i d1 = (g, d2)" "bridge_networks S u (w\<lparr>w_db := d2\<rparr>) = (Inr ns, w1)" "bridges (w_db w') = bridges (w_db w1)"
    using assms(2,3)
    by (simp add: never_rules same_direction bad_direction_def decodeJSON_def) (auto simp: run_simps)
  have b0: "b0 \<in> set (bridges (w_db w))" "b_ID b0 = i" using GetBridgeByID_row[OF 1(1)] by auto
  have u: "b_ID (update_fields req b0) = i" "b_Enabled (update_fields req b0) = (case ub_Enabled req of None \<Rightarrow> b_Enabled b0 | Some v \<Rightarrow> v)"
    using b0(2) by (auto simp: update_fields_def opt_set_def split: option.splits)
  obtain t where rows: "bridges d1 = map (\<lambda>c. if b_ID c = i then c\<lparr>b_Direction := b_Direction (update_fields req b0),
      b_AllowedCIDRs := b_AllowedCIDRs (update_fields req b0), b_Enabled := b_Enabled (update_fields req b0), b_UpdatedAt := t\<rparr> else c) (bridges d0)"
    using UpdateBridge_rows[OF 1(2)] unfolding u(1) by blast
  have "bridges d0 = bridges (w_db w)" "bridges d2 = bridges d1" using bridge_query_frame(1) 1(1,3) by blast+
  then have w': "bridges (w_db w') = map (\<lambda>c. if b_ID c = i then c\<lparr>b_Direction := b_Direction (update_fields req b0),
      b_AllowedCIDRs := b_AllowedCIDRs (update_fields req b0), b_Enabled := b_Enabled (update_fields req b0), b_UpdatedAt := t\<rparr> else c) (bridges (w_db w))"
    using bridge_networks_frame[OF 1(4)] 1(5) rows by simp
  have "map b_ID (bridges (w_db w')) = map b_ID (bridges (w_db w))" unfolding w' by simp
  then have "i \<in> b_ID ` set (bridges (w_db w'))" using b0 by (metis imageI list.set_map)
  then have e: "\<exists>b\<in>set (bridges (w_db w')). b_ID b = i" by (metis imageE)
  have "ub_Enabled req = Some (b_Enabled b) \<or> ub_Enabled req = None" if b: "b \<in> set (bridges (w_db w'))" "b_ID b = i" for b
  proof -
    obtain c where c: "b = (if b_ID c = i then c\<lparr>b_Direction := b_Direction (update_fields req b0),
        b_AllowedCIDRs := b_AllowedCIDRs (update_fields req b0), b_Enabled := b_Enabled (update_fields req b0), b_UpdatedAt := t\<rparr> else c)"
      using b(1) unfolding w' set_map by blast
    have "b_Enabled b = b_Enabled (update_fields req b0)"
    proof (cases "b_ID c = i")
      case True
      then show ?thesis using c by simp
    next
      case False
      then show ?thesis using c b(2) by simp
    qed
    then show ?thesis using u(2) by (cases "ub_Enabled req") auto
  qed
  then show ?thesis using e by simp
qed

text \<open>
  C32.  \<open>handleUpdateBridge\<close> does not act on \<open>enabled\<close>: a request without a new direction leaves
  the firewall as it is, in memory and in the kernel, and a request that answers 200 stores
  the new value of \<open>enabled\<close>.  A bridge that is disabled so keeps forwarding.
\<close>

theorem handleUpdateBridge_ignores_enabled:
  assumes "handleUpdateBridge S r (Inr req) w = (x, w')" "ub_Direction req = None" "Atoi (rq_id r) = Some i"
  shows "w_manager w' = w_manager w \<and> w_nft w' = w_nft w \<and>
    (status x = 200 \<longrightarrow> (\<exists>b\<in>set (bridges (w_db w')). b_ID b = i) \<and>
       (\<forall>b\<in>set (bridges (w_db w')). b_ID b = i \<longrightarrow> ub_Enabled req = Some (b_Enabled b) \<or> ub_Enabled req = None))"
proof -
  have fw: "w_manager w' = w_manager w \<and> w_nft w' = w_nft w"
  proof (rule keeps_serve[where I = "\<lambda>v. w_manager v = w_manager w \<and> w_nft v = w_nft w", OF _ _ assms(1)[unfolded handleUpdateBridge_def]], goal_cases)
    case 1
    show ?case
      unfolding fetch_bridge_def bridge_networks_def decodeJSON_def sum.case andThen_ret same_direction[OF assms(2)]
      by (intro keeps_rules keeps_firewall[where F = "\<lambda>m n. m = w_manager w \<and> n = w_nft w"])
  qed simp
  then show ?thesis using handleUpdateBridge_stores[OF assms] by blast
qed

definition two_networks :: DB where
  "two_networks = empty_db\<lparr>networks := [(net_row ''wg0'' 51820 ''k'')\<lparr>n_ID := 1\<rparr>, (net_row ''wg1'' 51821 ''k'')\<lparr>n_ID := 2\<rparr>], net_seq := 2\<rparr>"

definition sample_bridging :: createBridgeRequest where
  "sample_bridging = \<lparr>cb_NetworkAID = 1, cb_NetworkBID = 2, cb_Direction = ''a_to_b'', cb_AllowedCIDRs = []\<rparr>"

lemma two_networks_inv: "world_inv (sample_world two_networks k)"
  by (simp add: world_inv_def sample_world_def manager_inv_New db_inv_def peers_ok_def bridges_ok_def snapshots_ok_def ids_ok_def
      networks_ok_def two_networks_def empty_db_def net_row_def)

lemmas bridge_eval = handler_eval db_eval nft_eval fetch_network_def fetch_bridge_def install_bridge_def answer_created_bridge_def new_bridge_def
  sample_bridging_def isValidDirection_def two_networks_def net_row_def Atoi_1

theorem handleCreateBridge_effect_witness:
  "\<exists>x w' b. handleCreateBridge sample_server sample_request (Inr sample_bridging) (sample_world two_networks []) = (x, w') \<and>
     bridges (w_db w') = [b] \<and> b_Direction b = ''a_to_b''"
proof -
  let ?w = "sample_world two_networks []"
  obtain x w' where r: "handleCreateBridge sample_server sample_request (Inr sample_bridging) ?w = (x, w')" and x: "status x = 201"
    by (simp add: handleCreateBridge_def bridge_eval validDirection_def)
  have s: "nftManager sample_server = Some (kernel_env mem_conn id)" "bridges (w_db ?w) = []"
    by (simp_all add: sample_server_def sample_world_def two_networks_def empty_db_def)
  show ?thesis using handleCreateBridge_effect[OF r x s(1) two_networks_inv] s(2) r by (auto simp: sample_bridging_def)
qed

definition stop_bridge :: updateBridgeRequest where
  "stop_bridge = \<lparr>ub_Direction = None, ub_AllowedCIDRs = None, ub_Enabled = Some False\<rparr>"

theorem handleUpdateBridge_ignores_enabled_witness:
  "\<exists>x w'. handleUpdateBridge sample_server sample_request (Inr stop_bridge)
       (sample_world (two_networks\<lparr>bridges := [(new_bridge sample_bridging)\<lparr>b_ID := 1\<rparr>], bridge_seq := 1\<rparr>) []) = (x, w') \<and>
     w_nft w' = (None, []) \<and> (\<exists>b\<in>set (bridges (w_db w')). \<not> b_Enabled b)"
proof -
  let ?w = "sample_world (two_networks\<lparr>bridges := [(new_bridge sample_bridging)\<lparr>b_ID := 1\<rparr>], bridge_seq := 1\<rparr>) []"
  obtain x w' where r: "handleUpdateBridge sample_server sample_request (Inr stop_bridge) ?w = (x, w')" and x: "status x = 200"
    by (simp add: handleUpdateBridge_def bridge_eval stop_bridge_def opt_ok_def update_fields_def opt_set_def redirect_bridge_def bridge_networks_def)
  have s: "ub_Direction stop_bridge = None" "Atoi (rq_id sample_request) = Some 1" "ub_Enabled stop_bridge = Some False" "w_nft ?w = (None, [])"
    by (simp_all add: stop_bridge_def sample_request_def Atoi_1 sample_world_def)
  show ?thesis using handleUpdateBridge_ignores_enabled[OF r s(1,2)] s(3,4) x r by (intro exI[of _ x] exI[of _ w']) auto
qed

end
