(* ===== verification/Monitor.thy ===== *)
theory Monitor
  imports Handlers
begin

text \<open>
  \<open>internal/monitor\<close>: the background workers.  One cycle of the poller, of the expiry checker and
  of the compactor is a function on the state; their loops only repeat it on a ticker.  They use
  the WireGuard manager, here its kernel \<open>K\<close>, and the database.
\<close>

section \<open>\<open>poller.go\<close>\<close>

text \<open>
  The last known state of each peer, and the transitions that are logged: the id of the peer
  and whether it came online.
\<close>

record Poller =
  prevState :: "int \<Rightarrow> bool option"
  transitions :: "(int \<times> bool) list"

definition note_state :: "int \<Rightarrow> bool \<Rightarrow> Poller \<Rightarrow> Poller" where
  "note_state pid online p = p\<lparr>prevState := (prevState p)(pid := Some online),
     transitions := (if prevState p pid = Some (\<not> online) then transitions p @ [(pid, online)] else transitions p)\<rparr>"

definition poll_peer :: "int \<Rightarrow> (string \<Rightarrow> Peer option) \<Rightarrow> PeerStatus \<Rightarrow> DB \<times> Poller \<Rightarrow> DB \<times> Poller" where
  "poll_peer t peerByKey s st = (case peerByKey (st_PublicKey s) of
      None \<Rightarrow> st
    | Some peer \<Rightarrow>
        (case InsertSnapshot \<lparr>s_PeerID = p_ID peer, s_Timestamp = t div 1000000000, s_RxBytes = st_TransferRx s,
                s_TxBytes = st_TransferTx s, s_Online = st_Online s\<rparr> (fst st) of
           (Some _, d) \<Rightarrow> (d, snd st)
         | (None, d) \<Rightarrow> (d, note_state (p_ID peer) (st_Online s) (snd st))))"

definition by_key :: "Peer list \<Rightarrow> string \<Rightarrow> Peer option" where
  "by_key ps = map_of (rev (map (\<lambda>p. (p_PublicKey p, p)) ps))"

definition poll_network :: "aead \<Rightarrow> 'k wg_kernel \<Rightarrow> int \<Rightarrow> Network \<Rightarrow> ('k, 'n) World \<times> Poller \<Rightarrow> ('k, 'n) World \<times> Poller" where
  "poll_network A K t n wp = (case wp of (w, p) \<Rightarrow>
     if \<not> n_Enabled n then (w, p)
     else (case PeerStatus_wg K (w_nanos w) (n_Interface n) (w_kernel w) of
         (Inl _, k) \<Rightarrow> (w\<lparr>w_kernel := k\<rparr>, p)
       | (Inr statuses, k) \<Rightarrow>
           (case ListPeersByNetworkID A (n_ID n) (w_db w) of
              (Inl _, d) \<Rightarrow> (w\<lparr>w_kernel := k, w_db := d\<rparr>, p)
            | (Inr ps, d) \<Rightarrow> (case fold (poll_peer t (by_key ps)) statuses (d, p) of
                 (d', p') \<Rightarrow> (w\<lparr>w_kernel := k, w_db := d'\<rparr>, p')))))"

definition poll :: "aead \<Rightarrow> 'k wg_kernel \<Rightarrow> ('k, 'n) World \<times> Poller \<Rightarrow> ('k, 'n) World \<times> Poller" where
  "poll A K wp = (case wp of (w, p) \<Rightarrow> (case ListNetworks A (w_db w) of
      (Inl _, d) \<Rightarrow> (w\<lparr>w_db := d\<rparr>, p)
    | (Inr ns, d) \<Rightarrow> fold (poll_network A K (w_nanos w)) ns (w\<lparr>w_db := d\<rparr>, p)))"

section \<open>\<open>expiry.go\<close>\<close>

text \<open>
  One expired peer: it is disabled in the database and, if that worked, removed from its
  interface.  The remover may be missing; its errors are only logged.
\<close>

definition expire_peer :: "aead \<Rightarrow> 'k wg_kernel option \<Rightarrow> Peer \<Rightarrow> ('k, 'n) World \<Rightarrow> ('k, 'n) World" where
  "expire_peer A remover p w = (case UpdatePeer A (p\<lparr>p_Enabled := False\<rparr>) (w_db w) of
      (Some _, d) \<Rightarrow> w\<lparr>w_db := d\<rparr>
    | (None, d) \<Rightarrow> (case remover of
          None \<Rightarrow> w\<lparr>w_db := d\<rparr>
        | Some K \<Rightarrow> (case GetNetworkByID A (p_NetworkID p) d of (g, d1) \<Rightarrow> (case or_nil g of
              None \<Rightarrow> w\<lparr>w_db := d1\<rparr>
            | Some n \<Rightarrow> if \<not> n_Enabled n then w\<lparr>w_db := d1\<rparr>
                else (case RemovePeer K (n_Interface n) (p_PublicKey p) (w_kernel w) of
                    (_, k) \<Rightarrow> w\<lparr>w_db := d1, w_kernel := k\<rparr>)))))"

definition expiry_check :: "aead \<Rightarrow> 'k wg_kernel option \<Rightarrow> ('k, 'n) World \<Rightarrow> ('k, 'n) World" where
  "expiry_check A remover w = (case ListExpiredPeers (w_db w) of
      (Inl _, d) \<Rightarrow> w\<lparr>w_db := d\<rparr>
    | (Inr expired, d) \<Rightarrow> fold (expire_peer A remover) expired (w\<lparr>w_db := d\<rparr>))"

section \<open>\<open>compactor.go\<close>\<close>

text \<open>The cutoff is a reading of the clock less the retention, in seconds rounded down.\<close>

definition compact_cycle :: "int \<Rightarrow> ('k, 'n) World \<Rightarrow> ('k, 'n) World" where
  "compact_cycle retention w = (case CompactSnapshots ((w_nanos w - retention) div 1000000000) (w_db w) of (_, d) \<Rightarrow> w\<lparr>w_db := d\<rparr>)"

end
