(* ===== verification/MonitorEffects.thy ===== *)
theory MonitorEffects
  imports Monitor PeerEffects
begin

text \<open>
  What the background workers do: the expiry checker cuts expired peers off, the poller and the
  compactor keep the constraints of the schema and touch nothing but the snapshots.
\<close>

section \<open>The expiry checker\<close>

definition expired :: "int \<Rightarrow> Peer \<Rightarrow> bool" where
  "expired t p = (p_Enabled p \<and> (case p_ExpiresAt p of None \<Rightarrow> False | Some e \<Rightarrow> e < t))"

text \<open>The keys of a row are as the database stores them: no key is in clear if there is a key to encrypt with.\<close>

definition sealed :: "byte list option \<Rightarrow> Peer \<Rightarrow> bool" where
  "sealed key p = (key = None \<or> ((p_PrivateKey p = [] \<or> IsEncrypted (p_PrivateKey p)) \<and> (p_PresharedKey p = [] \<or> IsEncrypted (p_PresharedKey p))))"

lemma encrypt_sealed: "encryptionKey d = None \<or> s = [] \<or> IsEncrypted s \<Longrightarrow> encrypt_field A True s d = (Inr s, d)"
  by (auto simp: encrypt_field_def split: option.splits)

lemma UpdatePeer_sealed:
  assumes "sealed (encryptionKey d) p" "faults d = []"
  shows "UpdatePeer A p d = (None, d\<lparr>peers := map (\<lambda>q. if p_ID q = p_ID p then set_peer p (now d) q else q) (peers d)\<rparr>)"
proof -
  have "encrypt_field A True (p_PrivateKey p) d = (Inr (p_PrivateKey p), d)" "encrypt_field A True (p_PresharedKey p) d = (Inr (p_PresharedKey p), d)"
    using assms(1) by (auto simp: sealed_def intro!: encrypt_sealed)
  then show ?thesis by (simp add: UpdatePeer_def update_peer_def no_faults[OF assms(2)])
qed

text \<open>The keys of the given peers on an interface.\<close>

definition keys_on :: "Peer list \<Rightarrow> Network list \<Rightarrow> string \<Rightarrow> string set" where
  "keys_on ps ns i = {p_PublicKey p |p n. p \<in> set ps \<and> n \<in> set ns \<and> n_ID n = p_NetworkID p \<and> n_Enabled n \<and> n_Interface n = i}"

definition cut_off :: "Peer list \<Rightarrow> Network list \<Rightarrow> wg_view \<Rightarrow> wg_view" where
  "cut_off ps ns v i = map_option (\<lambda>d. d\<lparr>v_peers := without (keys_on ps ns i) (v_peers d)\<rparr>) (v i)"

lemma cut_off_Nil [simp]: "cut_off [] ns v = v"
  by (simp add: cut_off_def keys_on_def fun_eq_iff option.map_ident_strong)

lemma keys_on_Cons: "keys_on (p # ps) ns i = keys_on [p] ns i \<union> keys_on ps ns i"
  by (auto simp: keys_on_def)

lemma cut_off_Cons: "cut_off ps ns (cut_off [p] ns v) = cut_off (p # ps) ns v"
  unfolding cut_off_def fun_eq_iff keys_on_Cons[of p ps] by (auto simp: option.map_comp comp_def Un_commute intro: option.map_cong)

lemma get_enabled:
  assumes "faults d = []" "readable A d" "distinct (map n_ID (networks d))" "m \<in> set (networks d)" "n_ID m = i"
  shows "\<exists>n. GetNetworkByID A i d = (Inr (Some n), d) \<and> n_Interface n = n_Interface m \<and> n_Enabled n = n_Enabled m"
proof -
  obtain n where n: "GetNetworkByID A i d = (Inr (Some n), d)" using get_readable(2)[OF assms] by blast
  from fetched_network[OF this assms(3,4,5)] show ?thesis using n by auto
qed

lemma keys_on_single:
  assumes "distinct (map n_ID ns)" "m \<in> set ns" "n_ID m = p_NetworkID p"
  shows "keys_on [p] ns i = (if n_Enabled m \<and> n_Interface m = i then {p_PublicKey p} else {})"
  using assms by (auto simp: keys_on_def) (metis distinct_map inj_onD)+

lemma without_none: "without {} t = t" by (rule without_simps)

lemma cut_off_single:
  assumes "distinct (map n_ID ns)" "m \<in> set ns" "n_ID m = p_NetworkID p"
  shows "\<not> n_Enabled m \<Longrightarrow> cut_off [p] ns v = v"
    "\<lbrakk>n_Enabled m; v (n_Interface m) = Some d\<rbrakk> \<Longrightarrow> cut_off [p] ns v = v(n_Interface m := Some (d\<lparr>v_peers := (v_peers d)(p_PublicKey p := None)\<rparr>))"
proof -
  have nothing: "d\<lparr>v_peers := v_peers d\<rparr> = d" for d by simp
  show "\<not> n_Enabled m \<Longrightarrow> cut_off [p] ns v = v"
    by (auto simp: cut_off_def fun_eq_iff keys_on_single[OF assms] nothing option.map_ident)
  have one: "without {k} t = t(k := None)" for k and t :: "string \<Rightarrow> 'a option" by (auto simp: without_def restrict_map_def fun_eq_iff)
  show "\<lbrakk>n_Enabled m; v (n_Interface m) = Some d\<rbrakk> \<Longrightarrow> cut_off [p] ns v = v(n_Interface m := Some (d\<lparr>v_peers := (v_peers d)(p_PublicKey p := None)\<rparr>))"
    by (auto simp: cut_off_def fun_eq_iff keys_on_single[OF assms] one nothing option.map_ident)
qed

text \<open>The setting in which a run of the checker meets no failure.\<close>

definition calm :: "aead \<Rightarrow> ('k \<Rightarrow> wg_view) \<Rightarrow> ('k, 'n) World \<Rightarrow> bool" where
  "calm A view w \<longleftrightarrow> faults (w_db w) = [] \<and> readable A (w_db w) \<and> distinct (map n_ID (networks (w_db w))) \<and>
     (\<forall>n\<in>set (networks (w_db w)). n_Enabled n \<longrightarrow> view (w_kernel w) (n_Interface n) \<noteq> None)"

definition disable_row :: "int \<Rightarrow> Peer \<Rightarrow> Peer \<Rightarrow> Peer" where
  "disable_row t p q = (if p_ID q = p_ID p then set_peer (p\<lparr>p_Enabled := False\<rparr>) t q else q)"

lemma expire_peer_effect:
  assumes "kernel_ok K view" "kernel_reliable K view" "calm A view w" "sealed (encryptionKey (w_db w)) p"
    and "\<exists>n\<in>set (networks (w_db w)). n_ID n = p_NetworkID p"
  shows "\<exists>k. expire_peer A (Some K) p w = w\<lparr>w_db := (w_db w)\<lparr>peers := map (disable_row (now (w_db w)) p) (peers (w_db w))\<rparr>, w_kernel := k\<rparr> \<and>
    view k = cut_off [p] (networks (w_db w)) (view (w_kernel w))"
proof -
  let ?d = "(w_db w)\<lparr>peers := map (disable_row (now (w_db w)) p) (peers (w_db w))\<rparr>"
  have c: "faults (w_db w) = []" "readable A (w_db w)" "distinct (map n_ID (networks (w_db w)))"
    and up: "\<And>n. \<lbrakk>n \<in> set (networks (w_db w)); n_Enabled n\<rbrakk> \<Longrightarrow> view (w_kernel w) (n_Interface n) \<noteq> None"
    using assms(3) by (auto simp: calm_def)
  obtain m where m: "m \<in> set (networks (w_db w))" "n_ID m = p_NetworkID p" using assms(5) by blast
  have upd: "UpdatePeer A (p\<lparr>p_Enabled := False\<rparr>) (w_db w) = (None, ?d)"
    using UpdatePeer_sealed[of "w_db w" "p\<lparr>p_Enabled := False\<rparr>" A] assms(4) c(1) by (simp add: sealed_def disable_row_def)
  have d: "faults ?d = []" "readable A ?d" "distinct (map n_ID (networks ?d))" "m \<in> set (networks ?d)" using c m by (auto simp: readable_def)
  obtain n where n: "GetNetworkByID A (p_NetworkID p) ?d = (Inr (Some n), ?d)" "n_Interface n = n_Interface m" "n_Enabled n = n_Enabled m"
    using get_enabled[OF d m(2)] by blast
  show ?thesis
  proof (cases "n_Enabled m")
    case False
    then show ?thesis using upd n cut_off_single(1)[OF c(3) m]
      by (intro exI[of _ "w_kernel w"]) (simp add: expire_peer_def or_nil_def)
  next
    case True
    obtain v where v: "view (w_kernel w) (n_Interface m) = Some v" using up[OF m(1) True] by blast
    obtain e k where k: "RemovePeer K (n_Interface m) (p_PublicKey p) (w_kernel w) = (e, k)" by (cases "RemovePeer K (n_Interface m) (p_PublicKey p) (w_kernel w)")
    show ?thesis using upd n True k RemovePeer_reliable[OF assms(1,2) v k] cut_off_single(2)[OF c(3) m True, of "view (w_kernel w)" v, OF v]
      by (intro exI[of _ k]) (simp add: expire_peer_def or_nil_def)
  qed
qed

lemma calm_step:
  assumes "calm A view w" "view k = cut_off ps (networks (w_db w)) (view (w_kernel w))"
  shows "calm A view (w\<lparr>w_db := (w_db w)\<lparr>peers := qs\<rparr>, w_kernel := k\<rparr>)"
  using assms by (auto simp: calm_def readable_def cut_off_def)

lemma expire_all_effect:
  assumes "kernel_ok K view" "kernel_reliable K view"
  shows "\<lbrakk>calm A view w; \<forall>p\<in>set es. sealed (encryptionKey (w_db w)) p \<and> (\<exists>n\<in>set (networks (w_db w)). n_ID n = p_NetworkID p)\<rbrakk> \<Longrightarrow>
    \<exists>k. fold (expire_peer A (Some K)) es w =
        w\<lparr>w_db := (w_db w)\<lparr>peers := map (fold (disable_row (now (w_db w))) es) (peers (w_db w))\<rparr>, w_kernel := k\<rparr> \<and>
      view k = cut_off es (networks (w_db w)) (view (w_kernel w))"
proof (induction es arbitrary: w)
  case Nil
  show ?case by (intro exI[of _ "w_kernel w"]) simp
next
  case (Cons p es)
  obtain k where k: "expire_peer A (Some K) p w = w\<lparr>w_db := (w_db w)\<lparr>peers := map (disable_row (now (w_db w)) p) (peers (w_db w))\<rparr>, w_kernel := k\<rparr>"
    "view k = cut_off [p] (networks (w_db w)) (view (w_kernel w))"
    using expire_peer_effect[OF assms Cons.prems(1)] Cons.prems(2) by auto
  from Cons.IH[OF calm_step[OF Cons.prems(1) k(2), of "map (disable_row (now (w_db w)) p) (peers (w_db w))"]] Cons.prems(2)
  obtain k' where "fold (expire_peer A (Some K)) es (expire_peer A (Some K) p w) =
      w\<lparr>w_db := (w_db w)\<lparr>peers := map (fold (disable_row (now (w_db w))) es) (map (disable_row (now (w_db w)) p) (peers (w_db w)))\<rparr>, w_kernel := k'\<rparr>"
    "view k' = cut_off es (networks (w_db w)) (view k)"
    unfolding k(1) by (simp del: map_map) blast
  then show ?case using k(2) by (intro exI[of _ k']) (simp add: cut_off_Cons comp_def)
qed

text \<open>The rows of distinct peers that are disabled one after the other.\<close>

lemma disable_rows:
  assumes "distinct (map p_ID es)"
  shows "fold (disable_row t) es q = (case find (\<lambda>p. p_ID p = p_ID q) es of None \<Rightarrow> q | Some p \<Rightarrow> set_peer (p\<lparr>p_Enabled := False\<rparr>) t q)"
  using assms
proof (induction es arbitrary: q)
  case (Cons e es)
  show ?case
  proof (cases "p_ID e = p_ID q")
    case True
    have "find (\<lambda>p. p_ID p = p_ID q) es = None" using Cons.prems True by (auto simp: find_None_iff) (metis image_eqI)
    moreover have "p_ID (set_peer (e\<lparr>p_Enabled := False\<rparr>) t q) = p_ID q" by (simp add: set_peer_def)
    ultimately show ?thesis
      using True Cons.IH[of "set_peer (e\<lparr>p_Enabled := False\<rparr>) t q"] Cons.prems by (simp add: disable_row_def)
  next
    case False
    then show ?thesis using Cons.IH[of q] Cons.prems by (simp add: disable_row_def)
  qed
qed simp

lemma find_unique:
  assumes "distinct (map f xs)" "x \<in> set xs" "P x"
  shows "find (\<lambda>y. f y = f x) (filter P xs) = Some x"
  using assms by (induction xs) (auto simp: image_iff)

lemma disable_expired:
  assumes "distinct (map p_ID ps)" "q \<in> set ps"
  shows "fold (disable_row t) (filter P ps) q = (if P q then q\<lparr>p_Enabled := False, p_UpdatedAt := t\<rparr> else q)"
proof -
  have d: "distinct (map p_ID (filter P ps))" using assms(1) by (simp add: distinct_map_filter)
  have "find (\<lambda>p. p_ID p = p_ID q) (filter P ps) = (if P q then Some q else None)"
  proof (cases "P q")
    case False
    then have "\<forall>p\<in>set (filter P ps). p_ID p \<noteq> p_ID q" using assms key_unique[OF assms(1)] by fastforce
    then show ?thesis using False by (simp add: find_None_iff)
  qed (use find_unique[OF assms] in simp)
  then show ?thesis using disable_rows[OF d, of t q] by (simp add: set_peer_def)
qed

lemma peers_have_networks:
  assumes "db_inv d" "p \<in> set (peers d)"
  shows "\<exists>n\<in>set (networks d). n_ID n = p_NetworkID p"
proof -
  have "p_NetworkID p \<in> n_ID ` set (networks d)" using assms by (auto simp: db_inv_def peers_ok_def)
  then show ?thesis by auto
qed

lemma ListExpiredPeers_calm: "faults d = [] \<Longrightarrow> ListExpiredPeers d = (Inr (filter (expired (now d)) (peers d)), d)"
  by (simp add: ListExpiredPeers_def no_faults expired_def[abs_def])

text \<open>
  C36.  A cycle of the expiry checker on a database without faults and a kernel that does not
  fail: every enabled peer whose time is past is disabled in the database and its key is gone from
  the interface of its network; no other row, key or interface changes; and no expired peer is
  left.
\<close>

theorem expiry_check_cuts_off:
  assumes "kernel_ok K view" "kernel_reliable K view" "calm A view w" "db_inv (w_db w)"
    and "\<forall>p\<in>set (peers (w_db w)). sealed (encryptionKey (w_db w)) p"
  shows "let t = now (w_db w); w' = expiry_check A (Some K) w in
    peers (w_db w') = map (\<lambda>p. if expired t p then p\<lparr>p_Enabled := False, p_UpdatedAt := t\<rparr> else p) (peers (w_db w)) \<and>
    networks (w_db w') = networks (w_db w) \<and>
    view (w_kernel w') = cut_off (filter (expired t) (peers (w_db w))) (networks (w_db w)) (view (w_kernel w)) \<and>
    filter (expired t) (peers (w_db w')) = []"
proof -
  let ?t = "now (w_db w)" and ?es = "filter (expired (now (w_db w))) (peers (w_db w))"
  have "distinct (map p_ID (peers (w_db w)))" and fk: "\<And>p. p \<in> set (peers (w_db w)) \<Longrightarrow> \<exists>n\<in>set (networks (w_db w)). n_ID n = p_NetworkID p"
    using assms(4) peers_have_networks by (auto simp: db_inv_def peers_ok_def dest: ids_ok_distinct)
  then have rows: "map (fold (disable_row ?t) ?es) (peers (w_db w)) =
      map (\<lambda>p. if expired ?t p then p\<lparr>p_Enabled := False, p_UpdatedAt := ?t\<rparr> else p) (peers (w_db w))"
    by (auto simp: disable_expired)
  have "expiry_check A (Some K) w = fold (expire_peer A (Some K)) ?es w"
    using assms(3) by (simp add: expiry_check_def ListExpiredPeers_calm calm_def)
  moreover obtain k where "fold (expire_peer A (Some K)) ?es w =
      w\<lparr>w_db := (w_db w)\<lparr>peers := map (fold (disable_row ?t) ?es) (peers (w_db w))\<rparr>, w_kernel := k\<rparr>"
    "view k = cut_off ?es (networks (w_db w)) (view (w_kernel w))"
    using expire_all_effect[OF assms(1,2,3), of ?es] assms(5) fk by auto
  ultimately show ?thesis unfolding Let_def rows by (auto simp: filter_empty_conv expired_def)
qed

definition expired_peer :: DB where
  "expired_peer = one_peer\<lparr>peers := [peer_row\<lparr>p_ExpiresAt := Some 5\<rparr>], now := 7\<rparr>"

theorem expiry_check_cuts_off_witness:
  "let w' = expiry_check toy_aead (Some sim_kernel) (sample_world expired_peer [(''wg0'', one_dev)]) in
   map p_Enabled (peers (w_db w')) = [False] \<and> (\<exists>d. sim_view (w_kernel w') ''wg0'' = Some d \<and> v_peers d ''A'' = None)"
proof -
  let ?w = "sample_world expired_peer [(''wg0'', one_dev)] :: (sim, mem_nft) World"
  have db: "db_inv (w_db ?w)" using one_peer_inv
    by (simp add: world_inv_def sample_world_def expired_peer_def db_inv_def peers_ok_def bridges_ok_def snapshots_ok_def ids_ok_def
        networks_ok_def one_peer_def one_network_def empty_db_def peer_row_def net_row_def)
  have calm: "calm toy_aead sim_view ?w"
    by (simp add: calm_def readable_def sample_world_def expired_peer_def one_peer_def one_network_def empty_db_def net_row_def
        decryptNetworkKeys_def decrypt_field_def sim_view_def)
  have seal: "\<forall>p\<in>set (peers (w_db ?w)). sealed (encryptionKey (w_db ?w)) p"
    by (simp add: sealed_def sample_world_def expired_peer_def one_peer_def one_network_def empty_db_def)
  have keys: "''A'' \<in> keys_on (filter (expired (now (w_db ?w))) (peers (w_db ?w))) (networks (w_db ?w)) ''wg0''"
    by (simp add: keys_on_def expired_def sample_world_def expired_peer_def one_peer_def one_network_def empty_db_def peer_row_def net_row_def)
  have dev: "sim_view (w_kernel ?w) ''wg0'' = Some (view_dev one_dev)" by (simp add: sample_world_def sim_view_def)
  from expiry_check_cuts_off[OF sim_kernel_ok sim_kernel_reliable calm db seal]
  have "map p_Enabled (peers (w_db (expiry_check toy_aead (Some sim_kernel) ?w))) = [False]"
    by (simp add: Let_def expired_def sample_world_def expired_peer_def one_peer_def peer_row_def)
  then show ?thesis using expiry_check_cuts_off[OF sim_kernel_ok sim_kernel_reliable calm db seal] keys dev
    by (simp add: Let_def cut_off_def without_def)
qed

section \<open>The other workers\<close>

text \<open>
  A peer that the checker has disabled is not looked at again: if the kernel refused to
  remove it, it stays on its interface.
\<close>

lemma expired_once: "\<not> p_Enabled p \<Longrightarrow> \<not> expired t p"
  by (simp add: expired_def)

lemma expiry_check_idle:
  assumes "faults (w_db w) = []" "\<forall>p\<in>set (peers (w_db w)). \<not> expired (now (w_db w)) p"
  shows "expiry_check A remover w = w"
  using assms by (simp add: expiry_check_def ListExpiredPeers_calm filter_False)

lemma poll_peer_inv: "db_inv (fst st) \<Longrightarrow> db_inv (fst (poll_peer t byk s st))"
  by (auto simp: poll_peer_def split: option.splits prod.splits dest: snapshot_ops_inv)

lemma poll_peers_inv: "db_inv (fst st) \<Longrightarrow> db_inv (fst (fold (poll_peer t byk) ss st))"
  by (induction ss arbitrary: st) (auto simp: poll_peer_inv)

lemma poll_network_inv:
  assumes "db_inv (w_db (fst wp))"
  shows "db_inv (w_db (fst (poll_network A K t n wp)))"
proof -
  obtain w p where wp: "wp = (w, p)" by (cases wp)
  obtain st k where st: "PeerStatus_wg K (w_nanos w) (n_Interface n) (w_kernel w) = (st, k)" by (cases "PeerStatus_wg K (w_nanos w) (n_Interface n) (w_kernel w)")
  obtain l d where l: "ListPeersByNetworkID A (n_ID n) (w_db w) = (l, d)" by (cases "ListPeersByNetworkID A (n_ID n) (w_db w)")
  have d: "db_inv d" using assms wp l db_query_inv(4) by auto
  then have "db_inv (fst (fold (poll_peer t byk) ss (d, p)))" for byk ss using poll_peers_inv[of "(d, p)"] by simp
  then show ?thesis using assms wp st l d
    by (cases st; cases l) (auto simp: poll_network_def case_prod_unfold)
qed

lemma poll_networks_inv: "db_inv (w_db (fst wp)) \<Longrightarrow> db_inv (w_db (fst (fold (poll_network A K t) ns wp)))"
  by (induction ns arbitrary: wp) (auto simp: poll_network_inv)

lemma poll_inv:
  assumes "db_inv (w_db (fst wp))"
  shows "db_inv (w_db (fst (poll A K wp)))"
proof -
  obtain w p where wp: "wp = (w, p)" by (cases wp)
  moreover obtain l d where l: "ListNetworks A (w_db w) = (l, d)" by (cases "ListNetworks A (w_db w)")
  moreover have "db_inv d" using assms wp l db_query_inv(2) by auto
  ultimately show ?thesis using poll_networks_inv[of "(w\<lparr>w_db := d\<rparr>, p)"] by (cases l) (auto simp: poll_def)
qed

lemma compact_cycle_inv: "db_inv (w_db w) \<Longrightarrow> db_inv (w_db (compact_cycle age w))"
  by (auto simp: compact_cycle_def split: prod.splits dest: snapshot_ops_inv)

end
