(* ===== verification/Auth.thy ===== *)
theory Auth
  imports Handlers
begin

text \<open>
  \<open>internal/auth\<close> and the middleware that uses it: password hashes, session tokens and cookies,
  API keys, the rate limiter of the login, \<open>RequireAuth\<close> and \<open>RequireRole\<close> of
  \<open>internal/server/middleware/auth.go\<close>, the adapter in \<open>api_key_adapter.go\<close> and \<open>setupGuard\<close> of
  \<open>routes_setup.go\<close>.

  A middleware takes the handler it wraps, a function of the request, and is one itself.  Times
  are nanoseconds where the code compares clock readings, seconds where it stores them.
\<close>

section \<open>Passwords\<close>

definition MinPasswordLength :: nat where "MinPasswordLength = 10"

text \<open>bcrypt draws a salt and refuses passwords it cannot take.\<close>

definition HashPassword :: "('k, 'n) Server \<Rightarrow> string \<Rightarrow> (('k, 'n) World, string option) handler" where
  "HashPassword S password = andThen rand_Read (\<lambda>salt.
     ret (case salt of None \<Rightarrow> None | Some b \<Rightarrow> bcrypt_generate S b password))"

definition VerifyPassword :: "('k, 'n) Server \<Rightarrow> string \<Rightarrow> string \<Rightarrow> bool" where
  "VerifyPassword S hash password = bcrypt_compare S hash password"

section \<open>Session tokens and cookies\<close>

definition Generate :: "('k, 'n) Server \<Rightarrow> int \<Rightarrow> string \<Rightarrow> string \<Rightarrow> (('k, 'n) World, string option) handler" where
  "Generate S userID username role = andThen time_Now (\<lambda>t.
     ret (jwt_sign S \<lparr>cl_Subject = itoa_int userID, cl_IssuedAt = Some (t div 1000000000),
       cl_ExpiresAt = Some ((t + jwt_ttl S) div 1000000000), cl_Username = username, cl_Role = role\<rparr>))"

definition Validate :: "('k, 'n) Server \<Rightarrow> string \<Rightarrow> (('k, 'n) World, Claims option) handler" where
  "Validate S token = andThen time_Now (\<lambda>t. ret (jwt_parse S t token))"

definition SetCookie :: "('k, 'n) Server \<Rightarrow> string \<Rightarrow> int \<Rightarrow> response \<Rightarrow> response" where
  "SetCookie S token maxAge r = r\<lparr>set_cookie := Some \<lparr>ck_Value = token, ck_MaxAge = maxAge, ck_Secure = cookie_secure S\<rparr>\<rparr>"

definition ClearCookie :: "('k, 'n) Server \<Rightarrow> response \<Rightarrow> response" where
  "ClearCookie S r = r\<lparr>set_cookie := Some \<lparr>ck_Value = [], ck_MaxAge = -1, ck_Secure = cookie_secure S\<rparr>\<rparr>"

definition GetToken :: "Request \<Rightarrow> string option" where
  "GetToken r = rq_Cookie r"

section \<open>API keys\<close>

definition apiKeyLength :: nat where "apiKeyLength = 32"
definition apiKeyPrefix :: string where "apiKeyPrefix = ''wgp_''"

definition HashAPIKey :: "('k, 'n) Server \<Rightarrow> string \<Rightarrow> string" where
  "HashAPIKey S key = hexString (sha256 S (bytes_of key))"

text \<open>The key, its hash and the prefix that is shown.\<close>

definition GenerateAPIKey :: "('k, 'n) Server \<Rightarrow> (('k, 'n) World, (string \<times> string \<times> string) option) handler" where
  "GenerateAPIKey S = andThen rand_Read (\<lambda>b. ret (case b of
      None \<Rightarrow> None
    | Some bs \<Rightarrow> let key = apiKeyPrefix @ hexString bs in
        Some (key, HashAPIKey S key, take (length apiKeyPrefix + 8) key @ ''...'')))"

section \<open>The login rate limiter\<close>

text \<open>The map from an address to the times of its attempts; each method holds the mutex.\<close>

type_synonym attempts = "string \<Rightarrow> int list option"

definition in_window :: "int \<Rightarrow> int \<Rightarrow> int list \<Rightarrow> int list" where
  "in_window window t ts = filter (\<lambda>x. t - window < x) ts"

definition Allow :: "int \<Rightarrow> int \<Rightarrow> int \<Rightarrow> string \<Rightarrow> attempts \<Rightarrow> bool \<times> attempts" where
  "Allow limit window t ip m =
     (let valid = in_window window t (case m ip of None \<Rightarrow> [] | Some ts \<Rightarrow> ts) in
      if int (length valid) \<ge> limit then (False, m(ip := Some valid)) else (True, m(ip := Some (valid @ [t]))))"

text \<open>One tick of the background cleanup.\<close>

definition cleanup :: "int \<Rightarrow> int \<Rightarrow> attempts \<Rightarrow> attempts" where
  "cleanup window t m = (\<lambda>ip. case m ip of
      None \<Rightarrow> None
    | Some ts \<Rightarrow> let valid = in_window window t ts in if valid = [] then None else Some valid)"

definition rate_limited :: "('k, 'n) Server \<Rightarrow> Request \<Rightarrow> (('k, 'n) World, bool) handler" where
  "rate_limited S r = (\<lambda>w. case Allow (login_limit S) (login_window S) (w_nanos w) (rq_RemoteAddr r) (w_attempts w) of
      (ok, m) \<Rightarrow> (Inr (\<not> ok), w\<lparr>w_attempts := m\<rparr>))"

section \<open>Middleware\<close>

type_synonym ('k, 'n) endpoint = "Request \<Rightarrow> (('k, 'n) World, response) handler"

definition writeAuthError :: "string \<Rightarrow> string \<Rightarrow> int \<Rightarrow> response" where
  "writeAuthError msg code st = \<lparr>status = st, resp_body = AuthErrorBody code msg, set_cookie = None\<rparr>"

text \<open>The adapter to the database: the row, or an error if there is none.\<close>

definition store_GetAPIKeyByHash :: "string \<Rightarrow> DB \<Rightarrow> APIKey option \<times> DB" where
  "store_GetAPIKeyByHash hash d = (case GetAPIKeyByHash hash d of (res, d1) \<Rightarrow> (or_nil res, d1))"

definition with_session :: "('k, 'n) Server \<Rightarrow> ('k, 'n) endpoint \<Rightarrow> ('k, 'n) endpoint" where
  "with_session S h r =
     andThen (or_none (GetToken r) (writeAuthError ''unauthorized'' ''UNAUTHORIZED'' 401)) (\<lambda>token.
     andThen (Validate S token) (\<lambda>c.
     andThen (or_none c (writeAuthError ''session expired or invalid'' ''SESSION_EXPIRED'' 401)) (\<lambda>claims.
     h (r\<lparr>rq_Claims := Some claims\<rparr>))))"

text \<open>
  The update of the last use runs in a goroutine of its own; it is placed before the handler
  here.
\<close>

definition with_api_key :: "('k, 'n) Server \<Rightarrow> ('k, 'n) endpoint \<Rightarrow> APIKey \<Rightarrow> ('k, 'n) endpoint" where
  "with_api_key S h k r =
     andThen time_Now (\<lambda>t.
     andThen (check (\<not> (case ak_ExpiresAt k of None \<Rightarrow> False | Some e \<Rightarrow> e * 1000000000 < t))
       (writeAuthError ''api key expired'' ''SESSION_EXPIRED'' 401)) (\<lambda>_.
     andThen (on_db (UpdateAPIKeyLastUsed (ak_ID k))) (\<lambda>_.
     h (r\<lparr>rq_Claims := Some \<lparr>cl_Subject = itoa_int (ak_UserID k), cl_IssuedAt = None, cl_ExpiresAt = None,
        cl_Username = ''api-key'', cl_Role = ak_Role k\<rparr>\<rparr>))))"

definition RequireAuth :: "('k, 'n) Server \<Rightarrow> ('k, 'n) endpoint \<Rightarrow> ('k, 'n) endpoint" where
  "RequireAuth S h r =
     (if HasPrefix (rq_Authorization r) ''Bearer wgp_'' then
        andThen (on_db (store_GetAPIKeyByHash (HashAPIKey S (drop (length ''Bearer '') (rq_Authorization r))))) (\<lambda>res.
        case res of
          None \<Rightarrow> with_session S h r
        | Some k \<Rightarrow> if ak_ID k > 0 then with_api_key S h k r else with_session S h r)
      else with_session S h r)"

definition RequireRole :: "string list \<Rightarrow> ('k, 'n) endpoint \<Rightarrow> ('k, 'n) endpoint" where
  "RequireRole roles h r =
     andThen (or_none (rq_Claims r) (writeAuthError ''unauthorized'' ''UNAUTHORIZED'' 401)) (\<lambda>claims.
     andThen (check (cl_Role claims \<in> set roles) (writeAuthError ''insufficient permissions'' ''FORBIDDEN'' 403)) (\<lambda>_.
     h r))"

definition setupGuard :: "('k, 'n) endpoint \<Rightarrow> ('k, 'n) endpoint" where
  "setupGuard h r =
     andThen (on_db (GetSetting ''setup_complete'')) (\<lambda>g.
     andThen (or_error g (internal_error ''internal error'')) (\<lambda>complete.
     andThen (check (complete = ''true'') (writeError ''setup not complete'' ''SETUP_REQUIRED'' 403)) (\<lambda>_.
     h r)))"

section \<open>\<open>fmt.Sscanf\<close> with \<open>%d\<close>\<close>

text \<open>
  Leading white space but no newline, a sign, digits; what follows is not read.
\<close>

definition Sscanf_d :: "string \<Rightarrow> int option" where
  "Sscanf_d s = (let t = trim_front (filter (\<lambda>r. r \<noteq> [CHR 0x0A]) space_runes) s;
       body = (case t of [] \<Rightarrow> [] | c # cs \<Rightarrow> if c = CHR ''+'' \<or> c = CHR ''-'' then cs else t);
       digits = takeWhile is_digit body in
     if digits = [] then None
     else Atoi (if t \<noteq> [] \<and> hd t = CHR ''-'' then CHR ''-'' # digits else digits))"

end
