(* ===== verification/LoginLimiter.thy ===== *)
theory LoginLimiter
  imports Auth
begin

text \<open>
  The rate limiter of the login as a state machine: attempts and ticks of the cleanup in the
  order they take the mutex.  Whatever the cleanup does, the limiter answers as the full log of
  allowed attempts would, so that no window of the given length has more than \<open>limit\<close> of them.
\<close>

datatype limiter_event = Attempt int string | Tick int

fun event_time :: "limiter_event \<Rightarrow> int" where
  "event_time (Attempt t ip) = t"
| "event_time (Tick t) = t"

definition allowed_at :: "string \<Rightarrow> (int \<times> string) list \<Rightarrow> int list" where
  "allowed_at ip log = map fst (filter (\<lambda>e. snd e = ip) log)"

text \<open>The limiter on a history; \<open>log\<close> collects the attempts that were allowed.\<close>

fun limiter_run :: "int \<Rightarrow> int \<Rightarrow> limiter_event list \<Rightarrow> (int \<times> string) list \<Rightarrow> attempts \<Rightarrow> (int \<times> string) list \<times> attempts" where
  "limiter_run limit window [] log m = (log, m)"
| "limiter_run limit window (Attempt t ip # es) log m = (case Allow limit window t ip m of
     (ok, m') \<Rightarrow> limiter_run limit window es (if ok then log @ [(t, ip)] else log) m')"
| "limiter_run limit window (Tick t # es) log m = limiter_run limit window es log (cleanup window t m)"

lemma allowed_at_append [simp]:
  "allowed_at ip [] = []" "allowed_at ip (log @ [(t, jp)]) = allowed_at ip log @ (if jp = ip then [t] else [])"
  by (simp_all add: allowed_at_def)

lemma in_window_append [simp]:
  "in_window w t [] = []" "in_window w t (xs @ ys) = in_window w t xs @ in_window w t ys"
  by (simp_all add: in_window_def)

lemma in_window_twice: "s \<le> t \<Longrightarrow> in_window w t (in_window w s xs) = in_window w t xs"
  by (auto simp: in_window_def intro: filter_cong)

definition kept :: "attempts \<Rightarrow> string \<Rightarrow> int list" where
  "kept m ip = (case m ip of None \<Rightarrow> [] | Some ts \<Rightarrow> ts)"

text \<open>From time \<open>T\<close> on, the map says the same as the log.\<close>

definition agrees :: "int \<Rightarrow> int \<Rightarrow> (int \<times> string) list \<Rightarrow> attempts \<Rightarrow> bool" where
  "agrees window T log m \<longleftrightarrow> (\<forall>ip. \<forall>t\<ge>T. in_window window t (kept m ip) = in_window window t (allowed_at ip log))"

lemma agrees_later: "agrees w T log m \<Longrightarrow> T \<le> t \<Longrightarrow> agrees w t log m"
  unfolding agrees_def by force

lemma kept_cleanup: "kept (cleanup w t m) ip = in_window w t (kept m ip)"
  by (cases "m ip") (auto simp: kept_def cleanup_def Let_def)

lemma agrees_cleanup: "agrees w t log m \<Longrightarrow> agrees w t log (cleanup w t m)"
  by (simp add: agrees_def kept_cleanup in_window_twice)

lemma Allow_agrees:
  assumes "agrees w t log m" "Allow limit w t ip m = (ok, m')"
  shows "agrees w t (if ok then log @ [(t, ip)] else log) m'"
    and "ok \<longleftrightarrow> int (length (in_window w t (allowed_at ip log))) < limit"
proof -
  have now: "in_window w t (kept m ip) = in_window w t (allowed_at ip log)" using assms(1) by (simp add: agrees_def)
  have A: "Allow limit w t ip m = (let valid = in_window w t (kept m ip) in
      if int (length valid) \<ge> limit then (False, m(ip := Some valid)) else (True, m(ip := Some (valid @ [t]))))"
    by (simp add: Allow_def kept_def)
  show "ok \<longleftrightarrow> int (length (in_window w t (allowed_at ip log))) < limit"
    using assms(2) by (auto simp: A Let_def now split: if_splits)
  show "agrees w t (if ok then log @ [(t, ip)] else log) m'"
    using assms unfolding agrees_def
    by (auto simp: A Let_def kept_def in_window_twice split: if_splits)
qed

lemma length_filter_mono: "(\<And>x. P x \<Longrightarrow> Q x) \<Longrightarrow> length (filter P xs) \<le> length (filter Q xs)"
  by (induction xs) auto

text \<open>Every window ending at an allowed attempt, and hence every window, is within the limit.\<close>

definition within_limit :: "int \<Rightarrow> int \<Rightarrow> (int \<times> string) list \<Rightarrow> bool" where
  "within_limit limit window log \<longleftrightarrow>
     (\<forall>ip s. int (length (filter (\<lambda>t. s < t \<and> t \<le> s + window) (allowed_at ip log))) \<le> limit)"

lemma within_limit_snoc:
  assumes "within_limit limit w log" "int (length (in_window w t (allowed_at ip log))) < limit"
  shows "within_limit limit w (log @ [(t, ip)])"
  unfolding within_limit_def
proof (intro allI)
  fix jp s
  let ?in = "\<lambda>x. s < x \<and> x \<le> s + w"
  have old: "int (length (filter ?in (allowed_at jp log))) \<le> limit" using assms(1) by (simp add: within_limit_def)
  show "int (length (filter ?in (allowed_at jp (log @ [(t, ip)])))) \<le> limit"
  proof (cases "jp = ip \<and> ?in t")
    case True
    have "length (filter ?in (allowed_at ip log)) \<le> length (in_window w t (allowed_at ip log))"
      unfolding in_window_def using True by (intro length_filter_mono) auto
    then show ?thesis using assms(2) True by simp
  qed (use old in auto)
qed

lemma limiter_run_invariant:
  assumes "sorted (map event_time es)" "\<And>e. e \<in> set es \<Longrightarrow> T \<le> event_time e"
    and "agrees w T log m" "within_limit limit w log" "limiter_run limit w es log m = (log', m')"
  shows "within_limit limit w log'"
  using assms
proof (induction limit w es log m arbitrary: T rule: limiter_run.induct)
  case (2 limit w t ip es log m)
  obtain ok m1 where a: "Allow limit w t ip m = (ok, m1)" by (cases "Allow limit w t ip m")
  have "T \<le> t" using "2.prems"(2)[of "Attempt t ip"] by simp
  then have t: "agrees w t log m" by (rule agrees_later[OF "2.prems"(3)])
  let ?log = "if ok then log @ [(t, ip)] else log"
  have "within_limit limit w ?log" using "2.prems"(4) Allow_agrees(2)[OF t a] within_limit_snoc by auto
  then show ?case
    using "2.IH"[OF a[symmetric], of t] "2.prems"(1,5) Allow_agrees(1)[OF t a] a by auto
next
  case (3 limit w t es log m)
  have "T \<le> t" using "3.prems"(2)[of "Tick t"] by simp
  then have "agrees w t log m" by (rule agrees_later[OF "3.prems"(3)])
  then show ?case using "3.IH"[of t] "3.prems"(1,4,5) agrees_cleanup by auto
qed simp

text \<open>
  C35.  The login rate limiter keeps its promise: in any history of attempts and cleanups
  with a clock that does not go back, at most \<open>limit\<close> attempts of one address are allowed in
  any period of length \<open>window\<close>.
\<close>

theorem login_limit_bound:
  assumes "0 \<le> limit" "sorted (map event_time es)" "limiter_run limit window es [] (\<lambda>_. None) = (log, m)"
  shows "int (length (filter (\<lambda>t. s < t \<and> t \<le> s + window) (allowed_at ip log))) \<le> limit"
proof (cases es)
  case Nil
  then show ?thesis using assms by simp
next
  case (Cons e es')
  have "agrees window (event_time e) [] (\<lambda>_. None)" by (simp add: agrees_def kept_def)
  then have "within_limit limit window log"
    using limiter_run_invariant[OF assms(2) _ _ _ assms(3), of "event_time e"] assms(1,2) Cons by (auto simp: within_limit_def)
  then show ?thesis by (simp add: within_limit_def)
qed

definition sample_attempts :: "limiter_event list" where
  "sample_attempts = [Attempt 1 ''a'', Attempt 2 ''a'', Attempt 3 ''a'', Attempt 3 ''b'', Tick 5, Attempt 12 ''a'']"

theorem login_limit_bound_witness:
  "fst (limiter_run 2 10 sample_attempts [] (\<lambda>_. None)) = [(1, ''a''), (2, ''a''), (3, ''b''), (12, ''a'')] \<and>
   int (length (filter (\<lambda>t. 0 < t \<and> t \<le> 0 + 10) (allowed_at ''a'' (fst (limiter_run 2 10 sample_attempts [] (\<lambda>_. None)))))) \<le> 2"
  using login_limit_bound[of 2 sample_attempts 10 "fst (limiter_run 2 10 sample_attempts [] (\<lambda>_. None))"
      "snd (limiter_run 2 10 sample_attempts [] (\<lambda>_. None))" 0 "''a''"]
  by (simp add: sample_attempts_def Allow_def in_window_def cleanup_def Let_def)

text \<open>
  The limiter counts per key, and the login handler takes \<open>r.RemoteAddr\<close>, the address with the
  port of the connection, as the key: attempts over connections of their own are never limited.
\<close>

lemma fresh_key_allowed: "0 < limit \<Longrightarrow> m ip = None \<Longrightarrow> fst (Allow limit w t ip m)"
  by (simp add: Allow_def Let_def)

lemma limiter_distinct_keys:
  "\<lbrakk>0 < limit; distinct (map snd as); \<forall>a\<in>set as. m (snd a) = None\<rbrakk>
     \<Longrightarrow> fst (limiter_run limit w (map (\<lambda>a. Attempt (fst a) (snd a)) as) log m) = log @ as"
proof (induction as arbitrary: log m)
  case (Cons a as)
  have "Allow limit w (fst a) (snd a) m = (True, m(snd a := Some [fst a]))"
    using Cons.prems by (simp add: Allow_def Let_def)
  moreover have "\<forall>b\<in>set as. (m(snd a := Some [fst a])) (snd b) = None" using Cons.prems by (auto simp: image_iff)
  ultimately show ?case using Cons.IH[of "m(snd a := Some [fst a])" "log @ [a]"] Cons.prems by (simp del: fun_upd_apply)
qed simp

end
