(* ===== verification/SettingsRoutes.thy ===== *)
theory SettingsRoutes
  imports NetworkRoutes
begin

text \<open>
  The handlers of \<open>routes_alerts.go\<close>, \<open>routes_settings.go\<close> and \<open>routes_audit.go\<close>.
\<close>

section \<open>\<open>routes_alerts.go\<close>\<close>

record createAlertRequest =
  ca_Type :: string
  ca_Threshold :: string
  ca_Notify :: string
  ca_Enabled :: "bool option"

record updateAlertRequest =
  ua_Type :: "string option"
  ua_Threshold :: "string option"
  ua_Notify :: "string option"
  ua_Enabled :: "bool option"

definition validAlertTypes :: "string list" where
  "validAlertTypes = [''peer_offline'', ''high_latency'', ''bandwidth_limit'']"

definition validNotifyMethods :: "string list" where
  "validNotifyMethods = [''email'', ''log'']"

definition alertToResponse :: "Alert \<Rightarrow> alertResponse" where
  "alertToResponse a = \<lparr>ar_ID = al_ID a, ar_Type = al_Type a, ar_Threshold = al_Threshold a, ar_Notify = al_Notify a,
     ar_Enabled = al_Enabled a, ar_CreatedAt = al_CreatedAt a\<rparr>"

definition bad_type :: "string \<Rightarrow> response" where
  "bad_type t = writeError (''invalid alert type '' @ quote t) ''VALIDATION_ERROR'' 400"

definition bad_notify :: "string \<Rightarrow> response" where
  "bad_notify n = writeError (''invalid notify method '' @ quote n) ''VALIDATION_ERROR'' 400"

definition handleListAlerts :: "(('k, 'n) World, response) handler" where
  "handleListAlerts =
     andThen (on_db ListAlerts) (\<lambda>g.
     andThen (or_error g (internal_error ''failed to list alerts'')) (\<lambda>as.
     ret (writeJSON 200 (AlertsBody (map alertToResponse as)))))"

definition handleCreateAlert :: "Request \<Rightarrow> decode_error + createAlertRequest \<Rightarrow> (('k, 'n) World, response) handler" where
  "handleCreateAlert r body =
     andThen (decodeJSON body) (\<lambda>req.
     andThen (check (ca_Type req \<in> set validAlertTypes) (bad_type (ca_Type req))) (\<lambda>_.
     andThen (check (ca_Threshold req \<noteq> []) (writeError ''threshold is required'' ''VALIDATION_ERROR'' 400)) (\<lambda>_.
     andThen (check (ca_Notify req = [] \<or> ca_Notify req \<in> set validNotifyMethods) (bad_notify (ca_Notify req))) (\<lambda>_.
     andThen (on_db (CreateAlert \<lparr>al_ID = 0, al_Type = ca_Type req, al_Threshold = ca_Threshold req,
       al_Notify = (if ca_Notify req \<noteq> [] then ca_Notify req else ''email''),
       al_Enabled = (case ca_Enabled req of None \<Rightarrow> True | Some b \<Rightarrow> b), al_CreatedAt = 0\<rparr>)) (\<lambda>c.
     andThen (or_error c (internal_error ''failed to create alert'')) (\<lambda>aid.
     andThen (on_db (GetAlertByID aid)) (\<lambda>g.
     andThen (or_none (or_nil g) (internal_error ''failed to retrieve created alert'')) (\<lambda>created.
     andThen (auditLog r ''alert.created'' ''alert'' (''created alert (id='' @ itoa_int aid @ '', type='' @ ca_Type req @ '')'')) (\<lambda>_.
     ret (writeJSON 201 (AlertBody (alertToResponse created))))))))))))"

definition fetch_alert :: "int \<Rightarrow> (('k, 'n) World, Alert) handler" where
  "fetch_alert aid =
     andThen (on_db (GetAlertByID aid)) (\<lambda>g.
     andThen (or_error g (internal_error ''failed to get alert'')) (\<lambda>ao.
     or_none ao (writeError (''alert '' @ itoa_int aid @ '' not found'') ''ALERT_NOT_FOUND'' 404)))"

definition or_keep :: "'a option \<Rightarrow> 'a \<Rightarrow> 'a" where
  "or_keep x d = (case x of None \<Rightarrow> d | Some v \<Rightarrow> v)"

definition merge_alert :: "updateAlertRequest \<Rightarrow> Alert \<Rightarrow> Alert" where
  "merge_alert req a = a\<lparr>al_Type := or_keep (ua_Type req) (al_Type a), al_Threshold := or_keep (ua_Threshold req) (al_Threshold a),
     al_Notify := or_keep (ua_Notify req) (al_Notify a), al_Enabled := or_keep (ua_Enabled req) (al_Enabled a)\<rparr>"

definition handleUpdateAlert :: "Request \<Rightarrow> decode_error + updateAlertRequest \<Rightarrow> (('k, 'n) World, response) handler" where
  "handleUpdateAlert r body =
     andThen (parse_id (rq_id r) ''alert'') (\<lambda>aid.
     andThen (fetch_alert aid) (\<lambda>a.
     andThen (decodeJSON body) (\<lambda>req.
     andThen (case ua_Type req of None \<Rightarrow> ret () | Some t \<Rightarrow> check (t \<in> set validAlertTypes) (bad_type t)) (\<lambda>_.
     andThen (case ua_Notify req of None \<Rightarrow> ret () | Some n \<Rightarrow> check (n \<in> set validNotifyMethods) (bad_notify n)) (\<lambda>_.
     andThen (on_db (UpdateAlert (merge_alert req a))) (\<lambda>e.
     andThen (no_error e (internal_error ''failed to update alert'')) (\<lambda>_.
     andThen (on_db (GetAlertByID aid)) (\<lambda>g.
     andThen (auditLog r ''alert.updated'' ''alert'' (''updated alert (id='' @ itoa_int aid @ '')'')) (\<lambda>_.
     ret (writeJSON 200 (AlertBody (alertToResponse (or_keep (or_nil g) (merge_alert req a))))))))))))))"

definition handleDeleteAlert :: "Request \<Rightarrow> (('k, 'n) World, response) handler" where
  "handleDeleteAlert r =
     andThen (parse_id (rq_id r) ''alert'') (\<lambda>aid.
     andThen (fetch_alert aid) (\<lambda>a.
     andThen (on_db (DeleteAlert aid)) (\<lambda>e.
     andThen (no_error e (internal_error ''failed to delete alert'')) (\<lambda>_.
     andThen (auditLog r ''alert.deleted'' ''alert'' (''deleted alert (id='' @ itoa_int aid @ '', type='' @ al_Type a @ '')'')) (\<lambda>_.
     ret (writeJSON 204 NoBody))))))"

section \<open>\<open>routes_settings.go\<close>\<close>

definition sensitiveSettings :: "string list" where
  "sensitiveSettings = [''jwt_secret'', ''setup_otp'', ''setup_step1_done'', ''setup_step2_done'', ''setup_step3_done'',
     ''setup_network_id'', ''setup_complete'']"

definition allowedSettings :: "string list" where
  "allowedSettings = [''public_ip'', ''hostname'', ''dns_servers'', ''smtp_host'', ''smtp_port'', ''smtp_user'', ''smtp_pass'',
     ''smtp_from'', ''smtp_tls'', ''alert_email'']"

definition handleGetSettings :: "(('k, 'n) World, response) handler" where
  "handleGetSettings =
     andThen (on_db ListSettings) (\<lambda>g.
     andThen (or_error g (internal_error ''failed to list settings'')) (\<lambda>st.
     ret (writeJSON 200 (SettingsBody (filter (\<lambda>e. fst e \<notin> set sensitiveSettings) st)))))"

text \<open>
  The body is a map, over which Go ranges twice, each time in an order of its own: the entries
  as the check and as the saving loop see them.
\<close>

record updateSettingsRequest =
  us_checked :: "(string \<times> string) list"
  us_saved :: "(string \<times> string) list"

definition save_setting :: "string \<times> string \<Rightarrow> (('k, 'n) World, unit) handler" where
  "save_setting e = andThen (on_db (SetSetting (fst e) (snd e))) (\<lambda>err.
     no_error err (internal_error (''failed to save setting '' @ quote (fst e))))"

definition handleUpdateSettings :: "Request \<Rightarrow> decode_error + updateSettingsRequest \<Rightarrow> (('k, 'n) World, response) handler" where
  "handleUpdateSettings r body =
     andThen (decodeJSON body) (\<lambda>req.
     andThen (each (us_checked req) (\<lambda>e. check (fst e \<in> set allowedSettings)
       (writeError (''setting '' @ quote (fst e) @ '' is not allowed'') ''VALIDATION_ERROR'' 400))) (\<lambda>_.
     andThen (each (us_saved req) save_setting) (\<lambda>_.
     andThen (auditLog r ''settings.updated'' ''settings'' (''updated '' @ itoa (length (us_saved req)) @ '' setting(s)'')) (\<lambda>_.
     handleGetSettings))))"

section \<open>\<open>routes_audit.go\<close>\<close>

definition query_int :: "Request \<Rightarrow> string \<Rightarrow> (int \<Rightarrow> bool) \<Rightarrow> int \<Rightarrow> int" where
  "query_int r key ok dflt = (case Atoi (rq_Query r key) of None \<Rightarrow> dflt | Some n \<Rightarrow> if ok n then n else dflt)"

definition audit_limit :: "Request \<Rightarrow> int" where
  "audit_limit r = (let limit = query_int r ''limit'' (\<lambda>n. n > 0) 50 in if limit > 200 then 200 else limit)"

definition handleAuditLog :: "Request \<Rightarrow> (('k, 'n) World, response) handler" where
  "handleAuditLog r =
     (let limit = audit_limit r; offset = query_int r ''offset'' (\<lambda>n. n \<ge> 0) 0 in
     andThen (on_db (ListAuditLog limit offset \<lparr>af_Action = rq_Query r ''action'', af_Resource = rq_Query r ''resource'', af_UserID = 0\<rparr>)) (\<lambda>g.
     andThen (or_error g (internal_error ''failed to list audit log'')) (\<lambda>(entries, total).
     ret (writeJSON 200 (AuditBody \<lparr>al_Entries = entries, al_Total = total, al_Limit = limit, al_Offset = offset\<rparr>)))))"

end
