(* ===== verification/StatusRoutes.thy ===== *)
theory StatusRoutes
  imports SettingsRoutes PeerRoutes Monitor
begin

text \<open>
  The read-only views of the state: \<open>routes_status.go\<close> (live status, events, statistics),
  \<open>routes_metrics.go\<close>, \<open>routes_debug.go\<close> and the health check of \<open>routes.go\<close>.
\<close>

section \<open>Live status\<close>

text \<open>\<open>s.wgManager.PeerStatus\<close>, which reads the clock itself.\<close>

definition peer_statuses :: "'k wg_kernel \<Rightarrow> string \<Rightarrow> (('k, 'n) World, wg_error + PeerStatus list) handler" where
  "peer_statuses K iface = andThen time_Now (\<lambda>t. wg_query (\<lambda>K. PeerStatus_wg K t iface) K)"

definition peer_status :: "(string \<Rightarrow> Peer option) \<Rightarrow> PeerStatus \<Rightarrow> peerStatus" where
  "peer_status peerByKey st = \<lparr>ps_ID = (case peerByKey (st_PublicKey st) of None \<Rightarrow> 0 | Some p \<Rightarrow> p_ID p),
     ps_Name = (case peerByKey (st_PublicKey st) of None \<Rightarrow> [] | Some p \<Rightarrow> p_Name p),
     ps_PublicKey = st_PublicKey st, ps_Endpoint = st_Endpoint st, ps_LastHandshake = unix_seconds (st_LastHandshake st),
     ps_TransferRx = st_TransferRx st, ps_TransferTx = st_TransferTx st, ps_Online = st_Online st\<rparr>"

definition network_status :: "('k, 'n) Server \<Rightarrow> Network \<Rightarrow> (('k, 'n) World, networkStatus) handler" where
  "network_status S n =
     (let ns = \<lparr>ns_ID = n_ID n, ns_Name = n_Name n, ns_Interface = n_Interface n, ns_Enabled = n_Enabled n, ns_Up = False,
        ns_ListenPort = n_ListenPort n, ns_Peers = []\<rparr> in
      case wgManager S of
        None \<Rightarrow> ret ns
      | Some K \<Rightarrow> if \<not> n_Enabled n then ret ns
          else andThen (peer_statuses K (n_Interface n)) (\<lambda>res. case res of
            Inl _ \<Rightarrow> ret ns
          | Inr statuses \<Rightarrow>
              andThen (on_db (ListPeersByNetworkID (aead_of S) (n_ID n))) (\<lambda>l. case l of
                Inl _ \<Rightarrow> ret (ns\<lparr>ns_Up := True\<rparr>)
              | Inr ps \<Rightarrow> ret (ns\<lparr>ns_Up := True, ns_Peers := map (peer_status (by_key ps)) statuses\<rparr>))))"

definition handleStatus :: "('k, 'n) Server \<Rightarrow> (('k, 'n) World, response) handler" where
  "handleStatus S =
     andThen (on_db (ListNetworks (aead_of S))) (\<lambda>l.
     andThen (or_error l (internal_error ''failed to list networks'')) (\<lambda>ns.
     andThen (each ns (network_status S)) (\<lambda>result.
     ret (writeJSON 200 (LiveStatusBody result)))))"

section \<open>Server-sent events\<close>

text \<open>One event; none if the interface cannot be asked.  An error of the database leaves the ids 0.\<close>

definition sendSSEStatus :: "('k, 'n) Server \<Rightarrow> string \<Rightarrow> int \<Rightarrow> (('k, 'n) World, sseEvent list option) handler" where
  "sendSSEStatus S iface nid = (case wgManager S of
      None \<Rightarrow> ret None
    | Some K \<Rightarrow> andThen (peer_statuses K iface) (\<lambda>res. case res of
          Inl _ \<Rightarrow> ret None
        | Inr statuses \<Rightarrow>
            andThen (on_db (ListPeersByNetworkID (aead_of S) nid)) (\<lambda>l.
            let peerByKey = by_key (case l of Inl _ \<Rightarrow> [] | Inr ps \<Rightarrow> ps) in
            ret (Some (map (\<lambda>st. \<lparr>ev_PeerID = ps_ID (peer_status peerByKey st), ev_Online = st_Online st,
              ev_LastHandshake = unix_seconds (st_LastHandshake st), ev_TransferRx = st_TransferRx st,
              ev_TransferTx = st_TransferTx st, ev_PublicKey = st_PublicKey st\<rparr>) statuses)))))"

text \<open>
  The stream begins with one event; every five seconds until the client goes away
  \<open>sendSSEStatus\<close> sends another, in whatever state the server is then.
\<close>

definition handleSSEEvents :: "('k, 'n) Server \<Rightarrow> Request \<Rightarrow> (('k, 'n) World, response) handler" where
  "handleSSEEvents S r =
     andThen (parse_id (rq_id r) ''network'') (\<lambda>nid.
     andThen (fetch_network S nid) (\<lambda>n.
     andThen (sendSSEStatus S (n_Interface n) nid) (\<lambda>ev.
     ret (writeJSON 200 (EventBody ev)))))"

section \<open>Statistics\<close>

definition add_snapshot :: "PeerSnapshot \<Rightarrow> snapshotEntry list \<Rightarrow> snapshotEntry list" where
  "add_snapshot s agg = (if s_Timestamp s \<in> se_Timestamp ` set agg
     then map (\<lambda>e. if se_Timestamp e = s_Timestamp s then e\<lparr>se_TransferRx := wrap64 (se_TransferRx e + s_RxBytes s),
            se_TransferTx := wrap64 (se_TransferTx e + s_TxBytes s)\<rparr> else e) agg
     else agg @ [\<lparr>se_Timestamp = s_Timestamp s, se_TransferRx = s_RxBytes s, se_TransferTx = s_TxBytes s\<rparr>])"

text \<open>The loop over the peers; a peer whose snapshots cannot be read is skipped.\<close>

fun aggregate :: "int \<Rightarrow> int \<Rightarrow> int \<Rightarrow> Peer list \<Rightarrow> snapshotEntry list \<Rightarrow> DB \<Rightarrow> snapshotEntry list \<times> DB" where
  "aggregate filterID from until [] agg d = (agg, d)"
| "aggregate filterID from until (p # ps) agg d =
     (if filterID > 0 \<and> p_ID p \<noteq> filterID then aggregate filterID from until ps agg d
      else (case ListSnapshots (p_ID p) from until d of
          (Inl _, d1) \<Rightarrow> aggregate filterID from until ps agg d1
        | (Inr snaps, d1) \<Rightarrow> aggregate filterID from until ps (fold add_snapshot snaps agg) d1))"

definition sortSnapshotEntries :: "snapshotEntry list \<Rightarrow> snapshotEntry list" where
  "sortSnapshotEntries es = sort_key se_Timestamp es"

text \<open>The bounds of the range in seconds, the last day if they are not given.\<close>

definition handleNetworkStats :: "('k, 'n) Server \<Rightarrow> Request \<Rightarrow> (('k, 'n) World, response) handler" where
  "handleNetworkStats S r =
     andThen (parse_id (rq_id r) ''network'') (\<lambda>nid.
     andThen (fetch_network S nid) (\<lambda>n.
     andThen time_Now (\<lambda>t.
     let from = query_int r ''from'' (\<lambda>_. True) ((t - 24 * 3600 * 1000000000) div 1000000000);
         until = query_int r ''to'' (\<lambda>_. True) (t div 1000000000) in
     andThen (on_db (ListPeersByNetworkID (aead_of S) nid)) (\<lambda>l.
     andThen (or_error l (internal_error ''failed to list peers'')) (\<lambda>ps.
     andThen (on_db (aggregate (query_int r ''peer_id'' (\<lambda>_. True) 0) from until ps [])) (\<lambda>agg.
     ret (writeJSON 200 (StatsBody (sortSnapshotEntries agg)))))))))"

section \<open>Metrics\<close>

definition metric_header :: string where
  "metric_header = concat (map (\<lambda>l. l @ [CHR 0x0A])
     [''# HELP wg_peers_total Total number of configured peers per network.'', ''# TYPE wg_peers_total gauge'',
      ''# HELP wg_peers_online Number of online peers per network.'', ''# TYPE wg_peers_online gauge'',
      ''# HELP wg_transfer_bytes_total Total transfer bytes per network and direction.'', ''# TYPE wg_transfer_bytes_total counter'',
      ''# HELP wg_peer_last_handshake_seconds Seconds since last handshake per peer.'', ''# TYPE wg_peer_last_handshake_seconds gauge'',
      ''# HELP wg_interface_up Whether the WireGuard interface is up.'', ''# TYPE wg_interface_up gauge''])"

definition metric :: "string \<Rightarrow> string \<Rightarrow> string \<Rightarrow> string \<Rightarrow> string" where
  "metric name iface labels val = name @ ''{network='' @ quote iface @ labels @ ''} '' @ val @ [CHR 0x0A]"

text \<open>The lines of one peer: its label and the age of its handshake at time \<open>t\<close>.\<close>

definition handshake_metric :: "('k, 'n) Server \<Rightarrow> int \<Rightarrow> string \<Rightarrow> Peer list \<Rightarrow> PeerStatus \<Rightarrow> string" where
  "handshake_metric S t iface ps st = (case st_LastHandshake st of
      None \<Rightarrow> []
    | Some h \<Rightarrow>
        let name = (case by_key ps (st_PublicKey st) of None \<Rightarrow> [] | Some p \<Rightarrow> p_Name p);
            label = (if name = [] then take 8 (st_PublicKey st) @ ''...'' else name) in
        metric ''wg_peer_last_handshake_seconds'' iface ('',peer='' @ quote label) (seconds_text S (t - h)))"

definition sum64 :: "int list \<Rightarrow> int" where
  "sum64 xs = fold (\<lambda>x acc. wrap64 (acc + x)) xs 0"

definition up_metrics :: "('k, 'n) Server \<Rightarrow> int \<Rightarrow> string \<Rightarrow> Peer list \<Rightarrow> PeerStatus list \<Rightarrow> string" where
  "up_metrics S t iface ps sts =
     metric ''wg_interface_up'' iface [] ''1'' @ metric ''wg_peers_total'' iface [] (itoa (length sts))
     @ concat (map (handshake_metric S t iface ps) sts)
     @ metric ''wg_peers_online'' iface [] (itoa (length (filter st_Online sts)))
     @ metric ''wg_transfer_bytes_total'' iface ('',direction='' @ quote ''rx'') (itoa_int (sum64 (map st_TransferRx sts)))
     @ metric ''wg_transfer_bytes_total'' iface ('',direction='' @ quote ''tx'') (itoa_int (sum64 (map st_TransferTx sts)))"

text \<open>
  A key of fewer than 8 bytes whose peer has no name makes the slice of the key panic.
\<close>

definition short_key :: "Peer list \<Rightarrow> PeerStatus \<Rightarrow> bool" where
  "short_key ps st = (length (st_PublicKey st) < 8 \<and> (case by_key ps (st_PublicKey st) of None \<Rightarrow> True | Some p \<Rightarrow> p_Name p = []))"

definition network_metrics :: "('k, 'n) Server \<Rightarrow> int \<Rightarrow> Network \<Rightarrow> (('k, 'n) World, string) handler" where
  "network_metrics S t n =
     (let down = metric ''wg_interface_up'' (n_Interface n) [] ''0'' in
      case wgManager S of
        None \<Rightarrow> ret down
      | Some K \<Rightarrow> if \<not> n_Enabled n then ret down
          else andThen (peer_statuses K (n_Interface n)) (\<lambda>res. case res of
            Inl _ \<Rightarrow> ret down
          | Inr sts \<Rightarrow>
              andThen (on_db (ListPeersByNetworkID (aead_of S) (n_ID n))) (\<lambda>l.
              let ps = (case l of Inl _ \<Rightarrow> [] | Inr ps \<Rightarrow> ps) in
              andThen (check (\<not> list_ex (short_key ps) sts) panicked) (\<lambda>_.
              ret (up_metrics S t (n_Interface n) ps sts)))))"

definition handleMetrics :: "('k, 'n) Server \<Rightarrow> (('k, 'n) World, response) handler" where
  "handleMetrics S =
     andThen (on_db (ListNetworks (aead_of S))) (\<lambda>l.
     andThen (or_error l (writeJSON 500 (PlainText (''# error listing networks'' @ [CHR 0x0A])))) (\<lambda>ns.
     andThen time_Now (\<lambda>t.
     andThen (each ns (network_metrics S t)) (\<lambda>parts.
     ret (writeJSON 200 (PlainText (metric_header @ concat parts)))))))"

section \<open>Health\<close>

text \<open>
  The hours and minutes are taken from a floating point number of hours or minutes; here they
  are whole quotients.
\<close>

definition formatDuration :: "int \<Rightarrow> string" where
  "formatDuration d =
     (let h = d div 3600000000000; days = h div 24; hours = h mod 24; minutes = (d div 60000000000) mod 60 in
      if days > 0 then itoa_int days @ ''d '' @ itoa_int hours @ ''h '' @ itoa_int minutes @ ''m''
      else if hours > 0 then itoa_int hours @ ''h '' @ itoa_int minutes @ ''m''
      else itoa_int minutes @ ''m'')"

definition handleHealth :: "('k, 'n) Server \<Rightarrow> (('k, 'n) World, response) handler" where
  "handleHealth S =
     andThen time_Now (\<lambda>t.
     andThen (on_db (ListNetworks (aead_of S))) (\<lambda>l.
     let up = formatDuration (t - startTime S) in
     ret (writeJSON 200 (HealthBody (case l of
         Inl _ \<Rightarrow> \<lparr>h_version = server_version S, h_uptime = up, h_total = 0, h_healthy = 0, h_degraded = 0, h_database = ''error''\<rparr>
       | Inr ns \<Rightarrow> let total = int (length ns); healthy = int (length (filter n_Enabled ns)) in
           \<lparr>h_version = server_version S, h_uptime = up, h_total = total, h_healthy = healthy, h_degraded = total - healthy,
            h_database = ''ok''\<rparr>)))))"

section \<open>Debugging\<close>

definition log_limit :: "Request \<Rightarrow> int" where
  "log_limit r = query_int r ''limit'' (\<lambda>n. n > 0 \<and> n \<le> 500) 100"

definition level_shown :: "string \<Rightarrow> LogEntry \<Rightarrow> bool" where
  "level_shown levelFilter e = (if levelFilter = ''error'' then \<not> le_Level e < LevelError
     else if levelFilter = ''warn'' then \<not> le_Level e < LevelWarn else True)"

definition handleDebugLogs :: "Request \<Rightarrow> (('k, 'n) World, response) handler" where
  "handleDebugLogs r = (\<lambda>w. case w_ring w of
      None \<Rightarrow> (Inr (writeJSON 200 (LogsBody [])), w)
    | Some ring \<Rightarrow> (case Recent (log_limit r) ring of
          None \<Rightarrow> (Inl panicked, w)
        | Some recent \<Rightarrow> (Inr (writeJSON 200 (LogsBody (filter (level_shown (rq_Query r ''level'')) recent))), w)))"

definition debug_iface :: "'k wg_kernel \<Rightarrow> ('k, 'n) Server \<Rightarrow> Network \<Rightarrow> (('k, 'n) World, debugIface) handler" where
  "debug_iface K S n =
     (let info = (\<lambda>st. \<lparr>di_name = n_Interface n, di_listen_port = n_ListenPort n, di_enabled = n_Enabled n, di_state = st\<rparr>) in
      if n_Enabled n then andThen (peer_statuses K (n_Interface n)) (\<lambda>res. ret (info (case res of
          Inl e \<Rightarrow> IfaceError (wg_text S e)
        | Inr sts \<Rightarrow> IfaceUp (int (length sts)) (int (length (filter st_Online sts))))))
      else ret (info IfaceDown))"

text \<open>The number of rows of each table; a table that cannot be counted is left out.\<close>

definition table_rows :: "string \<Rightarrow> DB \<Rightarrow> int option" where
  "table_rows t d = (if t = ''networks'' then Some (int (length (networks d))) else if t = ''peers'' then Some (int (length (peers d)))
     else if t = ''peer_snapshots'' then Some (int (length (snapshots d))) else if t = ''settings'' then Some (int (length (settings d)))
     else None)"

fun TableCounts :: "string list \<Rightarrow> DB \<Rightarrow> (string \<times> int) list \<times> DB" where
  "TableCounts [] d = ([], d)"
| "TableCounts (t # ts) d = (case db_fault d of (f, d1) \<Rightarrow> (case TableCounts ts d1 of (cs, d2) \<Rightarrow>
     (case (if f then None else table_rows t d1) of None \<Rightarrow> (cs, d2) | Some c \<Rightarrow> ((t, c) # cs, d2))))"

text \<open>The figures of the Go runtime in this answer are left out.\<close>

definition handleDebugInfo :: "('k, 'n) Server \<Rightarrow> (('k, 'n) World, response) handler" where
  "handleDebugInfo S =
     andThen (check (devMode S) (writeError ''debug endpoints are disabled in production mode'' ''INTERNAL_ERROR'' 404)) (\<lambda>_.
     andThen (case wgManager S of
         None \<Rightarrow> ret None
       | Some K \<Rightarrow> andThen (on_db (ListNetworks (aead_of S))) (\<lambda>l. case l of
             Inl _ \<Rightarrow> ret None
           | Inr ns \<Rightarrow> andThen (each ns (debug_iface K S)) (\<lambda>ifaces. ret (Some ifaces)))) (\<lambda>wireguard.
     andThen (on_db (TableCounts [''networks'', ''peers'', ''peer_snapshots'', ''settings''])) (\<lambda>tables.
     ret (writeJSON 200 (DebugBody wireguard tables)))))"

end
