(* ===== verification/AuthRoutes.thy ===== *)
theory AuthRoutes
  imports Auth NetworkRoutes
begin

text \<open>
  The handlers of \<open>routes_auth.go\<close> (login, first-run setup, logout, password, current user),
  \<open>routes_users.go\<close> and \<open>routes_api_keys.go\<close>.
\<close>

section \<open>\<open>routes_auth.go\<close>\<close>

record loginRequest =
  lg_Username :: string
  lg_Password :: string

record setupRequest =
  su_OTP :: string
  su_Username :: string
  su_Password :: string

record changePasswordRequest =
  ch_OldPassword :: string
  ch_NewPassword :: string

definition unauthorized :: response where
  "unauthorized = writeError ''unauthorized'' ''UNAUTHORIZED'' 401"

definition ttl_seconds :: "('k, 'n) Server \<Rightarrow> int" where
  "ttl_seconds S = jwt_ttl S div 1000000000"

text \<open>A token for the user, or 500.\<close>

definition issue_token :: "('k, 'n) Server \<Rightarrow> int \<Rightarrow> string \<Rightarrow> string \<Rightarrow> (('k, 'n) World, string) handler" where
  "issue_token S uid name role = andThen (Generate S uid name role) (\<lambda>t. or_none t (internal_error ''internal error''))"

definition handleLogin :: "('k, 'n) Server \<Rightarrow> Request \<Rightarrow> decode_error + loginRequest \<Rightarrow> (('k, 'n) World, response) handler" where
  "handleLogin S r body =
     andThen (rate_limited S r) (\<lambda>lim.
     andThen (check (\<not> lim) (writeError ''too many login attempts'' ''RATE_LIMITED'' 429)) (\<lambda>_.
     andThen (decodeJSON body) (\<lambda>req.
     andThen (check (\<not> (lg_Username req = [] \<or> lg_Password req = []))
       (writeError ''username and password required'' ''VALIDATION_ERROR'' 400)) (\<lambda>_.
     andThen (on_db (GetUserByUsername (lg_Username req))) (\<lambda>g.
     andThen (or_error g (internal_error ''internal error'')) (\<lambda>uo.
     andThen (or_none uo (writeError ''invalid credentials'' ''INVALID_CREDENTIALS'' 401)) (\<lambda>user.
     andThen (check (VerifyPassword S (u_PasswordHash user) (lg_Password req))
       (writeError ''invalid credentials'' ''INVALID_CREDENTIALS'' 401)) (\<lambda>_.
     andThen (issue_token S (u_ID user) (u_Username user) (u_Role user)) (\<lambda>token.
     andThen (auditLog r ''auth.login'' ''user'' (''user '' @ quote (u_Username user) @ '' logged in'')) (\<lambda>_.
     ret (SetCookie S token (ttl_seconds S) (writeJSON 200 (LoginBody (u_ID user) (u_Username user))))))))))))))"

text \<open>Creating the administrator and consuming the one-time password, whose errors are only logged.\<close>

definition create_admin :: "('k, 'n) Server \<Rightarrow> string \<Rightarrow> string \<Rightarrow> (('k, 'n) World, int) handler" where
  "create_admin S name password =
     andThen (HashPassword S password) (\<lambda>h.
     andThen (or_none h (internal_error ''internal error'')) (\<lambda>hash.
     andThen (on_db (CreateUser \<lparr>u_ID = 0, u_Username = name, u_PasswordHash = hash, u_Role = ''admin'',
       u_CreatedAt = 0, u_UpdatedAt = 0\<rparr>)) (\<lambda>c.
     or_error c (internal_error ''internal error''))))"

definition handleSetup :: "('k, 'n) Server \<Rightarrow> Request \<Rightarrow> decode_error + setupRequest \<Rightarrow> (('k, 'n) World, response) handler" where
  "handleSetup S r body =
     andThen (on_db (GetSetting ''setup_complete'')) (\<lambda>g.
     andThen (or_error g (internal_error ''internal error'')) (\<lambda>complete.
     andThen (check (complete \<noteq> ''true'') (writeError ''setup already completed'' ''SETUP_ALREADY_COMPLETE'' 409)) (\<lambda>_.
     andThen (decodeJSON body) (\<lambda>req.
     andThen (check (\<not> (su_OTP req = [] \<or> su_Username req = [] \<or> su_Password req = []))
       (writeError ''otp, username, and password required'' ''VALIDATION_ERROR'' 400)) (\<lambda>_.
     andThen (check (\<not> length (su_Password req) < MinPasswordLength)
       (writeError ''password must be at least 10 characters'' ''VALIDATION_ERROR'' 400)) (\<lambda>_.
     andThen (on_db (GetSetting ''setup_otp'')) (\<lambda>g.
     andThen (or_error g (internal_error ''internal error'')) (\<lambda>otpHash.
     andThen (check (otpHash \<noteq> []) (writeError ''setup already completed'' ''SETUP_ALREADY_COMPLETE'' 409)) (\<lambda>_.
     andThen (check (VerifyPassword S otpHash (su_OTP req)) (writeError ''invalid setup password'' ''INVALID_OTP'' 401)) (\<lambda>_.
     andThen (create_admin S (su_Username req) (su_Password req)) (\<lambda>userID.
     andThen (on_db (DeleteSetting ''setup_otp'')) (\<lambda>_.
     andThen (on_db (SetSetting ''setup_complete'' ''true'')) (\<lambda>_.
     andThen (issue_token S userID (su_Username req) ''admin'') (\<lambda>token.
     andThen (auditLog r ''setup.completed'' ''system'' (''initial setup completed by user '' @ quote (su_Username req)
       @ '' (id='' @ itoa_int userID @ '')'')) (\<lambda>_.
     ret (SetCookie S token (ttl_seconds S) (writeJSON 201 (LoginBody userID (su_Username req)))))))))))))))))))"

definition handleLogout :: "('k, 'n) Server \<Rightarrow> (('k, 'n) World, response) handler" where
  "handleLogout S = ret (ClearCookie S (writeJSON 200 (StatusBody ''logged out'')))"

definition handleChangePassword :: "('k, 'n) Server \<Rightarrow> Request \<Rightarrow> decode_error + changePasswordRequest \<Rightarrow> (('k, 'n) World, response) handler" where
  "handleChangePassword S r body =
     andThen (or_none (rq_Claims r) unauthorized) (\<lambda>claims.
     andThen (decodeJSON body) (\<lambda>req.
     andThen (check (\<not> (ch_OldPassword req = [] \<or> ch_NewPassword req = []))
       (writeError ''old_password and new_password required'' ''VALIDATION_ERROR'' 400)) (\<lambda>_.
     andThen (check (\<not> length (ch_NewPassword req) < MinPasswordLength)
       (writeError ''password must be at least 10 characters'' ''VALIDATION_ERROR'' 400)) (\<lambda>_.
     andThen (or_none (Sscanf_d (cl_Subject claims)) (writeError ''invalid session'' ''UNAUTHORIZED'' 401)) (\<lambda>userID.
     andThen (on_db (GetUserByID userID)) (\<lambda>g.
     andThen (or_none (or_nil g) (internal_error ''user not found'')) (\<lambda>user.
     andThen (check (VerifyPassword S (u_PasswordHash user) (ch_OldPassword req))
       (writeError ''invalid current password'' ''INVALID_CREDENTIALS'' 401)) (\<lambda>_.
     andThen (HashPassword S (ch_NewPassword req)) (\<lambda>h.
     andThen (or_none h (internal_error ''internal error'')) (\<lambda>hash.
     andThen (on_db (UpdateUserPassword userID hash)) (\<lambda>e.
     andThen (no_error e (internal_error ''failed to update password'')) (\<lambda>_.
     andThen (auditLog r ''auth.password_changed'' ''user'' (''user '' @ quote (u_Username user) @ '' changed their password'')) (\<lambda>_.
     ret (ClearCookie S (writeJSON 200 (StatusBody ''password changed''))))))))))))))))"

definition handleMe :: "Request \<Rightarrow> (('k, 'n) World, response) handler" where
  "handleMe r = andThen (or_none (rq_Claims r) unauthorized) (\<lambda>claims.
     ret (writeJSON 200 (MeBody (cl_Subject claims) (cl_Username claims) (cl_Role claims))))"

section \<open>\<open>routes_users.go\<close>\<close>

record createUserRequest =
  cu_Username :: string
  cu_Password :: string
  cu_Role :: string

definition userToResponse :: "User \<Rightarrow> userResponse" where
  "userToResponse u = \<lparr>ur_ID = u_ID u, ur_Username = u_Username u, ur_Role = u_Role u, ur_CreatedAt = u_CreatedAt u,
     ur_UpdatedAt = u_UpdatedAt u\<rparr>"

definition handleListUsers :: "(('k, 'n) World, response) handler" where
  "handleListUsers =
     andThen (on_db ListUsers) (\<lambda>g.
     andThen (or_error g (internal_error ''failed to list users'')) (\<lambda>us.
     ret (writeJSON 200 (UsersBody (map userToResponse us)))))"

definition handleCreateUser :: "('k, 'n) Server \<Rightarrow> Request \<Rightarrow> decode_error + createUserRequest \<Rightarrow> (('k, 'n) World, response) handler" where
  "handleCreateUser S r body =
     andThen (decodeJSON body) (\<lambda>req.
     andThen (check (cu_Username req \<noteq> []) (writeError ''username is required'' ''VALIDATION_ERROR'' 400)) (\<lambda>_.
     andThen (check (\<not> (cu_Password req = [] \<or> length (cu_Password req) < MinPasswordLength))
       (writeError ''password must be at least 10 characters'' ''VALIDATION_ERROR'' 400)) (\<lambda>_.
     let role = (if cu_Role req = [] then ''viewer'' else cu_Role req) in
     andThen (check (\<not> (role \<noteq> ''admin'' \<and> role \<noteq> ''viewer'')) (writeError ''role must be admin or viewer'' ''VALIDATION_ERROR'' 400)) (\<lambda>_.
     andThen (on_db (GetUserByUsername (cu_Username req))) (\<lambda>g.
     andThen (or_error g (internal_error ''internal error'')) (\<lambda>existing.
     andThen (check (existing = None) (writeError (''username '' @ quote (cu_Username req) @ '' already exists'') ''VALIDATION_ERROR'' 409)) (\<lambda>_.
     andThen (HashPassword S (cu_Password req)) (\<lambda>h.
     andThen (or_none h (internal_error ''internal error'')) (\<lambda>hash.
     andThen (on_db (CreateUser \<lparr>u_ID = 0, u_Username = cu_Username req, u_PasswordHash = hash, u_Role = role,
       u_CreatedAt = 0, u_UpdatedAt = 0\<rparr>)) (\<lambda>c.
     andThen (or_error c (internal_error ''failed to create user'')) (\<lambda>uid.
     andThen (on_db (GetUserByID uid)) (\<lambda>g.
     andThen (or_none (or_nil g) (internal_error ''failed to retrieve created user'')) (\<lambda>created.
     andThen (auditLog r ''user.created'' ''user'' (''created user '' @ quote (cu_Username req) @ '' (id='' @ itoa_int uid
       @ '', role='' @ role @ '')'')) (\<lambda>_.
     ret (writeJSON 201 (UserBody (userToResponse created)))))))))))))))))"

definition handleDeleteUser :: "Request \<Rightarrow> (('k, 'n) World, response) handler" where
  "handleDeleteUser r =
     andThen (parse_id (rq_id r) ''user'') (\<lambda>uid.
     andThen (check (\<not> (case rq_Claims r of None \<Rightarrow> False | Some claims \<Rightarrow> Sscanf_d (cl_Subject claims) = Some uid))
       (writeError ''cannot delete your own account'' ''VALIDATION_ERROR'' 400)) (\<lambda>_.
     andThen (on_db (GetUserByID uid)) (\<lambda>g.
     andThen (or_error g (internal_error ''failed to get user'')) (\<lambda>uo.
     andThen (or_none uo (writeError (''user '' @ itoa_int uid @ '' not found'') ''VALIDATION_ERROR'' 404)) (\<lambda>user.
     andThen (on_db (DeleteUser uid)) (\<lambda>e.
     andThen (no_error e (internal_error ''failed to delete user'')) (\<lambda>_.
     andThen (auditLog r ''user.deleted'' ''user'' (''deleted user '' @ quote (u_Username user) @ '' (id='' @ itoa_int uid @ '')'')) (\<lambda>_.
     ret (writeJSON 204 NoBody)))))))))"

section \<open>\<open>routes_api_keys.go\<close>\<close>

record createAPIKeyRequest =
  ck_Name :: string
  ck_Role :: string
  ck_ExpiresIn :: string

text \<open>The error of \<open>strconv.ParseInt\<close>.\<close>

definition ParseInt_text :: "string \<Rightarrow> string" where
  "ParseInt_text s = (let digits = (case s of [] \<Rightarrow> [] | c # cs \<Rightarrow> if c = CHR ''+'' \<or> c = CHR ''-'' then cs else s) in
     ''strconv.ParseInt: parsing '' @ quote s @ (if digits \<noteq> [] \<and> list_all is_digit digits then '': value out of range'' else '': invalid syntax''))"

definition caller_id :: "Request \<Rightarrow> (('k, 'n) World, Claims \<times> int) handler" where
  "caller_id r =
     andThen (or_none (rq_Claims r) (writeError ''no user in context'' ''UNAUTHORIZED'' 401)) (\<lambda>claims.
     andThen (or_none (Atoi (cl_Subject claims)) (internal_error (''parse user id: '' @ ParseInt_text (cl_Subject claims)))) (\<lambda>userID.
     ret (claims, userID)))"

definition apiKeyItem :: "APIKey \<Rightarrow> apiKeyResponse" where
  "apiKeyItem k = \<lparr>kr_ID = ak_ID k, kr_Name = ak_Name k, kr_KeyPrefix = ak_KeyPrefix k, kr_Role = ak_Role k,
     kr_ExpiresAt = ak_ExpiresAt k, kr_CreatedAt = ak_CreatedAt k, kr_LastUsed = ak_LastUsed k\<rparr>"

definition handleListAPIKeys :: "('k, 'n) Server \<Rightarrow> Request \<Rightarrow> (('k, 'n) World, response) handler" where
  "handleListAPIKeys S r =
     andThen (caller_id r) (\<lambda>(claims, userID).
     andThen (on_db (if cl_Role claims = ''admin'' then ListAllAPIKeys else ListAPIKeys userID)) (\<lambda>g.
     case g of
       Inl e \<Rightarrow> stop (internal_error (''list api keys: '' @ db_text S e))
     | Inr ks \<Rightarrow> ret (writeJSON 200 (KeysBody (map apiKeyItem ks)))))"

definition validateCreateAPIKey :: "createAPIKeyRequest \<Rightarrow> string \<Rightarrow> fieldError list" where
  "validateCreateAPIKey req role =
     fe (ck_Name req \<noteq> []) ''name'' ''name is required''
   @ fe (\<not> (role \<noteq> ''admin'' \<and> role \<noteq> ''viewer'')) ''role'' (''role must be '' @ [CHR 0x27] @ ''admin'' @ [CHR 0x27] @ '' or '' @ [CHR 0x27] @ ''viewer'' @ [CHR 0x27])"

definition key_expiry :: "('k, 'n) Server \<Rightarrow> string \<Rightarrow> (('k, 'n) World, int option) handler" where
  "key_expiry S expiresIn = (if expiresIn = [] then ret None
     else andThen (or_none (ParseDuration (duration_frac S) expiresIn)
         (writeValidationError (fe False ''expires_in'' (''invalid duration format (e.g. '' @ [CHR 0x27] @ ''720h'' @ [CHR 0x27] @ '')'')))) (\<lambda>d.
       andThen time_Now (\<lambda>t. ret (Some ((t + d) div 1000000000)))))"

definition handleCreateAPIKey :: "('k, 'n) Server \<Rightarrow> Request \<Rightarrow> decode_error + createAPIKeyRequest \<Rightarrow> (('k, 'n) World, response) handler" where
  "handleCreateAPIKey S r body =
     andThen (caller_id r) (\<lambda>(claims, userID).
     andThen (decodeJSON body) (\<lambda>req.
     let role = (if ck_Role req = [] then ''admin'' else ck_Role req) in
     andThen (check (validateCreateAPIKey req role = []) (writeValidationError (validateCreateAPIKey req role))) (\<lambda>_.
     andThen (key_expiry S (ck_ExpiresIn req)) (\<lambda>expiresAt.
     andThen (GenerateAPIKey S) (\<lambda>g.
     andThen (or_none g (internal_error (''generate api key: generate api key: '' @ rand_text S))) (\<lambda>(key, hash, prefix).
     andThen (on_db (CreateAPIKey \<lparr>ak_ID = 0, ak_Name = ck_Name req, ak_KeyHash = hash, ak_KeyPrefix = prefix, ak_UserID = userID,
       ak_Role = role, ak_ExpiresAt = expiresAt, ak_CreatedAt = 0, ak_LastUsed = None\<rparr>)) (\<lambda>c.
     case c of
       Inl e \<Rightarrow> stop (internal_error (''create api key: '' @ db_text S e))
     | Inr kid \<Rightarrow>
         andThen (auditLog r ''api_key.created'' ''api_key'' (''created API key '' @ quote (ck_Name req) @ '' (id='' @ itoa_int kid @ '')'')) (\<lambda>_.
         ret (writeJSON 201 (CreatedKeyBody \<lparr>ckr_ID = kid, ckr_Key = key, ckr_Name = ck_Name req, ckr_KeyPrefix = prefix,
           ckr_Role = role, ckr_ExpiresAt = expiresAt\<rparr>))))))))))"

definition handleDeleteAPIKey :: "('k, 'n) Server \<Rightarrow> Request \<Rightarrow> (('k, 'n) World, response) handler" where
  "handleDeleteAPIKey S r =
     andThen (or_none (Atoi (rq_id r)) (writeError ''invalid api key id'' ''VALIDATION_ERROR'' 400)) (\<lambda>kid.
     andThen (on_db (DeleteAPIKey kid)) (\<lambda>e.
     case e of
       Some err \<Rightarrow> stop (internal_error (''delete api key: '' @ db_text S err))
     | None \<Rightarrow>
         andThen (auditLog r ''api_key.deleted'' ''api_key'' (''deleted API key id='' @ itoa_int kid)) (\<lambda>_.
         ret (writeJSON 200 (StatusBody ''deleted'')))))"

end
