(* ===== verification/SetupRoutes.thy ===== *)
theory SetupRoutes
  imports AuthRoutes PeerRoutes
begin

text \<open>
  \<open>internal/server/routes_setup.go\<close>: the wizard of the first run, whose progress is kept in four
  settings, the detection of the public address, and the import of a wg-quick file.
\<close>

section \<open>The state of the wizard\<close>

text \<open>
  The settings are read one after the other, up to the first that is not \<open>true\<close>; the result
  is whether the setup is complete, and the current step.
\<close>

fun first_open :: "(string \<times> int) list \<Rightarrow> DB \<Rightarrow> (db_error + int) \<times> DB" where
  "first_open [] d = (Inr 4, d)"
| "first_open ((key, step) # rest) d = (case GetSetting key d of
      (Inl e, d1) \<Rightarrow> (Inl e, d1)
    | (Inr v, d1) \<Rightarrow> if v \<noteq> ''true'' then (Inr step, d1) else first_open rest d1)"

definition getSetupState :: "DB \<Rightarrow> (db_error + bool \<times> int) \<times> DB" where
  "getSetupState d = (case GetSetting ''setup_complete'' d of
      (Inl e, d1) \<Rightarrow> (Inl e, d1)
    | (Inr v, d1) \<Rightarrow>
        if v = ''true'' then (Inr (True, 4), d1)
        else (case first_open [(''setup_step1_done'', 1), (''setup_step2_done'', 2), (''setup_step3_done'', 3)] d1 of
            (Inl e, d2) \<Rightarrow> (Inl e, d2) | (Inr step, d2) \<Rightarrow> (Inr (False, step), d2)))"

definition handleSetupStatus :: "('k, 'n) Server \<Rightarrow> (('k, 'n) World, response) handler" where
  "handleSetupStatus S =
     andThen (on_db getSetupState) (\<lambda>g.
     andThen (or_error g (internal_error ''failed to check setup status'')) (\<lambda>(complete, step).
     andThen (case wgManager S of
         None \<Rightarrow> ret []
       | Some K \<Rightarrow> if complete then ret []
           else andThen (wg_query DetectInterfaces K) (\<lambda>res. ret (case res of Inl _ \<Rightarrow> [] | Inr ifaces \<Rightarrow> ifaces))) (\<lambda>ifaces.
     ret (writeJSON 200 (SetupStatusBody complete step ifaces)))))"

text \<open>
  What every step begins with: 500 if the state cannot be read, 409 if the setup is complete;
  then the step it is at.
\<close>

definition wizard_step :: "(('k, 'n) World, int) handler" where
  "wizard_step =
     andThen (on_db getSetupState) (\<lambda>g.
     andThen (or_error g (internal_error ''internal error'')) (\<lambda>(complete, step).
     andThen (check (\<not> complete) (writeError ''setup already completed'' ''SETUP_ALREADY_COMPLETE'' 409)) (\<lambda>_.
     ret step)))"

definition previous_first :: response where
  "previous_first = writeError ''previous steps must be completed first'' ''STEP_ORDER_VIOLATION'' 400"

section \<open>Step 1: the administrator\<close>

definition validateStep1 :: "setupRequest \<Rightarrow> fieldError list" where
  "validateStep1 req =
     fe (su_OTP req \<noteq> []) ''otp'' ''required''
   @ fe (su_Username req \<noteq> []) ''username'' ''required''
   @ fe (isValidName (su_Username req)) ''username'' ''1-64 alphanumeric characters, hyphens, underscores''
   @ fe (\<not> length (su_Password req) < MinPasswordLength) ''password'' ''must be at least 10 characters''"

definition handleSetupStep1 :: "('k, 'n) Server \<Rightarrow> decode_error + setupRequest \<Rightarrow> (('k, 'n) World, response) handler" where
  "handleSetupStep1 S body =
     andThen wizard_step (\<lambda>step.
     andThen (check (\<not> step > 1) (writeError ''step 1 already completed, OTP already used'' ''SETUP_ALREADY_COMPLETE'' 409)) (\<lambda>_.
     andThen (decodeJSON body) (\<lambda>req.
     andThen (check (validateStep1 req = []) (writeValidationError (validateStep1 req))) (\<lambda>_.
     andThen (on_db (GetSetting ''setup_otp'')) (\<lambda>g.
     andThen (or_error g (internal_error ''internal error'')) (\<lambda>otpHash.
     andThen (check (otpHash \<noteq> []) (writeError ''setup OTP already used'' ''SETUP_ALREADY_COMPLETE'' 409)) (\<lambda>_.
     andThen (check (VerifyPassword S otpHash (su_OTP req)) (writeError ''invalid setup password'' ''INVALID_OTP'' 401)) (\<lambda>_.
     andThen (create_admin S (su_Username req) (su_Password req)) (\<lambda>userID.
     andThen (on_db (DeleteSetting ''setup_otp'')) (\<lambda>_.
     andThen (on_db (SetSetting ''setup_step1_done'' ''true'')) (\<lambda>_.
     andThen (issue_token S userID (su_Username req) ''admin'') (\<lambda>token.
     ret (SetCookie S token (ttl_seconds S) (writeJSON 201 (LoginBody userID (su_Username req))))))))))))))))"

section \<open>Step 2: the identity of the server\<close>

record setupStep2Request =
  s2_PublicIP :: string
  s2_Hostname :: string
  s2_DNSServers :: string

definition validateStep2 :: "setupStep2Request \<Rightarrow> fieldError list" where
  "validateStep2 req =
     fe (\<not> (s2_PublicIP req \<noteq> [] \<and> ParseIP (s2_PublicIP req) = None)) ''public_ip'' ''must be a valid IP address''
   @ fe (\<not> (s2_Hostname req \<noteq> [] \<and> \<not> isValidHostname (s2_Hostname req))) ''hostname'' ''must be a valid FQDN''
   @ fe (isValidDNSServers (s2_DNSServers req)) ''dns_servers'' ''must be up to 3 valid IP addresses, comma-separated''"

definition save_given :: "string \<Rightarrow> string \<Rightarrow> (('k, 'n) World, unit) handler" where
  "save_given key v = (if v = [] then ret ()
     else andThen (on_db (SetSetting key v)) (\<lambda>e. no_error e (internal_error ''failed to save settings'')))"

definition handleSetupStep2 :: "decode_error + setupStep2Request \<Rightarrow> (('k, 'n) World, response) handler" where
  "handleSetupStep2 body =
     andThen wizard_step (\<lambda>step.
     andThen (check (\<not> step < 2) (writeError ''step 1 must be completed first'' ''STEP_ORDER_VIOLATION'' 400)) (\<lambda>_.
     andThen (decodeJSON body) (\<lambda>req.
     andThen (check (validateStep2 req = []) (writeValidationError (validateStep2 req))) (\<lambda>_.
     andThen (save_given ''public_ip'' (s2_PublicIP req)) (\<lambda>_.
     andThen (save_given ''hostname'' (s2_Hostname req)) (\<lambda>_.
     andThen (save_given ''dns_servers'' (s2_DNSServers req)) (\<lambda>_.
     andThen (on_db (SetSetting ''setup_step2_done'' ''true'')) (\<lambda>_.
     ret (writeJSON 200 (StatusBody ''ok''))))))))))"

section \<open>Step 3: the first network\<close>

record setupStep3Request =
  s3_Name :: string
  s3_Mode :: string
  s3_Subnet :: string
  s3_ListenPort :: int
  s3_NATEnabled :: bool
  s3_InterPeerRouting :: bool

definition step3_create :: "setupStep3Request \<Rightarrow> string \<Rightarrow> createNetworkRequest" where
  "step3_create req dns = \<lparr>cn_Name = s3_Name req, cn_Mode = s3_Mode req, cn_Subnet = s3_Subnet req, cn_ListenPort = s3_ListenPort req,
     cn_DNSServers = dns, cn_NATEnabled = s3_NATEnabled req, cn_InterPeerRouting = s3_InterPeerRouting req\<rparr>"

definition answer_first_network :: "('k, 'n) Server \<Rightarrow> int \<Rightarrow> (('k, 'n) World, response) handler" where
  "answer_first_network S nid =
     andThen (on_db (SetSetting ''setup_network_id'' (itoa_int nid))) (\<lambda>_.
     andThen (on_db (SetSetting ''setup_step3_done'' ''true'')) (\<lambda>_.
     andThen (on_db (GetNetworkByID (aead_of S) nid)) (\<lambda>g.
     andThen (or_none (or_nil g) (internal_error ''failed to retrieve created network'')) (\<lambda>created.
     ret (writeJSON 201 (FirstNetworkBody (networkToResponse created)))))))"

text \<open>Interface, firewall, database; the firewall part is the one of \<open>handleCreateNetwork\<close>.\<close>

definition install_first_network :: "('k, 'n) Server \<Rightarrow> Network \<Rightarrow> (('k, 'n) World, response) handler" where
  "install_first_network S network =
     andThen (wg_call S (\<lambda>K. CreateInterface K (net_cfg network))) (\<lambda>e.
     andThen (no_error e (writeError ''failed to create WireGuard interface'' ''INTERFACE_CREATE_FAILED'' 500)) (\<lambda>_.
     andThen (apply_firewall S network) (\<lambda>_.
     andThen (on_db (CreateNetwork (aead_of S) network)) (\<lambda>res.
     case res of
       Inl _ \<Rightarrow> undo_interface S (n_Interface network) (internal_error ''failed to create network'')
     | Inr nid \<Rightarrow> answer_first_network S nid))))"

definition handleSetupStep3 :: "('k, 'n) Server \<Rightarrow> decode_error + setupStep3Request \<Rightarrow> (('k, 'n) World, response) handler" where
  "handleSetupStep3 S body =
     andThen wizard_step (\<lambda>step.
     andThen (check (\<not> step < 3) previous_first) (\<lambda>_.
     andThen (decodeJSON body) (\<lambda>req.
     andThen (check (validateCreateNetwork (step3_create req []) = []) (writeValidationError (validateCreateNetwork (step3_create req [])))) (\<lambda>_.
     andThen (on_db (GetSetting ''dns_servers'')) (\<lambda>g.
     andThen GenerateKeyPair (\<lambda>kp.
     andThen (or_none kp (internal_error ''failed to generate server keypair'')) (\<lambda>keys.
     andThen (on_db (ListNetworks (aead_of S))) (\<lambda>l.
     andThen (or_error l (internal_error ''internal error'')) (\<lambda>existing.
     andThen (or_none (nextInterfaceName existing) looping) (\<lambda>iface.
     install_first_network S (new_network (step3_create req (case g of Inl _ \<Rightarrow> [] | Inr dns \<Rightarrow> dns)) iface keys)))))))))))"

section \<open>Step 4: the first peer\<close>

record setupStep4Request =
  s4_Name :: string
  s4_Role :: string
  s4_TunnelType :: string

definition validateStep4 :: "setupStep4Request \<Rightarrow> fieldError list" where
  "validateStep4 req =
     fe (isValidName (s4_Name req)) ''name'' ''1-64 alphanumeric characters, spaces, hyphens, underscores''
   @ fe (isValidRole (s4_Role req)) ''role'' ''must be client or site-gateway''
   @ fe (\<not> (s4_TunnelType req \<noteq> [] \<and> s4_TunnelType req \<noteq> ''full'' \<and> s4_TunnelType req \<noteq> ''split'')) ''tunnel_type'' ''must be full or split''"

text \<open>The network of step 3.\<close>

definition setup_network :: "('k, 'n) Server \<Rightarrow> (('k, 'n) World, int \<times> Network) handler" where
  "setup_network S =
     andThen (on_db (GetSetting ''setup_network_id'')) (\<lambda>g.
     andThen (or_none (case g of Inl _ \<Rightarrow> None | Inr s \<Rightarrow> if s = [] then None else Some s) (internal_error ''no network found from step 3'')) (\<lambda>s.
     andThen (or_none (Sscanf_d s) (internal_error ''invalid network ID from step 3'')) (\<lambda>nid.
     andThen (on_db (GetNetworkByID (aead_of S) nid)) (\<lambda>g.
     andThen (or_none (or_nil g) (internal_error ''network from step 3 not found'')) (\<lambda>n.
     ret (nid, n))))))"

definition setup_allocate :: "Network \<Rightarrow> Peer list \<Rightarrow> (('k, 'n) World, ip) handler" where
  "setup_allocate n ps =
     andThen (or_error (NewIPAllocator (map_option snd (ParseCIDR (n_Subnet n))) (used_ips ps))
       (internal_error ''failed to create IP allocator'')) (\<lambda>a.
     andThen (or_none (Allocate a) looping) (\<lambda>res.
     or_error (fst res) (writeError ''no available IPs in subnet'' ''IP_POOL_EXHAUSTED'' 409)))"

definition first_peer :: "setupStep4Request \<Rightarrow> int \<Rightarrow> ip \<Rightarrow> string \<times> string \<Rightarrow> string \<Rightarrow> Peer" where
  "first_peer req nid i keys psk = \<lparr>p_ID = 0, p_NetworkID = nid, p_Name = s4_Name req, p_Email = [],
     p_PrivateKey = fst keys, p_PublicKey = snd keys, p_PresharedKey = psk, p_AllowedIPs = IP_String i @ ''/32'',
     p_Endpoint = [], p_PersistentKeepalive = 25, p_Role = s4_Role req, p_SiteNetworks = [], p_Enabled = True,
     p_ExpiresAt = None, p_CreatedAt = 0, p_UpdatedAt = 0\<rparr>"

definition first_client_params :: "setupStep4Request \<Rightarrow> Network \<Rightarrow> Peer \<Rightarrow> string \<Rightarrow> ClientConfigParams" where
  "first_client_params req n p publicIP = \<lparr>c_PeerName = s4_Name req, c_PeerPrivateKey = p_PrivateKey p, c_PeerAddress = p_AllowedIPs p,
     c_DNSServers = n_DNSServers n, c_ServerPublicKey = n_PublicKey n, c_PresharedKey = p_PresharedKey p,
     c_ServerEndpoint = publicIP @ '':'' @ itoa_int (n_ListenPort n),
     c_AllowedIPs = (if s4_TunnelType req = [] \<or> s4_TunnelType req = ''full'' then ''0.0.0.0/0, ::/0'' else n_Subnet n),
     c_PersistentKeepalive = 25\<rparr>"

text \<open>The file and the QR code of the peer, the end of the setup and the response.\<close>

definition answer_first_peer :: "('k, 'n) Server \<Rightarrow> setupStep4Request \<Rightarrow> Network \<Rightarrow> Peer \<Rightarrow> int \<Rightarrow> (('k, 'n) World, response) handler" where
  "answer_first_peer S req n p pid =
     andThen (on_db (GetSetting ''public_ip'')) (\<lambda>g.
     let publicIP = (case g of Inl _ \<Rightarrow> ''YOUR_SERVER_IP'' | Inr s \<Rightarrow> if s = [] then ''YOUR_SERVER_IP'' else s) in
     andThen (or_error (GenerateClientConfig (first_client_params req n p publicIP)) (internal_error ''failed to generate client config'')) (\<lambda>conf.
     andThen (or_none (GenerateQRCode S conf 256) (internal_error ''failed to generate QR code'')) (\<lambda>png.
     andThen (on_db (SetSetting ''setup_complete'' ''true'')) (\<lambda>_.
     andThen (on_db (GetPeerByID (aead_of S) pid)) (\<lambda>g.
     andThen (or_none (or_nil g) (internal_error ''failed to retrieve created peer'')) (\<lambda>created.
     ret (writeJSON 201 (FirstPeerBody (peerToResponse created) conf (EncodeToString png)))))))))"

definition install_first_peer :: "('k, 'n) Server \<Rightarrow> setupStep4Request \<Rightarrow> Network \<Rightarrow> Peer \<Rightarrow> (('k, 'n) World, response) handler" where
  "install_first_peer S req n p =
     andThen (wg_call S (\<lambda>K. AddPeer K (n_Interface n) (peer_cfg p))) (\<lambda>e.
     andThen (no_error e (writeError ''failed to add peer to WireGuard'' ''WG_PEER_ADD_FAILED'' 500)) (\<lambda>_.
     andThen (on_db (CreatePeer (aead_of S) p)) (\<lambda>res. case res of
        Inl _ \<Rightarrow> andThen (wg_call S (\<lambda>K. RemovePeer K (n_Interface n) (p_PublicKey p))) (\<lambda>_.
                 stop (internal_error ''failed to create peer''))
      | Inr pid \<Rightarrow> answer_first_peer S req n p pid)))"

definition handleSetupStep4 :: "('k, 'n) Server \<Rightarrow> decode_error + setupStep4Request \<Rightarrow> (('k, 'n) World, response) handler" where
  "handleSetupStep4 S body =
     andThen wizard_step (\<lambda>step.
     andThen (check (\<not> step < 4) previous_first) (\<lambda>_.
     andThen (decodeJSON body) (\<lambda>req.
     andThen (check (validateStep4 req = []) (writeValidationError (validateStep4 req))) (\<lambda>_.
     andThen (setup_network S) (\<lambda>(nid, n).
     andThen (on_db (ListPeersByNetworkID (aead_of S) nid)) (\<lambda>l.
     andThen (or_error l (internal_error ''internal error'')) (\<lambda>existing.
     andThen (setup_allocate n existing) (\<lambda>i.
     andThen GenerateKeyPair (\<lambda>kp.
     andThen (or_none kp (internal_error ''failed to generate peer keypair'')) (\<lambda>keys.
     andThen GeneratePresharedKey (\<lambda>sk.
     andThen (or_none sk (internal_error ''failed to generate preshared key'')) (\<lambda>psk.
     install_first_peer S req n (first_peer req nid i keys psk)))))))))))))"

section \<open>The public address\<close>

text \<open>
  The services are asked in turn; the answer of each is the next element of \<open>w_http\<close>, \<open>None\<close> if
  the request or reading the body failed.
\<close>

definition ipDetectServices :: "string list" where
  "ipDetectServices = [''https://api.ipify.org'', ''https://icanhazip.com'', ''https://ifconfig.me/ip'']"

definition http_get :: "string \<Rightarrow> (('k, 'n) World, (int \<times> string) option) handler" where
  "http_get url = (\<lambda>w. case w_http w of [] \<Rightarrow> (Inr None, w) | a # as \<Rightarrow> (Inr a, w\<lparr>w_http := as\<rparr>))"

fun detect_loop :: "string list \<Rightarrow> (('k, 'n) World, string) handler" where
  "detect_loop [] = ret []"
| "detect_loop (svc # rest) =
     andThen (http_get svc) (\<lambda>res. case res of
         None \<Rightarrow> detect_loop rest
       | Some (st, body) \<Rightarrow>
           if st \<noteq> 200 then detect_loop rest
           else let addr = TrimSpace (take 64 body) in
             if ParseIP addr \<noteq> None then ret addr else detect_loop rest)"

definition detectPublicIP :: "(('k, 'n) World, string) handler" where
  "detectPublicIP = detect_loop ipDetectServices"

definition handleDetectPublicIP :: "(('k, 'n) World, response) handler" where
  "handleDetectPublicIP = andThen detectPublicIP (\<lambda>addr. ret (writeJSON 200 (PublicIPBody addr)))"

section \<open>Importing a wg-quick file\<close>

record importRequest =
  im_Config :: string
  im_Name :: string

definition PublicKeyFromPrivate :: "('k, 'n) Server \<Rightarrow> string \<Rightarrow> string option" where
  "PublicKeyFromPrivate S key = publicKeyOf S key"

definition import_error_text :: "import_error \<Rightarrow> string" where
  "import_error_text e = ''parse wg-quick config: '' @ (case e of
      LineTooLong \<Rightarrow> ''bufio.Scanner: token too long'' | NoPrivateKey \<Rightarrow> ''no PrivateKey in [Interface] section'')"

definition imported_network :: "string \<Rightarrow> ImportedConfig \<Rightarrow> string \<Rightarrow> string \<Rightarrow> Network" where
  "imported_network name cfg iface pubKey = \<lparr>n_ID = 0, n_Name = name, n_Interface = iface, n_Mode = ''gateway'', n_Subnet = i_Address cfg,
     n_ListenPort = (if i_ListenPort cfg = 0 then 51820 else i_ListenPort cfg), n_PrivateKey = i_PrivateKey cfg, n_PublicKey = pubKey,
     n_DNSServers = i_DNSServers cfg, n_NATEnabled = False, n_InterPeerRouting = False, n_Enabled = True, n_CreatedAt = 0, n_UpdatedAt = 0\<rparr>"

definition imported_peer :: "int \<Rightarrow> nat \<Rightarrow> ImportedPeer \<Rightarrow> Peer" where
  "imported_peer nid i p = \<lparr>p_ID = 0, p_NetworkID = nid, p_Name = ''Imported Peer '' @ itoa (i + 1), p_Email = [],
     p_PrivateKey = [], p_PublicKey = i_PublicKey p, p_PresharedKey = i_PresharedKey p, p_AllowedIPs = i_AllowedIPs p,
     p_Endpoint = i_Endpoint p, p_PersistentKeepalive = i_PersistentKeepalive p, p_Role = ''client'', p_SiteNetworks = [],
     p_Enabled = True, p_ExpiresAt = None, p_CreatedAt = 0, p_UpdatedAt = 0\<rparr>"

text \<open>The number of peers that could be stored; the others are skipped.\<close>

fun import_peers :: "aead \<Rightarrow> int \<Rightarrow> nat \<Rightarrow> ImportedPeer list \<Rightarrow> DB \<Rightarrow> nat \<times> DB" where
  "import_peers A nid i [] d = (0, d)"
| "import_peers A nid i (p # ps) d = (case CreatePeer A (imported_peer nid i p) d of
      (res, d1) \<Rightarrow> (case import_peers A nid (i + 1) ps d1 of
          (n, d2) \<Rightarrow> (case res of Inl _ \<Rightarrow> (n, d2) | Inr _ \<Rightarrow> (n + 1, d2))))"

definition handleImportConfig :: "('k, 'n) Server \<Rightarrow> Request \<Rightarrow> decode_error + importRequest \<Rightarrow> (('k, 'n) World, response) handler" where
  "handleImportConfig S r body =
     andThen (decodeJSON body) (\<lambda>req.
     andThen (check (im_Config req \<noteq> []) (writeError ''config content is required'' ''VALIDATION_ERROR'' 400)) (\<lambda>_.
     let name = (if im_Name req = [] then ''Imported Network'' else im_Name req) in
     case ParseWgQuickConfig (im_Config req) of
       Inl e \<Rightarrow> stop (writeError (''failed to parse config: '' @ import_error_text e) ''VALIDATION_ERROR'' 400)
     | Inr parsed \<Rightarrow>
         andThen (or_none (PublicKeyFromPrivate S (i_PrivateKey parsed)) (writeError ''invalid private key in config'' ''VALIDATION_ERROR'' 400)) (\<lambda>pubKey.
         andThen (check (i_Address parsed \<noteq> []) (writeError ''no Address in [Interface] section'' ''VALIDATION_ERROR'' 400)) (\<lambda>_.
         andThen (on_db (ListNetworks (aead_of S))) (\<lambda>l.
         andThen (or_error l (internal_error ''internal error'')) (\<lambda>existing.
         andThen (or_none (nextInterfaceName existing) looping) (\<lambda>iface.
         andThen (on_db (CreateNetwork (aead_of S) (imported_network name parsed iface pubKey))) (\<lambda>c.
         andThen (or_error c (internal_error ''failed to create network'')) (\<lambda>netID.
         andThen (on_db (import_peers (aead_of S) netID 0 (i_Peers parsed))) (\<lambda>count.
         andThen (auditLog r ''network.imported'' ''network'' (''imported network '' @ quote name @ '' (id='' @ itoa_int netID
           @ '') with '' @ itoa count @ '' peers'')) (\<lambda>_.
         ret (writeJSON 201 (ImportedBody netID iface (int count))))))))))))))"

end
