(* ===== verification/Routing.thy ===== *)
theory Routing
  imports StatusRoutes SetupRoutes BridgeRoutes
begin

text \<open>
  \<open>internal/server/routes.go\<close>, \<open>server.go\<close> and \<open>frontend.go\<close> with the middleware of
  \<open>internal/middleware\<close> and \<open>security_headers.go\<close>: the table of routes with their guards, the choice of
  the route by method and path, and the chain every request passes.

  The pattern matching is that of \<open>http.ServeMux\<close> for the patterns of this table, whose segments are
  literals or wildcards of one segment.  A path is one the mux does not redirect: it is clean and
  without escaped slashes.
\<close>

section \<open>Requests\<close>

text \<open>What decoding the body gives for each type a handler decodes into.\<close>

record Body =
  b_login :: "decode_error + loginRequest"
  b_setup :: "decode_error + setupRequest"
  b_password :: "decode_error + changePasswordRequest"
  b_step2 :: "decode_error + setupStep2Request"
  b_step3 :: "decode_error + setupStep3Request"
  b_step4 :: "decode_error + setupStep4Request"
  b_import :: "decode_error + importRequest"
  b_createNetwork :: "decode_error + createNetworkRequest"
  b_updateNetwork :: "decode_error + updateNetworkRequest"
  b_createPeer :: "decode_error + createPeerRequest"
  b_updatePeer :: "decode_error + updatePeerRequest"
  b_createBridge :: "decode_error + createBridgeRequest"
  b_updateBridge :: "decode_error + updateBridgeRequest"
  b_createUser :: "decode_error + createUserRequest"
  b_settings :: "decode_error + updateSettingsRequest"
  b_createAlert :: "decode_error + createAlertRequest"
  b_updateAlert :: "decode_error + updateAlertRequest"
  b_createAPIKey :: "decode_error + createAPIKeyRequest"

text \<open>A request as it arrives; the path values and the claims of \<open>hr_Request\<close> are not set yet.\<close>

record HttpRequest =
  hr_Method :: string
  hr_Path :: string
  hr_TLS :: bool
  hr_Request :: Request
  hr_Body :: Body

section \<open>The guards\<close>

datatype guard = Public | Protected | Guarded | AdminOnly

fun wrap :: "('k, 'n) Server \<Rightarrow> guard \<Rightarrow> ('k, 'n) endpoint \<Rightarrow> ('k, 'n) endpoint" where
  "wrap S Public h = h"
| "wrap S Protected h = RequireAuth S h"
| "wrap S Guarded h = RequireAuth S (setupGuard h)"
| "wrap S AdminOnly h = RequireAuth S (setupGuard (RequireRole [''admin''] h))"

section \<open>The table of routes\<close>

text \<open>A handler that has already been run to its response.\<close>

definition served :: "(('k, 'n) World \<Rightarrow> response \<times> ('k, 'n) World) \<Rightarrow> (('k, 'n) World, response) handler" where
  "served f = (\<lambda>w. case f w of (r, w') \<Rightarrow> (Inr r, w'))"

definition notImplemented :: "HttpRequest \<Rightarrow> response" where
  "notImplemented hr = writeError (''endpoint '' @ hr_Method hr @ '' '' @ hr_Path hr @ '' is not yet implemented'') ''INTERNAL_ERROR'' 501"

text \<open>The figures of the Go runtime in this answer are left out.\<close>

definition handleSystemInfo :: "('k, 'n) Server \<Rightarrow> (('k, 'n) World, response) handler" where
  "handleSystemInfo S = andThen time_Now (\<lambda>t. let uptime = t - startTime S in
     ret (writeJSON 200 (SystemBody (server_version S) (formatDuration uptime) (uptime div 1000000000))))"

definition routes :: "('k, 'n) Server \<Rightarrow> HttpRequest \<Rightarrow> (string \<times> guard \<times> ('k, 'n) endpoint) list" where
  "routes S hr = (let b = hr_Body hr; todo = (\<lambda>r. ret (notImplemented hr)) in [
     (''GET /health'', Public, \<lambda>r. handleHealth S),
     (''GET /metrics'', Public, \<lambda>r. handleMetrics S),
     (''POST /api/auth/login'', Public, \<lambda>r. handleLogin S r (b_login b)),
     (''POST /api/auth/setup'', Public, \<lambda>r. handleSetup S r (b_setup b)),
     (''POST /api/auth/logout'', Public, \<lambda>r. handleLogout S),
     (''GET /api/setup/status'', Public, \<lambda>r. handleSetupStatus S),
     (''POST /api/setup/step/1'', Public, \<lambda>r. handleSetupStep1 S (b_setup b)),
     (''POST /api/setup/step/2'', Protected, \<lambda>r. handleSetupStep2 (b_step2 b)),
     (''POST /api/setup/step/3'', Protected, \<lambda>r. handleSetupStep3 S (b_step3 b)),
     (''POST /api/setup/step/4'', Protected, \<lambda>r. handleSetupStep4 S (b_step4 b)),
     (''GET /api/setup/detect-ip'', Public, \<lambda>r. handleDetectPublicIP),
     (''POST /api/setup/import'', Protected, \<lambda>r. handleImportConfig S r (b_import b)),
     (''GET /api/auth/me'', Protected, handleMe),
     (''PUT /api/auth/password'', Protected, \<lambda>r. handleChangePassword S r (b_password b)),
     (''GET /api/networks'', Guarded, \<lambda>r. served (handleListNetworks S)),
     (''POST /api/networks'', Guarded, \<lambda>r. served (handleCreateNetwork S r (b_createNetwork b))),
     (''GET /api/networks/{id}'', Guarded, \<lambda>r. served (handleGetNetwork S r)),
     (''PUT /api/networks/{id}'', Guarded, \<lambda>r. served (handleUpdateNetwork S r (b_updateNetwork b))),
     (''DELETE /api/networks/{id}'', Guarded, \<lambda>r. served (handleDeleteNetwork S r)),
     (''POST /api/networks/{id}/enable'', Guarded, \<lambda>r. served (handleEnableNetwork S r)),
     (''POST /api/networks/{id}/disable'', Guarded, \<lambda>r. served (handleDisableNetwork S r)),
     (''GET /api/networks/{id}/export'', Guarded, \<lambda>r. served (handleExportNetwork S r)),
     (''GET /api/networks/{id}/peers'', Guarded, \<lambda>r. served (handleListPeers S r)),
     (''POST /api/networks/{id}/peers'', Guarded, \<lambda>r. served (handleCreatePeer S r (b_createPeer b))),
     (''GET /api/networks/{id}/peers/{pid}'', Guarded, \<lambda>r. served (handleGetPeer S r)),
     (''PUT /api/networks/{id}/peers/{pid}'', Guarded, \<lambda>r. served (handleUpdatePeer S r (b_updatePeer b))),
     (''DELETE /api/networks/{id}/peers/{pid}'', Guarded, \<lambda>r. served (handleDeletePeer S r)),
     (''POST /api/networks/{id}/peers/{pid}/enable'', Guarded, \<lambda>r. served (handleEnablePeer S r)),
     (''POST /api/networks/{id}/peers/{pid}/disable'', Guarded, \<lambda>r. served (handleDisablePeer S r)),
     (''GET /api/networks/{id}/peers/{pid}/config'', Guarded, \<lambda>r. served (handlePeerConfig S r)),
     (''GET /api/networks/{id}/peers/{pid}/qr'', Guarded, \<lambda>r. served (handlePeerQR S r)),
     (''GET /api/bridges'', Guarded, \<lambda>r. served (handleListBridges S)),
     (''POST /api/bridges'', Guarded, \<lambda>r. served (handleCreateBridge S r (b_createBridge b))),
     (''GET /api/bridges/{id}'', Guarded, \<lambda>r. served (handleGetBridge S r)),
     (''PUT /api/bridges/{id}'', Guarded, \<lambda>r. served (handleUpdateBridge S r (b_updateBridge b))),
     (''DELETE /api/bridges/{id}'', Guarded, \<lambda>r. served (handleDeleteBridge S r)),
     (''GET /api/status'', Guarded, \<lambda>r. handleStatus S),
     (''GET /api/networks/{id}/events'', Guarded, handleSSEEvents S),
     (''GET /api/networks/{id}/stats'', Guarded, handleNetworkStats S),
     (''GET /api/debug/info'', AdminOnly, \<lambda>r. handleDebugInfo S),
     (''GET /api/debug/logs'', AdminOnly, handleDebugLogs),
     (''GET /api/users'', AdminOnly, \<lambda>r. handleListUsers),
     (''POST /api/users'', AdminOnly, \<lambda>r. handleCreateUser S r (b_createUser b)),
     (''DELETE /api/users/{id}'', AdminOnly, handleDeleteUser),
     (''GET /api/settings'', Guarded, \<lambda>r. handleGetSettings),
     (''PUT /api/settings'', Guarded, \<lambda>r. handleUpdateSettings r (b_settings b)),
     (''GET /api/settings/tls'', Guarded, todo),
     (''POST /api/settings/tls/test'', Guarded, todo),
     (''GET /api/alerts'', Guarded, \<lambda>r. handleListAlerts),
     (''POST /api/alerts'', Guarded, \<lambda>r. handleCreateAlert r (b_createAlert b)),
     (''PUT /api/alerts/{id}'', Guarded, \<lambda>r. handleUpdateAlert r (b_updateAlert b)),
     (''DELETE /api/alerts/{id}'', Guarded, handleDeleteAlert),
     (''GET /api/api-keys'', Guarded, handleListAPIKeys S),
     (''POST /api/api-keys'', Guarded, \<lambda>r. handleCreateAPIKey S r (b_createAPIKey b)),
     (''DELETE /api/api-keys/{id}'', Guarded, handleDeleteAPIKey S),
     (''GET /api/system/info'', Guarded, \<lambda>r. handleSystemInfo S),
     (''POST /api/system/backup'', Guarded, todo),
     (''POST /api/system/restore'', Guarded, todo),
     (''GET /api/audit-log'', Guarded, handleAuditLog)])"

section \<open>The choice of the route\<close>

definition is_wildcard :: "string \<Rightarrow> bool" where
  "is_wildcard seg = (seg \<noteq> [] \<and> hd seg = CHR ''{'')"

text \<open>The path values a pattern gives to a path; a wildcard takes one segment that is not empty.\<close>

fun match_segs :: "string list \<Rightarrow> string list \<Rightarrow> (string \<times> string) list option" where
  "match_segs [] [] = Some []"
| "match_segs (p # ps) (s # ss) =
     (if is_wildcard p then (if s = [] then None else map_option ((#) (butlast (tl p), s)) (match_segs ps ss))
      else if p = s then match_segs ps ss else None)"
| "match_segs _ _ = None"

text \<open>A pattern for GET also matches HEAD.\<close>

definition match_route :: "string \<Rightarrow> string \<Rightarrow> string \<Rightarrow> (string \<times> string) list option" where
  "match_route method path pat = (case Cut (CHR '' '') pat of
      None \<Rightarrow> None
    | Some (m, p) \<Rightarrow> if method = m \<or> m = ''GET'' \<and> method = ''HEAD'' then match_segs (Split (CHR ''/'') p) (Split (CHR ''/'') path)
        else None)"

definition with_values :: "(string \<times> string) list \<Rightarrow> Request \<Rightarrow> Request" where
  "with_values vals r = r\<lparr>rq_id := (case map_of vals ''id'' of None \<Rightarrow> [] | Some v \<Rightarrow> v),
     rq_pid := (case map_of vals ''pid'' of None \<Rightarrow> [] | Some v \<Rightarrow> v), rq_Claims := None\<rparr>"

fun find_route :: "string \<Rightarrow> string \<Rightarrow> (string \<times> guard \<times> ('k, 'n) endpoint) list
    \<Rightarrow> (guard \<times> ('k, 'n) endpoint \<times> (string \<times> string) list) option" where
  "find_route method path [] = None"
| "find_route method path ((pat, g, h) # rs) = (case match_route method path pat of
      Some vals \<Rightarrow> Some (g, h, vals) | None \<Rightarrow> find_route method path rs)"

text \<open>The embedded frontend, registered for every other path.\<close>

definition RegisterFrontend :: "('k, 'n) Server \<Rightarrow> string \<Rightarrow> response" where
  "RegisterFrontend S path =
     (if HasPrefix path ''/api/'' \<or> path = ''/health'' \<or> path = ''/metrics''
      then writeJSON 404 (PlainText (''404 page not found'' @ [CHR 0x0A]))
      else let rest = (if HasPrefix path ''/'' then tl path else path);
               cleanPath = (if rest = [] then ''index.html'' else rest) in
        if file_exists S cleanPath then file_server S path else file_server S ''/'')"

definition serve_mux :: "('k, 'n) Server \<Rightarrow> HttpRequest \<Rightarrow> (('k, 'n) World, response) handler" where
  "serve_mux S hr = (case find_route (hr_Method hr) (hr_Path hr) (routes S hr) of
      Some (g, h, vals) \<Rightarrow> wrap S g h (with_values vals (hr_Request hr))
    | None \<Rightarrow> if hr_Method hr = ''GET'' \<or> hr_Method hr = ''HEAD'' then ret (RegisterFrontend S (hr_Path hr))
        else ret (writeJSON 405 (PlainText (''Method Not Allowed'' @ [CHR 0x0A]))))"

section \<open>The chain of middleware\<close>

definition csp_source :: "string \<Rightarrow> string" where
  "csp_source s = [CHR 0x27] @ s @ [CHR 0x27]"

definition SecurityHeaders :: "bool \<Rightarrow> bool \<Rightarrow> (string \<times> string) list" where
  "SecurityHeaders dev tls =
     [(''X-Content-Type-Options'', ''nosniff''), (''X-Frame-Options'', ''DENY''), (''X-XSS-Protection'', ''0''),
      (''Referrer-Policy'', ''strict-origin-when-cross-origin''), (''Permissions-Policy'', ''camera=(), microphone=(), geolocation=()'')]
     @ (if tls then [(''Strict-Transport-Security'', ''max-age=31536000; includeSubDomains'')] else [])
     @ [(''Content-Security-Policy'', ''default-src '' @ csp_source ''self'' @ ''; script-src '' @ csp_source ''self'' @ ''; style-src '' @ csp_source ''self'' @ '' ''
          @ csp_source ''unsafe-inline'' @ ''; img-src '' @ csp_source ''self'' @ '' data:; connect-src '' @ csp_source ''self'')]
     @ (if dev then [(''Access-Control-Allow-Origin'', ''http://localhost:5173''), (''Access-Control-Allow-Credentials'', ''true''),
          (''Access-Control-Allow-Methods'', ''GET, POST, PUT, DELETE, OPTIONS''), (''Access-Control-Allow-Headers'', ''Content-Type, Authorization'')]
        else [])"

definition GenerateRequestID :: "('k, 'n) World \<Rightarrow> string \<times> ('k, 'n) World" where
  "GenerateRequestID w = (case w_random w of
      Some bs # rest \<Rightarrow> (''req_'' @ hexString bs, w\<lparr>w_random := rest\<rparr>)
    | None # rest \<Rightarrow> (''req_'' @ itoa_int (w_nanos w), w\<lparr>w_random := rest\<rparr>)
    | [] \<Rightarrow> (''req_'' @ itoa_int (w_nanos w), w))"

text \<open>A handler that panicked has written nothing yet.\<close>

definition Recovery :: "response \<Rightarrow> response" where
  "Recovery r = (if resp_body r = Panicked then internal_error ''internal error'' else r)"

text \<open>
  The chain around the mux.  Its logger and the limit of the body change neither the answer nor the
  state of the model; the outcome of reading more than the limit is part of \<open>hr_Body\<close>.
\<close>

definition ServeHTTP :: "('k, 'n) Server \<Rightarrow> HttpRequest \<Rightarrow> ('k, 'n) World \<Rightarrow> (response \<times> (string \<times> string) list) \<times> ('k, 'n) World" where
  "ServeHTTP S hr w = (let hs = SecurityHeaders (devMode S) (hr_TLS hr) in
     if devMode S \<and> hr_Method hr = ''OPTIONS'' then ((writeJSON 204 NoBody, hs), w)
     else case GenerateRequestID w of (rid, w1) \<Rightarrow>
       (case serve (serve_mux S hr) w1 of (r, w2) \<Rightarrow> ((Recovery r, hs @ [(''X-Request-ID'', rid)]), w2)))"

end
