(* ===== verification/Access.thy ===== *)
theory Access
  imports Routing Samples
begin

text \<open>
  What the guards of the routes promise: a request to a route that is not public is refused or
  runs the handler for a caller whose credentials are valid.  Then the API keys: what a key that
  the API created can do.
\<close>

section \<open>Two patterns never match one path\<close>

fun segs_overlap :: "string list \<Rightarrow> string list \<Rightarrow> bool" where
  "segs_overlap [] [] = True"
| "segs_overlap (p # ps) (r # rs) = ((is_wildcard p \<or> is_wildcard r \<or> p = r) \<and> segs_overlap ps rs)"
| "segs_overlap _ _ = False"

lemma match_segs_overlap:
  "match_segs ps ss = Some v \<Longrightarrow> match_segs rs ss = Some u \<Longrightarrow> segs_overlap ps rs"
proof (induction ps ss arbitrary: rs u v rule: match_segs.induct)
  case (2 p ps s ss)
  from "2.prems"(2) obtain r rs' where rs: "rs = r # rs'" by (cases rs) auto
  show ?case
    using 2 by (cases "is_wildcard p"; cases "is_wildcard r") (auto simp: rs split: if_splits)
qed (auto elim: match_segs.elims)

definition pattern_key :: "string \<Rightarrow> string \<times> string list" where
  "pattern_key pat = (case Cut (CHR '' '') pat of None \<Rightarrow> ([], []) | Some (m, p) \<Rightarrow> (m, Split (CHR ''/'') p))"

text \<open>The order of the table does not matter: \<open>http.ServeMux\<close> refuses patterns that conflict.\<close>

definition patterns_apart :: "string list \<Rightarrow> bool" where
  "patterns_apart pats = sorted_wrt (\<lambda>x y. fst x \<noteq> fst y \<or> \<not> segs_overlap (snd x) (snd y)) (map pattern_key pats)"

section \<open>Credentials\<close>

definition key_claims :: "APIKey \<Rightarrow> Claims" where
  "key_claims k = \<lparr>cl_Subject = itoa_int (ak_UserID k), cl_IssuedAt = None, cl_ExpiresAt = None,
     cl_Username = ''api-key'', cl_Role = ak_Role k\<rparr>"

definition key_valid :: "('k, 'n) Server \<Rightarrow> ('k, 'n) World \<Rightarrow> Request \<Rightarrow> APIKey \<Rightarrow> bool" where
  "key_valid S w r k \<longleftrightarrow> k \<in> set (api_keys (w_db w)) \<and> HasPrefix (rq_Authorization r) ''Bearer wgp_'' \<and>
     ak_KeyHash k = HashAPIKey S (drop 7 (rq_Authorization r)) \<and> ak_ID k > 0 \<and>
     (case ak_ExpiresAt k of None \<Rightarrow> True | Some e \<Rightarrow> w_nanos w \<le> e * 1000000000)"

definition credentials :: "('k, 'n) Server \<Rightarrow> ('k, 'n) World \<Rightarrow> Request \<Rightarrow> Claims \<Rightarrow> bool" where
  "credentials S w r cl \<longleftrightarrow> (\<exists>k. key_valid S w r k \<and> cl = key_claims k) \<or>
     (\<exists>token. rq_Cookie r = Some token \<and> jwt_parse S (w_nanos w) token = Some cl)"

definition setup_complete :: "('k, 'n) World \<Rightarrow> bool" where
  "setup_complete w \<longleftrightarrow> map_of (settings (w_db w)) ''setup_complete'' = Some ''true''"

text \<open>Nothing changed but the time a key was last used.\<close>

definition untouched :: "('k, 'n) World \<Rightarrow> ('k, 'n) World \<Rightarrow> bool" where
  "untouched w w' \<longleftrightarrow> (\<exists>fs ks. w' = w\<lparr>w_db := (w_db w)\<lparr>faults := fs, api_keys := ks\<rparr>\<rparr> \<and>
     map (ak_LastUsed_update (\<lambda>_. None)) ks = map (ak_LastUsed_update (\<lambda>_. None)) (api_keys (w_db w)))"

lemma untouched_refl: "untouched w w"
  unfolding untouched_def by (rule exI[of _ "faults (w_db w)"], rule exI[of _ "api_keys (w_db w)"]) simp

lemma untouched_trans: "untouched w w1 \<Longrightarrow> untouched w1 w2 \<Longrightarrow> untouched w w2"
  unfolding untouched_def by fastforce

lemma untouched_faults: "db_fault (w_db w) = (f, d) \<Longrightarrow> untouched w (w\<lparr>w_db := d\<rparr>)"
  unfolding untouched_def
  by (rule exI[of _ "faults d"], rule exI[of _ "api_keys (w_db w)"]) (auto simp: db_fault_def split: list.splits)

section \<open>The guards\<close>

lemma serve_steps:
  "serve (andThen (check b s) f) w = (if b then serve (f ()) w else (s, w))"
  "serve (andThen (or_none z s) g) w = (case z of None \<Rightarrow> (s, w) | Some x \<Rightarrow> serve (g x) w)"
  "serve (andThen (or_error y s) k) w = (case y of Inl _ \<Rightarrow> (s, w) | Inr x \<Rightarrow> serve (k x) w)"
  "serve (andThen time_Now l) v = serve (l (w_nanos v)) v"
  "serve (andThen (on_db d) n) v = (case d (w_db v) of (x, e) \<Rightarrow> serve (n x) (v\<lparr>w_db := e\<rparr>))"
  by (auto simp: serve_andThen check_def or_none_def or_error_def time_Now_def on_db_def ret_def stop_def
      split: option.splits sum.splits prod.splits)

lemma untouched_nanos: "untouched w w1 \<Longrightarrow> w_nanos w1 = w_nanos w \<and> settings (w_db w1) = settings (w_db w)"
  by (auto simp: untouched_def)

lemma with_session_serve:
  assumes "serve (with_session S h r) w = (res, w')"
  shows "status res = 401 \<and> w' = w \<or> (\<exists>token cl. rq_Cookie r = Some token \<and> jwt_parse S (w_nanos w) token = Some cl \<and>
    serve (h (r\<lparr>rq_Claims := Some cl\<rparr>)) w = (res, w'))"
  using assms by (auto simp: with_session_def GetToken_def Validate_def writeAuthError_def serve_steps andThen_assoc andThen_ret
      split: option.splits)

lemma key_used_untouched: "UpdateAPIKeyLastUsed i (w_db w) = (e, d) \<Longrightarrow> untouched w (w\<lparr>w_db := d\<rparr>)"
  unfolding untouched_def UpdateAPIKeyLastUsed_def
  by (rule exI[of _ "faults d"], rule exI[of _ "api_keys d"])
    (auto simp: db_fault_def comp_def split: prod.splits if_splits list.splits)

lemma with_api_key_serve:
  assumes "serve (with_api_key S h k r) w = (res, w')"
  shows "status res = 401 \<and> w' = w \<or> (case ak_ExpiresAt k of None \<Rightarrow> True | Some e \<Rightarrow> w_nanos w \<le> e * 1000000000) \<and>
    (\<exists>w1. untouched w w1 \<and> serve (h (r\<lparr>rq_Claims := Some (key_claims k)\<rparr>)) w1 = (res, w'))"
proof (cases "case ak_ExpiresAt k of None \<Rightarrow> False | Some e \<Rightarrow> e * 1000000000 < w_nanos w")
  case True
  then show ?thesis using assms by (auto simp: with_api_key_def serve_steps writeAuthError_def)
next
  case False
  obtain e d where u: "UpdateAPIKeyLastUsed (ak_ID k) (w_db w) = (e, d)" by fastforce
  have "serve (h (r\<lparr>rq_Claims := Some (key_claims k)\<rparr>)) (w\<lparr>w_db := d\<rparr>) = (res, w')"
    using assms False u by (simp add: with_api_key_def serve_steps key_claims_def)
  then show ?thesis using False key_used_untouched[OF u] by (auto split: option.splits)
qed

lemma RequireAuth_serve:
  assumes "serve (RequireAuth S h r) w = (res, w')"
  shows "status res = 401 \<and> untouched w w' \<or> (\<exists>cl w1. credentials S w r cl \<and> untouched w w1 \<and>
    serve (h (r\<lparr>rq_Claims := Some cl\<rparr>)) w1 = (res, w'))"
proof (cases "HasPrefix (rq_Authorization r) ''Bearer wgp_''")
  case False
  then have "serve (with_session S h r) w = (res, w')" using assms by (simp add: RequireAuth_def)
  from with_session_serve[OF this] show ?thesis using untouched_refl unfolding credentials_def by blast
next
  case bearer: True
  obtain f d where f: "db_fault (w_db w) = (f, d)" by fastforce
  let ?w = "w\<lparr>w_db := d\<rparr>"
  have u: "untouched w ?w" by (rule untouched_faults[OF f])
  let ?k = "if f then None else find (\<lambda>k. ak_KeyHash k = HashAPIKey S (drop 7 (rq_Authorization r))) (api_keys d)"
  have look: "serve (case ?k of None \<Rightarrow> with_session S h r | Some k \<Rightarrow> if ak_ID k > 0 then with_api_key S h k r else with_session S h r) ?w = (res, w')"
    using assms bearer f
    by (cases f) (simp_all add: RequireAuth_def serve_steps store_GetAPIKeyByHash_def GetAPIKeyByHash_def or_nil_def numeral_eq_Suc)
  have session: ?thesis if "serve (with_session S h r) ?w = (res, w')"
    using with_session_serve[OF that] u untouched_nanos[OF u] unfolding credentials_def by metis
  show ?thesis
  proof (cases "\<exists>k. ?k = Some k \<and> ak_ID k > 0")
    case False
    then show ?thesis using look session by (auto split: option.splits if_splits)
  next
    case True
    then obtain k where k: "?k = Some k" "ak_ID k > 0" by blast
    have keys: "api_keys d = api_keys (w_db w)" using f by (auto simp: db_fault_def split: list.splits)
    have mem: "k \<in> set (api_keys (w_db w))" "ak_KeyHash k = HashAPIKey S (drop 7 (rq_Authorization r))"
      using k(1) by (auto simp: keys find_Some_iff split: if_splits)
    have "serve (with_api_key S h k r) ?w = (res, w')" using look k by simp
    from with_api_key_serve[OF this] show ?thesis
    proof
      assume "status res = 401 \<and> w' = ?w"
      then show ?thesis using u by blast
    next
      assume run: "(case ak_ExpiresAt k of None \<Rightarrow> True | Some e \<Rightarrow> w_nanos ?w \<le> e * 1000000000) \<and>
        (\<exists>w1. untouched ?w w1 \<and> serve (h (r\<lparr>rq_Claims := Some (key_claims k)\<rparr>)) w1 = (res, w'))"
      then have "key_valid S w r k" using mem k(2) bearer unfolding key_valid_def by (cases "ak_ExpiresAt k") simp_all
      then have "credentials S w r (key_claims k)" unfolding credentials_def by blast
      then show ?thesis using run untouched_trans[OF u] by blast
    qed
  qed
qed

lemma setupGuard_serve:
  assumes "serve (setupGuard h r) w = (res, w')"
  shows "status res \<in> {403, 500} \<and> untouched w w' \<or> setup_complete w \<and> (\<exists>w1. untouched w w1 \<and> serve (h r) w1 = (res, w'))"
proof -
  obtain f d where f: "db_fault (w_db w) = (f, d)" by fastforce
  have "settings d = settings (w_db w)" using f by (auto simp: db_fault_def split: list.splits)
  then show ?thesis
    using assms f untouched_faults[OF f]
    by (auto simp: setupGuard_def serve_steps GetSetting_def setup_complete_def response_inject split: if_splits option.splits)
qed

lemma RequireRole_serve:
  assumes "serve (RequireRole roles h r) w = (res, w')" "rq_Claims r = Some cl"
  shows "status res = 403 \<and> w' = w \<or> cl_Role cl \<in> set roles \<and> serve (h r) w = (res, w')"
  using assms by (auto simp: RequireRole_def serve_steps writeAuthError_def split: if_splits)

lemma wrap_serve:
  assumes "g \<noteq> Public" "serve (wrap S g h r) w = (res, w')"
  shows "status res \<in> {401, 403, 500} \<and> untouched w w' \<or>
    (\<exists>cl w1. credentials S w r cl \<and> (g \<noteq> Protected \<longrightarrow> setup_complete w) \<and> (g = AdminOnly \<longrightarrow> cl_Role cl = ''admin'') \<and>
      untouched w w1 \<and> serve (h (r\<lparr>rq_Claims := Some cl\<rparr>)) w1 = (res, w'))"
proof -
  obtain k where k: "serve (RequireAuth S k r) w = (res, w')"
    "k = (case g of Guarded \<Rightarrow> setupGuard h | AdminOnly \<Rightarrow> setupGuard (RequireRole [''admin''] h) | _ \<Rightarrow> h)"
    using assms by (cases g) auto
  from RequireAuth_serve[OF k(1)] show ?thesis
  proof (elim disjE exE conjE)
    fix cl w1
    assume c: "credentials S w r cl" and u: "untouched w w1" and run: "serve (k (r\<lparr>rq_Claims := Some cl\<rparr>)) w1 = (res, w')"
    show ?thesis
    proof (cases "g = Protected")
      case True
      then show ?thesis using c u run k(2) by auto
    next
      case False
      then obtain h' where h': "k = setupGuard h'" "h' = (if g = AdminOnly then RequireRole [''admin''] h else h)"
        using k(2) assms(1) by (cases g) auto
      from setupGuard_serve[OF run[unfolded h'(1)]] show ?thesis
      proof (elim disjE exE conjE)
        fix w2
        assume sc1: "setup_complete w1" and u2: "untouched w1 w2" and run2: "serve (h' (r\<lparr>rq_Claims := Some cl\<rparr>)) w2 = (res, w')"
        have sc: "setup_complete w" using sc1 untouched_nanos[OF u] by (simp add: setup_complete_def)
        have u3: "untouched w w2" by (rule untouched_trans[OF u u2])
        show ?thesis
        proof (cases "g = AdminOnly")
          case True
          from RequireRole_serve[OF run2[unfolded h'(2) if_P[OF True]], of cl] show ?thesis
            using c sc u3 by auto
        next
          case False
          then show ?thesis using c sc u3 run2 h'(2) by auto
        qed
      qed (use u untouched_trans in blast)+
    qed
  qed auto
qed

section \<open>API keys\<close>

lemma audit_keys [simp]:
  "api_keys (w_db (snd (auditLog r a s t w))) = api_keys (w_db w)" "w_nanos (snd (auditLog r a s t w)) = w_nanos w"
  by (auto simp: auditLog_def Let_def andThen_def ret_def on_db_def InsertAuditEntry_def db_fault_def split: prod.splits list.splits)

lemma key_prefix: "HasPrefix (''Bearer '' @ apiKeyPrefix @ x) ''Bearer wgp_''" "drop 7 (''Bearer '' @ y) = y"
  by (simp_all add: HasPrefix_def apiKeyPrefix_def)

lemma CreateAPIKey_row:
  assumes "CreateAPIKey k d = (Inr kid, d')" "accounts_inv d"
  shows "find (\<lambda>j. ak_KeyHash j = ak_KeyHash k) (api_keys d') = Some (k\<lparr>ak_ID := kid, ak_CreatedAt := now d, ak_LastUsed := None\<rparr>)" "kid > 0"
proof -
  obtain f d1 where f: "db_fault d = (f, d1)" by fastforce
  have inv: "0 \<le> api_key_seq d1" "now d1 = now d"
    using accounts_fault[OF assms(2) f] f by (auto simp: accounts_inv_def db_fault_def split: list.splits)
  have "find P (xs @ [x]) = Some x" if "\<not> list_ex P xs" "P x" for P and xs :: "APIKey list" and x
    using that by (induction xs) auto
  then show "find (\<lambda>j. ak_KeyHash j = ak_KeyHash k) (api_keys d') = Some (k\<lparr>ak_ID := kid, ak_CreatedAt := now d, ak_LastUsed := None\<rparr>)"
    "kid > 0"
    using assms(1) f inv by (auto simp: CreateAPIKey_def Let_def split: if_splits)
qed

lemma key_expiry_run: "key_expiry S x w = (Inr e, w') \<Longrightarrow> w' = w"
  by (auto simp: key_expiry_def run_simps split: if_splits)

definition gives_key :: "response \<Rightarrow> bool" where
  "gives_key r \<longleftrightarrow> (\<exists>kr. resp_body r = CreatedKeyBody kr)"

lemma gives_key_errors [simp]: "\<not> gives_key (internal_error m)" "\<not> gives_key (writeError m c st)" "\<not> gives_key (writeValidationError fs)"
  by (simp_all add: gives_key_def internal_error_def writeError_def writeValidationError_def)

lemma never_gives_key: "never gives_key (handleCreateAPIKey S r (Inr req))"
  unfolding handleCreateAPIKey_def caller_id_def key_expiry_def GenerateAPIKey_def decodeJSON_def Let_def sum.case
  by (intro never_rules; simp)

text \<open>The row of a key that was created, and the answer.\<close>

lemma created_key:
  assumes "serve (handleCreateAPIKey S r (Inr req)) w = (res, w')" "resp_body res = CreatedKeyBody kr" "accounts_inv (w_db w)"
  obtains k x where "find (\<lambda>j. ak_KeyHash j = HashAPIKey S (ckr_Key kr)) (api_keys (w_db w')) = Some k" "ak_ID k > 0"
    "ckr_Key kr = apiKeyPrefix @ x" "ak_Role k = ckr_Role kr" "ckr_Role kr = (if ck_Role req = [] then ''admin'' else ck_Role req)"
    "ak_ExpiresAt k = ckr_ExpiresAt kr" "\<exists>cl. rq_Claims r = Some cl \<and> Atoi (cl_Subject cl) = Some (ak_UserID k)"
proof -
  have "handleCreateAPIKey S r (Inr req) w = (Inr res, w')"
    using assms(1,2) never_gives_key[of S r req] unfolding never_def gives_key_def by (auto elim: serve_cases)
  then obtain cl uid bs w1 d kid prefix exp where run: "rq_Claims r = Some cl" "Atoi (cl_Subject cl) = Some uid"
    "key_expiry S (ck_ExpiresIn req) w = (Inr exp, w1)" "api_keys (w_db w') = api_keys d"
    and ins: "CreateAPIKey \<lparr>ak_ID = 0, ak_Name = ck_Name req, ak_KeyHash = HashAPIKey S (apiKeyPrefix @ hexString bs), ak_KeyPrefix = prefix,
      ak_UserID = uid, ak_Role = (if ck_Role req = [] then ''admin'' else ck_Role req), ak_ExpiresAt = exp, ak_CreatedAt = 0,
      ak_LastUsed = None\<rparr> (w_db w1) = (Inr kid, d)"
    and out: "kr = \<lparr>ckr_ID = kid, ckr_Key = apiKeyPrefix @ hexString bs, ckr_Name = ck_Name req, ckr_KeyPrefix = prefix,
      ckr_Role = (if ck_Role req = [] then ''admin'' else ck_Role req), ckr_ExpiresAt = exp\<rparr>"
    using assms(2)
    by (auto simp: handleCreateAPIKey_def caller_id_def run_simps GenerateAPIKey_def Let_def case_run writeJSON_def split: option.splits)
  have "accounts_inv (w_db w1)" using key_expiry_run[OF run(3)] assms(3) by simp
  from CreateAPIKey_row[OF ins this] show ?thesis
    by (intro that[of "\<lparr>ak_ID = kid, ak_Name = ck_Name req, ak_KeyHash = HashAPIKey S (apiKeyPrefix @ hexString bs), ak_KeyPrefix = prefix,
      ak_UserID = uid, ak_Role = (if ck_Role req = [] then ''admin'' else ck_Role req), ak_ExpiresAt = exp, ak_CreatedAt = now (w_db w1),
      ak_LastUsed = None\<rparr>" "hexString bs"]) (simp_all add: run out)
qed

text \<open>A request with a valid key of the database runs the handler for the owner of the key.\<close>

lemma RequireAuth_key:
  assumes "find (\<lambda>j. ak_KeyHash j = HashAPIKey S (apiKeyPrefix @ x)) (api_keys (w_db w)) = Some k" "ak_ID k > 0"
    "rq_Authorization r = ''Bearer '' @ apiKeyPrefix @ x" "faults (w_db w) = []"
    "case ak_ExpiresAt k of None \<Rightarrow> True | Some e \<Rightarrow> w_nanos w \<le> e * 1000000000"
  shows "\<exists>w1. untouched w w1 \<and> faults (w_db w1) = [] \<and>
    serve (RequireAuth S h r) w = serve (h (r\<lparr>rq_Claims := Some (key_claims k)\<rparr>)) w1"
proof -
  have live: "\<not> (case ak_ExpiresAt k of None \<Rightarrow> False | Some e \<Rightarrow> e * 1000000000 < w_nanos w)"
    using assms(5) by (auto split: option.splits)
  obtain e d where u: "UpdateAPIKeyLastUsed (ak_ID k) (w_db w) = (e, d)" by fastforce
  have "HasPrefix (rq_Authorization r) ''Bearer wgp_''" "drop (length ''Bearer '') (rq_Authorization r) = apiKeyPrefix @ x"
    by (simp_all add: assms(3) key_prefix(1)[simplified])
  then have "serve (RequireAuth S h r) w = serve (with_api_key S h k r) w"
    using assms(1,2,4) by (simp add: RequireAuth_def serve_steps store_GetAPIKeyByHash_def GetAPIKeyByHash_def or_nil_def db_fault_def)
  also have "\<dots> = serve (h (r\<lparr>rq_Claims := Some (key_claims k)\<rparr>)) (w\<lparr>w_db := d\<rparr>)"
    using live u by (simp add: with_api_key_def serve_steps key_claims_def)
  finally have "serve (RequireAuth S h r) w = serve (h (r\<lparr>rq_Claims := Some (key_claims k)\<rparr>)) (w\<lparr>w_db := d\<rparr>)" .
  moreover have "faults d = []" using u assms(4) by (auto simp: UpdateAPIKeyLastUsed_def db_fault_def)
  ultimately show ?thesis using key_used_untouched[OF u] by fastforce
qed

lemma setupGuard_open:
  assumes "setup_complete w" "faults (w_db w) = []"
  shows "serve (setupGuard h r) w = serve (h r) w"
  using assms by (simp add: setupGuard_def serve_steps GetSetting_def setup_complete_def db_fault_def)

section \<open>The properties\<close>

lemma routes_apart: "patterns_apart (map fst (routes S hr))"
  unfolding routes_def Let_def list.map fst_conv by code_simp

lemma match_pattern_key:
  assumes "match_route method path x = Some u" "match_route method path y = Some v"
  shows "segs_overlap (snd (pattern_key x)) (snd (pattern_key y))"
  using assms match_segs_overlap by (auto simp: match_route_def pattern_key_def split: option.splits if_splits)

text \<open>
  C2. Access control.  A request to a route that is not public is refused with 401, 403 or 500
  and changes nothing but the time an API key was last used; or the caller has valid credentials
  (an API key of the database that has not expired, or a session token that validates), the setup
  is complete if the route is guarded by it, the caller is an administrator if the route is for
  administrators, and the handler runs with the claims of these credentials.
\<close>
theorem access_control:
  assumes "find_route (hr_Method hr) (hr_Path hr) (routes S hr) = Some (g, h, vals)" "g \<noteq> Public"
    and "serve (serve_mux S hr) w = (res, w')"
  shows "status res \<in> {401, 403, 500} \<and> untouched w w' \<or>
    (\<exists>cl w1. credentials S w (hr_Request hr) cl \<and> (g \<noteq> Protected \<longrightarrow> setup_complete w) \<and>
      (g = AdminOnly \<longrightarrow> cl_Role cl = ''admin'') \<and> untouched w w1 \<and>
      serve (h ((with_values vals (hr_Request hr))\<lparr>rq_Claims := Some cl\<rparr>)) w1 = (res, w'))"
proof -
  have "credentials S w (with_values vals (hr_Request hr)) = credentials S w (hr_Request hr)"
    by (rule ext) (simp add: credentials_def key_valid_def with_values_def)
  moreover have "serve (wrap S g h (with_values vals (hr_Request hr))) w = (res, w')"
    using assms by (simp add: serve_mux_def)
  ultimately show ?thesis using wrap_serve[OF assms(2)] by metis
qed

text \<open>
  C37. An API key gives the role that was asked for when it was created, administrator if none was
  named, whatever the role of the caller: the key any caller may create passes the guard of the
  routes for administrators, and the handler runs for the account of the caller.
\<close>
theorem any_caller_makes_admin_keys:
  assumes "rq_Claims r = Some cl" "accounts_inv (w_db w)" "ck_Role req = [] \<or> ck_Role req = ''admin''"
    and "serve (handleCreateAPIKey S r (Inr req)) w = (res, w1)" "resp_body res = CreatedKeyBody kr"
    and "setup_complete w1" "faults (w_db w1) = []" "rq_Authorization r2 = ''Bearer '' @ ckr_Key kr"
    and "case ckr_ExpiresAt kr of None \<Rightarrow> True | Some e \<Rightarrow> w_nanos w1 \<le> e * 1000000000"
  shows "\<exists>uid w2 cl2. Atoi (cl_Subject cl) = Some uid \<and> cl_Subject cl2 = itoa_int uid \<and> cl_Role cl2 = ''admin'' \<and> untouched w1 w2 \<and>
    serve (wrap S AdminOnly h r2) w1 = serve (h (r2\<lparr>rq_Claims := Some cl2\<rparr>)) w2"
proof -
  obtain k x where k: "find (\<lambda>j. ak_KeyHash j = HashAPIKey S (ckr_Key kr)) (api_keys (w_db w1)) = Some k" "ak_ID k > 0"
    "ckr_Key kr = apiKeyPrefix @ x" "ak_Role k = ckr_Role kr" "ckr_Role kr = (if ck_Role req = [] then ''admin'' else ck_Role req)"
    "ak_ExpiresAt k = ckr_ExpiresAt kr" "Atoi (cl_Subject cl) = Some (ak_UserID k)"
    using created_key[OF assms(4,5,2)] assms(1) by (metis option.inject)
  obtain w2 where w2: "untouched w1 w2" "faults (w_db w2) = []"
    "serve (wrap S AdminOnly h r2) w1 = serve (setupGuard (RequireRole [''admin''] h) (r2\<lparr>rq_Claims := Some (key_claims k)\<rparr>)) w2"
    using RequireAuth_key[OF k(1)[unfolded k(3)] k(2), of r2 "setupGuard (RequireRole [''admin''] h)"] assms(7-9) k(3,6) by auto
  have "setup_complete w2" using assms(6) untouched_nanos[OF w2(1)] by (simp add: setup_complete_def)
  from setupGuard_open[OF this w2(2)] have
    "serve (wrap S AdminOnly h r2) w1 = serve (h (r2\<lparr>rq_Claims := Some (key_claims k)\<rparr>)) w2"
    using w2(3) k(4,5) assms(3) by (auto simp: RequireRole_def serve_steps key_claims_def)
  then show ?thesis using k(4,5,7) assms(3) w2(1) by (intro exI[of _ "ak_UserID k"] exI[of _ w2] exI[of _ "key_claims k"])
    (auto simp: key_claims_def)
qed

section \<open>The hypotheses can hold\<close>

definition sample_body :: Body where
  "sample_body = (let bad = BadJSON [] in \<lparr>b_login = Inl bad, b_setup = Inl bad, b_password = Inl bad, b_step2 = Inl bad, b_step3 = Inl bad,
     b_step4 = Inl bad, b_import = Inl bad, b_createNetwork = Inl bad, b_updateNetwork = Inl bad, b_createPeer = Inl bad,
     b_updatePeer = Inl bad, b_createBridge = Inl bad, b_updateBridge = Inl bad, b_createUser = Inl bad, b_settings = Inl bad,
     b_createAlert = Inl bad, b_updateAlert = Inl bad, b_createAPIKey = Inl bad\<rparr>)"

definition sample_http :: HttpRequest where
  "sample_http = \<lparr>hr_Method = ''GET'', hr_Path = ''/api/auth/me'', hr_TLS = True, hr_Request = sample_request, hr_Body = sample_body\<rparr>"

lemma sample_route: "find_route ''GET'' ''/api/auth/me'' (routes S hr) = Some (Protected, handleMe, [])"
  by (simp add: routes_def Let_def match_route_def Cut_def is_wildcard_def)

theorem access_control_witness:
  "\<exists>g h vals res w'. find_route (hr_Method sample_http) (hr_Path sample_http) (routes sample_server sample_http) = Some (g, h, vals) \<and>
     g \<noteq> Public \<and> serve (serve_mux sample_server sample_http) (sample_world empty_db []) = (res, w') \<and>
     status res \<in> {401, 403, 500} \<and> untouched (sample_world empty_db []) w'"
proof -
  have route: "find_route (hr_Method sample_http) (hr_Path sample_http) (routes sample_server sample_http) = Some (Protected, handleMe, [])"
    using sample_route by (simp add: sample_http_def)
  have none: "\<not> credentials sample_server (sample_world empty_db []) (hr_Request sample_http) cl" for cl
    by (simp add: credentials_def key_valid_def sample_http_def sample_request_def sample_world_def empty_db_def)
  obtain res w' where run: "serve (serve_mux sample_server sample_http) (sample_world empty_db []) = (res, w')" by fastforce
  show ?thesis using access_control[OF route _ run] none route run by blast
qed

definition key_world :: "(sim, mem_nft) World" where
  "key_world = (sample_world (empty_db\<lparr>users := [\<lparr>u_ID = 1, u_Username = ''v'', u_PasswordHash = ''x'', u_Role = ''viewer'', u_CreatedAt = 0,
     u_UpdatedAt = 0\<rparr>], user_seq := 1, settings := [(''setup_complete'', ''true'')]\<rparr>) [])\<lparr>w_random := [Some [1, 2, 3]]\<rparr>"

definition viewer_request :: Request where
  "viewer_request = sample_request\<lparr>rq_Claims := Some \<lparr>cl_Subject = ''1'', cl_IssuedAt = None, cl_ExpiresAt = None, cl_Username = ''v'',
     cl_Role = ''viewer''\<rparr>\<rparr>"

definition key_request :: createAPIKeyRequest where
  "key_request = \<lparr>ck_Name = ''k'', ck_Role = [], ck_ExpiresIn = []\<rparr>"

theorem any_caller_makes_admin_keys_witness:
  "\<exists>res w1 kr w2 cl2. serve (handleCreateAPIKey sample_server viewer_request (Inr key_request)) key_world = (res, w1) \<and>
     resp_body res = CreatedKeyBody kr \<and> cl_Role cl2 = ''admin'' \<and> untouched w1 w2 \<and>
     serve (wrap sample_server AdminOnly handleMe (sample_request\<lparr>rq_Authorization := ''Bearer '' @ ckr_Key kr\<rparr>)) w1
       = serve (handleMe (sample_request\<lparr>rq_Authorization := ''Bearer '' @ ckr_Key kr, rq_Claims := Some cl2\<rparr>)) w2"
proof -
  obtain res w1 where run: "serve (handleCreateAPIKey sample_server viewer_request (Inr key_request)) key_world = (res, w1)" by fastforce
  have body: "\<exists>kr. resp_body res = CreatedKeyBody kr \<and> ckr_ExpiresAt kr = None" and st: "setup_complete w1" "faults (w_db w1) = []"
    using run
    by (simp_all add: handleCreateAPIKey_def caller_id_def key_expiry_def GenerateAPIKey_def rand_Read_def validateCreateAPIKey_def Let_def
      fe_def key_request_def viewer_request_def key_world_def Atoi_1 handler_eval CreateAPIKey_def InsertAuditEntry_def db_fault_def empty_db_def
      setup_complete_def) (auto simp: writeJSON_def)
  then obtain kr where kr: "resp_body res = CreatedKeyBody kr" "ckr_ExpiresAt kr = None" by blast
  have inv: "accounts_inv (w_db key_world)" by (simp add: key_world_def sample_world_def accounts_inv_def empty_db_def)
  have claims: "rq_Claims viewer_request = Some (the (rq_Claims viewer_request))" by (simp add: viewer_request_def)
  show ?thesis
    using any_caller_makes_admin_keys[OF claims inv _ run kr(1) st, of "sample_request\<lparr>rq_Authorization := ''Bearer '' @ ckr_Key kr\<rparr>" handleMe]
      run kr by (auto simp: key_request_def)
qed

end
