(* ===== verification/SetupEffects.thy ===== *)
theory SetupEffects
  imports Access
begin

text \<open>
  The one-time password of the setup: once it is gone, no request brings it back, so that no
  second administrator can be made with it.
\<close>

section \<open>Operations that leave the settings as they are\<close>

definition otp_gone :: "DB \<Rightarrow> bool" where
  "otp_gone d \<longleftrightarrow> map_of (settings d) ''setup_otp'' = None"

lemma fault_settings: "db_fault d = (f, d1) \<Longrightarrow> settings d1 = settings d"
  by (auto simp: db_fault_def split: list.splits)

lemma settings_kept_accounts:
  "CreateUser u d = (r1, d') \<Longrightarrow> settings d' = settings d" "GetUserByID i d = (r2, d') \<Longrightarrow> settings d' = settings d"
  "GetUserByUsername s d = (r3, d') \<Longrightarrow> settings d' = settings d" "UpdateUserPassword i s d = (r4, d') \<Longrightarrow> settings d' = settings d"
  "DeleteUser i d = (r5, d') \<Longrightarrow> settings d' = settings d" "ListUsers d = (r6, d') \<Longrightarrow> settings d' = settings d"
  "CreateAPIKey k d = (r7, d') \<Longrightarrow> settings d' = settings d" "ListAPIKeys i d = (r8, d') \<Longrightarrow> settings d' = settings d"
  "ListAllAPIKeys d = (r9, d') \<Longrightarrow> settings d' = settings d" "UpdateAPIKeyLastUsed i d = (r10, d') \<Longrightarrow> settings d' = settings d"
  "DeleteAPIKey i d = (r11, d') \<Longrightarrow> settings d' = settings d" "store_GetAPIKeyByHash s d = (r12, d') \<Longrightarrow> settings d' = settings d"
  "CreateAlert a d = (r13, d') \<Longrightarrow> settings d' = settings d" "GetAlertByID i d = (r14, d') \<Longrightarrow> settings d' = settings d"
  "ListAlerts d = (r15, d') \<Longrightarrow> settings d' = settings d" "UpdateAlert a d = (r16, d') \<Longrightarrow> settings d' = settings d"
  "DeleteAlert i d = (r17, d') \<Longrightarrow> settings d' = settings d" "ListSettings d = (r18, d') \<Longrightarrow> settings d' = settings d"
  "ListAuditLog i j fl d = (r19, d') \<Longrightarrow> settings d' = settings d" "InsertAuditEntry en d = (r20, d') \<Longrightarrow> settings d' = settings d"
  "GetSetting s d = (r21, d') \<Longrightarrow> settings d' = settings d"
  by (auto simp: CreateUser_def GetUserByID_def GetUserByUsername_def UpdateUserPassword_def DeleteUser_def ListUsers_def CreateAPIKey_def
      ListAPIKeys_def ListAllAPIKeys_def UpdateAPIKeyLastUsed_def DeleteAPIKey_def store_GetAPIKeyByHash_def GetAPIKeyByHash_def
      CreateAlert_def GetAlertByID_def ListAlerts_def UpdateAlert_def DeleteAlert_def ListSettings_def ListAuditLog_def
      InsertAuditEntry_def GetSetting_def Let_def split: prod.splits if_splits dest!: fault_settings)

lemma nonce_settings: "encrypt_field A ek s d = (r, d') \<Longrightarrow> settings d' = settings d"
  by (auto simp: encrypt_field_def read_nonce_def split: sum.splits option.splits list.splits prod.splits if_splits)

lemma settings_kept_networks:
  "GetNetworkByID A i d = (r1, d') \<Longrightarrow> settings d' = settings d" "ListNetworks A d = (r2, d') \<Longrightarrow> settings d' = settings d"
  "CreateNetwork A n d = (r3, d') \<Longrightarrow> settings d' = settings d" "UpdateNetwork A n d = (r4, d') \<Longrightarrow> settings d' = settings d"
  "DeleteNetwork i d = (r5, d') \<Longrightarrow> settings d' = settings d"
  "GetBridgeByID i d = (r6, d') \<Longrightarrow> settings d' = settings d" "ListBridges d = (r7, d') \<Longrightarrow> settings d' = settings d"
  "ListBridgesByNetworkID i d = (r8, d') \<Longrightarrow> settings d' = settings d" "BridgeExistsBetween i j d = (r9, d') \<Longrightarrow> settings d' = settings d"
  "CreateBridge b d = (r10, d') \<Longrightarrow> settings d' = settings d" "UpdateBridge b d = (r11, d') \<Longrightarrow> settings d' = settings d"
  "DeleteBridge i d = (r12, d') \<Longrightarrow> settings d' = settings d"
  by (auto simp: GetNetworkByID_def ListNetworks_def CreateNetwork_def insert_network_def UpdateNetwork_def update_network_def DeleteNetwork_def
      GetBridgeByID_def ListBridges_def ListBridgesByNetworkID_def BridgeExistsBetween_def CreateBridge_def UpdateBridge_def DeleteBridge_def
      Let_def split: prod.splits if_splits sum.splits option.splits dest!: fault_settings nonce_settings)

lemma settings_kept_peers:
  "GetPeerByID A i d = (r1, d') \<Longrightarrow> settings d' = settings d" "ListPeersByNetworkID A i d = (r2, d') \<Longrightarrow> settings d' = settings d"
  "CreatePeer A p d = (r3, d') \<Longrightarrow> settings d' = settings d" "UpdatePeer A p d = (r4, d') \<Longrightarrow> settings d' = settings d"
  "DeletePeer i d = (r5, d') \<Longrightarrow> settings d' = settings d" "ListSnapshots i j k d = (r6, d') \<Longrightarrow> settings d' = settings d"
  by (auto simp: GetPeerByID_def ListPeersByNetworkID_def CreatePeer_def insert_peer_def UpdatePeer_def update_peer_def DeletePeer_def
      ListSnapshots_def Let_def split: prod.splits if_splits sum.splits option.splits dest!: fault_settings nonce_settings)

lemma otp_same: "settings d' = settings d \<Longrightarrow> otp_gone d \<Longrightarrow> otp_gone d'"
  by (simp add: otp_gone_def)

lemma keeps_otp_accounts [keeps_rules]:
  "keeps (\<lambda>w. otp_gone (w_db w)) (on_db (CreateUser u))" "keeps (\<lambda>w. otp_gone (w_db w)) (on_db (GetUserByID i))"
  "keeps (\<lambda>w. otp_gone (w_db w)) (on_db (GetUserByUsername s))" "keeps (\<lambda>w. otp_gone (w_db w)) (on_db (UpdateUserPassword i s))"
  "keeps (\<lambda>w. otp_gone (w_db w)) (on_db (DeleteUser i))" "keeps (\<lambda>w. otp_gone (w_db w)) (on_db ListUsers)"
  "keeps (\<lambda>w. otp_gone (w_db w)) (on_db (CreateAPIKey k))" "keeps (\<lambda>w. otp_gone (w_db w)) (on_db (ListAPIKeys i))"
  "keeps (\<lambda>w. otp_gone (w_db w)) (on_db ListAllAPIKeys)" "keeps (\<lambda>w. otp_gone (w_db w)) (on_db (UpdateAPIKeyLastUsed i))"
  "keeps (\<lambda>w. otp_gone (w_db w)) (on_db (DeleteAPIKey i))" "keeps (\<lambda>w. otp_gone (w_db w)) (on_db (store_GetAPIKeyByHash s))"
  "keeps (\<lambda>w. otp_gone (w_db w)) (on_db (CreateAlert a))" "keeps (\<lambda>w. otp_gone (w_db w)) (on_db (GetAlertByID i))"
  "keeps (\<lambda>w. otp_gone (w_db w)) (on_db ListAlerts)" "keeps (\<lambda>w. otp_gone (w_db w)) (on_db (UpdateAlert a))"
  "keeps (\<lambda>w. otp_gone (w_db w)) (on_db (DeleteAlert i))" "keeps (\<lambda>w. otp_gone (w_db w)) (on_db ListSettings)"
  "keeps (\<lambda>w. otp_gone (w_db w)) (on_db (ListAuditLog i j fl))" "keeps (\<lambda>w. otp_gone (w_db w)) (on_db (InsertAuditEntry en))"
  "keeps (\<lambda>w. otp_gone (w_db w)) (on_db (GetSetting s))"
  by (rule keeps_db, erule otp_same[rotated], erule settings_kept_accounts)+

lemma keeps_otp_networks [keeps_rules]:
  "keeps (\<lambda>w. otp_gone (w_db w)) (on_db (GetNetworkByID A i))" "keeps (\<lambda>w. otp_gone (w_db w)) (on_db (ListNetworks A))"
  "keeps (\<lambda>w. otp_gone (w_db w)) (on_db (CreateNetwork A n))" "keeps (\<lambda>w. otp_gone (w_db w)) (on_db (UpdateNetwork A n))"
  "keeps (\<lambda>w. otp_gone (w_db w)) (on_db (DeleteNetwork i))" "keeps (\<lambda>w. otp_gone (w_db w)) (on_db (GetBridgeByID i))"
  "keeps (\<lambda>w. otp_gone (w_db w)) (on_db ListBridges)" "keeps (\<lambda>w. otp_gone (w_db w)) (on_db (ListBridgesByNetworkID i))"
  "keeps (\<lambda>w. otp_gone (w_db w)) (on_db (BridgeExistsBetween i j))" "keeps (\<lambda>w. otp_gone (w_db w)) (on_db (CreateBridge b))"
  "keeps (\<lambda>w. otp_gone (w_db w)) (on_db (UpdateBridge b))" "keeps (\<lambda>w. otp_gone (w_db w)) (on_db (DeleteBridge i))"
  by (rule keeps_db, erule otp_same[rotated], erule settings_kept_networks)+

lemma keeps_otp_peers [keeps_rules]:
  "keeps (\<lambda>w. otp_gone (w_db w)) (on_db (GetPeerByID A i))" "keeps (\<lambda>w. otp_gone (w_db w)) (on_db (ListPeersByNetworkID A i))"
  "keeps (\<lambda>w. otp_gone (w_db w)) (on_db (CreatePeer A p))" "keeps (\<lambda>w. otp_gone (w_db w)) (on_db (UpdatePeer A p))"
  "keeps (\<lambda>w. otp_gone (w_db w)) (on_db (DeletePeer i))"
  by (rule keeps_db, erule otp_same[rotated], erule settings_kept_peers)+

lemma keeps_otp_audit [keeps_rules]: "keeps (\<lambda>w. otp_gone (w_db w)) (auditLog r a s t)"
  by (auto simp: auditLog_def Let_def intro!: keeps_rules)

lemma loops_settings:
  "aggregate pid from until ps agg d = (r1, d') \<Longrightarrow> settings d' = settings d"
  "TableCounts ts d = (r2, d') \<Longrightarrow> settings d' = settings d"
  "import_peers A nid n ips d = (r3, d') \<Longrightarrow> settings d' = settings d"
  "first_open ks d = (r4, d') \<Longrightarrow> settings d' = settings d"
proof -
  show "aggregate pid from until ps agg d = (r1, d') \<Longrightarrow> settings d' = settings d"
    by (induction ps arbitrary: agg d) (auto split: if_splits prod.splits sum.splits dest!: settings_kept_peers(6))
  show "TableCounts ts d = (r2, d') \<Longrightarrow> settings d' = settings d"
    by (induction ts arbitrary: d r2) (auto split: prod.splits option.splits if_splits dest!: fault_settings)
  show "import_peers A nid n ips d = (r3, d') \<Longrightarrow> settings d' = settings d"
    by (induction ips arbitrary: n d r3) (auto split: prod.splits sum.splits dest!: settings_kept_peers(3))
  show "first_open ks d = (r4, d') \<Longrightarrow> settings d' = settings d"
    by (induction ks arbitrary: d) (auto split: prod.splits sum.splits if_splits dest!: settings_kept_accounts(21))
qed

lemma getSetupState_settings: "getSetupState d = (r, d') \<Longrightarrow> settings d' = settings d"
  by (auto simp: getSetupState_def split: prod.splits sum.splits if_splits dest!: settings_kept_accounts(21) loops_settings(4))

lemma map_of_filter_none: "map_of xs k = None \<Longrightarrow> map_of (filter P xs) k = None"
  by (auto simp: map_of_eq_None_iff)

lemma keeps_otp_loops [keeps_rules]:
  "keeps (\<lambda>w. otp_gone (w_db w)) (on_db (aggregate pid from until ps agg))" "keeps (\<lambda>w. otp_gone (w_db w)) (on_db (TableCounts ts))"
  "keeps (\<lambda>w. otp_gone (w_db w)) (on_db (import_peers A nid n ips))" "keeps (\<lambda>w. otp_gone (w_db w)) (on_db getSetupState)"
  by (rule keeps_db, erule otp_same[rotated], erule loops_settings getSetupState_settings)+

lemma keeps_otp_settings [keeps_rules]:
  "key \<noteq> ''setup_otp'' \<Longrightarrow> keeps (\<lambda>w. otp_gone (w_db w)) (on_db (SetSetting key v))"
  "keeps (\<lambda>w. otp_gone (w_db w)) (on_db (DeleteSetting key'))"
  by (rule keeps_db; auto simp: SetSetting_def DeleteSetting_def otp_gone_def map_of_upsert map_of_filter_none split: prod.splits if_splits dest!: fault_settings)+

section \<open>No route brings the password back\<close>

abbreviation keeps_otp :: "(('k, 'n) World, 'a) handler \<Rightarrow> bool" where
  "keeps_otp m \<equiv> keeps (\<lambda>w. otp_gone (w_db w)) m"

lemma keeps_served: "keeps I m \<Longrightarrow> keeps I (served (serve m))"
  by (auto simp: keeps_def triple_def served_def serve_def split: prod.splits sum.splits)

lemma keeps_otp_raw [keeps_rules]:
  "keeps_otp (rate_limited S r)" "keeps_otp (http_get url)" "keeps_otp (handleDebugLogs r)" "keeps_otp (live_status S n)"
  by (auto simp: keeps_def triple_def live_status_def ret_def rate_limited_def http_get_def handleDebugLogs_def split: prod.splits list.splits option.splits sum.splits)

lemma keeps_otp_if [keeps_rules]:
  fixes f g :: "DB \<Rightarrow> 'a \<times> DB"
  assumes "keeps_otp (on_db f :: (('k, 'n) World, 'a) handler)" "keeps_otp (on_db g :: (('k, 'n) World, 'a) handler)"
  shows "keeps_otp (on_db (if b then f else g) :: (('k, 'n) World, 'a) handler)"
  using assms by simp

lemmas common_programs = fetch_network_def fetch_peer_def fetch_parent_def fetch_bridge_def bridge_networks_def undo_interface_def or_undo_def
  apply_firewall_def answer_created_def install_network_def toggle_nat_def toggle_routing_def remove_bridge_rules_def remove_firewall_def
  raise_interface_def restore_firewall_def store_enabled_def expiry_def allocate_ip_def answer_created_peer_def install_peer_def
  apply_expiry_def peer_toggled_def client_config_def answer_created_bridge_def install_bridge_def redirect_bridge_def
  remove_bridge_def Let_def

lemmas account_programs = caller_id_def key_expiry_def GenerateAPIKey_def HashPassword_def Generate_def issue_token_def create_admin_def
  fetch_alert_def Let_def

lemmas status_programs = peer_statuses_def network_status_def sendSSEStatus_def network_metrics_def debug_iface_def Let_def

lemma network_routes_keep_otp:
  "keeps_otp (served (handleListNetworks S))" "keeps_otp (served (handleCreateNetwork S r b1))" "keeps_otp (served (handleGetNetwork S r))"
  "keeps_otp (served (handleUpdateNetwork S r b2))" "keeps_otp (served (handleDeleteNetwork S r))"
  "keeps_otp (served (handleEnableNetwork S r))" "keeps_otp (served (handleDisableNetwork S r))" "keeps_otp (served (handleExportNetwork S r))"
  unfolding handleListNetworks_def handleCreateNetwork_def handleGetNetwork_def handleUpdateNetwork_def handleDeleteNetwork_def
    handleEnableNetwork_def handleDisableNetwork_def handleExportNetwork_def common_programs fetch_network_def
  by (intro keeps_served keeps_rules)+

lemma peer_routes_keep_otp:
  "keeps_otp (served (handleListPeers S r))" "keeps_otp (served (handleCreatePeer S r b1))" "keeps_otp (served (handleGetPeer S r))"
  "keeps_otp (served (handleUpdatePeer S r b2))" "keeps_otp (served (handleDeletePeer S r))" "keeps_otp (served (handleEnablePeer S r))"
  "keeps_otp (served (handleDisablePeer S r))" "keeps_otp (served (handlePeerConfig S r))" "keeps_otp (served (handlePeerQR S r))"
  unfolding handleListPeers_def handleCreatePeer_def handleGetPeer_def handleUpdatePeer_def handleDeletePeer_def handleEnablePeer_def
    handleDisablePeer_def handlePeerConfig_def handlePeerQR_def common_programs fetch_network_def
  by (intro keeps_served keeps_rules)+

lemma bridge_routes_keep_otp:
  "keeps_otp (served (handleListBridges S))" "keeps_otp (served (handleCreateBridge S r b1))" "keeps_otp (served (handleGetBridge S r))"
  "keeps_otp (served (handleUpdateBridge S r b2))" "keeps_otp (served (handleDeleteBridge S r))"
  unfolding handleListBridges_def handleCreateBridge_def handleGetBridge_def handleUpdateBridge_def handleDeleteBridge_def common_programs
  by (intro keeps_served keeps_rules)+

lemma account_routes_keep_otp:
  "keeps_otp (handleLogin S r b1)" "keeps_otp (handleLogout S)" "keeps_otp (handleChangePassword S r b2)"
  "keeps_otp (handleMe r)" "keeps_otp handleListUsers" "keeps_otp (handleCreateUser S r b3)" "keeps_otp (handleDeleteUser r)"
  "keeps_otp (handleListAPIKeys S r)" "keeps_otp (handleCreateAPIKey S r b4)" "keeps_otp (handleDeleteAPIKey S r)"
  "keeps_otp handleListAlerts" "keeps_otp (handleCreateAlert r b5)" "keeps_otp (handleUpdateAlert r b6)" "keeps_otp (handleDeleteAlert r)"
  "keeps_otp handleGetSettings" "keeps_otp (handleAuditLog r)"
  unfolding handleLogin_def handleLogout_def handleChangePassword_def handleMe_def handleListUsers_def handleCreateUser_def
    handleDeleteUser_def handleListAPIKeys_def handleCreateAPIKey_def handleDeleteAPIKey_def handleListAlerts_def handleCreateAlert_def
    handleUpdateAlert_def handleDeleteAlert_def handleGetSettings_def handleAuditLog_def account_programs
  by (intro keeps_rules)+

lemma status_routes_keep_otp:
  "keeps_otp (handleHealth S)" "keeps_otp (handleMetrics S)" "keeps_otp (handleStatus S)" "keeps_otp (handleSSEEvents S r)"
  "keeps_otp (handleNetworkStats S r)" "keeps_otp (handleDebugInfo S)" "keeps_otp (handleSystemInfo S)"
  unfolding handleHealth_def handleMetrics_def handleStatus_def handleSSEEvents_def handleNetworkStats_def handleDebugInfo_def
    handleSystemInfo_def status_programs common_programs fetch_network_def
  by (intro keeps_rules)+

text \<open>The settings that may be changed, as the two ranges over the body see it.\<close>

definition body_ok :: "Body \<Rightarrow> bool" where
  "body_ok b = (case b_settings b of Inl _ \<Rightarrow> True | Inr req \<Rightarrow> set (us_saved req) = set (us_checked req))"

lemma each_checked: "each xs (\<lambda>e. check (Q e) (s e)) w = (Inr ys, w') \<Longrightarrow> (\<forall>x\<in>set xs. Q x) \<and> w' = w"
  by (induction xs arbitrary: ys w') (auto simp: run_simps)

lemma keeps_each_set: "(\<And>x. x \<in> set xs \<Longrightarrow> keeps I (f x)) \<Longrightarrow> keeps I (each xs f)"
  by (induction xs) (auto intro!: keeps_rules)

lemma keeps_learned:
  assumes "keeps I m" "\<And>w x w'. m w = (Inr x, w') \<Longrightarrow> F x" "\<And>x. F x \<Longrightarrow> keeps I (f x)"
  shows "keeps I (andThen m f)"
  using assms unfolding keeps_def triple_def andThen_def by (fastforce split: prod.splits sum.splits)

lemma settings_route_keeps_otp:
  assumes "case b of Inl _ \<Rightarrow> True | Inr req \<Rightarrow> set (us_saved req) = set (us_checked req)"
  shows "keeps_otp (handleUpdateSettings r b)"
  unfolding handleUpdateSettings_def
proof (rule keeps_learned[where F = "\<lambda>req. b = Inr req"])
  fix req assume b: "b = Inr req"
  show "keeps_otp (andThen (each (us_checked req) (\<lambda>e. check (fst e \<in> set allowedSettings)
       (writeError (''setting '' @ quote (fst e) @ '' is not allowed'') ''VALIDATION_ERROR'' 400))) (\<lambda>_.
     andThen (each (us_saved req) save_setting) (\<lambda>_.
     andThen (auditLog r ''settings.updated'' ''settings'' (''updated '' @ itoa (length (us_saved req)) @ '' setting(s)'')) (\<lambda>_.
     handleGetSettings))))"
  proof (rule keeps_learned[where F = "\<lambda>_. \<forall>e\<in>set (us_checked req). fst e \<in> set allowedSettings"])
    assume ok: "\<forall>e\<in>set (us_checked req). fst e \<in> set allowedSettings"
    show "keeps_otp (andThen (each (us_saved req) save_setting) (\<lambda>_.
     andThen (auditLog r ''settings.updated'' ''settings'' (''updated '' @ itoa (length (us_saved req)) @ '' setting(s)'')) (\<lambda>_.
     handleGetSettings)))"
    proof (intro keeps_andThen keeps_otp_audit account_routes_keep_otp(15) keeps_each_set)
      fix e assume "e \<in> set (us_saved req)"
      then have "fst e \<in> set allowedSettings" using ok assms b by auto
      then have "fst e \<noteq> ''setup_otp''" by (auto simp: allowedSettings_def)
      then show "keeps_otp (save_setting e)" unfolding save_setting_def by (intro keeps_rules)
    qed
  qed (auto dest: each_checked intro: keeps_rules)
qed (auto simp: run_simps intro: keeps_rules)

lemma keeps_detect [keeps_rules]: "keeps_otp (detect_loop svcs)"
  by (induction svcs) (auto simp: Let_def intro!: keeps_rules split: option.splits)

lemma setup_routes_keep_otp:
  "keeps_otp (handleSetup S r b1)" "keeps_otp (handleSetupStatus S)" "keeps_otp (handleSetupStep1 S b2)" "keeps_otp (handleSetupStep2 b3)"
  "keeps_otp (handleSetupStep3 S b4)" "keeps_otp (handleSetupStep4 S b5)" "keeps_otp handleDetectPublicIP" "keeps_otp (handleImportConfig S r b6)"
  unfolding handleSetup_def handleSetupStatus_def handleSetupStep1_def handleSetupStep2_def handleSetupStep3_def handleSetupStep4_def
    handleDetectPublicIP_def handleImportConfig_def detectPublicIP_def wizard_step_def save_given_def install_first_network_def
    answer_first_network_def setup_network_def setup_allocate_def install_first_peer_def answer_first_peer_def common_programs account_programs
  by ((intro keeps_rules)+; simp)+

lemma routes_keep_otp:
  assumes "body_ok (hr_Body hr)" "(pat, g, h) \<in> set (routes S hr)"
  shows "keeps_otp (h r)"
  using assms(2) settings_route_keeps_otp[OF assms(1)[unfolded body_ok_def]]
  by (auto simp: routes_def Let_def intro!: network_routes_keep_otp peer_routes_keep_otp bridge_routes_keep_otp account_routes_keep_otp
      status_routes_keep_otp setup_routes_keep_otp keeps_otp_raw keeps_ret)

lemma guards_keep_otp:
  assumes "\<And>r. keeps_otp (h r)"
  shows "keeps_otp (wrap S g h r)"
proof -
  have auth: "keeps_otp (RequireAuth S k r)" if "\<And>r. keeps_otp (k r)" for k r
    unfolding RequireAuth_def with_session_def with_api_key_def Validate_def by (intro keeps_rules that)
  have guarded: "keeps_otp (setupGuard k r)" if "\<And>r. keeps_otp (k r)" for k r
    unfolding setupGuard_def by (intro keeps_rules that)
  have role: "keeps_otp (RequireRole rs k r)" if "\<And>r. keeps_otp (k r)" for rs k r
    unfolding RequireRole_def by (intro keeps_rules that)
  show ?thesis by (cases g) (simp_all add: assms auth guarded role)
qed

lemma find_route_mem: "find_route m p rs = Some (g, h, vals) \<Longrightarrow> \<exists>pat. (pat, g, h) \<in> set rs"
  by (induction m p rs rule: find_route.induct) (auto split: option.splits)

lemma serve_mux_keeps_otp: "body_ok (hr_Body hr) \<Longrightarrow> keeps_otp (serve_mux S hr)"
  unfolding serve_mux_def
  by (auto intro!: keeps_rules guards_keep_otp routes_keep_otp split: option.splits dest!: find_route_mem)

lemma request_id_db: "GenerateRequestID w = (rid, w1) \<Longrightarrow> w_db w1 = w_db w"
  by (auto simp: GenerateRequestID_def split: list.splits option.splits)

lemma ServeHTTP_keeps_otp:
  assumes "body_ok (hr_Body hr)" "ServeHTTP S hr w = (x, w')" "otp_gone (w_db w)"
  shows "otp_gone (w_db w')"
proof (cases "devMode S \<and> hr_Method hr = ''OPTIONS''")
  case True
  then show ?thesis using assms(2,3) by (simp add: ServeHTTP_def)
next
  case False
  obtain rid w1 where rid: "GenerateRequestID w = (rid, w1)" by fastforce
  obtain r w2 where r: "serve (serve_mux S hr) w1 = (r, w2)" by fastforce
  have "w' = w2" using assms(2) False rid r by (auto simp: ServeHTTP_def)
  then show ?thesis
    using keeps_serve[OF serve_mux_keeps_otp[OF assms(1)] _ r] assms(3) request_id_db[OF rid] by simp
qed

section \<open>The password opens the door once\<close>

text \<open>
  The states after a state: any requests, and any change of the inputs in between (time, random
  source, failures of the database, what the services on the network answer, the kernel).
\<close>

inductive later :: "('k, 'n) Server \<Rightarrow> ('k, 'n) World \<Rightarrow> ('k, 'n) World \<Rightarrow> bool" for S w where
  later_now: "later S w w"
| later_request: "\<lbrakk>later S w w1; body_ok (hr_Body hr); ServeHTTP S hr w1 = (x, w2)\<rbrakk> \<Longrightarrow> later S w w2"
| later_inputs: "later S w w1 \<Longrightarrow> later S w (w1\<lparr>w_db := (w_db w1)\<lparr>now := t, faults := fs, entropy := ns\<rparr>, w_kernel := k, w_nft := n,
    w_keypairs := kps, w_psks := sks, w_nanos := u, w_random := rs, w_http := hs\<rparr>)"

lemma later_keeps_otp: "later S w w' \<Longrightarrow> otp_gone (w_db w) \<Longrightarrow> otp_gone (w_db w')"
proof (induction rule: later.induct)
  case (later_request w1 hr x w2)
  then show ?case by (auto dest: ServeHTTP_keeps_otp)
qed (simp_all add: otp_gone_def)

lemma GetSetting_gone: "otp_gone d \<Longrightarrow> GetSetting ''setup_otp'' d = (g, d1) \<Longrightarrow> g = Inr [] \<or> g = Inl SQLFault"
  by (auto simp: GetSetting_def otp_gone_def split: prod.splits if_splits dest: fault_settings)

lemma reads_keep_users:
  "GetSetting key d = (g, d1) \<Longrightarrow> users d1 = users d" "first_open ks d = (r, d1) \<Longrightarrow> users d1 = users d"
  "getSetupState d = (q, d1) \<Longrightarrow> users d1 = users d"
proof -
  have get: "users d1 = users d" if "GetSetting key d = (g, d1)" for key g d d1
    using that by (auto simp: GetSetting_def db_fault_def split: prod.splits if_splits list.splits)
  then show "GetSetting key d = (g, d1) \<Longrightarrow> users d1 = users d" .
  have op: "users d1 = users d" if "first_open ks d = (r, d1)" for ks r d d1
    using that by (induction ks arbitrary: d) (auto split: prod.splits sum.splits if_splits dest!: get)
  then show "first_open ks d = (r, d1) \<Longrightarrow> users d1 = users d" .
  show "getSetupState d = (q, d1) \<Longrightarrow> users d1 = users d"
    by (auto simp: getSetupState_def split: prod.splits sum.splits if_splits dest!: get op)
qed

text \<open>Without the password the check of it is the end of both handlers.\<close>

definition no_admin :: "User list \<Rightarrow> (('k, 'n) World, 'a) handler \<Rightarrow> bool" where
  "no_admin us m \<longleftrightarrow> triple (\<lambda>w. otp_gone (w_db w) \<and> users (w_db w) = us) m (\<lambda>_ _. False)
     (\<lambda>r w. status r \<noteq> 201 \<and> users (w_db w) = us)"

definition harmless :: "User list \<Rightarrow> (('k, 'n) World, 'a) handler \<Rightarrow> bool" where
  "harmless us m \<longleftrightarrow> triple (\<lambda>w. otp_gone (w_db w) \<and> users (w_db w) = us) m (\<lambda>_ w. otp_gone (w_db w) \<and> users (w_db w) = us)
     (\<lambda>r w. status r \<noteq> 201 \<and> users (w_db w) = us)"

lemma no_admin_step: "harmless us m \<Longrightarrow> (\<And>x. no_admin us (f x)) \<Longrightarrow> no_admin us (andThen m f)"
  unfolding harmless_def no_admin_def by (rule triple_andThen)

lemma harmless_step: "harmless us m \<Longrightarrow> (\<And>x. harmless us (f x)) \<Longrightarrow> harmless us (andThen m f)"
  unfolding harmless_def by (rule triple_andThen)

lemma harmless_basic:
  "harmless us (ret x)" "status s \<noteq> 201 \<Longrightarrow> harmless us (check b s)" "status s \<noteq> 201 \<Longrightarrow> harmless us (or_error y s)"
  "harmless us (decodeJSON body)" "harmless us (on_db (GetSetting key))" "harmless us (on_db getSetupState)"
  by (auto simp: harmless_def triple_def ret_def check_def or_error_def stop_def decodeJSON_def on_db_def response_inject otp_gone_def
      split: sum.splits decode_error.splits prod.splits dest: reads_keep_users settings_kept_accounts(21) getSetupState_settings)

lemma harmless_cases: "(\<And>x y. harmless us (f x y)) \<Longrightarrow> harmless us (case p of (x, y) \<Rightarrow> f x y)"
  by (cases p) simp

lemma harmless_wizard: "harmless us wizard_step"
  unfolding wizard_step_def by (intro harmless_step harmless_basic harmless_cases; simp add: response_inject)

lemma no_admin_otp:
  assumes "status s1 \<noteq> 201" "status s2 \<noteq> 201"
  shows "no_admin us (andThen (on_db (GetSetting ''setup_otp'')) (\<lambda>g. andThen (or_error g s1) (\<lambda>otp.
     andThen (check (otp \<noteq> []) s2) (f otp))) :: (('k, 'n) World, 'a) handler)"
  unfolding no_admin_def triple_def
proof (intro allI impI)
  fix w :: "('k, 'n) World"
  assume w: "otp_gone (w_db w) \<and> users (w_db w) = us"
  obtain g d where g: "GetSetting ''setup_otp'' (w_db w) = (g, d)" by fastforce
  have "users d = us" "g = Inr [] \<or> g = Inl SQLFault" using w reads_keep_users(1)[OF g] GetSetting_gone[OF _ g] by auto
  then show "case andThen (on_db (GetSetting ''setup_otp'')) (\<lambda>g. andThen (or_error g s1) (\<lambda>otp. andThen (check (otp \<noteq> []) s2) (f otp))) w of
      (Inl r, w') \<Rightarrow> status r \<noteq> 201 \<and> users (w_db w') = us | (Inr x, w') \<Rightarrow> False"
    using assms by (auto simp: andThen_def on_db_def g or_error_def check_def ret_def stop_def)
qed

lemma setup_refused:
  assumes "otp_gone (w_db w)"
  shows "serve (handleSetupStep1 S b) w = (res, w') \<Longrightarrow> status res \<noteq> 201 \<and> users (w_db w') = users (w_db w)"
    "serve (handleSetup S r b) w = (res, w') \<Longrightarrow> status res \<noteq> 201 \<and> users (w_db w') = users (w_db w)"
proof -
  have run: "status res \<noteq> 201 \<and> users (w_db w') = users (w_db w)"
    if "no_admin (users (w_db w)) m" "serve m w = (res, w')" for m
  proof -
    obtain y v where m: "m w = (y, v)" by fastforce
    have "case (y, v) of (Inl r, w') \<Rightarrow> status r \<noteq> 201 \<and> users (w_db w') = users (w_db w) | (Inr x, w') \<Rightarrow> False"
      using that(1) assms m unfolding no_admin_def triple_def by metis
    then show ?thesis using that(2) m by (auto simp: serve_def split: sum.splits)
  qed
  have "no_admin us (handleSetupStep1 S b)" for us
    unfolding handleSetupStep1_def
    by (intro no_admin_step harmless_wizard harmless_basic no_admin_otp; simp add: response_inject writeError_def writeValidationError_def)
  then show "serve (handleSetupStep1 S b) w = (res, w') \<Longrightarrow> status res \<noteq> 201 \<and> users (w_db w') = users (w_db w)" by (rule run)
  have "no_admin us (handleSetup S r b)" for us
    unfolding handleSetup_def
    by (intro no_admin_step harmless_basic no_admin_otp; simp add: response_inject writeError_def)
  then show "serve (handleSetup S r b) w = (res, w') \<Longrightarrow> status res \<noteq> 201 \<and> users (w_db w') = users (w_db w)" by (rule run)
qed

section \<open>The first administrator\<close>

definition gives_login :: "response \<Rightarrow> bool" where
  "gives_login r \<longleftrightarrow> status r = 201"

lemma gives_login_simps [simp]:
  "gives_login (internal_error m) = False" "gives_login (writeError m c st) = (st = 201)" "gives_login (writeValidationError fs) = False"
  by (simp_all add: gives_login_def response_inject)

lemma never_login_decode: "never gives_login (decodeJSON b)"
  by (auto simp: decodeJSON_def intro!: never_rules split: sum.splits decode_error.splits)

lemma setup_end:
  assumes "serve m w = (res, w')" "status res = 201" "m = handleSetupStep1 S (Inr req) \<or> m = handleSetup S r (Inr req)"
  shows "m w = (Inr res, w')"
proof -
  have "never gives_login m"
    using assms(3)
    by (elim disjE; simp only: handleSetupStep1_def handleSetup_def wizard_step_def account_programs;
        intro never_rules never_login_decode; simp)
  then show ?thesis using assms(1,2) by (auto simp: serve_def never_def gives_login_def split: prod.splits sum.splits)
qed

text \<open>The end of both handlers: the user, the password, the flag of the step.\<close>

definition door :: "('k, 'n) Server \<Rightarrow> setupRequest \<Rightarrow> ('k, 'n) World \<Rightarrow> ('k, 'n) World \<Rightarrow> bool" where
  "door S req w w' \<longleftrightarrow> (\<exists>hash u. map_of (settings (w_db w)) ''setup_otp'' = Some hash \<and> VerifyPassword S hash (su_OTP req) \<and>
     users (w_db w') = users (w_db w) @ [u] \<and> u_Username u = su_Username req \<and> u_Role u = ''admin'' \<and> otp_gone (w_db w'))"

lemma create_admin_run:
  assumes "create_admin S name pw w = (Inr i, w')" "faults (w_db w) = []"
  shows "faults (w_db w') = [] \<and> settings (w_db w') = settings (w_db w) \<and>
    (\<exists>u. users (w_db w') = users (w_db w) @ [u] \<and> u_Username u = name \<and> u_Role u = ''admin'')"
  using assms
  by (auto simp: create_admin_def HashPassword_def run_simps CreateUser_def db_fault_def Let_def split: if_splits)

lemma calm_reads:
  assumes "faults d = []"
  shows "GetSetting k d = (Inr (case map_of (settings d) k of None \<Rightarrow> [] | Some v \<Rightarrow> v), d)" "snd (first_open ks d) = d" "snd (getSetupState d) = d"
proof -
  show get: "GetSetting k d = (Inr (case map_of (settings d) k of None \<Rightarrow> [] | Some v \<Rightarrow> v), d)" for k
    using assms by (simp add: GetSetting_def db_fault_def)
  have "snd (first_open ks d) = d" for ks by (induction ks) (auto simp: get)
  then show "snd (first_open ks d) = d" .
  obtain x where "first_open [(''setup_step1_done'', 1), (''setup_step2_done'', 2), (''setup_step3_done'', 3)] d = (x, d)"
    using \<open>\<And>ks. snd (first_open ks d) = d\<close> by (metis prod.collapse)
  then show "snd (getSetupState d) = d" by (auto simp: getSetupState_def get split: sum.splits)
qed

lemma wizard_calm: "wizard_step w = (Inr s, w') \<Longrightarrow> faults (w_db w) = [] \<Longrightarrow> w' = w"
  using calm_reads(3)[of "w_db w"] by (auto simp: wizard_step_def run_simps case_run)

lemma password_spent:
  assumes "on_db (DeleteSetting ''setup_otp'') w = (Inr e, w1)" "faults (w_db w) = []" "key \<noteq> ''setup_otp''"
    "on_db (SetSetting key v) w1 = (Inr e2, w2)"
  shows "otp_gone (w_db w2) \<and> users (w_db w2) = users (w_db w)"
  using assms
  by (auto simp: run_simps DeleteSetting_def SetSetting_def db_fault_def otp_gone_def map_of_upsert map_of_eq_None_iff)

lemma issue_token_db: "issue_token S i n ro w = (Inr t, w') \<Longrightarrow> w_db w' = w_db w"
  by (auto simp: issue_token_def Generate_def run_simps)

lemma setup_password_used:
  fixes w :: "('k, 'n) World" and g :: "db_error + string"
  assumes "on_db (GetSetting ''setup_otp'') w = (Inr g, w1)" "or_error g e1 w1 = (Inr otp, w2)" "check (otp \<noteq> []) e2 w2 = (Inr u1, w3)"
    "check (VerifyPassword S otp (su_OTP req)) e3 w3 = (Inr u2, w4)" "create_admin S (su_Username req) pw w4 = (Inr i, w5)"
    "on_db (DeleteSetting ''setup_otp'') w5 = (Inr e4, w6)" "on_db (SetSetting key v) w6 = (Inr e5, w7)"
    "issue_token S i (su_Username req) ''admin'' w7 = (Inr token, w8)"
    and key: "key \<noteq> ''setup_otp''" and calm: "faults (w_db w) = []"
  shows "door S req w w8"
proof -
  have w: "w1 = w" "w2 = w" "w3 = w" "w4 = w" and otp: "otp \<noteq> []" "VerifyPassword S otp (su_OTP req)"
    and g: "g = Inr otp" "g = Inr (case map_of (settings (w_db w)) ''setup_otp'' of None \<Rightarrow> [] | Some v \<Rightarrow> v)"
    using assms(1-4) calm_reads(1)[OF calm] by (auto simp: run_simps)
  have set: "map_of (settings (w_db w)) ''setup_otp'' = Some otp" using g otp(1) by (auto split: option.splits)
  have adm: "faults (w_db w5) = [] \<and> settings (w_db w5) = settings (w_db w) \<and>
      (\<exists>u. users (w_db w5) = users (w_db w) @ [u] \<and> u_Username u = su_Username req \<and> u_Role u = ''admin'')"
    using create_admin_run[OF assms(5)] calm w by simp
  have "otp_gone (w_db w8) \<and> users (w_db w8) = users (w_db w5)"
    using password_spent[OF assms(6) _ key assms(7)] adm issue_token_db[OF assms(8)] by simp
  then show ?thesis using adm set otp(2) unfolding door_def by auto
qed

lemma audit_users [simp]: "users (w_db (snd (auditLog r a s t w))) = users (w_db w)" "otp_gone (w_db (snd (auditLog r a s t w))) = otp_gone (w_db w)"
  by (auto simp: otp_gone_def auditLog_def Let_def andThen_def ret_def on_db_def InsertAuditEntry_def db_fault_def split: prod.splits list.splits)

lemma setup_step1_door:
  assumes "handleSetupStep1 S (Inr req) w = (Inr res, w')" "faults (w_db w) = []"
  shows "door S req w w'"
proof -
  obtain step w0 where step: "wizard_step w = (Inr step, w0)"
    and rest: "\<exists>g w1 otp w2 u1 w3 u2 w4 i w5 e4 w6 e5 w7 token. on_db (GetSetting ''setup_otp'') w0 = (Inr g, w1) \<and>
      or_error g (internal_error ''internal error'') w1 = (Inr otp, w2) \<and>
      check (otp \<noteq> []) (writeError ''setup OTP already used'' ''SETUP_ALREADY_COMPLETE'' 409) w2 = (Inr u1, w3) \<and>
      check (VerifyPassword S otp (su_OTP req)) (writeError ''invalid setup password'' ''INVALID_OTP'' 401) w3 = (Inr u2, w4) \<and>
      create_admin S (su_Username req) (su_Password req) w4 = (Inr i, w5) \<and> on_db (DeleteSetting ''setup_otp'') w5 = (Inr e4, w6) \<and>
      on_db (SetSetting ''setup_step1_done'' ''true'') w6 = (Inr e5, w7) \<and> issue_token S i (su_Username req) ''admin'' w7 = (Inr token, w')"
    using assms(1) unfolding handleSetupStep1_def andThen_run(1) by (fastforce simp: basic_run check_run(1) input_go)
  from rest have "door S req w0 w'"
    using wizard_calm[OF step assms(2)] assms(2)
    by (elim exE conjE) (erule (7) setup_password_used; simp)
  then show ?thesis using wizard_calm[OF step assms(2)] by simp
qed

lemma handleSetup_door:
  assumes "handleSetup S r (Inr req) w = (Inr res, w')" "faults (w_db w) = []"
  shows "door S req w w'"
proof -
  obtain c w0 where c: "on_db (GetSetting ''setup_complete'') w = (Inr c, w0)"
    and rest: "\<exists>g w1 otp w2 u1 w3 u2 w4 i w5 e4 w6 e5 w7 token w8. on_db (GetSetting ''setup_otp'') w0 = (Inr g, w1) \<and>
      or_error g (internal_error ''internal error'') w1 = (Inr otp, w2) \<and>
      check (otp \<noteq> []) (writeError ''setup already completed'' ''SETUP_ALREADY_COMPLETE'' 409) w2 = (Inr u1, w3) \<and>
      check (VerifyPassword S otp (su_OTP req)) (writeError ''invalid setup password'' ''INVALID_OTP'' 401) w3 = (Inr u2, w4) \<and>
      create_admin S (su_Username req) (su_Password req) w4 = (Inr i, w5) \<and> on_db (DeleteSetting ''setup_otp'') w5 = (Inr e4, w6) \<and>
      on_db (SetSetting ''setup_complete'' ''true'') w6 = (Inr e5, w7) \<and> issue_token S i (su_Username req) ''admin'' w7 = (Inr token, w8) \<and>
      w' = snd (auditLog r ''setup.completed'' ''system'' (''initial setup completed by user '' @ quote (su_Username req)
       @ '' (id='' @ itoa_int i @ '')'') w8)"
    using assms(1) unfolding handleSetup_def andThen_run(1) by (fastforce simp: basic_run check_run(1,3,5,7) input_go audit_run)
  have w0: "w0 = w" using c calm_reads(1)[OF assms(2)] by (auto simp: run_simps)
  from rest obtain w8 where d: "door S req w0 w8" and w': "users (w_db w') = users (w_db w8)" "otp_gone (w_db w') = otp_gone (w_db w8)"
    using w0 assms(2) by (elim exE conjE) (drule (7) setup_password_used; simp)
  then show ?thesis using w0 by (simp add: door_def)
qed

text \<open>
  C5. The one-time password of the setup works once.  When the first step of the wizard or the
  setup route answers 201 (and the database had no failure), the password sent is the stored one,
  exactly one user was added, an administrator with the given name, and the stored password is
  gone; and in every later state, after any requests and whatever the inputs, neither of the two
  handlers answers 201 or adds a user.
\<close>
theorem setup_password_once:
  assumes "serve m w = (res, w1)" "status res = 201" "m = handleSetupStep1 S (Inr req) \<or> m = handleSetup S r (Inr req)"
    and "faults (w_db w) = []"
  shows "(\<exists>hash u. map_of (settings (w_db w)) ''setup_otp'' = Some hash \<and> VerifyPassword S hash (su_OTP req) \<and>
      users (w_db w1) = users (w_db w) @ [u] \<and> u_Username u = su_Username req \<and> u_Role u = ''admin'') \<and>
    (\<forall>w2 b r' x w3. later S w1 w2 \<longrightarrow> serve (handleSetupStep1 S b) w2 = (x, w3) \<or> serve (handleSetup S r' b) w2 = (x, w3) \<longrightarrow>
      status x \<noteq> 201 \<and> users (w_db w3) = users (w_db w2))"
proof -
  have d: "door S req w w1"
    using setup_end[OF assms(1-3)] assms(3,4) setup_step1_door handleSetup_door by metis
  have "status x \<noteq> 201 \<and> users (w_db w3) = users (w_db w2)"
    if "later S w1 w2" "serve (handleSetupStep1 S b) w2 = (x, w3) \<or> serve (handleSetup S r' b) w2 = (x, w3)" for w2 b r' x w3
  proof -
    have "otp_gone (w_db w2)" using later_keeps_otp[OF that(1)] d unfolding door_def by blast
    then show ?thesis using setup_refused that(2) by blast
  qed
  then show ?thesis using d unfolding door_def by blast
qed

definition fresh_world :: "(sim, mem_nft) World" where
  "fresh_world = (sample_world (empty_db\<lparr>settings := [(''setup_otp'', ''abc'')]\<rparr>) [])\<lparr>w_random := [Some [1]]\<rparr>"

definition first_admin :: setupRequest where
  "first_admin = \<lparr>su_OTP = ''abc'', su_Username = ''root'', su_Password = ''0123456789''\<rparr>"

theorem setup_password_once_witness:
  "\<exists>res w1 u. serve (handleSetup sample_server sample_request (Inr first_admin)) fresh_world = (res, w1) \<and> status res = 201 \<and>
     users (w_db w1) = [u] \<and> u_Role u = ''admin'' \<and>
     (\<forall>b x w3. serve (handleSetupStep1 sample_server b) w1 = (x, w3) \<longrightarrow> status x \<noteq> 201)"
proof -
  obtain res w1 where run: "serve (handleSetup sample_server sample_request (Inr first_admin)) fresh_world = (res, w1)" by fastforce
  have st: "status res = 201"
    using run
    by (simp add: handleSetup_def first_admin_def fresh_world_def GetSetting_def SetSetting_def DeleteSetting_def create_admin_def HashPassword_def
      rand_Read_def VerifyPassword_def CreateUser_def issue_token_def Generate_def SetCookie_def MinPasswordLength_def handler_eval
      InsertAuditEntry_def db_fault_def empty_db_def Let_def) (auto simp: writeJSON_def)
  have calm: "faults (w_db fresh_world) = []" by (simp add: fresh_world_def sample_world_def empty_db_def)
  have none: "users (w_db fresh_world) = []" by (simp add: fresh_world_def sample_world_def empty_db_def)
  note all = setup_password_once[OF run st disjI2[OF refl] calm, unfolded none append_Nil]
  show ?thesis using run st all later_now[of sample_server w1] by blast
qed

end
