(* ===== verification/Migrations.thy ===== *)
theory Migrations
  imports Samples
begin

text \<open>
  \<open>internal/db/migrate.go\<close>: the migrations of the schema, which the embedded SQL files describe, and
  the migration that encrypts the keys of a database from before encryption.
\<close>

section \<open>The migrations of the schema\<close>

text \<open>\<open>strings.Index\<close>.\<close>

fun Index :: "string \<Rightarrow> string \<Rightarrow> nat option" where
  "Index [] sub = (if sub = [] then Some 0 else None)"
| "Index (c # s) sub = (if HasPrefix (c # s) sub then Some 0 else map_option Suc (Index s sub))"

text \<open>The part of a file between the directives; \<open>None\<close> is the panic of a slice that ends before it starts.\<close>

definition extractUpSection :: "string \<Rightarrow> string option" where
  "extractUpSection sql = (case Index sql ''-- +goose Up'' of
      None \<Rightarrow> Some sql
    | Some upIdx \<Rightarrow> let start = upIdx + length ''-- +goose Up'' in
        (case Index sql ''-- +goose Down'' of
           None \<Rightarrow> Some (TrimSpace (drop start sql))
         | Some downIdx \<Rightarrow> if downIdx < start then None else Some (TrimSpace (take (downIdx - start) (drop start sql)))))"

datatype migrate_error = CreateTrackingFailed | CheckFailed string | ExecFailed string | RecordFailed string | BadSections string

text \<open>
  The state of a migration: the schema as the engine has it, the rows of \<open>_migrations\<close>, and the
  failures of the statements to come.  \<open>exec\<close> is the engine: it runs a script and says whether it
  succeeded.
\<close>

record 's MigState =
  ms_schema :: 's
  ms_applied :: "string list"
  ms_faults :: "bool list"

definition ms_fault :: "'s MigState \<Rightarrow> bool \<times> 's MigState" where
  "ms_fault m = (case ms_faults m of [] \<Rightarrow> (False, m) | f # fs \<Rightarrow> (f, m\<lparr>ms_faults := fs\<rparr>))"

definition apply_migration :: "(string \<Rightarrow> 's \<Rightarrow> bool \<times> 's) \<Rightarrow> string \<times> string \<Rightarrow> 's MigState \<Rightarrow> migrate_error option \<times> 's MigState" where
  "apply_migration exec e m = (case extractUpSection (snd e) of
      None \<Rightarrow> (Some (BadSections (fst e)), m)
    | Some sql \<Rightarrow> (case exec sql (ms_schema m) of
          (ok, s) \<Rightarrow> let m1 = m\<lparr>ms_schema := s\<rparr> in
            if \<not> ok then (Some (ExecFailed (fst e)), m1)
            else (case ms_fault m1 of (f, m2) \<Rightarrow>
              if f then (Some (RecordFailed (fst e)), m2) else (None, m2\<lparr>ms_applied := ms_applied m2 @ [fst e]\<rparr>))))"

fun migrate_each :: "(string \<Rightarrow> 's \<Rightarrow> bool \<times> 's) \<Rightarrow> (string \<times> string) list \<Rightarrow> 's MigState \<Rightarrow> migrate_error option \<times> 's MigState" where
  "migrate_each exec [] m = (None, m)"
| "migrate_each exec (e # es) m = (case ms_fault m of (f, m1) \<Rightarrow>
     if f then (Some (CheckFailed (fst e)), m1)
     else if fst e \<in> set (ms_applied m1) then migrate_each exec es m1
     else (case apply_migration exec e m1 of
         (Some err, m2) \<Rightarrow> (Some err, m2)
       | (None, m2) \<Rightarrow> migrate_each exec es m2))"

definition sql_files :: "(string \<times> string) list \<Rightarrow> (string \<times> string) list" where
  "sql_files entries = filter (\<lambda>e. HasPrefix (rev (fst e)) (rev ''.sql'')) (sort_key fst entries)"

text \<open>The entries of the embedded directory are its files; it has no directories in it.\<close>

definition Migrate :: "(string \<Rightarrow> 's \<Rightarrow> bool \<times> 's) \<Rightarrow> (string \<times> string) list \<Rightarrow> 's MigState \<Rightarrow> migrate_error option \<times> 's MigState" where
  "Migrate exec entries m = (case ms_fault m of (f, m1) \<Rightarrow>
     if f then (Some CreateTrackingFailed, m1) else migrate_each exec (sql_files entries) m1)"

section \<open>Encrypting the keys of an old database\<close>

text \<open>Collecting the updates, then making them; \<open>encrypt_field\<close> encrypts a key unless it is.\<close>

fun network_updates :: "aead \<Rightarrow> Network list \<Rightarrow> DB \<Rightarrow> (db_error + (int \<times> string) list) \<times> DB" where
  "network_updates A [] d = (Inr [], d)"
| "network_updates A (n # ns) d =
     (if n_PrivateKey n = [] \<or> IsEncrypted (n_PrivateKey n) then network_updates A ns d
      else (case encrypt_field A True (n_PrivateKey n) d of
          (Inl e, d1) \<Rightarrow> (Inl e, d1)
        | (Inr enc, d1) \<Rightarrow> (case network_updates A ns d1 of
              (Inl e, d2) \<Rightarrow> (Inl e, d2) | (Inr us, d2) \<Rightarrow> (Inr ((n_ID n, enc) # us), d2))))"

fun write_networks :: "(int \<times> string) list \<Rightarrow> DB \<Rightarrow> db_error option \<times> DB" where
  "write_networks [] d = (None, d)"
| "write_networks (u # us) d = (case db_fault d of (f, d1) \<Rightarrow>
     if f then (Some SQLFault, d1)
     else write_networks us (d1\<lparr>networks := map (\<lambda>n. if n_ID n = fst u then n\<lparr>n_PrivateKey := snd u\<rparr> else n) (networks d1)\<rparr>))"

fun peer_updates :: "aead \<Rightarrow> Peer list \<Rightarrow> DB \<Rightarrow> (db_error + (int \<times> string \<times> string) list) \<times> DB" where
  "peer_updates A [] d = (Inr [], d)"
| "peer_updates A (p # ps) d = (case encrypt_field A True (p_PrivateKey p) d of
      (Inl e, d1) \<Rightarrow> (Inl e, d1)
    | (Inr pk, d1) \<Rightarrow> (case encrypt_field A True (p_PresharedKey p) d1 of
          (Inl e, d2) \<Rightarrow> (Inl e, d2)
        | (Inr psk, d2) \<Rightarrow> (case peer_updates A ps d2 of
              (Inl e, d3) \<Rightarrow> (Inl e, d3)
            | (Inr us, d3) \<Rightarrow> (Inr (if pk \<noteq> p_PrivateKey p \<or> psk \<noteq> p_PresharedKey p then (p_ID p, pk, psk) # us else us), d3))))"

fun write_peers :: "(int \<times> string \<times> string) list \<Rightarrow> DB \<Rightarrow> db_error option \<times> DB" where
  "write_peers [] d = (None, d)"
| "write_peers (u # us) d = (case db_fault d of (f, d1) \<Rightarrow>
     if f then (Some SQLFault, d1)
     else write_peers us (d1\<lparr>peers := map (\<lambda>p. if p_ID p = fst u
        then p\<lparr>p_PrivateKey := fst (snd u), p_PresharedKey := snd (snd u)\<rparr> else p) (peers d1)\<rparr>))"

definition encrypt_networks :: "aead \<Rightarrow> DB \<Rightarrow> db_error option \<times> DB" where
  "encrypt_networks A d = (case db_fault d of (f, d1) \<Rightarrow>
     if f then (Some SQLFault, d1)
     else (case network_updates A (networks d1) d1 of
         (Inl e, d2) \<Rightarrow> (Some e, d2) | (Inr us, d2) \<Rightarrow> write_networks us d2))"

definition encrypt_peers :: "aead \<Rightarrow> DB \<Rightarrow> db_error option \<times> DB" where
  "encrypt_peers A d = (case db_fault d of (f, d1) \<Rightarrow>
     if f then (Some SQLFault, d1)
     else (case peer_updates A (filter (\<lambda>p. p_PrivateKey p \<noteq> [] \<or> p_PresharedKey p \<noteq> []) (peers d1)) d1 of
         (Inl e, d2) \<Rightarrow> (Some e, d2) | (Inr us, d2) \<Rightarrow> write_peers us d2))"

definition MigrateEncryptKeys :: "aead \<Rightarrow> DB \<Rightarrow> db_error option \<times> DB" where
  "MigrateEncryptKeys A d = (if encryptionKey d = None then (None, d)
     else (case encrypt_networks A d of
         (Some e, d1) \<Rightarrow> (Some e, d1) | (None, d1) \<Rightarrow> encrypt_peers A d1))"

section \<open>Migrations run once, in the order of their names\<close>

definition run_script :: "(string \<Rightarrow> 's \<Rightarrow> bool \<times> 's) \<Rightarrow> string \<times> string \<Rightarrow> 's \<Rightarrow> 's" where
  "run_script exec e s = (case extractUpSection (snd e) of None \<Rightarrow> s | Some sql \<Rightarrow> snd (exec sql s))"

lemma ms_fault_frame: "ms_fault m = (f, m1) \<Longrightarrow> ms_schema m1 = ms_schema m \<and> ms_applied m1 = ms_applied m"
  by (auto simp: ms_fault_def split: list.splits)

lemma apply_migration_ok:
  assumes "apply_migration exec e m = (None, m')"
  shows "ms_schema m' = run_script exec e (ms_schema m)" "ms_applied m' = ms_applied m @ [fst e]"
  using assms by (auto simp: apply_migration_def run_script_def Let_def split: option.splits prod.splits if_splits dest: ms_fault_frame)

lemma migrate_each_ok:
  assumes "migrate_each exec es m = (None, m')" "distinct (map fst es)"
  shows "ms_schema m' = fold (run_script exec) (filter (\<lambda>e. fst e \<notin> set (ms_applied m)) es) (ms_schema m) \<and>
    ms_applied m' = ms_applied m @ map fst (filter (\<lambda>e. fst e \<notin> set (ms_applied m)) es)"
  using assms
proof (induction es arbitrary: m)
  case Nil
  then show ?case by simp
next
  case (Cons e es)
  obtain f m1 where f: "ms_fault m = (f, m1)" by fastforce
  have nf: "\<not> f" using Cons.prems(1) f by (auto split: if_splits)
  have fr: "ms_schema m1 = ms_schema m" "ms_applied m1 = ms_applied m" using ms_fault_frame[OF f] by auto
  show ?case
  proof (cases "fst e \<in> set (ms_applied m)")
    case True
    then have "migrate_each exec es m1 = (None, m')" using Cons.prems(1) f nf fr by simp
    then show ?thesis using Cons.IH[of m1] Cons.prems(2) True fr by simp
  next
    case False
    then obtain m2 where m2: "apply_migration exec e m1 = (None, m2)" "migrate_each exec es m2 = (None, m')"
      using Cons.prems(1) f nf fr by (auto split: option.splits prod.splits)
    have same: "filter (\<lambda>e. fst e \<notin> set (ms_applied m2)) es = filter (\<lambda>e. fst e \<notin> set (ms_applied m)) es"
    proof (rule filter_cong)
      fix x assume "x \<in> set es"
      then have "fst x \<in> fst ` set es" by (rule imageI)
      moreover have "fst e \<notin> fst ` set es" using Cons.prems(2) by simp
      ultimately have "fst x \<noteq> fst e" by metis
      then show "(fst x \<notin> set (ms_applied m2)) = (fst x \<notin> set (ms_applied m))" using apply_migration_ok(2)[OF m2(1)] fr by simp
    qed simp
    show ?thesis using Cons.IH[OF m2(2)] Cons.prems(2) False apply_migration_ok[OF m2(1)] fr same by simp
  qed
qed

lemma migrate_each_idle: "\<lbrakk>\<forall>e\<in>set es. fst e \<in> set (ms_applied m); ms_faults m = []\<rbrakk> \<Longrightarrow> migrate_each exec es m = (None, m)"
  by (induction es) (auto simp: ms_fault_def)

lemma Migrate_ok:
  assumes "Migrate exec entries m = (None, m')" "distinct (map fst entries)"
  shows "ms_schema m' = fold (run_script exec) (filter (\<lambda>e. fst e \<notin> set (ms_applied m)) (sql_files entries)) (ms_schema m) \<and>
    ms_applied m' = ms_applied m @ map fst (filter (\<lambda>e. fst e \<notin> set (ms_applied m)) (sql_files entries)) \<and>
    Migrate exec entries (m'\<lparr>ms_faults := []\<rparr>) = (None, m'\<lparr>ms_faults := []\<rparr>)"
proof -
  obtain f m1 where f: "ms_fault m = (f, m1)" by fastforce
  then have run: "migrate_each exec (sql_files entries) m1 = (None, m')" using assms(1) by (auto simp: Migrate_def split: if_splits)
  have "distinct (map fst (sql_files entries))"
    using assms(2) distinct_map_filter[of fst "sort_key fst entries"] by (simp add: sql_files_def distinct_map)
  from migrate_each_ok[OF run this] show ?thesis
    using ms_fault_frame[OF f] migrate_each_idle[of "sql_files entries" "m'\<lparr>ms_faults := []\<rparr>" exec]
    by (auto simp: Migrate_def ms_fault_def)
qed

text \<open>
  C39. When \<open>Migrate\<close> succeeds, exactly the scripts that were not recorded before have run, each
  once, in the order of their names, and every file is recorded; a second run that meets no
  failure of the engine runs nothing and changes nothing.
\<close>

theorem Migrate_runs_each_once:
  assumes "Migrate exec entries m = (None, m')" "distinct (map fst entries)"
  shows "ms_schema m' = fold (run_script exec) (filter (\<lambda>e. fst e \<notin> set (ms_applied m)) (sql_files entries)) (ms_schema m) \<and>
    ms_applied m' = ms_applied m @ map fst (filter (\<lambda>e. fst e \<notin> set (ms_applied m)) (sql_files entries)) \<and>
    Migrate exec entries (m'\<lparr>ms_faults := []\<rparr>) = (None, m'\<lparr>ms_faults := []\<rparr>)"
  by (rule Migrate_ok[OF assms])

section \<open>The keys after the migration\<close>

definition sealed_text :: "string \<Rightarrow> bool" where
  "sealed_text s = (s = [] \<or> IsEncrypted s)"

text \<open>What is relied upon: nonces of 12 bytes, and no key of 4 bytes (which would not be recognised when encrypted).\<close>

lemma encrypt_field_seals:
  assumes "encrypt_field A True s d = (Inr c, d')" "aead_ok A" "encryptionKey d = Some key"
    "\<forall>x\<in>set (entropy d). length x = 12" "length s \<noteq> 4"
  shows "sealed_text c \<and> decrypt_field A (Some key) c = decrypt_field A (Some key) s \<and>
    (\<exists>es. d' = d\<lparr>entropy := es\<rparr> \<and> set es \<subseteq> set (entropy d))"
proof (cases "s = [] \<or> IsEncrypted s")
  case True
  then show ?thesis using assms by (auto simp: encrypt_field_def sealed_text_def intro: exI[of _ "entropy d"])
next
  case False
  obtain nonce es where n: "entropy d = nonce # es" "Encrypt A (Some nonce) s key = Inr c" "d' = d\<lparr>entropy := es\<rparr>"
    using assms(1,3) False by (auto simp: encrypt_field_def read_nonce_def Encrypt_def split: list.splits)
  have len: "length nonce = 12" using assms(4) n(1) by simp
  have "IsEncrypted c" "Decrypt A c key = Inr s"
    using IsEncrypted_Encrypt[OF assms(2) len _ n(2)] Decrypt_Encrypt[OF assms(2) len n(2)] assms(5) False by auto
  then show ?thesis
    using False n(1,3) by (auto simp: sealed_text_def decrypt_field_def IsEncrypted_def)
qed

lemma fold_row_updates:
  fixes idf :: "'r \<Rightarrow> int" and setf :: "'v \<Rightarrow> 'r \<Rightarrow> 'r"
  assumes "distinct (map fst us)" "\<And>v r. idf (setf v r) = idf r"
  shows "fold (\<lambda>u. map (\<lambda>r. if idf r = fst u then setf (snd u) r else r)) us rs
    = map (\<lambda>r. case map_of us (idf r) of None \<Rightarrow> r | Some v \<Rightarrow> setf v r) rs"
  using assms(1)
proof (induction us arbitrary: rs)
  case (Cons u us)
  have "map_of us (fst u) = None" using Cons.prems by (simp add: map_of_eq_None_iff)
  then show ?case using Cons by (cases u) (auto simp: assms(2) split: option.splits)
qed simp

lemma write_networks_fold:
  "write_networks us d = (None, d') \<Longrightarrow>
     \<exists>fs. d' = d\<lparr>faults := fs, networks := fold (\<lambda>u. map (\<lambda>n. if n_ID n = fst u then n\<lparr>n_PrivateKey := snd u\<rparr> else n)) us (networks d)\<rparr>"
proof (induction us arbitrary: d)
  case Nil
  then show ?case by (auto intro: exI[of _ "faults d"])
next
  case (Cons u us)
  obtain f d1 where f: "db_fault d = (f, d1)" by fastforce
  then obtain gs where d1: "d1 = d\<lparr>faults := gs\<rparr>" by (auto simp: db_fault_def split: list.splits intro: that[of "faults d"])
  show ?case using Cons.IH[of "d1\<lparr>networks := map (\<lambda>n. if n_ID n = fst u then n\<lparr>n_PrivateKey := snd u\<rparr> else n) (networks d1)\<rparr>"]
      Cons.prems f by (auto simp: d1 split: if_splits)
qed

lemma write_peers_fold:
  "write_peers us d = (None, d') \<Longrightarrow>
     \<exists>fs. d' = d\<lparr>faults := fs, peers := fold (\<lambda>u. map (\<lambda>p. if p_ID p = fst u
       then p\<lparr>p_PrivateKey := fst (snd u), p_PresharedKey := snd (snd u)\<rparr> else p)) us (peers d)\<rparr>"
proof (induction us arbitrary: d)
  case Nil
  then show ?case by (auto intro: exI[of _ "faults d"])
next
  case (Cons u us)
  obtain f d1 where f: "db_fault d = (f, d1)" by fastforce
  then obtain gs where d1: "d1 = d\<lparr>faults := gs\<rparr>" by (auto simp: db_fault_def split: list.splits intro: that[of "faults d"])
  show ?case using Cons.IH[of "d1\<lparr>peers := map (\<lambda>p. if p_ID p = fst u
       then p\<lparr>p_PrivateKey := fst (snd u), p_PresharedKey := snd (snd u)\<rparr> else p) (peers d1)\<rparr>"]
      Cons.prems f by (auto simp: d1 split: if_splits)
qed


lemma decrypt_field_seals: "\<lbrakk>sealed_text s; s \<noteq> []\<rbrakk> \<Longrightarrow> IsEncrypted s"
  by (simp add: sealed_text_def)

text \<open>What the updates say of a row: none, and its key was sealed, or a sealed text that decrypts to it.\<close>

definition seals :: "aead \<Rightarrow> byte list \<Rightarrow> string \<Rightarrow> string \<Rightarrow> bool" where
  "seals A key s c = (sealed_text c \<and> decrypt_field A (Some key) c = decrypt_field A (Some key) s)"

lemma entropy_same: "\<exists>es. d = d\<lparr>entropy := es\<rparr> \<and> set es \<subseteq> set (entropy d)" for d :: DB
  by (rule exI[of _ "entropy d"]) simp

lemma network_updates_ok:
  assumes "network_updates A ns d = (Inr us, d')" "aead_ok A" "encryptionKey d = Some key"
    "\<forall>x\<in>set (entropy d). length x = 12" "\<forall>n\<in>set ns. length (n_PrivateKey n) \<noteq> 4" "distinct (map n_ID ns)"
  shows "(\<exists>es. d' = d\<lparr>entropy := es\<rparr> \<and> set es \<subseteq> set (entropy d)) \<and> fst ` set us \<subseteq> n_ID ` set ns \<and> distinct (map fst us) \<and>
    (\<forall>n\<in>set ns. seals A key (n_PrivateKey n) (case map_of us (n_ID n) of None \<Rightarrow> n_PrivateKey n | Some c \<Rightarrow> c))"
  using assms
proof (induction ns arbitrary: d d' us)
  case Nil
  have e: "us = []" "d' = d" using Nil(1) by simp_all
  show ?case unfolding e by (intro conjI entropy_same) simp_all
next
  case (Cons n ns)
  show ?case
  proof (cases "n_PrivateKey n = [] \<or> IsEncrypted (n_PrivateKey n)")
    case True
    then have run: "network_updates A ns d = (Inr us, d')" using Cons.prems(1) by simp
    have ih: "(\<exists>es. d' = d\<lparr>entropy := es\<rparr> \<and> set es \<subseteq> set (entropy d)) \<and> fst ` set us \<subseteq> n_ID ` set ns \<and> distinct (map fst us) \<and>
      (\<forall>n\<in>set ns. seals A key (n_PrivateKey n) (case map_of us (n_ID n) of None \<Rightarrow> n_PrivateKey n | Some c \<Rightarrow> c))"
      using Cons.IH[OF run] Cons.prems by simp
    have "map_of us (n_ID n) = None" using ih Cons.prems(6) by (auto simp: map_of_eq_None_iff)
    then show ?thesis using ih True by (auto simp: seals_def sealed_text_def)
  next
    case False
    obtain r d1 where e: "encrypt_field A True (n_PrivateKey n) d = (r, d1)" by fastforce
    obtain enc where r: "r = Inr enc" using Cons.prems(1) False e by (cases r) auto
    have s: "sealed_text enc" "decrypt_field A (Some key) enc = decrypt_field A (Some key) (n_PrivateKey n)"
      and ex: "\<exists>es. d1 = d\<lparr>entropy := es\<rparr> \<and> set es \<subseteq> set (entropy d)"
      using encrypt_field_seals[OF e[unfolded r] Cons.prems(2-4)] Cons.prems(5) by auto
    from ex obtain es where d1: "d1 = d\<lparr>entropy := es\<rparr>" "set es \<subseteq> set (entropy d)" by blast
    obtain ur d2 where run: "network_updates A ns d1 = (ur, d2)" by fastforce
    obtain us' where us: "ur = Inr us'" "us = (n_ID n, enc) # us'" "d' = d2"
      using Cons.prems(1) False e r run by (cases ur) auto
    have ih: "(\<exists>es. d2 = d1\<lparr>entropy := es\<rparr> \<and> set es \<subseteq> set (entropy d1)) \<and> fst ` set us' \<subseteq> n_ID ` set ns \<and> distinct (map fst us') \<and>
      (\<forall>n\<in>set ns. seals A key (n_PrivateKey n) (case map_of us' (n_ID n) of None \<Rightarrow> n_PrivateKey n | Some c \<Rightarrow> c))"
      using Cons.IH[OF run[unfolded us(1)]] Cons.prems d1 by (auto simp: subset_iff)
    have notin: "n_ID n \<notin> n_ID ` set ns" using Cons.prems(6) by simp
  have other: "n_ID m \<noteq> n_ID n" if "m \<in> set ns" for m using notin imageI[OF that, of n_ID] by metis
    have out: "n_ID n \<notin> fst ` set us'" using ih Cons.prems(6) by auto
    have "\<exists>es. d' = d\<lparr>entropy := es\<rparr> \<and> set es \<subseteq> set (entropy d)" 
    proof -
      from ih obtain es2 where "d2 = d1\<lparr>entropy := es2\<rparr>" "set es2 \<subseteq> set (entropy d1)" by blast
      then have "d' = d\<lparr>entropy := es2\<rparr> \<and> set es2 \<subseteq> set (entropy d)" using us(3) d1 by auto
      then show ?thesis by blast
    qed
    moreover have "fst ` set us \<subseteq> n_ID ` set (n # ns)" "distinct (map fst us)" using ih us(2) out by auto
    moreover have "seals A key (n_PrivateKey m) (case map_of us (n_ID m) of None \<Rightarrow> n_PrivateKey m | Some c \<Rightarrow> c)" if "m \<in> set (n # ns)" for m
    proof (cases "m = n")
      case True
      then show ?thesis using s us(2) by (simp add: seals_def)
    next
      case False
      then have "m \<in> set ns" using that by simp
      then show ?thesis using ih us(2) other by simp
    qed
    ultimately show ?thesis by blast
  qed
qed

lemma peer_updates_ok:
  assumes "peer_updates A ps d = (Inr us, d')" "aead_ok A" "encryptionKey d = Some key"
    "\<forall>x\<in>set (entropy d). length x = 12" "\<forall>p\<in>set ps. length (p_PrivateKey p) \<noteq> 4 \<and> length (p_PresharedKey p) \<noteq> 4"
    "distinct (map p_ID ps)"
  shows "(\<exists>es. d' = d\<lparr>entropy := es\<rparr> \<and> set es \<subseteq> set (entropy d)) \<and> fst ` set us \<subseteq> p_ID ` set ps \<and> distinct (map fst us) \<and>
    (\<forall>p\<in>set ps. seals A key (p_PrivateKey p) (case map_of us (p_ID p) of None \<Rightarrow> p_PrivateKey p | Some c \<Rightarrow> fst c) \<and>
      seals A key (p_PresharedKey p) (case map_of us (p_ID p) of None \<Rightarrow> p_PresharedKey p | Some c \<Rightarrow> snd c))"
  using assms
proof (induction ps arbitrary: d d' us)
  case Nil
  have e: "us = []" "d' = d" using Nil(1) by simp_all
  show ?case unfolding e by (intro conjI entropy_same) simp_all
next
  case (Cons p ps)
  obtain r d1 where e: "encrypt_field A True (p_PrivateKey p) d = (r, d1)" by fastforce
  obtain pk where r: "r = Inr pk" using Cons.prems(1) e by (cases r) auto
  have s: "seals A key (p_PrivateKey p) pk" and ex: "\<exists>es. d1 = d\<lparr>entropy := es\<rparr> \<and> set es \<subseteq> set (entropy d)"
    using encrypt_field_seals[OF e[unfolded r] Cons.prems(2-4)] Cons.prems(5) by (auto simp: seals_def)
  from ex obtain es where d1: "d1 = d\<lparr>entropy := es\<rparr>" "set es \<subseteq> set (entropy d)" by blast
  have h1: "encryptionKey d1 = Some key" "\<forall>x\<in>set (entropy d1). length x = 12" using Cons.prems(3,4) d1 by auto
  obtain r2 d2 where e2: "encrypt_field A True (p_PresharedKey p) d1 = (r2, d2)" by fastforce
  obtain psk where r2: "r2 = Inr psk" using Cons.prems(1) e r e2 by (cases r2) auto
  have s2: "seals A key (p_PresharedKey p) psk" and ex2: "\<exists>es. d2 = d1\<lparr>entropy := es\<rparr> \<and> set es \<subseteq> set (entropy d1)"
    using encrypt_field_seals[OF e2[unfolded r2] Cons.prems(2) h1] Cons.prems(5) by (auto simp: seals_def)
  from ex2 obtain es2 where d2: "d2 = d\<lparr>entropy := es2\<rparr>" "set es2 \<subseteq> set (entropy d)" using d1 by auto
  obtain ur d3 where run: "peer_updates A ps d2 = (ur, d3)" by fastforce
  obtain us' where us: "ur = Inr us'" "d' = d3"
    "us = (if pk \<noteq> p_PrivateKey p \<or> psk \<noteq> p_PresharedKey p then (p_ID p, pk, psk) # us' else us')"
    using Cons.prems(1) e r e2 r2 run by (cases ur) auto
  have ih: "(\<exists>es. d3 = d2\<lparr>entropy := es\<rparr> \<and> set es \<subseteq> set (entropy d2)) \<and> fst ` set us' \<subseteq> p_ID ` set ps \<and> distinct (map fst us') \<and>
    (\<forall>p\<in>set ps. seals A key (p_PrivateKey p) (case map_of us' (p_ID p) of None \<Rightarrow> p_PrivateKey p | Some c \<Rightarrow> fst c) \<and>
      seals A key (p_PresharedKey p) (case map_of us' (p_ID p) of None \<Rightarrow> p_PresharedKey p | Some c \<Rightarrow> snd c))"
    using Cons.IH[OF run[unfolded us(1)]] Cons.prems d2 by (auto simp: subset_iff)
  have notin: "p_ID p \<notin> p_ID ` set ps" using Cons.prems(6) by simp
  have other: "p_ID m \<noteq> p_ID p" if "m \<in> set ps" for m using notin imageI[OF that, of p_ID] by metis
  have out: "p_ID p \<notin> fst ` set us'" using ih Cons.prems(6) by auto
  then have none: "map_of us' (p_ID p) = None" by (simp add: map_of_eq_None_iff)
  have "\<exists>es. d' = d\<lparr>entropy := es\<rparr> \<and> set es \<subseteq> set (entropy d)" 
  proof -
    from ih obtain es3 where "d3 = d2\<lparr>entropy := es3\<rparr>" "set es3 \<subseteq> set (entropy d2)" by blast
    then have "d' = d\<lparr>entropy := es3\<rparr> \<and> set es3 \<subseteq> set (entropy d)" using us(2) d2 by auto
    then show ?thesis by blast
  qed
  moreover have "fst ` set us \<subseteq> p_ID ` set (p # ps)" "distinct (map fst us)" using ih us(3) out by auto
  moreover have "seals A key (p_PrivateKey m) (case map_of us (p_ID m) of None \<Rightarrow> p_PrivateKey m | Some c \<Rightarrow> fst c) \<and>
      seals A key (p_PresharedKey m) (case map_of us (p_ID m) of None \<Rightarrow> p_PresharedKey m | Some c \<Rightarrow> snd c)" if "m \<in> set (p # ps)" for m
  proof (cases "m = p")
    case True
    then show ?thesis using s s2 us(3) none by auto
  next
    case False
    then have m: "m \<in> set ps" using that by simp
    have "map_of us (p_ID m) = map_of us' (p_ID m)" using us(3) other[OF m] by simp
    then show ?thesis using ih m by simp
  qed
  ultimately show ?case by blast
qed

definition decrypted_networks :: "aead \<Rightarrow> DB \<Rightarrow> (db_error + Network) list" where
  "decrypted_networks A d = map (decryptNetworkKeys A (encryptionKey d)) (networks d)"

definition decrypted_peers :: "aead \<Rightarrow> DB \<Rightarrow> (db_error + Peer) list" where
  "decrypted_peers A d = map (decryptPeerKeys A (encryptionKey d)) (peers d)"

lemma encrypt_networks_ok:
  assumes "encrypt_networks A d = (None, d')" "aead_ok A" "encryptionKey d = Some key" "distinct (map n_ID (networks d))"
    "\<forall>x\<in>set (entropy d). length x = 12" "\<forall>n\<in>set (networks d). length (n_PrivateKey n) \<noteq> 4"
  shows "(\<forall>n\<in>set (networks d'). sealed_text (n_PrivateKey n)) \<and> decrypted_networks A d' = decrypted_networks A d \<and>
    peers d' = peers d \<and> encryptionKey d' = Some key \<and> set (entropy d') \<subseteq> set (entropy d)"
proof -
  obtain f d1 where f: "db_fault d = (f, d1)" by fastforce
  then obtain gs where d1: "d1 = d\<lparr>faults := gs\<rparr>" using db_fault_frame by blast
  obtain ur d2 where run: "network_updates A (networks d1) d1 = (ur, d2)" by fastforce
  obtain us where us: "ur = Inr us" "write_networks us d2 = (None, d')"
    using assms(1) f run by (cases ur) (auto simp: encrypt_networks_def split: if_splits)
  have ok: "(\<exists>es. d2 = d1\<lparr>entropy := es\<rparr> \<and> set es \<subseteq> set (entropy d1)) \<and> fst ` set us \<subseteq> n_ID ` set (networks d1) \<and>
    distinct (map fst us) \<and>
    (\<forall>n\<in>set (networks d1). seals A key (n_PrivateKey n) (case map_of us (n_ID n) of None \<Rightarrow> n_PrivateKey n | Some c \<Rightarrow> c))"
    by (rule network_updates_ok[OF run[unfolded us(1)] assms(2)]) (use assms(3-6) d1 in auto)
  then obtain es where d2: "d2 = d1\<lparr>entropy := es\<rparr>" "set es \<subseteq> set (entropy d1)" by blast
  obtain fs where d': "d' = d2\<lparr>faults := fs, networks := fold (\<lambda>u. map (\<lambda>n. if n_ID n = fst u then n\<lparr>n_PrivateKey := snd u\<rparr> else n)) us (networks d2)\<rparr>"
    using write_networks_fold[OF us(2)] by blast
  have nets: "networks d' = map (\<lambda>n. case map_of us (n_ID n) of None \<Rightarrow> n | Some c \<Rightarrow> n\<lparr>n_PrivateKey := c\<rparr>) (networks d)"
    using fold_row_updates[of us n_ID "\<lambda>c n. n\<lparr>n_PrivateKey := c\<rparr>" "networks d"] ok d' d2 d1 by simp
  have each: "seals A key (n_PrivateKey n) (case map_of us (n_ID n) of None \<Rightarrow> n_PrivateKey n | Some c \<Rightarrow> c)" if "n \<in> set (networks d)" for n
    using ok d1 that by simp
  have "sealed_text (n_PrivateKey (case map_of us (n_ID n) of None \<Rightarrow> n | Some c \<Rightarrow> n\<lparr>n_PrivateKey := c\<rparr>))"
    if "n \<in> set (networks d)" for n
    using each[OF that] by (cases "map_of us (n_ID n)") (simp_all add: seals_def)
  then have "\<forall>n\<in>set (networks d'). sealed_text (n_PrivateKey n)" unfolding nets by simp
  moreover have "decrypted_networks A d' = decrypted_networks A d"
  proof -
    have "decryptNetworkKeys A (Some key) (case map_of us (n_ID n) of None \<Rightarrow> n | Some c \<Rightarrow> n\<lparr>n_PrivateKey := c\<rparr>)
      = decryptNetworkKeys A (Some key) n" if "n \<in> set (networks d)" for n
      using each[OF that] by (cases "map_of us (n_ID n)") (simp_all add: decryptNetworkKeys_def seals_def split: sum.splits)
    then show ?thesis using assms(3) d' d2 d1 unfolding decrypted_networks_def nets by simp
  qed
  ultimately show ?thesis using d' d2 d1 assms(3) by simp
qed

lemma encrypt_peers_ok:
  assumes "encrypt_peers A d = (None, d')" "aead_ok A" "encryptionKey d = Some key" "distinct (map p_ID (peers d))"
    "\<forall>x\<in>set (entropy d). length x = 12"
    "\<forall>p\<in>set (peers d). length (p_PrivateKey p) \<noteq> 4 \<and> length (p_PresharedKey p) \<noteq> 4"
  shows "(\<forall>p\<in>set (peers d'). sealed_text (p_PrivateKey p) \<and> sealed_text (p_PresharedKey p)) \<and>
    decrypted_peers A d' = decrypted_peers A d \<and> networks d' = networks d \<and> encryptionKey d' = Some key"
proof -
  let ?ps = "filter (\<lambda>p. p_PrivateKey p \<noteq> [] \<or> p_PresharedKey p \<noteq> []) (peers d)"
  obtain f d1 where f: "db_fault d = (f, d1)" by fastforce
  then obtain gs where d1: "d1 = d\<lparr>faults := gs\<rparr>" using db_fault_frame by blast
  obtain ur d2 where run: "peer_updates A ?ps d1 = (ur, d2)" by fastforce
  obtain us where us: "ur = Inr us" "write_peers us d2 = (None, d')"
    using assms(1) f run d1 by (cases ur) (auto simp: encrypt_peers_def split: if_splits)
  have ok: "(\<exists>es. d2 = d1\<lparr>entropy := es\<rparr> \<and> set es \<subseteq> set (entropy d1)) \<and> fst ` set us \<subseteq> p_ID ` set ?ps \<and> distinct (map fst us) \<and>
    (\<forall>p\<in>set ?ps. seals A key (p_PrivateKey p) (case map_of us (p_ID p) of None \<Rightarrow> p_PrivateKey p | Some c \<Rightarrow> fst c) \<and>
      seals A key (p_PresharedKey p) (case map_of us (p_ID p) of None \<Rightarrow> p_PresharedKey p | Some c \<Rightarrow> snd c))"
    by (rule peer_updates_ok[OF run[unfolded us(1)] assms(2)]) (use assms(3-6) d1 in \<open>auto simp: distinct_map_filter\<close>)
  then obtain es where d2: "d2 = d1\<lparr>entropy := es\<rparr>" "set es \<subseteq> set (entropy d1)" by blast
  obtain fs where d': "d' = d2\<lparr>faults := fs, peers := fold (\<lambda>u. map (\<lambda>p. if p_ID p = fst u
       then p\<lparr>p_PrivateKey := fst (snd u), p_PresharedKey := snd (snd u)\<rparr> else p)) us (peers d2)\<rparr>"
    using write_peers_fold[OF us(2)] by blast
  let ?new = "\<lambda>p. case map_of us (p_ID p) of None \<Rightarrow> p | Some c \<Rightarrow> p\<lparr>p_PrivateKey := fst c, p_PresharedKey := snd c\<rparr>"
  have rows: "peers d' = map ?new (peers d)"
    using fold_row_updates[of us p_ID "\<lambda>c p. p\<lparr>p_PrivateKey := fst c, p_PresharedKey := snd c\<rparr>" "peers d"] ok d' d2 d1 by simp
  have each: "seals A key (p_PrivateKey p) (p_PrivateKey (?new p)) \<and> seals A key (p_PresharedKey p) (p_PresharedKey (?new p))"
    if p: "p \<in> set (peers d)" for p
  proof (cases "p \<in> set ?ps")
    case True
    then have "seals A key (p_PrivateKey p) (case map_of us (p_ID p) of None \<Rightarrow> p_PrivateKey p | Some c \<Rightarrow> fst c)"
      "seals A key (p_PresharedKey p) (case map_of us (p_ID p) of None \<Rightarrow> p_PresharedKey p | Some c \<Rightarrow> snd c)" using ok by blast+
    then show ?thesis by (cases "map_of us (p_ID p)") simp_all
  next
    case False
    have "p_ID p \<notin> p_ID ` set ?ps" using False p assms(4) by (auto dest: eq_key_imp_eq_value simp: distinct_map inj_on_def)
    then have "p_ID p \<notin> fst ` set us" using ok by blast
    then have "map_of us (p_ID p) = None" by (simp add: map_of_eq_None_iff)
    then show ?thesis using False p by (simp add: seals_def sealed_text_def)
  qed
  have "decryptPeerKeys A (Some key) (?new p) = decryptPeerKeys A (Some key) p" if "p \<in> set (peers d)" for p
    using each[OF that] by (cases "map_of us (p_ID p)") (simp_all add: decryptPeerKeys_def seals_def split: sum.splits)
  then have "decrypted_peers A d' = decrypted_peers A d" using assms(3) d' d2 d1 unfolding decrypted_peers_def rows by simp
  moreover have "\<forall>p\<in>set (peers d'). sealed_text (p_PrivateKey p) \<and> sealed_text (p_PresharedKey p)"
    using each unfolding rows by (simp add: seals_def)
  ultimately show ?thesis using d' d2 d1 assms(3) by simp
qed

lemma MigrateEncryptKeys_ok:
  assumes "MigrateEncryptKeys A d = (None, d')" "aead_ok A" "encryptionKey d = Some key" "db_inv d"
    "\<forall>x\<in>set (entropy d). length x = 12" "\<forall>n\<in>set (networks d). length (n_PrivateKey n) \<noteq> 4"
    "\<forall>p\<in>set (peers d). length (p_PrivateKey p) \<noteq> 4 \<and> length (p_PresharedKey p) \<noteq> 4"
  shows "(\<forall>n\<in>set (networks d'). sealed_text (n_PrivateKey n)) \<and>
    (\<forall>p\<in>set (peers d'). sealed_text (p_PrivateKey p) \<and> sealed_text (p_PresharedKey p)) \<and>
    decrypted_networks A d' = decrypted_networks A d \<and> decrypted_peers A d' = decrypted_peers A d \<and>
    encryptionKey d' = Some key"
proof -
  obtain d1 where d1: "encrypt_networks A d = (None, d1)" "encrypt_peers A d1 = (None, d')"
    using assms(1,3) by (auto simp: MigrateEncryptKeys_def split: prod.splits option.splits)
  have ids: "distinct (map n_ID (networks d))" "distinct (map p_ID (peers d))"
    using assms(4) by (auto simp: db_inv_def db_ok_defs ids_ok_def strict_sorted_iff)
  note n = encrypt_networks_ok[OF d1(1) assms(2,3) ids(1) assms(5,6)]
  have "(\<forall>p\<in>set (peers d'). sealed_text (p_PrivateKey p) \<and> sealed_text (p_PresharedKey p)) \<and>
    decrypted_peers A d' = decrypted_peers A d1 \<and> networks d' = networks d1 \<and> encryptionKey d' = Some key"
    by (rule encrypt_peers_ok[OF d1(2) assms(2)]) (use n ids(2) assms(5,7) in auto)
  then show ?thesis using n assms(3) by (auto simp: decrypted_networks_def decrypted_peers_def)
qed


text \<open>
  C13.  When \<open>MigrateEncryptKeys\<close> succeeds with an encryption key, every key column of networks and
  peers is empty or encrypted, and reading any network or peer gives what it gave before.
\<close>

theorem MigrateEncryptKeys_seals_all:
  assumes "MigrateEncryptKeys A d = (None, d')" "aead_ok A" "encryptionKey d = Some key" "db_inv d"
    "\<forall>x\<in>set (entropy d). length x = 12" "\<forall>n\<in>set (networks d). length (n_PrivateKey n) \<noteq> 4"
    "\<forall>p\<in>set (peers d). length (p_PrivateKey p) \<noteq> 4 \<and> length (p_PresharedKey p) \<noteq> 4"
  shows "(\<forall>n\<in>set (networks d'). sealed_text (n_PrivateKey n)) \<and>
    (\<forall>p\<in>set (peers d'). sealed_text (p_PrivateKey p) \<and> sealed_text (p_PresharedKey p)) \<and>
    decrypted_networks A d' = decrypted_networks A d \<and> decrypted_peers A d' = decrypted_peers A d"
  using MigrateEncryptKeys_ok[OF assms] by blast

theorem MigrateEncryptKeys_seals_all_witness:
  "\<exists>d'. MigrateEncryptKeys toy_aead (empty_db\<lparr>encryptionKey := Some [], entropy := [replicate 12 5], net_seq := 1,
      networks := [(net_row ''wg0'' 51820 some_key)\<lparr>n_ID := 1\<rparr>]\<rparr>) = (None, d') \<and>
    networks d' \<noteq> [] \<and> (\<forall>n\<in>set (networks d'). sealed_text (n_PrivateKey n))"
proof -
  let ?d = "empty_db\<lparr>encryptionKey := Some [], entropy := [replicate 12 5], net_seq := 1,
      networks := [(net_row ''wg0'' 51820 some_key)\<lparr>n_ID := 1\<rparr>]\<rparr>"
  have k: "some_key \<noteq> []" "\<not> IsEncrypted some_key" "length some_key \<noteq> 4"
    using wg_key_length[OF some_key_ok] wg_key_not_encrypted[OF some_key_ok] by auto
  obtain d' where d': "MigrateEncryptKeys toy_aead ?d = (None, d')" "networks d' \<noteq> []"
    using k by (simp add: MigrateEncryptKeys_def encrypt_networks_def encrypt_peers_def encrypt_field_def read_nonce_def Encrypt_def
        db_fault_def empty_db_def Let_def net_row_def)
  have "db_inv ?d" by (simp add: db_inv_def db_ok_defs ids_ok_def empty_db_def net_row_def)
  then show ?thesis using MigrateEncryptKeys_seals_all[OF d'(1) toy_aead_ok, of "[]"] k d' by (auto simp: net_row_def empty_db_def)
qed

theorem Migrate_runs_each_once_witness:
  "snd (Migrate (\<lambda>sql s. (True, s @ sql)) [(''2.sql'', ''b''), (''1.sql'', ''-- +goose Up a -- +goose Down z''), (''x'', ''c'')]
      \<lparr>ms_schema = [], ms_applied = [], ms_faults = []\<rparr>) = \<lparr>ms_schema = ''ab'', ms_applied = [''1.sql'', ''2.sql''], ms_faults = []\<rparr>"
proof -
  let ?e = "[(''2.sql'', ''b''), (''1.sql'', ''-- +goose Up a -- +goose Down z''), (''x'', ''c'')]"
  let ?m = "\<lparr>ms_schema = [], ms_applied = [], ms_faults = []\<rparr>"
  have run: "Migrate (\<lambda>sql s. (True, s @ sql)) ?e ?m = (None, \<lparr>ms_schema = ''ab'', ms_applied = [''1.sql'', ''2.sql''], ms_faults = []\<rparr>)"
    by code_simp
  then show ?thesis using Migrate_runs_each_once[OF run] by simp
qed

end
