(* ===== verification/Commands.thy ===== *)
theory Commands
  imports Migrations Auth "HOL-Library.Signed_Division"
begin

text \<open>
  \<open>cmd/wgpilot/main.go\<close>: the commands and the start of the server, with \<open>internal/config\<close>, the
  certificates of \<open>internal/tls/manager.go\<close> and the constructors that check their arguments.

  A process works on a \<open>World\<close>, on the state of the migrations and on the integers that
  \<open>crypto/rand.Int\<close> is to give.  The libraries it uses are in the record \<open>Tools\<close>: the engine of the
  migrations and their files, HKDF, golang-jwt.  Reading the configuration (koanf, YAML) gives a
  \<open>Config\<close> or fails; output to the terminal and the log is left out.
\<close>

section \<open>Configuration\<close>

record Config =
  cf_Listen :: string
  cf_DevMode :: bool
  cf_Path :: string
  cf_SessionTTL :: string
  cf_BcryptCost :: int
  cf_RateLimitRPM :: int
  cf_Mode :: string
  cf_CertFile :: string
  cf_KeyFile :: string
  cf_ACMEEmail :: string
  cf_ACMEDomain :: string
  cf_Level :: string
  cf_Format :: string
  cf_PollInterval :: string
  cf_SnapshotRetention :: string
  cf_CompactionInterval :: string

definition loadDefaults :: Config where
  "loadDefaults = \<lparr>cf_Listen = ''0.0.0.0:443'', cf_DevMode = False, cf_Path = ''/var/lib/wgpilot/wgpilot.db'', cf_SessionTTL = ''24h'',
     cf_BcryptCost = 12, cf_RateLimitRPM = 5, cf_Mode = ''self-signed'', cf_CertFile = [], cf_KeyFile = [], cf_ACMEEmail = [], cf_ACMEDomain = [],
     cf_Level = ''info'', cf_Format = ''json'', cf_PollInterval = ''30s'', cf_SnapshotRetention = ''30d'', cf_CompactionInterval = ''24h''\<rparr>"

text \<open>The path of the setting that an environment variable sets.\<close>

definition env_key :: "string \<Rightarrow> string" where
  "env_key s = map (\<lambda>c. if c = CHR ''_'' then CHR ''.'' else c)
     (ToLower (if HasPrefix s ''WGPILOT_'' then drop (length ''WGPILOT_'') s else s))"

text \<open>\<open>path/filepath\<close> on a system whose separator is the slash.\<close>

definition clean_step :: "bool \<Rightarrow> string list \<Rightarrow> string \<Rightarrow> string list" where
  "clean_step rooted out e =
     (if e = [] \<or> e = ''.'' then out
      else if e = ''..'' then (case out of
          [] \<Rightarrow> if rooted then [] else [e]
        | t # ts \<Rightarrow> if t = ''..'' then e # out else ts)
      else e # out)"

definition Clean :: "string \<Rightarrow> string" where
  "Clean p = (let rooted = (p \<noteq> [] \<and> hd p = CHR ''/''); out = rev (foldl (clean_step rooted) [] (Split CHR ''/'' p)) in
     if rooted then CHR ''/'' # Join ''/'' out else if out = [] then ''.'' else Join ''/'' out)"

definition path_Join :: "string \<Rightarrow> string \<Rightarrow> string" where
  "path_Join a b = (let es = filter (\<lambda>e. e \<noteq> []) [a, b] in if es = [] then [] else Clean (Join ''/'' es))"

definition path_Dir :: "string \<Rightarrow> string" where
  "path_Dir p = Clean (rev (dropWhile (\<lambda>c. c \<noteq> CHR ''/'') (rev p)))"

text \<open>The flags that were given.\<close>

record Flags =
  fl_DevMode :: "bool option"
  fl_LogLevel :: "string option"
  fl_DataDir :: "string option"

definition apply_flags :: "Flags \<Rightarrow> Config \<Rightarrow> Config" where
  "apply_flags fl cfg =
     (let c1 = (case fl_DevMode fl of None \<Rightarrow> cfg | Some b \<Rightarrow> cfg\<lparr>cf_DevMode := b\<rparr>);
          c2 = (case fl_LogLevel fl of None \<Rightarrow> c1 | Some l \<Rightarrow> c1\<lparr>cf_Level := l\<rparr>);
          c3 = (case fl_DataDir fl of None \<Rightarrow> c2 | Some p \<Rightarrow> c2\<lparr>cf_Path := path_Join p ''wgpilot.db''\<rparr>)
      in if cf_DevMode c3 \<and> cf_Level c3 = ''info'' then c3\<lparr>cf_Level := ''debug''\<rparr> else c3)"

definition parseLogLevel :: "string \<Rightarrow> int" where
  "parseLogLevel s =
     (if ToLower s = ''debug'' then -4
      else if ToLower s = ''warn'' \<or> ToLower s = ''warning'' then 4
      else if ToLower s = ''error'' then 8
      else 0)"

section \<open>Processes\<close>

record ('k, 'n, 's) Proc =
  pr_world :: "('k, 'n) World"
  pr_mig :: "'s MigState"
  pr_ints :: "nat option list"

record 's Tools =
  tl_exec :: "string \<Rightarrow> 's \<Rightarrow> bool \<times> 's"
  tl_files :: "(string \<times> string) list"
  tl_hkdf :: "byte list \<Rightarrow> byte list option"
  tl_sign :: "byte list \<Rightarrow> Claims \<Rightarrow> string option"
  tl_parse :: "byte list \<Rightarrow> int \<Rightarrow> string \<Rightarrow> Claims option"

datatype cli_error = ConfigFailed | DatabaseOpenFailed | MigrateFailed migrate_error | DBFailed db_error | SecretMissing | SecretNotBase64
  | DeriveFailed | BadSessionTTL | SecretTooShort | RandomFailed | HashFailed | NameRequired | BadRole | NoUsers | BadExpiry | BadKeyID
  | Answered response

type_synonym ('p, 'a) command = "'p \<Rightarrow> (cli_error + 'a) \<times> 'p"

definition result :: "'a \<Rightarrow> ('p, 'a) command" where
  "result x = (\<lambda>p. (Inr x, p))"

definition fail :: "cli_error \<Rightarrow> ('p, 'a) command" where
  "fail e = (\<lambda>p. (Inl e, p))"

definition bind :: "('p, 'a) command \<Rightarrow> ('a \<Rightarrow> ('p, 'b) command) \<Rightarrow> ('p, 'b) command" where
  "bind m f = (\<lambda>p. case m p of (Inl e, p') \<Rightarrow> (Inl e, p') | (Inr x, p') \<Rightarrow> f x p')"

definition need :: "bool \<Rightarrow> cli_error \<Rightarrow> ('p, unit) command" where
  "need b e = (if b then result () else fail e)"

definition some_or :: "'a option \<Rightarrow> cli_error \<Rightarrow> ('p, 'a) command" where
  "some_or x e = (case x of None \<Rightarrow> fail e | Some v \<Rightarrow> result v)"

text \<open>A call that the server has too.\<close>

definition call :: "(('k, 'n) World, 'a) handler \<Rightarrow> (('k, 'n, 's) Proc, 'a) command" where
  "call h = (\<lambda>p. case h (pr_world p) of
      (Inl r, w) \<Rightarrow> (Inl (Answered r), p\<lparr>pr_world := w\<rparr>) | (Inr x, w) \<Rightarrow> (Inr x, p\<lparr>pr_world := w\<rparr>))"

definition db_value :: "(DB \<Rightarrow> (db_error + 'a) \<times> DB) \<Rightarrow> (('k, 'n, 's) Proc, 'a) command" where
  "db_value f = bind (call (on_db f)) (\<lambda>r. case r of Inl e \<Rightarrow> fail (DBFailed e) | Inr x \<Rightarrow> result x)"

definition db_action :: "(DB \<Rightarrow> db_error option \<times> DB) \<Rightarrow> (('k, 'n, 's) Proc, unit) command" where
  "db_action f = bind (call (on_db f)) (\<lambda>e. case e of Some x \<Rightarrow> fail (DBFailed x) | None \<Rightarrow> result ())"

text \<open>\<open>db.New\<close> runs three pragmas; the new \<open>DB\<close> has no encryption key.\<close>

definition db_New :: "DB \<Rightarrow> bool \<times> DB" where
  "db_New d = (case db_fault d of (f1, d1) \<Rightarrow> if f1 then (False, d1)
     else (case db_fault d1 of (f2, d2) \<Rightarrow> if f2 then (False, d2)
     else (case db_fault d2 of (f3, d3) \<Rightarrow> if f3 then (False, d3) else (True, d3\<lparr>encryptionKey := None\<rparr>))))"

definition run_migrations :: "'s Tools \<Rightarrow> (('k, 'n, 's) Proc, unit) command" where
  "run_migrations T = (\<lambda>p. case Migrate (tl_exec T) (tl_files T) (pr_mig p) of
      (Some e, m) \<Rightarrow> (Inl (MigrateFailed e), p\<lparr>pr_mig := m\<rparr>) | (None, m) \<Rightarrow> (Inr (), p\<lparr>pr_mig := m\<rparr>))"

definition open_and_migrate :: "'s Tools \<Rightarrow> (('k, 'n, 's) Proc, unit) command" where
  "open_and_migrate T = bind (call (on_db db_New)) (\<lambda>ok. bind (need ok DatabaseOpenFailed) (\<lambda>_. run_migrations T))"

section \<open>\<open>wgpilot init\<close>\<close>

text \<open>The secret is read with \<open>rand.Read\<close>.\<close>

definition GenerateSecret :: "(('k, 'n, 's) Proc, byte list) command" where
  "GenerateSecret = bind (call rand_Read) (\<lambda>b. some_or b RandomFailed)"

definition charset :: string where
  "charset = ''ABCDEFGHIJKLMNOPQRSTUVWXYZabcdefghijklmnopqrstuvwxyz0123456789''"

definition rand_Int :: "(('k, 'n, 's) Proc, nat option) command" where
  "rand_Int = (\<lambda>p. case pr_ints p of [] \<Rightarrow> (Inr None, p) | i # js \<Rightarrow> (Inr i, p\<lparr>pr_ints := js\<rparr>))"

fun GenerateOTP :: "nat \<Rightarrow> (('k, 'n, 's) Proc, string) command" where
  "GenerateOTP 0 = result []"
| "GenerateOTP (Suc n) = bind rand_Int (\<lambda>i. bind (some_or i RandomFailed) (\<lambda>k.
     bind (GenerateOTP n) (\<lambda>s. result (charset ! k # s))))"

text \<open>The command prints the password that \<open>runInit\<close> returns.\<close>

definition runInit :: "('k, 'n) Server \<Rightarrow> 's Tools \<Rightarrow> (('k, 'n, 's) Proc, string) command" where
  "runInit S T =
     bind (open_and_migrate T) (\<lambda>_.
     bind GenerateSecret (\<lambda>jwtSecret.
     bind (db_action (SetSetting ''jwt_secret'' (EncodeToString jwtSecret))) (\<lambda>_.
     bind (db_action (DeleteSetting ''setup_complete'')) (\<lambda>_.
     bind (GenerateOTP 16) (\<lambda>otp.
     bind (call (HashPassword S otp)) (\<lambda>h.
     bind (some_or h HashFailed) (\<lambda>otpHash.
     bind (db_action (SetSetting ''setup_otp'' otpHash)) (\<lambda>_.
     result otp))))))))"

section \<open>\<open>wgpilot serve\<close>\<close>

definition NewJWTService :: "byte list \<Rightarrow> (('k, 'n, 's) Proc, unit) command" where
  "NewJWTService secret = need (\<not> length secret < 32) SecretTooShort"

definition SetEncryptionKey :: "byte list \<Rightarrow> DB \<Rightarrow> unit \<times> DB" where
  "SetEncryptionKey key d = ((), d\<lparr>encryptionKey := Some key\<rparr>)"

text \<open>
  From the database to the services of the server: \<open>S\<close> gives what does not depend on the
  configuration.  What follows in \<open>runServe\<close>, the managers of the kernel, goes on without them
  when they cannot be made.
\<close>

definition runServe :: "('k, 'n) Server \<Rightarrow> 's Tools \<Rightarrow> Config \<Rightarrow> (('k, 'n, 's) Proc, ('k, 'n) Server) command" where
  "runServe S T cfg =
     bind (open_and_migrate T) (\<lambda>_.
     bind (db_value (GetSetting ''jwt_secret'')) (\<lambda>jwtSecretB64.
     bind (need (jwtSecretB64 \<noteq> []) SecretMissing) (\<lambda>_.
     bind (some_or (DecodeString jwtSecretB64) SecretNotBase64) (\<lambda>jwtSecret.
     bind (some_or (tl_hkdf T jwtSecret) DeriveFailed) (\<lambda>encKey.
     bind (call (on_db (SetEncryptionKey encKey))) (\<lambda>_.
     bind (db_action (MigrateEncryptKeys (aead_of S))) (\<lambda>_.
     bind (some_or (ParseDuration (duration_frac S) (cf_SessionTTL cfg)) BadSessionTTL) (\<lambda>sessionTTL.
     bind (NewJWTService jwtSecret) (\<lambda>_.
     result (S\<lparr>jwt_sign := tl_sign T jwtSecret, jwt_parse := tl_parse T jwtSecret, jwt_ttl := sessionTTL,
       cookie_secure := \<not> cf_DevMode cfg, login_limit := cf_RateLimitRPM cfg, login_window := 60000000000,
       devMode := cf_DevMode cfg\<rparr>))))))))))"

text \<open>The intervals of the monitor: poll, compaction, retention, in nanoseconds.\<close>

definition duration_or :: "(nat \<Rightarrow> nat \<Rightarrow> nat \<Rightarrow> nat) \<Rightarrow> int \<Rightarrow> string \<Rightarrow> int" where
  "duration_or frac dflt s = (case ParseDuration frac s of None \<Rightarrow> dflt | Some d \<Rightarrow> d)"

definition monitor_intervals :: "(nat \<Rightarrow> nat \<Rightarrow> nat \<Rightarrow> nat) \<Rightarrow> Config \<Rightarrow> int \<times> int \<times> int" where
  "monitor_intervals frac cfg =
     (duration_or frac (30 * 1000000000) (cf_PollInterval cfg), duration_or frac (3600 * 1000000000) (cf_CompactionInterval cfg),
      duration_or frac (24 * 3600 * 1000000000) (cf_SnapshotRetention cfg))"

text \<open>\<open>sdnotify.WatchdogInterval\<close>: the product wraps in 64 bits, the division truncates.\<close>

definition WatchdogInterval :: "string \<Rightarrow> int" where
  "WatchdogInterval usecStr = (if usecStr = [] then 0
     else (case Atoi usecStr of
         None \<Rightarrow> 0
       | Some usec \<Rightarrow> sint (word_of_int (usec * 1000) :: 64 word) sdiv 2))"

text \<open>The main loop: the states it tells systemd and the error it ends with, if it ends.\<close>

datatype event = Hangup "Config option" | Terminate | ListenFailed

datatype notice = Reloading | Ready | Stopping

fun main_loop :: "event list \<Rightarrow> notice list \<times> bool option" where
  "main_loop [] = ([], None)"
| "main_loop (Hangup newCfg # es) = (case main_loop es of (ns, r) \<Rightarrow> (Reloading # Ready # ns, r))"
| "main_loop (Terminate # es) = ([Stopping], Some True)"
| "main_loop (ListenFailed # es) = ([], Some False)"

section \<open>Certificates\<close>

datatype Mode = ModeSelfSigned | ModeACME | ModeManual

datatype 'c tls_config = Certificate 'c | ACME string string string

text \<open>Loading a pair of files, making a certificate in a directory, and which files there are.\<close>

record 'c TLSTools =
  tt_load :: "string \<Rightarrow> string \<Rightarrow> 'c option"
  tt_generate :: "string \<Rightarrow> 'c option"
  tt_stat :: "string \<Rightarrow> bool"

definition cert_path :: "string \<Rightarrow> string" where
  "cert_path dir = path_Join dir ''selfsigned.crt''"

definition key_path :: "string \<Rightarrow> string" where
  "key_path dir = path_Join dir ''selfsigned.key''"

definition selfSignedExists :: "'c TLSTools \<Rightarrow> string \<Rightarrow> bool" where
  "selfSignedExists T dir = (tt_stat T (cert_path dir) \<and> tt_stat T (key_path dir))"

definition loadSelfSigned :: "'c TLSTools \<Rightarrow> string \<Rightarrow> 'c option" where
  "loadSelfSigned T dir = tt_load T (cert_path dir) (key_path dir)"

definition setupSelfSigned :: "'c TLSTools \<Rightarrow> string \<Rightarrow> 'c tls_config option" where
  "setupSelfSigned T dir =
     (if selfSignedExists T dir
      then (case loadSelfSigned T dir of
          Some c \<Rightarrow> Some (Certificate c) | None \<Rightarrow> map_option Certificate (tt_generate T dir))
      else map_option Certificate (tt_generate T dir))"

definition newACMEManager :: "string \<Rightarrow> string \<Rightarrow> string \<Rightarrow> 'c tls_config option" where
  "newACMEManager domain email dir = (if domain = [] then None else Some (ACME domain email (path_Join dir ''acme'')))"

definition setupManual :: "'c TLSTools \<Rightarrow> Config \<Rightarrow> 'c tls_config option" where
  "setupManual T cfg = (if cf_CertFile cfg = [] \<or> cf_KeyFile cfg = [] then None
     else map_option Certificate (tt_load T (cf_CertFile cfg) (cf_KeyFile cfg)))"

definition NewManager_tls :: "'c TLSTools \<Rightarrow> Config \<Rightarrow> ('c tls_config \<times> Mode) option" where
  "NewManager_tls T cfg =
     (let certDir = path_Join (path_Dir (cf_Path cfg)) ''certs'' in
      if cf_Mode cfg = ''manual'' then map_option (\<lambda>c. (c, ModeManual)) (setupManual T cfg)
      else if cf_Mode cfg = ''acme'' then (case newACMEManager (cf_ACMEDomain cfg) (cf_ACMEEmail cfg) certDir of
          Some c \<Rightarrow> Some (c, ModeACME)
        | None \<Rightarrow> map_option (\<lambda>c. (c, ModeSelfSigned)) (setupSelfSigned T certDir))
      else map_option (\<lambda>c. (c, ModeSelfSigned)) (setupSelfSigned T certDir))"

section \<open>\<open>wgpilot api-key\<close>\<close>

definition load_and_open :: "'s Tools \<Rightarrow> Config option \<Rightarrow> (('k, 'n, 's) Proc, unit) command" where
  "load_and_open T cfg = bind (some_or cfg ConfigFailed) (\<lambda>_. open_and_migrate T)"

definition cli_expiry :: "('k, 'n) Server \<Rightarrow> string \<Rightarrow> (('k, 'n, 's) Proc, int option) command" where
  "cli_expiry S expiresIn = (if expiresIn = [] then result None
     else bind (some_or (ParseDuration (duration_frac S) expiresIn) BadExpiry) (\<lambda>d.
       bind (call time_Now) (\<lambda>t. result (Some ((t + d) div 1000000000)))))"

definition runAPIKeyCreate :: "('k, 'n) Server \<Rightarrow> 's Tools \<Rightarrow> Config option \<Rightarrow> string \<Rightarrow> string \<Rightarrow> string
    \<Rightarrow> (('k, 'n, 's) Proc, int \<times> string \<times> int option) command" where
  "runAPIKeyCreate S T cfg name role expiresIn =
     bind (need (name \<noteq> []) NameRequired) (\<lambda>_.
     bind (need (\<not> (role \<noteq> ''admin'' \<and> role \<noteq> ''viewer'')) BadRole) (\<lambda>_.
     bind (load_and_open T cfg) (\<lambda>_.
     bind (db_value ListUsers) (\<lambda>us.
     bind (need (us \<noteq> []) NoUsers) (\<lambda>_.
     let userID = u_ID (hd us) in
     bind (cli_expiry S expiresIn) (\<lambda>expiresAt.
     bind (call (GenerateAPIKey S)) (\<lambda>g.
     bind (some_or g RandomFailed) (\<lambda>(key, hash, prefix).
     bind (db_value (CreateAPIKey \<lparr>ak_ID = 0, ak_Name = name, ak_KeyHash = hash, ak_KeyPrefix = prefix, ak_UserID = userID,
       ak_Role = role, ak_ExpiresAt = expiresAt, ak_CreatedAt = 0, ak_LastUsed = None\<rparr>)) (\<lambda>kid.
     result (kid, key, expiresAt))))))))))"

definition runAPIKeyList :: "'s Tools \<Rightarrow> Config option \<Rightarrow> (('k, 'n, 's) Proc, APIKey list) command" where
  "runAPIKeyList T cfg = bind (load_and_open T cfg) (\<lambda>_. db_value ListAllAPIKeys)"

definition runAPIKeyRevoke :: "'s Tools \<Rightarrow> Config option \<Rightarrow> string \<Rightarrow> (('k, 'n, 's) Proc, unit) command" where
  "runAPIKeyRevoke T cfg arg =
     bind (some_or (Atoi arg) BadKeyID) (\<lambda>kid. bind (load_and_open T cfg) (\<lambda>_. db_action (DeleteAPIKey kid)))"

end
