(* ===== verification/Startup.thy ===== *)
theory Startup
  imports Commands SetupRoutes
begin

text \<open>
  What a first start does: \<open>wgpilot init\<close> followed by \<open>wgpilot serve\<close> gives a server whose wizard is
  open and accepts the password that was printed; and what a second \<open>wgpilot init\<close> does to the keys
  that are encrypted.
\<close>

section \<open>Reasoning about commands\<close>

lemma bind_Inr: "bind m f p = (Inr y, p') \<longleftrightarrow> (\<exists>x p1. m p = (Inr x, p1) \<and> f x p1 = (Inr y, p'))"
  by (auto simp: bind_def split: prod.splits sum.splits)

lemma result_Inr: "result x p = (Inr y, p') \<longleftrightarrow> y = x \<and> p' = p"
  by (auto simp: result_def)

lemma need_Inr: "need b e p = (Inr y, p') \<longleftrightarrow> b \<and> p' = p"
  by (auto simp: need_def result_def fail_def)

lemma some_or_Inr: "some_or x e p = (Inr y, p') \<longleftrightarrow> x = Some y \<and> p' = p"
  by (auto simp: some_or_def result_def fail_def split: option.splits)

lemma call_on_db_Inr:
  "call (on_db f) p = (Inr x, p') \<longleftrightarrow> (\<exists>d. f (w_db (pr_world p)) = (x, d) \<and> p' = p\<lparr>pr_world := (pr_world p)\<lparr>w_db := d\<rparr>\<rparr>)"
  by (auto simp: call_def on_db_def split: prod.splits)

lemma db_action_Inr:
  "db_action f p = (Inr x, p') \<longleftrightarrow> (\<exists>d. f (w_db (pr_world p)) = (None, d) \<and> p' = p\<lparr>pr_world := (pr_world p)\<lparr>w_db := d\<rparr>\<rparr>)"
  by (auto simp: db_action_def bind_Inr call_on_db_Inr result_def fail_def split: option.splits)

lemma db_value_Inr:
  "db_value f p = (Inr x, p') \<longleftrightarrow> (\<exists>d. f (w_db (pr_world p)) = (Inr x, d) \<and> p' = p\<lparr>pr_world := (pr_world p)\<lparr>w_db := d\<rparr>\<rparr>)"
  by (auto simp: db_value_def bind_def call_def on_db_def result_def fail_def split: prod.splits sum.splits)

lemma run_migrations_Inr:
  "run_migrations T p = (Inr x, p') \<longleftrightarrow> (\<exists>m. Migrate (tl_exec T) (tl_files T) (pr_mig p) = (None, m) \<and> p' = p\<lparr>pr_mig := m\<rparr>)"
  by (auto simp: run_migrations_def split: prod.splits option.splits)

lemmas command_inv = bind_Inr result_Inr need_Inr some_or_Inr call_on_db_Inr db_action_Inr db_value_Inr run_migrations_Inr

lemma db_fault_step: "db_fault d = (f, d1) \<Longrightarrow> \<exists>fs. d1 = d\<lparr>faults := fs\<rparr>"
  using db_fault_frame by blast

lemma db_New_opens: "db_New d = (True, d') \<Longrightarrow> \<exists>fs. d' = d\<lparr>faults := fs, encryptionKey := None\<rparr>"
  by (auto simp: db_New_def split: prod.splits if_splits dest!: db_fault_step)

lemma db_New_quiet: "faults d = [] \<Longrightarrow> db_New d = (True, d\<lparr>encryptionKey := None\<rparr>)"
  by (simp add: db_New_def db_fault_def)

lemma setting_written:
  "SetSetting k v d = (None, d') \<Longrightarrow> \<exists>fs. d' = d\<lparr>faults := fs, settings := upsert k v (settings d)\<rparr>"
  by (auto simp: SetSetting_def split: prod.splits if_splits dest!: db_fault_step)

lemma setting_deleted:
  "DeleteSetting k d = (None, d') \<Longrightarrow> \<exists>fs. d' = d\<lparr>faults := fs, settings := filter (\<lambda>e. fst e \<noteq> k) (settings d)\<rparr>"
  by (auto simp: DeleteSetting_def split: prod.splits if_splits dest!: db_fault_step)

lemma GenerateOTP_run: "GenerateOTP n p = (Inr s, p') \<Longrightarrow> length s = n \<and> (\<exists>js. p' = p\<lparr>pr_ints := js\<rparr>)"
proof (induction n arbitrary: p s)
  case 0
  then show ?case by (auto simp: result_def intro!: exI[of _ "pr_ints p"])
next
  case (Suc n)
  obtain i p1 k s1 where q: "rand_Int p = (Inr i, p1)" "i = Some k" "GenerateOTP n p1 = (Inr s1, p')" "s = charset ! k # s1"
    using Suc.prems by (auto simp: command_inv)
  obtain js1 where "p1 = p\<lparr>pr_ints := js1\<rparr>" using q(1,2) by (auto simp: rand_Int_def split: list.splits)
  moreover obtain js2 where "length s1 = n" "p' = p1\<lparr>pr_ints := js2\<rparr>" using Suc.IH[OF q(3)] by blast
  ultimately show ?case using q(4) by auto
qed

lemma rand_call:
  "call rand_Read p = (Inr b, p') \<Longrightarrow> b \<noteq> None \<Longrightarrow>
     \<exists>rs. w_random (pr_world p) = b # rs \<and> p' = p\<lparr>pr_world := (pr_world p)\<lparr>w_random := rs\<rparr>\<rparr>"
  by (auto simp: call_def rand_Read_def split: list.splits)

lemma hash_call:
  assumes "call (HashPassword S pw) p = (Inr (Some h), p')"
  shows "\<exists>salt rs. bcrypt_generate S salt pw = Some h \<and> p' = p\<lparr>pr_world := (pr_world p)\<lparr>w_random := rs\<rparr>\<rparr>"
  using assms by (auto simp: call_def HashPassword_def rand_Read_def andThen_def ret_def split: list.splits option.splits)

definition init_settings :: "byte list \<Rightarrow> string \<Rightarrow> (string \<times> string) list \<Rightarrow> (string \<times> string) list" where
  "init_settings secret hash ss =
     upsert ''setup_otp'' hash (filter (\<lambda>e. fst e \<noteq> ''setup_complete'') (upsert ''jwt_secret'' (EncodeToString secret) ss))"

lemma runInit_run:
  assumes "runInit S T p = (Inr otp, p')"
  shows "\<exists>secret rs salt hash fs. w_random (pr_world p) = Some secret # rs \<and> bcrypt_generate S salt otp = Some hash \<and> length otp = 16 \<and>
    w_db (pr_world p') = (w_db (pr_world p))\<lparr>faults := fs, encryptionKey := None, settings := init_settings secret hash (settings (w_db (pr_world p)))\<rparr> \<and>
    Migrate (tl_exec T) (tl_files T) (pr_mig p) = (None, pr_mig p')"
proof -
  let ?w = "pr_world p" let ?d = "w_db (pr_world p)"
  obtain d0 m b p2 secret d3 d4 p5 h p6 hash d7 where q:
    "db_New ?d = (True, d0)" "Migrate (tl_exec T) (tl_files T) (pr_mig p) = (None, m)"
    "call rand_Read (p\<lparr>pr_world := ?w\<lparr>w_db := d0\<rparr>, pr_mig := m\<rparr>) = (Inr b, p2)" "b = Some secret"
    "SetSetting ''jwt_secret'' (EncodeToString secret) (w_db (pr_world p2)) = (None, d3)"
    "DeleteSetting ''setup_complete'' d3 = (None, d4)"
    "GenerateOTP 16 (p2\<lparr>pr_world := (pr_world p2)\<lparr>w_db := d4\<rparr>\<rparr>) = (Inr otp, p5)"
    "call (HashPassword S otp) p5 = (Inr h, p6)" "h = Some hash"
    "SetSetting ''setup_otp'' hash (w_db (pr_world p6)) = (None, d7)"
    "p' = p6\<lparr>pr_world := (pr_world p6)\<lparr>w_db := d7\<rparr>\<rparr>"
    using assms by (auto simp: runInit_def open_and_migrate_def GenerateSecret_def command_inv)
  obtain rs where p2: "w_random ?w = Some secret # rs" "p2 = p\<lparr>pr_world := ?w\<lparr>w_db := d0, w_random := rs\<rparr>, pr_mig := m\<rparr>"
    using rand_call[OF q(3)] q(4) by auto
  obtain f0 where d0: "d0 = ?d\<lparr>faults := f0, encryptionKey := None\<rparr>" using db_New_opens[OF q(1)] by blast
  obtain f3 where d3: "d3 = d0\<lparr>faults := f3, settings := upsert ''jwt_secret'' (EncodeToString secret) (settings d0)\<rparr>"
    using setting_written[OF q(5)] p2(2) by auto
  obtain f4 where d4: "d4 = d3\<lparr>faults := f4, settings := filter (\<lambda>e. fst e \<noteq> ''setup_complete'') (settings d3)\<rparr>"
    using setting_deleted[OF q(6)] by blast
  obtain js where p5: "length otp = 16" "p5 = p2\<lparr>pr_world := (pr_world p2)\<lparr>w_db := d4\<rparr>, pr_ints := js\<rparr>"
    using GenerateOTP_run[OF q(7)] by auto
  obtain salt rs6 where p6: "bcrypt_generate S salt otp = Some hash" "p6 = p5\<lparr>pr_world := (pr_world p5)\<lparr>w_random := rs6\<rparr>\<rparr>"
    using hash_call[OF q(8)[unfolded q(9)]] by blast
  obtain f7 where d7: "d7 = d4\<lparr>faults := f7, settings := upsert ''setup_otp'' hash (settings d4)\<rparr>"
    using setting_written[OF q(10)] p6(2) p5(2) by auto
  have "w_db (pr_world p') = ?d\<lparr>faults := f7, encryptionKey := None, settings := init_settings secret hash (settings ?d)\<rparr>"
    using q(11) d7 d4 d3 d0 by (simp add: init_settings_def)
  moreover have "pr_mig p' = m" using q(11) p6(2) p5(2) p2(2) by simp
  ultimately show ?thesis using p2(1) p6(1) p5(1) q(2) by auto
qed

lemma runServe_run:
  assumes "runServe S T cfg p = (Inr S', p')"
  shows "\<exists>v secret key fs. map_of (settings (w_db (pr_world p))) ''jwt_secret'' = Some v \<and> DecodeString v = Some secret \<and> tl_hkdf T secret = Some key \<and>
    MigrateEncryptKeys (aead_of S) ((w_db (pr_world p))\<lparr>faults := fs, encryptionKey := Some key\<rparr>) = (None, w_db (pr_world p'))"
proof -
  let ?d = "w_db (pr_world p)"
  obtain d0 v d1 secret key d2 where q: "db_New ?d = (True, d0)" "GetSetting ''jwt_secret'' d0 = (Inr v, d1)" "v \<noteq> []"
    "DecodeString v = Some secret" "tl_hkdf T secret = Some key"
    "MigrateEncryptKeys (aead_of S) (d1\<lparr>encryptionKey := Some key\<rparr>) = (None, d2)" "w_db (pr_world p') = d2"
    using assms by (auto simp: runServe_def open_and_migrate_def NewJWTService_def SetEncryptionKey_def command_inv)
  obtain f0 where d0: "d0 = ?d\<lparr>faults := f0, encryptionKey := None\<rparr>" using db_New_opens[OF q(1)] by blast
  obtain f1 where d1: "d1 = d0\<lparr>faults := f1\<rparr>" "v = (case map_of (settings d0) ''jwt_secret'' of None \<Rightarrow> [] | Some v \<Rightarrow> v)"
    using q(2) by (auto simp: GetSetting_def split: prod.splits if_splits dest!: db_fault_step)
  have "map_of (settings ?d) ''jwt_secret'' = Some v" using d1(2) d0 q(3) by (auto split: option.splits)
  then show ?thesis using q(4-7) d0 d1(1) by auto
qed

section \<open>The first start\<close>

lemma DecodeString_secret: "DecodeString (EncodeToString secret) = Some secret"
  by (rule DecodeString_EncodeToString)

lemma MigrateEncryptKeys_nothing:
  "\<lbrakk>networks d = []; peers d = []; faults d = []\<rbrakk> \<Longrightarrow> MigrateEncryptKeys A d = (None, d)"
  by (simp add: MigrateEncryptKeys_def encrypt_networks_def encrypt_peers_def db_fault_def)

text \<open>What the processes rely on when they share the settings: a store with lookup, update and deletion.\<close>

locale lookup_store =
  fixes look :: "'s \<Rightarrow> 'a \<Rightarrow> 'b option" and put :: "'a \<Rightarrow> 'b \<Rightarrow> 's \<Rightarrow> 's" and del :: "'a \<Rightarrow> 's \<Rightarrow> 's"
  assumes look_put: "look (put k v s) = (look s)(k \<mapsto> v)"
    and look_del: "look (del k s) = (look s)(k := None)"
begin

lemma look_after: "look (put a x (del b (put c y s))) k
    = (if k = a then Some x else if k = b then None else if k = c then Some y else look s k)"
  by (simp add: look_put look_del)

end

lemma map_of_filter_key: "map_of (filter (\<lambda>e. fst e \<noteq> k) xs) = (map_of xs)(k := None)"
  by (induction xs) auto

interpretation settings_store: lookup_store map_of upsert "\<lambda>k. filter (\<lambda>e. fst e \<noteq> k)"
  by unfold_locales (rule map_of_upsert map_of_filter_key)+

lemma init_settings_lookup:
  "map_of (init_settings secret hash ss) k =
     (if k = ''setup_otp'' then Some hash else if k = ''setup_complete'' then None
      else if k = ''jwt_secret'' then Some (EncodeToString secret) else map_of ss k)"
  by (simp add: init_settings_def settings_store.look_after)

definition configured :: "('k, 'n) Server \<Rightarrow> 's Tools \<Rightarrow> Config \<Rightarrow> byte list \<Rightarrow> int \<Rightarrow> ('k, 'n) Server" where
  "configured S T cfg secret ttl = S\<lparr>jwt_sign := tl_sign T secret, jwt_parse := tl_parse T secret, jwt_ttl := ttl,
       cookie_secure := \<not> cf_DevMode cfg, login_limit := cf_RateLimitRPM cfg, login_window := 60000000000,
       devMode := cf_DevMode cfg\<rparr>"

lemma runServe_fresh:
  assumes "Migrate (tl_exec T) (tl_files T) (pr_mig p) = (None, pr_mig p)" "faults (w_db (pr_world p)) = []"
    "networks (w_db (pr_world p)) = []" "peers (w_db (pr_world p)) = []"
    "map_of (settings (w_db (pr_world p))) ''jwt_secret'' = Some (EncodeToString secret)" "secret \<noteq> []" "\<not> length secret < 32"
    "tl_hkdf T secret = Some key" "ParseDuration (duration_frac S) (cf_SessionTTL cfg) = Some ttl"
  shows "runServe S T cfg p
    = (Inr (configured S T cfg secret ttl), p\<lparr>pr_world := (pr_world p)\<lparr>w_db := (w_db (pr_world p))\<lparr>encryptionKey := Some key\<rparr>\<rparr>\<rparr>)"
  using assms
  by (simp add: runServe_def open_and_migrate_def bind_def call_def on_db_def db_New_quiet need_def result_def run_migrations_def
      db_value_def GetSetting_def db_fault_def some_or_def DecodeString_secret SetEncryptionKey_def db_action_def MigrateEncryptKeys_nothing
      NewJWTService_def configured_def)

lemma wizard_at_step_1:
  assumes "faults (w_db w) = []" "map_of (settings (w_db w)) ''setup_complete'' = None"
    "map_of (settings (w_db w)) ''setup_step1_done'' \<noteq> Some ''true''"
  shows "\<exists>ifaces. fst (serve (handleSetupStatus S) w) = writeJSON 200 (SetupStatusBody False 1 ifaces)"
proof -
  have st: "getSetupState (w_db w) = (Inr (False, 1), w_db w)"
    using assms by (auto simp: getSetupState_def GetSetting_def db_fault_def split: option.splits)
  show ?thesis
    by (cases "wgManager S")
      (auto simp: handleSetupStatus_def serve_def andThen_def on_db_def st or_error_def ret_def wg_query_def split: prod.splits sum.splits)
qed

text \<open>
  C12. After \<open>wgpilot init\<close> on a database without networks and peers, \<open>wgpilot serve\<close> starts: it signs
  its tokens with the secret that was drawn, encrypts keys with the key derived from it, its wizard
  is at step 1, and the hash that step 1 compares with is of the password that \<open>init\<close> printed.
\<close>

theorem init_then_serve:
  assumes "runInit S T p = (Inr otp, p1)" "distinct (map fst (tl_files T))"
    "networks (w_db (pr_world p)) = []" "peers (w_db (pr_world p)) = []"
    "map_of (settings (w_db (pr_world p))) ''setup_step1_done'' \<noteq> Some ''true''"
    "faults (w_db (pr_world p1)) = []" "ms_faults (pr_mig p1) = []"
    "hd (w_random (pr_world p)) = Some secret" "length secret = 32" "tl_hkdf T secret = Some key"
    "ParseDuration (duration_frac S) (cf_SessionTTL cfg) = Some ttl"
    "\<forall>salt pw h. bcrypt_generate S salt pw = Some h \<longrightarrow> bcrypt_compare S h pw"
  shows "\<exists>S' p2 hash ifaces. runServe S T cfg p1 = (Inr S', p2) \<and> jwt_sign S' = tl_sign T secret \<and>
    encryptionKey (w_db (pr_world p2)) = Some key \<and>
    fst (serve (handleSetupStatus S') (pr_world p2)) = writeJSON 200 (SetupStatusBody False 1 ifaces) \<and>
    fst (GetSetting ''setup_otp'' (w_db (pr_world p2))) = Inr hash \<and> VerifyPassword S' hash otp \<and> length otp = 16"
proof -
  let ?d = "w_db (pr_world p)"
  obtain secret' rs salt hash fs where r: "w_random (pr_world p) = Some secret' # rs" "bcrypt_generate S salt otp = Some hash" "length otp = 16"
    "w_db (pr_world p1) = ?d\<lparr>faults := fs, encryptionKey := None, settings := init_settings secret' hash (settings ?d)\<rparr>"
    "Migrate (tl_exec T) (tl_files T) (pr_mig p) = (None, pr_mig p1)"
    using runInit_run[OF assms(1)] by blast
  have secret: "secret' = secret" using r(1) assms(8) by simp
  have settled: "pr_mig p1 = (pr_mig p1)\<lparr>ms_faults := []\<rparr>" using assms(7) by simp
  have again: "Migrate (tl_exec T) (tl_files T) (pr_mig p1) = (None, pr_mig p1)"
    using Migrate_ok[OF r(5) assms(2)] settled by metis
  let ?p2 = "p1\<lparr>pr_world := (pr_world p1)\<lparr>w_db := (w_db (pr_world p1))\<lparr>encryptionKey := Some key\<rparr>\<rparr>\<rparr>"
  have start: "runServe S T cfg p1 = (Inr (configured S T cfg secret ttl), ?p2)"
    by (rule runServe_fresh) (use again assms(3,4,6,9-11) r(4) secret in \<open>auto simp: init_settings_lookup\<close>)
  obtain ifaces where wiz: "fst (serve (handleSetupStatus (configured S T cfg secret ttl)) (pr_world ?p2)) = writeJSON 200 (SetupStatusBody False 1 ifaces)"
    using wizard_at_step_1[of "pr_world ?p2"] assms(5,6) r(4) by (auto simp: init_settings_lookup)
  have otp: "fst (GetSetting ''setup_otp'' (w_db (pr_world ?p2))) = Inr hash"
    using assms(6) r(4) by (simp add: GetSetting_def db_fault_def init_settings_lookup)
  have sign: "jwt_sign (configured S T cfg secret ttl) = tl_sign T secret" by (simp add: configured_def)
  have ver: "VerifyPassword (configured S T cfg secret ttl) hash otp"
    using assms(12) r(2) by (auto simp: VerifyPassword_def configured_def)
  have key: "encryptionKey (w_db (pr_world ?p2)) = Some key" by simp
  show ?thesis using start wiz otp sign ver key r(3) by blast
qed

section \<open>A second \<open>init\<close>\<close>

lemma scan_rows_fails: "\<lbrakk>x \<in> set xs; f x = Inl e\<rbrakk> \<Longrightarrow> \<exists>e'. scan_rows f xs = Inl e'"
  by (induction xs) (auto split: sum.splits)

text \<open>
  C40. \<open>wgpilot init\<close> on a database in use replaces the secret from which the key of the private
  keys is derived: when \<open>wgpilot serve\<close> starts afterwards, a network whose key was encrypted before can
  no longer be decrypted, and listing the networks fails.  What is relied upon is that AES-GCM does
  not open under one key what another sealed.
\<close>

theorem init_orphans_keys:
  assumes "runInit S T p = (Inr otp, p1)" "runServe S T cfg p1 = (Inr S', p2)" "faults (w_db (pr_world p2)) = []"
    "aead_ok (aead_of S)" "db_inv (w_db (pr_world p))" "\<forall>x\<in>set (entropy (w_db (pr_world p))). length x = 12"
    "\<forall>m\<in>set (networks (w_db (pr_world p))). length (n_PrivateKey m) \<noteq> 4"
    "\<forall>q\<in>set (peers (w_db (pr_world p))). length (p_PrivateKey q) \<noteq> 4 \<and> length (p_PresharedKey q) \<noteq> 4"
    "hd (w_random (pr_world p)) = Some secret" "tl_hkdf T secret = Some key"
    "n \<in> set (networks (w_db (pr_world p)))" "Encrypt (aead_of S) (Some nonce) plain key0 = Inr (n_PrivateKey n)"
    "length nonce = 12" "4 < length plain" "gcm_Open (aead_of S) key nonce (gcm_Seal (aead_of S) key0 nonce (bytes_of plain)) = None"
  shows "\<exists>e. fst (ListNetworks (aead_of S) (w_db (pr_world p2))) = Inl e"
proof -
  let ?A = "aead_of S" let ?d = "w_db (pr_world p)"
  obtain secret' rs hash fs where r: "w_random (pr_world p) = Some secret' # rs"
    "w_db (pr_world p1) = ?d\<lparr>faults := fs, encryptionKey := None, settings := init_settings secret' hash (settings ?d)\<rparr>"
    using runInit_run[OF assms(1)] by blast
  obtain v secret2 key2 gs where s: "map_of (settings (w_db (pr_world p1))) ''jwt_secret'' = Some v" "DecodeString v = Some secret2"
    "tl_hkdf T secret2 = Some key2"
    "MigrateEncryptKeys ?A ((w_db (pr_world p1))\<lparr>faults := gs, encryptionKey := Some key2\<rparr>) = (None, w_db (pr_world p2))"
    using runServe_run[OF assms(2)] by blast
  have "secret2 = secret" using r s(1,2) assms(9) by (auto simp: init_settings_lookup DecodeString_secret)
  then have key2: "key2 = key" using s(3) assms(10) by simp
  let ?d1 = "(w_db (pr_world p1))\<lparr>faults := gs, encryptionKey := Some key\<rparr>"
  have same: "decrypted_networks ?A (w_db (pr_world p2)) = decrypted_networks ?A ?d1" and k: "encryptionKey (w_db (pr_world p2)) = Some key"
    using MigrateEncryptKeys_ok[OF s(4)[unfolded key2] assms(4), of key] assms(5-8) r(2) by simp_all
  have "\<exists>e. decryptNetworkKeys ?A (Some key) n = Inl e"
  proof -
    let ?c = "n_PrivateKey n"
    have ne: "plain \<noteq> []" using assms(14) by auto
    have enc: "IsEncrypted ?c" using IsEncrypted_Encrypt[OF assms(4,13) ne assms(12)] assms(14) by simp
    have c: "?c = EncodeToString (nonce @ gcm_Seal ?A key0 nonce (bytes_of plain))" using assms(12) ne by (simp add: Encrypt_def)
    have len: "length (gcm_Seal ?A key0 nonce (bytes_of plain)) = length plain + 16" using assms(4,13) by (simp add: aead_ok_def)
    have "?c \<noteq> []" using enc by (auto simp: IsEncrypted_def)
    then have "Decrypt ?A ?c key = Inl OpenFailed"
      using assms(13-15) len ne unfolding Decrypt_def c by (simp add: DecodeString_secret nonceSize_def minEncryptedLen_def)
    then show ?thesis using enc by (auto simp: decryptNetworkKeys_def decrypt_field_def IsEncrypted_def)
  qed
  then obtain e where "decryptNetworkKeys ?A (Some key) n = Inl e" by blast
  moreover have "n \<in> set (networks ?d1)" using assms(11) r(2) by simp
  ultimately have "Inl e \<in> set (decrypted_networks ?A ?d1)"
    unfolding decrypted_networks_def set_map by (intro image_eqI[of _ _ n]) simp_all
  then have e: "Inl e \<in> set (decrypted_networks ?A (w_db (pr_world p2)))" using same by simp
  then obtain m where "m \<in> set (networks (w_db (pr_world p2)))" "decryptNetworkKeys ?A (Some key) m = Inl e"
    using k by (auto simp: decrypted_networks_def intro: that[OF _ sym])
  then show ?thesis using scan_rows_fails k assms(3) by (fastforce simp: ListNetworks_def db_fault_def)
qed

section \<open>Examples\<close>

text \<open>A sealing that tells two keys apart.\<close>

definition keyed_aead :: aead where
  "keyed_aead = \<lparr>gcm_Seal = (\<lambda>key nonce p. p @ replicate 16 (if key = [1] then 1 else 0)),
     gcm_Open = (\<lambda>key nonce c. if length c < 16 \<or> drop (length c - 16) c \<noteq> replicate 16 (if key = [1] then 1 else 0) then None
       else Some (take (length c - 16) c))\<rparr>"

lemma keyed_aead_ok: "aead_ok keyed_aead"
  by (simp add: aead_ok_def keyed_aead_def)

definition sample_secret :: "byte list" where
  "sample_secret = replicate 32 7"

definition sample_otp :: string where
  "sample_otp = replicate 16 CHR ''A''"

definition sample_tools :: "unit Tools" where
  "sample_tools = \<lparr>tl_exec = (\<lambda>_ s. (True, s)), tl_files = [], tl_hkdf = Some, tl_sign = (\<lambda>_ c. Some (cl_Subject c)), tl_parse = (\<lambda>_ _ _. None)\<rparr>"

definition sample_process :: "DB \<Rightarrow> (sim, mem_nft, unit) Proc" where
  "sample_process d = \<lparr>pr_world = (sample_world d [])\<lparr>w_random := [Some sample_secret, Some []]\<rparr>,
     pr_mig = \<lparr>ms_schema = (), ms_applied = [], ms_faults = []\<rparr>, pr_ints = replicate 16 (Some 0)\<rparr>"

lemma sample_secret_length: "length sample_secret = 32" "sample_secret \<noteq> []"
  by (simp_all add: sample_secret_def)

lemma one_day: "ParseDuration (\<lambda>_ _ _. 0) ''24h'' = Some 86400000000000"
proof -
  have "duration_part (\<lambda>_ _ _. 0) ''24h'' = Some (86400000000000, [])"
    by (simp add: duration_part_def fraction_part_def scale_unit_def unit_char_def is_digit_def ord_def dec_val_def digit_val_def unitMap_def)
  then show ?thesis by (simp add: ParseDuration_def duration_sum.simps is_digit_def ord_def)
qed

lemma encoding_longer: "length bs \<le> length (EncodeToString bs)"
  by (induction bs rule: EncodeToString.induct) (auto simp: Let_def)

lemma open_quiet:
  "\<lbrakk>faults (w_db (pr_world p)) = []; tl_files T = []; ms_faults (pr_mig p) = []\<rbrakk>
    \<Longrightarrow> open_and_migrate T p = (Inr (), p\<lparr>pr_world := (pr_world p)\<lparr>w_db := (w_db (pr_world p))\<lparr>encryptionKey := None\<rparr>\<rparr>\<rparr>)"
  by (simp add: open_and_migrate_def bind_def call_def on_db_def db_New_quiet need_def result_def run_migrations_def Migrate_def ms_fault_def sql_files_def)

lemma quiet_settings:
  assumes "faults (w_db (pr_world p)) = []"
  shows "db_action (SetSetting k v) p
      = (Inr (), p\<lparr>pr_world := (pr_world p)\<lparr>w_db := (w_db (pr_world p))\<lparr>settings := upsert k v (settings (w_db (pr_world p)))\<rparr>\<rparr>\<rparr>)"
    "db_action (DeleteSetting k) p
      = (Inr (), p\<lparr>pr_world := (pr_world p)\<lparr>w_db := (w_db (pr_world p))\<lparr>settings := filter (\<lambda>e. fst e \<noteq> k) (settings (w_db (pr_world p)))\<rparr>\<rparr>\<rparr>)"
  using assms by (simp_all add: db_action_def bind_def call_def on_db_def SetSetting_def DeleteSetting_def db_fault_def result_def)

lemma quiet_random:
  "w_random (pr_world p) = b # rs \<Longrightarrow> call rand_Read p = (Inr b, p\<lparr>pr_world := (pr_world p)\<lparr>w_random := rs\<rparr>\<rparr>)"
  "w_random (pr_world p) = Some salt # rs \<Longrightarrow>
     call (HashPassword S pw) p = (Inr (bcrypt_generate S salt pw), p\<lparr>pr_world := (pr_world p)\<lparr>w_random := rs\<rparr>\<rparr>)"
  by (simp_all add: call_def rand_Read_def HashPassword_def andThen_def ret_def)

lemma otp_of_zeros: "pr_ints p = replicate n (Some 0) \<Longrightarrow> GenerateOTP n p = (Inr (replicate n CHR ''A''), p\<lparr>pr_ints := []\<rparr>)"
proof (induction n arbitrary: p)
  case 0
  then show ?case by (simp add: result_def)
next
  case (Suc n)
  have "charset ! 0 = CHR ''A''" by (simp add: charset_def)
  then show ?case using Suc by (simp add: bind_def rand_Int_def some_or_def result_def)
qed

lemma sample_init:
  assumes "faults d = []" "bcrypt_generate S [] sample_otp = Some h"
  shows "runInit S sample_tools (sample_process d) = (Inr sample_otp,
     (sample_process d)\<lparr>pr_world := (sample_world d [])\<lparr>w_random := [],
         w_db := d\<lparr>encryptionKey := None, settings := init_settings sample_secret h (settings d)\<rparr>\<rparr>, pr_ints := []\<rparr>)"
proof -
  have otp: "GenerateOTP 16 p = (Inr sample_otp, p\<lparr>pr_ints := []\<rparr>)"
    if "pr_ints p = replicate 16 (Some 0)" for p :: "(sim, mem_nft, unit) Proc"
    using otp_of_zeros[of p 16] that by (simp add: sample_otp_def)
  show ?thesis
    using assms unfolding runInit_def init_settings_def
    by (simp add: bind_def open_quiet sample_tools_def sample_process_def sample_world_def GenerateSecret_def quiet_random quiet_settings
        some_or_def result_def otp)
qed

theorem init_then_serve_witness:
  "\<exists>p1 S' p2. runInit sample_server sample_tools (sample_process empty_db) = (Inr sample_otp, p1) \<and>
     runServe sample_server sample_tools loadDefaults p1 = (Inr S', p2) \<and> encryptionKey (w_db (pr_world p2)) = Some sample_secret"
proof -
  let ?p1 = "snd (runInit sample_server sample_tools (sample_process empty_db))"
  have run: "runInit sample_server sample_tools (sample_process empty_db) = (Inr sample_otp, ?p1)"
    using sample_init[of empty_db sample_server] by (simp add: sample_server_def empty_db_def)
  have q: "faults (w_db (pr_world ?p1)) = []" "ms_faults (pr_mig ?p1) = []"
    using sample_init[of empty_db sample_server] by (simp_all add: sample_server_def empty_db_def sample_process_def)
  have ttl: "ParseDuration (duration_frac sample_server) (cf_SessionTTL loadDefaults) = Some 86400000000000"
    by (simp add: loadDefaults_def sample_server_def one_day)
  show ?thesis
    using init_then_serve[OF run _ _ _ _ q _ _ _ ttl, of sample_secret sample_secret] run
    by (auto simp: sample_tools_def sample_process_def sample_world_def empty_db_def sample_server_def sample_secret_def)
qed

text \<open>A network key that was sealed under another key.\<close>

definition old_nonce :: "byte list" where
  "old_nonce = replicate 12 5"

definition sealed_key :: string where
  "sealed_key = EncodeToString (old_nonce @ gcm_Seal keyed_aead [1] old_nonce (bytes_of some_key))"

definition orphan_db :: DB where
  "orphan_db = empty_db\<lparr>net_seq := 1, networks := [(net_row ''wg0'' 51820 sealed_key)\<lparr>n_ID := 1\<rparr>]\<rparr>"

lemma sealed_key_facts:
  "length old_nonce = 12" "4 < length some_key" "Encrypt keyed_aead (Some old_nonce) some_key [1] = Inr sealed_key" "IsEncrypted sealed_key"
  "length sealed_key \<noteq> 4" "gcm_Open keyed_aead sample_secret old_nonce (gcm_Seal keyed_aead [1] old_nonce (bytes_of some_key)) = None"
proof -
  have plain: "some_key \<noteq> []" "4 < length some_key" using wg_key_length[OF some_key_ok] by auto
  show n: "length old_nonce = 12" by (simp add: old_nonce_def)
  show "4 < length some_key" by (rule plain(2))
  show enc: "Encrypt keyed_aead (Some old_nonce) some_key [1] = Inr sealed_key" using plain(1) by (simp add: Encrypt_def sealed_key_def)
  show "IsEncrypted sealed_key" using IsEncrypted_Encrypt[OF keyed_aead_ok n plain(1) enc] plain(2) by simp
  show "length sealed_key \<noteq> 4"
    using encoding_longer[of "old_nonce @ gcm_Seal keyed_aead [1] old_nonce (bytes_of some_key)"] n unfolding sealed_key_def by auto
  have "sample_secret \<noteq> [1]" by (simp add: sample_secret_def numeral_eq_Suc)
  then show "gcm_Open keyed_aead sample_secret old_nonce (gcm_Seal keyed_aead [1] old_nonce (bytes_of some_key)) = None"
    by (simp add: keyed_aead_def)
qed

theorem init_orphans_keys_witness:
  "\<exists>otp p1 S' p2 e. runInit (sample_server\<lparr>aead_of := keyed_aead\<rparr>) sample_tools (sample_process orphan_db) = (Inr otp, p1) \<and>
     runServe (sample_server\<lparr>aead_of := keyed_aead\<rparr>) sample_tools loadDefaults p1 = (Inr S', p2) \<and>
     fst (ListNetworks keyed_aead (w_db (pr_world p2))) = Inl e"
proof -
  let ?S = "sample_server\<lparr>aead_of := keyed_aead\<rparr>" let ?n = "(net_row ''wg0'' 51820 sealed_key)\<lparr>n_ID := 1\<rparr>"
  let ?p1 = "snd (runInit ?S sample_tools (sample_process orphan_db))"
  have run: "runInit ?S sample_tools (sample_process orphan_db) = (Inr sample_otp, ?p1)"
    and p1: "?p1 = (sample_process orphan_db)\<lparr>pr_world := (sample_world orphan_db [])\<lparr>w_random := [],
         w_db := orphan_db\<lparr>encryptionKey := None, settings := init_settings sample_secret sample_otp []\<rparr>\<rparr>, pr_ints := []\<rparr>"
    using sample_init[of orphan_db ?S] by (simp_all add: sample_server_def empty_db_def orphan_db_def)
  have ttl: "ParseDuration (duration_frac ?S) (cf_SessionTTL loadDefaults) = Some 86400000000000"
    by (simp add: loadDefaults_def sample_server_def one_day)
  obtain S' p2 where serve: "runServe ?S sample_tools loadDefaults ?p1 = (Inr S', p2)" "faults (w_db (pr_world p2)) = []"
    using sealed_key_facts(4) ttl unfolding p1
    by (simp add: sample_secret_length runServe_def bind_def open_quiet sample_tools_def sample_process_def sample_world_def
        db_value_def db_action_def call_def on_db_def some_or_def need_def result_def db_fault_def
        GetSetting_def init_settings_lookup DecodeString_secret SetEncryptionKey_def
        MigrateEncryptKeys_def encrypt_networks_def encrypt_peers_def orphan_db_def net_row_def empty_db_def NewJWTService_def)
  have db: "w_db (pr_world (sample_process orphan_db)) = orphan_db" "hd (w_random (pr_world (sample_process orphan_db))) = Some sample_secret"
    "tl_hkdf sample_tools sample_secret = Some sample_secret" "aead_of ?S = keyed_aead"
    by (simp_all add: sample_process_def sample_world_def sample_tools_def)
  have odb: "db_inv orphan_db" "entropy orphan_db = []" "networks orphan_db = [?n]" "peers orphan_db = []" "n_PrivateKey ?n = sealed_key"
    by (simp_all add: orphan_db_def empty_db_def net_row_def db_inv_def db_ok_defs ids_ok_def)
  have "\<exists>e. fst (ListNetworks (aead_of ?S) (w_db (pr_world p2))) = Inl e"
    by (rule init_orphans_keys[OF run serve, where secret = sample_secret and key = sample_secret and n = ?n and nonce = old_nonce
          and plain = some_key and ?key0.0 = "[1]"])
      (use keyed_aead_ok sealed_key_facts db odb in simp_all)
  then obtain e where "fst (ListNetworks keyed_aead (w_db (pr_world p2))) = Inl e" using db(4) by auto
  then show ?thesis using run serve(1) by blast
qed

end
