(* ===== verification/Updater.thy ===== *)
theory Updater
  imports GoStrings
begin

text \<open>
  \<open>internal/updater/updater.go\<close>: the check for a release and the replacement of the binary.

  The host is a parameter: what the two requests answer, whether a downloaded program answers to
  \<open>version\<close>, the path of the running program and the names that \<open>os.CreateTemp\<close> picks.  The files
  are a map from paths to contents; each operation on them may fail, and a copy that fails has
  written a part of the contents.
\<close>

record ReleaseInfo =
  TagName :: string
  HTMLURL :: string

record UpdateResult =
  CurrentVersion :: string
  LatestVersion :: string
  UpdateAvailable :: bool
  ReleaseURL :: string

record Host =
  latest_release :: "(int \<times> ReleaseInfo option) option"
  download :: "string \<Rightarrow> (int \<times> string) option"
  answers_version :: "string \<Rightarrow> bool"
  own_path :: "string option"
  temp_name :: "(string \<rightharpoonup> string) \<Rightarrow> string"
  goarch :: string

record Files =
  files :: "string \<rightharpoonup> string"
  file_faults :: "nat option list"

datatype update_error = RequestFailed | BadStatus int | DecodeFailed | NoTag | TempFailed | WriteFailed | ChmodFailed
  | VerifyFailed | NoExecutable | OpenSourceFailed | OpenTargetFailed | CopyFailed | RenameFailed

section \<open>Operations on files\<close>

text \<open>Whether the next operation fails, and how much of a copy is written before it does.\<close>

definition file_fault :: "Files \<Rightarrow> nat option \<times> Files" where
  "file_fault s = (case file_faults s of [] \<Rightarrow> (None, s) | f # fs \<Rightarrow> (f, s\<lparr>file_faults := fs\<rparr>))"

definition put_file :: "string \<Rightarrow> string option \<Rightarrow> Files \<Rightarrow> Files" where
  "put_file p c s = s\<lparr>files := (files s)(p := c)\<rparr>"

definition os_Remove :: "string \<Rightarrow> Files \<Rightarrow> Files" where
  "os_Remove p s = (case file_fault s of (Some _, s1) \<Rightarrow> s1 | (None, s1) \<Rightarrow> put_file p None s1)"

definition os_Truncate :: "string \<Rightarrow> Files \<Rightarrow> bool \<times> Files" where
  "os_Truncate p s = (case file_fault s of (Some _, s1) \<Rightarrow> (False, s1) | (None, s1) \<Rightarrow> (True, put_file p (Some []) s1))"

definition io_Copy :: "string \<Rightarrow> string \<Rightarrow> Files \<Rightarrow> bool \<times> Files" where
  "io_Copy p c s = (case file_fault s of
      (Some k, s1) \<Rightarrow> (False, put_file p (Some (take k c)) s1) | (None, s1) \<Rightarrow> (True, put_file p (Some c) s1))"

definition os_Rename :: "string \<Rightarrow> string \<Rightarrow> Files \<Rightarrow> bool \<times> Files" where
  "os_Rename a b s = (case file_fault s of
      (Some _, s1) \<Rightarrow> (False, s1)
    | (None, s1) \<Rightarrow> (case files s1 a of None \<Rightarrow> (False, s1) | Some c \<Rightarrow> (True, put_file a None (put_file b (Some c) s1))))"

section \<open>The check\<close>

text \<open>\<open>strings.TrimPrefix\<close>.\<close>

definition TrimPrefix :: "string \<Rightarrow> string \<Rightarrow> string" where
  "TrimPrefix s p = (if HasPrefix s p then drop (length p) s else s)"

definition normalizeVersion :: "string \<Rightarrow> string" where
  "normalizeVersion v = TrimPrefix v ''v''"

definition archBinarySuffix :: "string \<Rightarrow> string" where
  "archBinarySuffix arch =
     (if arch = ''amd64'' then ''linux_amd64''
      else if arch = ''arm64'' then ''linux_arm64''
      else if arch = ''arm'' then ''linux_arm7''
      else ''linux_'' @ arch)"

definition defaultRepo :: string where
  "defaultRepo = ''itsChris/wgpilot''"

definition downloadBase :: string where
  "downloadBase = ''https://github.com''"

definition binaryURL :: "Host \<Rightarrow> string \<Rightarrow> string" where
  "binaryURL h version =
     (let tag = (if HasPrefix version ''v'' then version else ''v'' @ version) in
      downloadBase @ ''/'' @ defaultRepo @ ''/releases/download/'' @ tag @ ''/wgpilot_'' @ archBinarySuffix (goarch h))"

definition fetchLatestRelease :: "Host \<Rightarrow> update_error + ReleaseInfo" where
  "fetchLatestRelease h = (case latest_release h of
      None \<Rightarrow> Inl RequestFailed
    | Some (status, body) \<Rightarrow>
        if status \<noteq> 200 then Inl (BadStatus status)
        else (case body of None \<Rightarrow> Inl DecodeFailed | Some r \<Rightarrow> if TagName r = [] then Inl NoTag else Inr r))"

definition CheckLatest :: "Host \<Rightarrow> string \<Rightarrow> update_error + UpdateResult" where
  "CheckLatest h currentVersion = (case fetchLatestRelease h of
      Inl e \<Rightarrow> Inl e
    | Inr release \<Rightarrow>
        (let latest = normalizeVersion (TagName release); current = normalizeVersion currentVersion in
         Inr \<lparr>CurrentVersion = current, LatestVersion = latest,
           UpdateAvailable = (latest \<noteq> current \<and> current \<noteq> ''dev''), ReleaseURL = HTMLURL release\<rparr>))"

section \<open>The update\<close>

definition downloadBinary :: "Host \<Rightarrow> string \<Rightarrow> Files \<Rightarrow> (update_error + string) \<times> Files" where
  "downloadBinary h url s = (case download h url of
      None \<Rightarrow> (Inl RequestFailed, s)
    | Some (status, body) \<Rightarrow>
        if status \<noteq> 200 then (Inl (BadStatus status), s)
        else (let tmp = temp_name h (files s) in
          (case os_Truncate tmp s of
            (False, s1) \<Rightarrow> (Inl TempFailed, s1)
          | (True, s1) \<Rightarrow> (case io_Copy tmp body s1 of
                (False, s2) \<Rightarrow> (Inl WriteFailed, os_Remove tmp s2)
              | (True, s2) \<Rightarrow> (case file_fault s2 of
                    (Some _, s3) \<Rightarrow> (Inl ChmodFailed, os_Remove tmp s3)
                  | (None, s3) \<Rightarrow> (Inr tmp, s3))))))"

definition verifyBinary :: "Host \<Rightarrow> string \<Rightarrow> Files \<Rightarrow> bool \<times> Files" where
  "verifyBinary h path s = (case file_fault s of
      (Some _, s1) \<Rightarrow> (False, s1)
    | (None, s1) \<Rightarrow> (case files s1 path of None \<Rightarrow> False | Some c \<Rightarrow> answers_version h c, s1))"

definition replaceBinary :: "string \<Rightarrow> string \<Rightarrow> Files \<Rightarrow> update_error option \<times> Files" where
  "replaceBinary src dst s = (case file_fault s of
      (Some _, s1) \<Rightarrow> (Some OpenSourceFailed, s1)
    | (None, s1) \<Rightarrow> (case files s1 src of
          None \<Rightarrow> (Some OpenSourceFailed, s1)
        | Some content \<Rightarrow>
            (let tmpDst = dst @ ''.new'' in
             (case os_Truncate tmpDst s1 of
                (False, s2) \<Rightarrow> (Some OpenTargetFailed, s2)
              | (True, s2) \<Rightarrow> (case io_Copy tmpDst content s2 of
                    (False, s3) \<Rightarrow> (Some CopyFailed, os_Remove tmpDst s3)
                  | (True, s3) \<Rightarrow> (case os_Rename tmpDst dst s3 of
                        (False, s4) \<Rightarrow> (Some RenameFailed, os_Remove tmpDst s4)
                      | (True, s4) \<Rightarrow> (None, s4)))))))"

definition Update :: "Host \<Rightarrow> string \<Rightarrow> Files \<Rightarrow> (update_error + UpdateResult) \<times> Files" where
  "Update h currentVersion s = (case CheckLatest h currentVersion of
      Inl e \<Rightarrow> (Inl e, s)
    | Inr result \<Rightarrow>
        if \<not> UpdateAvailable result then (Inr result, s)
        else (case downloadBinary h (binaryURL h (LatestVersion result)) s of
            (Inl e, s1) \<Rightarrow> (Inl e, s1)
          | (Inr tmpFile, s1) \<Rightarrow> (case verifyBinary h tmpFile s1 of
                (False, s2) \<Rightarrow> (Inl VerifyFailed, os_Remove tmpFile s2)
              | (True, s2) \<Rightarrow> (case own_path h of
                    None \<Rightarrow> (Inl NoExecutable, os_Remove tmpFile s2)
                  | Some selfPath \<Rightarrow> (case replaceBinary tmpFile selfPath s2 of
                        (Some e, s3) \<Rightarrow> (Inl e, os_Remove tmpFile s3)
                      | (None, s3) \<Rightarrow> (Inr result, os_Remove tmpFile s3))))))"

section \<open>The binary is replaced as a whole\<close>

lemma file_fault_files [simp]: "file_fault s = (f, s1) \<Longrightarrow> files s1 = files s"
  by (auto simp: file_fault_def split: list.splits)

lemma os_Remove_other: "q \<noteq> p \<Longrightarrow> files (os_Remove p s) q = files s q"
  by (auto simp: os_Remove_def put_file_def split: prod.splits option.splits dest: file_fault_files)

lemma os_Truncate_other: "\<lbrakk>os_Truncate p s = (ok, s1); q \<noteq> p\<rbrakk> \<Longrightarrow> files s1 q = files s q"
  by (auto simp: os_Truncate_def put_file_def split: prod.splits option.splits dest: file_fault_files)

lemma io_Copy_other: "\<lbrakk>io_Copy p c s = (ok, s1); q \<noteq> p\<rbrakk> \<Longrightarrow> files s1 q = files s q"
  by (auto simp: io_Copy_def put_file_def split: prod.splits option.splits dest: file_fault_files)

lemma io_Copy_whole: "io_Copy p c s = (True, s1) \<Longrightarrow> files s1 p = Some c"
  by (auto simp: io_Copy_def put_file_def split: prod.splits option.splits)

lemma os_Rename_fails: "os_Rename a b s = (False, s1) \<Longrightarrow> files s1 = files s"
  by (auto simp: os_Rename_def split: prod.splits option.splits dest: file_fault_files)

lemma os_Rename_moves:
  "os_Rename a b s = (True, s1) \<Longrightarrow> (a \<noteq> b \<longrightarrow> files s1 b = files s a) \<and> (\<forall>q. q \<noteq> a \<and> q \<noteq> b \<longrightarrow> files s1 q = files s q)"
  by (auto simp: os_Rename_def put_file_def split: prod.splits option.splits dest: file_fault_files)

lemmas other_files = os_Remove_other os_Truncate_other io_Copy_other

lemma downloadBinary_other:
  assumes "downloadBinary h url s = (r, s1)" "q \<noteq> temp_name h (files s)"
  shows "files s1 q = files s q"
  using assms
  by (auto simp: downloadBinary_def Let_def other_files split: option.splits prod.splits if_splits bool.splits
      dest: file_fault_files os_Truncate_other io_Copy_other)

lemma downloadBinary_whole:
  assumes "downloadBinary h url s = (Inr tmp, s1)"
  shows "tmp = temp_name h (files s) \<and> (\<exists>body. download h url = Some (200, body) \<and> files s1 tmp = Some body)"
  using assms
  by (auto simp: downloadBinary_def Let_def split: option.splits prod.splits if_splits bool.splits
      dest: file_fault_files io_Copy_whole)

lemma verifyBinary_files: "verifyBinary h p s = (ok, s1) \<Longrightarrow> files s1 = files s"
  by (auto simp: verifyBinary_def split: prod.splits option.splits dest: file_fault_files)

lemma verifyBinary_ran: "verifyBinary h p s = (True, s1) \<Longrightarrow> \<exists>c. files s p = Some c \<and> answers_version h c"
  by (auto simp: verifyBinary_def split: prod.splits option.splits dest: file_fault_files)

lemma replaceBinary_other:
  assumes "replaceBinary src dst s = (r, s1)" "q \<noteq> dst" "q \<noteq> dst @ ''.new''"
  shows "files s1 q = files s q"
proof -
  obtain f s0 where f: "file_fault s = (f, s0)" by fastforce
  show ?thesis
    using assms f
    by (auto simp: replaceBinary_def Let_def other_files split: option.splits prod.splits bool.splits
        dest: os_Truncate_other[where q = q] io_Copy_other[where q = q] os_Rename_fails os_Rename_moves dest!: file_fault_files)
qed

lemma replaceBinary_fails:
  assumes "replaceBinary src dst s = (Some e, s1)"
  shows "files s1 dst = files s dst"
proof -
  obtain f s0 where f: "file_fault s = (f, s0)" by fastforce
  show ?thesis
    using assms f
    by (auto simp: replaceBinary_def Let_def other_files split: option.splits prod.splits bool.splits
        dest: os_Truncate_other[where q = dst] io_Copy_other[where q = dst] os_Rename_fails dest!: file_fault_files)
qed

lemma replaceBinary_succeeds:
  assumes "replaceBinary src dst s = (None, s1)"
  shows "files s1 dst = files s src"
proof -
  obtain f s0 where f: "file_fault s = (f, s0)" by fastforce
  obtain c s2 s3 where c: "files s0 src = Some c" "io_Copy (dst @ ''.new'') c s2 = (True, s3)" "os_Rename (dst @ ''.new'') dst s3 = (True, s1)"
    using assms f by (auto simp: replaceBinary_def Let_def split: option.splits prod.splits bool.splits)
  show ?thesis using io_Copy_whole[OF c(2)] os_Rename_moves[OF c(3)] c(1) file_fault_files[OF f] by simp
qed

text \<open>What \<open>Update\<close> answers and leaves.\<close>

definition update_outcome :: "Host \<Rightarrow> string \<Rightarrow> Files \<Rightarrow> update_error + UpdateResult \<Rightarrow> Files \<Rightarrow> bool" where
  "update_outcome h self s r s' = ((case r of
        Inl e \<Rightarrow> files s' self = files s self
      | Inr result \<Rightarrow>
          if UpdateAvailable result
          then \<exists>body. download h (binaryURL h (LatestVersion result)) = Some (200, body) \<and> answers_version h body \<and> files s' self = Some body
          else s' = s) \<and>
    (\<forall>p. p \<notin> {self, self @ ''.new'', temp_name h (files s)} \<longrightarrow> files s' p = files s p))"

lemma Update_downloaded:
  assumes "Update h ver s = (r, s')" "own_path h = Some self" "self \<noteq> temp_name h (files s)" "self @ ''.new'' \<noteq> temp_name h (files s)"
    and "CheckLatest h ver = Inr result" "UpdateAvailable result" "downloadBinary h (binaryURL h (LatestVersion result)) s = (Inr tmp, s1)"
    "files s self \<noteq> None"
  shows "update_outcome h self s r s'"
proof -
  let ?tmp = "temp_name h (files s)"
  note keep1 = downloadBinary_other[OF assms(7)]
  obtain body where tmp: "tmp = ?tmp" and body: "download h (binaryURL h (LatestVersion result)) = Some (200, body)" "files s1 ?tmp = Some body"
    using downloadBinary_whole[OF assms(7)] by auto
  obtain ok s2 where v: "verifyBinary h tmp s1 = (ok, s2)" by fastforce
  have f2: "files s2 = files s1" by (rule verifyBinary_files[OF v])
  show ?thesis
  proof (cases ok)
    case False
    then have "r = Inl VerifyFailed" "s' = os_Remove ?tmp s2" using assms(1,5-7) v tmp by (auto simp: Update_def)
    then show ?thesis using keep1 assms(3) f2 by (auto simp: update_outcome_def os_Remove_other)
  next
    case True
    have ans: "answers_version h body" using verifyBinary_ran[of h tmp s1 s2] v True tmp body by auto
    obtain e s3 where e: "replaceBinary tmp self s2 = (e, s3)" by fastforce
    have s': "s' = os_Remove ?tmp s3" "r = (case e of None \<Rightarrow> Inr result | Some x \<Rightarrow> Inl x)"
      using assms(1,2,5-7) v tmp True e by (auto simp: Update_def split: option.splits)
    have rest: "\<forall>p. p \<notin> {self, self @ ''.new'', ?tmp} \<longrightarrow> files s' p = files s p"
      using keep1 replaceBinary_other[OF e] f2 s'(1) by (simp add: os_Remove_other)
    have own: "files s' self = files s3 self" using s'(1) assms(3) by (simp add: os_Remove_other)
    show ?thesis
    proof (cases e)
      case None
      then have "files s3 self = Some body" using replaceBinary_succeeds[of tmp self s2 s3] e tmp body f2 by simp
      then show ?thesis using rest own s'(2) None assms(6) body ans by (simp add: update_outcome_def)
    next
      case (Some x)
      then have "files s3 self = files s self" using replaceBinary_fails[of tmp self s2 x s3] e f2 keep1[of self] assms(3,4) by simp
      then show ?thesis using rest own s'(2) Some by (simp add: update_outcome_def)
    qed
  qed
qed

text \<open>
  C14. Whatever fails on the way, the installed program is afterwards either the one that was there
  or the downloaded one as a whole, and the latter exactly when \<open>Update\<close> reports an update; the
  downloaded program then answered to \<open>version\<close>.  No other file changes but the two temporary
  ones.
\<close>

theorem Update_replaces_whole_or_not:
  assumes "Update h ver s = (r, s')" "own_path h = Some self" "files s self \<noteq> None"
    "files s (temp_name h (files s)) = None" "temp_name h (files s) \<noteq> self @ ''.new''"
  shows "(case r of
        Inl e \<Rightarrow> files s' self = files s self
      | Inr result \<Rightarrow>
          if UpdateAvailable result
          then \<exists>body. download h (binaryURL h (LatestVersion result)) = Some (200, body) \<and> answers_version h body \<and> files s' self = Some body
          else s' = s) \<and>
    (\<forall>p. p \<notin> {self, self @ ''.new'', temp_name h (files s)} \<longrightarrow> files s' p = files s p)"
proof -
  have apart: "self \<noteq> temp_name h (files s)" "self @ ''.new'' \<noteq> temp_name h (files s)" using assms(3-5) by metis+
  have "update_outcome h self s r s'"
  proof (cases "\<exists>result. CheckLatest h ver = Inr result \<and> UpdateAvailable result")
    case True
    then obtain result where l: "CheckLatest h ver = Inr result" "UpdateAvailable result" by blast
    obtain d s1 where d: "downloadBinary h (binaryURL h (LatestVersion result)) s = (d, s1)" by fastforce
    show ?thesis
    proof (cases d)
      case (Inl e)
      then have "r = Inl e" "s' = s1" using assms(1) l d by (auto simp: Update_def)
      then show ?thesis using downloadBinary_other[OF d] apart by (auto simp: update_outcome_def)
    next
      case (Inr tmp)
      then show ?thesis using Update_downloaded[OF assms(1,2) apart l] d assms(3) by blast
    qed
  next
    case False
    then have "s' = s" "\<And>result. r = Inr result \<Longrightarrow> \<not> UpdateAvailable result"
      using assms(1) by (auto simp: Update_def split: sum.splits if_splits)
    then show ?thesis by (auto simp: update_outcome_def split: sum.splits)
  qed
  then show ?thesis unfolding update_outcome_def .
qed

definition sample_host :: Host where
  "sample_host = \<lparr>latest_release = Some (200, Some \<lparr>TagName = ''v2'', HTMLURL = ''u''\<rparr>), download = (\<lambda>_. Some (200, ''new'')),
     answers_version = (\<lambda>_. True), own_path = Some ''/bin/wgpilot'',
     temp_name = (\<lambda>m. if m ''/tmp/1'' = None then ''/tmp/1'' else ''/tmp/2''), goarch = ''arm''\<rparr>"


theorem Update_replaces_whole_or_not_witness:
  "\<exists>r s'. Update sample_host ''v1'' \<lparr>files = [''/bin/wgpilot'' \<mapsto> ''old''], file_faults = []\<rparr> = (Inr r, s') \<and>
     UpdateAvailable r \<and> files s' ''/bin/wgpilot'' = Some ''new''"
proof -
  let ?s = "\<lparr>files = [''/bin/wgpilot'' \<mapsto> ''old''], file_faults = []\<rparr>"
  obtain r s' where run: "Update sample_host ''v1'' ?s = (Inr r, s')" and av: "UpdateAvailable r"
    by (simp add: Update_def CheckLatest_def fetchLatestRelease_def normalizeVersion_def TrimPrefix_def HasPrefix_def sample_host_def
        downloadBinary_def verifyBinary_def replaceBinary_def os_Truncate_def io_Copy_def os_Rename_def put_file_def file_fault_def Let_def)
  show ?thesis
    using Update_replaces_whole_or_not[OF run, of "''/bin/wgpilot''"] av run by (auto simp: sample_host_def)
qed

end
