(* ===== verification/Device.thy ===== *)
theory Device
  imports WgManager Crypto
begin

text \<open>
  \<open>internal/wg/device.go\<close> and \<open>classify.go\<close>: the adapter between the configurations of the manager,
  whose keys and endpoints are texts, and those of wgctrl, whose keys are 32 bytes.  Parsing and
  printing keys (\<open>wgtypes\<close>) and resolving endpoints are the record \<open>Codec\<close>.

  The manager relies on \<open>apply_config\<close> as the effect of a configuration on an interface.  Here it is
  shown that the adapter provides it, over the effect that wgctrl documents for its own
  configurations: a field that is nil leaves the value as it is, the zero key clears it.
\<close>

section \<open>The types of wgctrl\<close>

record ('key, 'addr) Codec =
  parse_key :: "string \<Rightarrow> 'key option"
  key_text :: "'key \<Rightarrow> string"
  zero_key :: 'key
  resolve_addr :: "string \<Rightarrow> 'addr option"
  addr_text :: "'addr \<Rightarrow> string"

record ('key, 'addr) CtlPeerConfig =
  cp_Key :: 'key
  cp_Remove :: bool
  cp_UpdateOnly :: bool
  cp_Preshared :: "'key option"
  cp_Addr :: "'addr option"
  cp_Keepalive :: "int option"
  cp_Replace :: bool
  cp_Nets :: "IPNet list"

record ('key, 'addr) CtlConfig =
  cc_PrivateKey :: "'key option"
  cc_ListenPort :: "int option"
  cc_ReplacePeers :: bool
  cc_Peers :: "('key, 'addr) CtlPeerConfig list"

record ('key, 'addr) CtlPeer =
  kq_PublicKey :: 'key
  kq_PresharedKey :: 'key
  kq_Endpoint :: "'addr option"
  kq_AllowedIPs :: "IPNet list"
  kq_LastHandshake :: "int option"
  kq_ReceiveBytes :: int
  kq_TransmitBytes :: int

record ('key, 'addr) CtlDevice =
  kd_Name :: string
  kd_PublicKey :: 'key
  kd_ListenPort :: int
  kd_Peers :: "('key, 'addr) CtlPeer list"

section \<open>The conversions\<close>

datatype convert_error = BadPrivateKey | BadPublicKey | BadPresharedKey | BadEndpoint string

text \<open>A text that may be empty: nil, or what it stands for.\<close>

definition optional :: "(string \<Rightarrow> 'a option) \<Rightarrow> convert_error \<Rightarrow> string \<Rightarrow> convert_error + 'a option" where
  "optional f e s = (if s = [] then Inr None else (case f s of None \<Rightarrow> Inl e | Some x \<Rightarrow> Inr (Some x)))"

definition toWGPeerConfig :: "('key, 'addr) Codec \<Rightarrow> WGPeerConfig \<Rightarrow> convert_error + ('key, 'addr) CtlPeerConfig" where
  "toWGPeerConfig C p = (case parse_key C (pc_PublicKey p) of
      None \<Rightarrow> Inl BadPublicKey
    | Some pubKey \<Rightarrow> (case optional (parse_key C) BadPresharedKey (pc_PresharedKey p) of
          Inl e \<Rightarrow> Inl e
        | Inr psk \<Rightarrow> (case optional (resolve_addr C) (BadEndpoint (pc_Endpoint p)) (pc_Endpoint p) of
              Inl e \<Rightarrow> Inl e
            | Inr addr \<Rightarrow> Inr \<lparr>cp_Key = pubKey, cp_Remove = pc_Remove p, cp_UpdateOnly = pc_UpdateOnly p, cp_Preshared = psk,
                cp_Addr = addr,
                cp_Keepalive = (if pc_PersistentKeepaliveInterval p > 0 then Some (pc_PersistentKeepaliveInterval p) else None),
                cp_Replace = pc_ReplaceAllowedIPs p, cp_Nets = pc_AllowedIPs p\<rparr>)))"

fun convert_peers :: "('key, 'addr) Codec \<Rightarrow> WGPeerConfig list \<Rightarrow> convert_error + ('key, 'addr) CtlPeerConfig list" where
  "convert_peers C [] = Inr []"
| "convert_peers C (p # ps) = (case toWGPeerConfig C p of
      Inl e \<Rightarrow> Inl e
    | Inr q \<Rightarrow> (case convert_peers C ps of Inl e \<Rightarrow> Inl e | Inr qs \<Rightarrow> Inr (q # qs)))"

definition toWGConfig :: "('key, 'addr) Codec \<Rightarrow> DeviceConfig \<Rightarrow> convert_error + ('key, 'addr) CtlConfig" where
  "toWGConfig C cfg = (case optional (parse_key C) BadPrivateKey (dc_PrivateKey cfg) of
      Inl e \<Rightarrow> Inl e
    | Inr key \<Rightarrow> (case convert_peers C (dc_Peers cfg) of
          Inl e \<Rightarrow> Inl e
        | Inr peers \<Rightarrow> Inr \<lparr>cc_PrivateKey = key, cc_ListenPort = (if dc_ListenPort cfg > 0 then Some (dc_ListenPort cfg) else None),
            cc_ReplacePeers = dc_ReplacePeers cfg, cc_Peers = peers\<rparr>))"

definition fromWGPeer :: "('key, 'addr) Codec \<Rightarrow> ('key, 'addr) CtlPeer \<Rightarrow> WGPeerInfo" where
  "fromWGPeer C p = \<lparr>pi_PublicKey = key_text C (kq_PublicKey p),
     pi_PresharedKey = (if kq_PresharedKey p \<noteq> zero_key C then key_text C (kq_PresharedKey p) else []),
     pi_Endpoint = (case kq_Endpoint p of None \<Rightarrow> [] | Some a \<Rightarrow> addr_text C a),
     pi_AllowedIPs = kq_AllowedIPs p, pi_LastHandshake = kq_LastHandshake p,
     pi_ReceiveBytes = kq_ReceiveBytes p, pi_TransmitBytes = kq_TransmitBytes p\<rparr>"

definition fromWGDevice :: "('key, 'addr) Codec \<Rightarrow> ('key, 'addr) CtlDevice \<Rightarrow> DeviceInfo" where
  "fromWGDevice C dev = \<lparr>di_Name = kd_Name dev, di_PublicKey = key_text C (kd_PublicKey dev), di_ListenPort = kd_ListenPort dev,
     di_Peers = map (fromWGPeer C) (kd_Peers dev)\<rparr>"

text \<open>\<open>ConfigureDevice\<close>: nothing reaches wgctrl when a text does not parse.\<close>

definition client_ConfigureDevice :: "('key, 'addr) Codec \<Rightarrow> (string \<Rightarrow> ('key, 'addr) CtlConfig \<Rightarrow> 'k \<Rightarrow> string option \<times> 'k)
    \<Rightarrow> (convert_error \<Rightarrow> string) \<Rightarrow> string \<Rightarrow> DeviceConfig \<Rightarrow> 'k \<Rightarrow> string option \<times> 'k" where
  "client_ConfigureDevice C configure msg name cfg k = (case toWGConfig C cfg of
      Inl e \<Rightarrow> (Some (''convert config for '' @ name @ '': '' @ msg e), k) | Inr c \<Rightarrow> configure name c k)"

definition client_Device :: "('key, 'addr) Codec \<Rightarrow> (string \<Rightarrow> string + ('key, 'addr) CtlDevice) \<Rightarrow> string \<Rightarrow> string + DeviceInfo" where
  "client_Device C device name = (case device name of Inl e \<Rightarrow> Inl e | Inr dev \<Rightarrow> Inr (fromWGDevice C dev))"

definition client_Devices :: "('key, 'addr) Codec \<Rightarrow> string + ('key, 'addr) CtlDevice list \<Rightarrow> string + DeviceInfo list" where
  "client_Devices C devices = (case devices of Inl e \<Rightarrow> Inl e | Inr ds \<Rightarrow> Inr (map (fromWGDevice C) ds))"

text \<open>The hint for an error of the kernel; the code has a dash of three bytes in UTF-8 in each.\<close>

definition dash :: string where
  "dash = [CHR 0x20, CHR 0xE2, CHR 0x80, CHR 0x94, CHR 0x20]"

definition ClassifyNetlinkError :: "string option \<Rightarrow> string" where
  "ClassifyNetlinkError err = (case err of
      None \<Rightarrow> []
    | Some msg \<Rightarrow>
        if Contains_str msg ''operation not permitted'' then ''missing CAP_NET_ADMIN capability'' @ dash @ ''check systemd unit AmbientCapabilities''
        else if Contains_str msg ''file exists'' then
          ''interface already exists'' @ dash @ ''check for orphaned WG interfaces with '' @ [CHR 0x27] @ ''ip link show'' @ [CHR 0x27]
        else if Contains_str msg ''no such device'' then ''wireguard kernel module not loaded'' @ dash @ ''run '' @ [CHR 0x27] @ ''modprobe wireguard'' @ [CHR 0x27]
        else if Contains_str msg ''address already in use'' then
          ''listen port already bound'' @ dash @ ''check with '' @ [CHR 0x27] @ ''ss -ulnp | grep <port>'' @ [CHR 0x27]
        else if Contains_str msg ''no buffer space available'' then
          ''too many network interfaces'' @ dash @ ''check '' @ [CHR 0x27] @ ''ip link | wc -l'' @ [CHR 0x27]
        else if Contains_str msg ''invalid argument'' then ''invalid configuration'' @ dash @ ''check key format and allowed IPs syntax''
        else if Contains_str msg ''no such file or directory'' then
          ''wireguard kernel module not loaded'' @ dash @ ''run '' @ [CHR 0x27] @ ''modprobe wireguard'' @ [CHR 0x27] @ '' or check kernel version >= 5.6''
        else if Contains_str msg ''permission denied'' then ''permission denied'' @ dash @ ''ensure the process has CAP_NET_ADMIN''
        else if Contains_str msg ''device or resource busy'' then ''interface is busy'' @ dash @ ''another process may be using it''
        else ''unknown netlink error'' @ dash @ ''check '' @ [CHR 0x27] @ ''dmesg | tail -20'' @ [CHR 0x27] @ '' for kernel messages'')"

section \<open>What wgctrl documents\<close>

record ('key, 'addr) kpeer =
  kp_allowed :: "IPNet set"
  kp_psk :: 'key
  kp_endpoint :: "'addr option"
  kp_keepalive :: int

record ('key, 'addr) kdev =
  kv_up :: bool
  kv_addrs :: "string set"
  kv_key :: 'key
  kv_port :: int
  kv_peers :: "'key \<Rightarrow> ('key, 'addr) kpeer option"

definition given :: "'a \<Rightarrow> 'a option \<Rightarrow> 'a" where
  "given old new = (case new of None \<Rightarrow> old | Some x \<Rightarrow> x)"

definition ctl_set_peer :: "('key, 'addr) CtlPeerConfig \<Rightarrow> ('key, 'addr) kpeer \<Rightarrow> ('key, 'addr) kpeer" where
  "ctl_set_peer c p = \<lparr>
     kp_allowed = (if cp_Replace c then {} else kp_allowed p) \<union> set (cp_Nets c),
     kp_psk = given (kp_psk p) (cp_Preshared c),
     kp_endpoint = (case cp_Addr c of None \<Rightarrow> kp_endpoint p | Some a \<Rightarrow> Some a),
     kp_keepalive = given (kp_keepalive p) (cp_Keepalive c)\<rparr>"

definition ctl_peer :: "('key, 'addr) Codec \<Rightarrow> ('key, 'addr) CtlPeerConfig \<Rightarrow> ('key \<Rightarrow> ('key, 'addr) kpeer option)
    \<Rightarrow> 'key \<Rightarrow> ('key, 'addr) kpeer option" where
  "ctl_peer C c ps = (let key = cp_Key c in
     if cp_Remove c then ps(key := None)
     else if cp_UpdateOnly c \<and> ps key = None then ps
     else (\<lambda>q. if q = key
        then Some (ctl_set_peer c (case ps key of
          None \<Rightarrow> \<lparr>kp_allowed = {}, kp_psk = zero_key C, kp_endpoint = None, kp_keepalive = 0\<rparr> | Some p \<Rightarrow> p))
        else map_option (\<lambda>p. p\<lparr>kp_allowed := kp_allowed p - set (cp_Nets c)\<rparr>) (ps q)))"

definition ctl_config :: "('key, 'addr) Codec \<Rightarrow> ('key, 'addr) CtlConfig \<Rightarrow> ('key, 'addr) kdev \<Rightarrow> ('key, 'addr) kdev" where
  "ctl_config C c d = d\<lparr>kv_key := given (kv_key d) (cc_PrivateKey c), kv_port := given (kv_port d) (cc_ListenPort c),
     kv_peers := fold (ctl_peer C) (cc_Peers c) (if cc_ReplacePeers c then (\<lambda>_. None) else kv_peers d)\<rparr>"

section \<open>The view of the manager\<close>

text \<open>Keys as texts, the zero key as the empty text.\<close>

definition text_of :: "('key, 'addr) Codec \<Rightarrow> 'key \<Rightarrow> string" where
  "text_of C k = (if k = zero_key C then [] else key_text C k)"

definition abs_peer :: "('key, 'addr) Codec \<Rightarrow> ('key, 'addr) kpeer \<Rightarrow> vpeer" where
  "abs_peer C p = \<lparr>v_allowed = kp_allowed p, v_psk = text_of C (kp_psk p),
     v_endpoint = (case kp_endpoint p of None \<Rightarrow> [] | Some a \<Rightarrow> addr_text C a), v_keepalive = kp_keepalive p\<rparr>"

definition abs_peers :: "('key, 'addr) Codec \<Rightarrow> ('key \<Rightarrow> ('key, 'addr) kpeer option) \<Rightarrow> string \<Rightarrow> vpeer option" where
  "abs_peers C ps s = (case parse_key C s of
      None \<Rightarrow> None | Some k \<Rightarrow> if key_text C k = s then map_option (abs_peer C) (ps k) else None)"

definition abs_dev :: "('key, 'addr) Codec \<Rightarrow> ('key, 'addr) kdev \<Rightarrow> vdev" where
  "abs_dev C d = \<lparr>v_up = kv_up d, v_addrs = kv_addrs d, v_key = text_of C (kv_key d), v_port = kv_port d, v_peers = abs_peers C (kv_peers d)\<rparr>"

text \<open>The texts of a configuration are those that the codec prints.\<close>

definition canonical :: "('a \<Rightarrow> string) \<Rightarrow> (string \<Rightarrow> 'a option) \<Rightarrow> string \<Rightarrow> bool" where
  "canonical text parse s = (case parse s of None \<Rightarrow> True | Some x \<Rightarrow> text x = s)"

definition canonical_peer :: "('key, 'addr) Codec \<Rightarrow> WGPeerConfig \<Rightarrow> bool" where
  "canonical_peer C p = (canonical (key_text C) (parse_key C) (pc_PublicKey p) \<and>
     canonical (text_of C) (parse_key C) (pc_PresharedKey p) \<and> canonical (addr_text C) (resolve_addr C) (pc_Endpoint p))"

definition canonical_config :: "('key, 'addr) Codec \<Rightarrow> DeviceConfig \<Rightarrow> bool" where
  "canonical_config C cfg = (canonical (text_of C) (parse_key C) (dc_PrivateKey cfg) \<and> list_all (canonical_peer C) (dc_Peers cfg))"

lemma optional_Inr: "optional f e s = Inr x \<longleftrightarrow> (s = [] \<and> x = None \<or> s \<noteq> [] \<and> (\<exists>y. f s = Some y \<and> x = Some y))"
  by (auto simp: optional_def split: option.splits)

lemma toWGPeerConfig_ok:
  assumes "toWGPeerConfig C c = Inr q"
  shows "parse_key C (pc_PublicKey c) = Some (cp_Key q)" "cp_Remove q = pc_Remove c" "cp_UpdateOnly q = pc_UpdateOnly c"
    "cp_Replace q = pc_ReplaceAllowedIPs c" "cp_Nets q = pc_AllowedIPs c"
    "cp_Keepalive q = (if pc_PersistentKeepaliveInterval c > 0 then Some (pc_PersistentKeepaliveInterval c) else None)"
    "optional (parse_key C) BadPresharedKey (pc_PresharedKey c) = Inr (cp_Preshared q)"
    "optional (resolve_addr C) (BadEndpoint (pc_Endpoint c)) (pc_Endpoint c) = Inr (cp_Addr q)"
  using assms by (auto simp: toWGPeerConfig_def split: option.splits sum.splits)

lemma set_peer_refines:
  assumes "toWGPeerConfig C c = Inr q" "canonical_peer C c"
  shows "abs_peer C (ctl_set_peer q p) = set_vpeer c (abs_peer C p)"
proof -
  note q = toWGPeerConfig_ok[OF assms(1)]
  have psk: "text_of C (given (kp_psk p) (cp_Preshared q)) = (if pc_PresharedKey c \<noteq> [] then pc_PresharedKey c else text_of C (kp_psk p))"
    using q(7) assms(2) by (auto simp: optional_Inr given_def canonical_peer_def canonical_def)
  have ep: "(case (case cp_Addr q of None \<Rightarrow> kp_endpoint p | Some a \<Rightarrow> Some a) of None \<Rightarrow> [] | Some a \<Rightarrow> addr_text C a)
      = (if pc_Endpoint c \<noteq> [] then pc_Endpoint c else (case kp_endpoint p of None \<Rightarrow> [] | Some a \<Rightarrow> addr_text C a))"
    using q(8) assms(2) by (auto simp: optional_Inr canonical_peer_def canonical_def)
  have ka: "given (kp_keepalive p) (cp_Keepalive q)
      = (if pc_PersistentKeepaliveInterval c > 0 then pc_PersistentKeepaliveInterval c else kp_keepalive p)"
    using q(6) by (simp add: given_def)
  show ?thesis by (simp add: abs_peer_def ctl_set_peer_def set_vpeer_def psk ep ka q(4,5))
qed

lemma apply_peer_refines:
  assumes "toWGPeerConfig C c = Inr q" "canonical_peer C c"
  shows "abs_peers C (ctl_peer C q ps) = apply_peer c (abs_peers C ps)"
proof (rule ext)
  fix s
  note q = toWGPeerConfig_ok[OF assms(1)]
  let ?k = "cp_Key q"
  have key: "key_text C ?k = pc_PublicKey c" using q(1) assms(2) by (simp add: canonical_peer_def canonical_def)
  have own: "abs_peers C ps' (pc_PublicKey c) = map_option (abs_peer C) (ps' ?k)" for ps'
    using q(1) key by (simp add: abs_peers_def)
  show "abs_peers C (ctl_peer C q ps) s = apply_peer c (abs_peers C ps) s"
  proof (cases "s = pc_PublicKey c")
    case True
    have new: "abs_peer C \<lparr>kp_allowed = {}, kp_psk = zero_key C, kp_endpoint = None, kp_keepalive = 0\<rparr> = new_vpeer"
      by (simp add: abs_peer_def text_of_def new_vpeer_def)
    show ?thesis unfolding True own
      by (cases "ps ?k") (simp_all add: apply_peer_def ctl_peer_def Let_def own q(2,3) set_peer_refines[OF assms] new)
  next
    case False
    have other: "abs_peers C ps' s = (case parse_key C s of None \<Rightarrow> None | Some k \<Rightarrow> if key_text C k = s \<and> k \<noteq> ?k then map_option (abs_peer C) (ps' k) else None)" for ps'
      using False key by (auto simp: abs_peers_def split: option.splits)
    have nets: "abs_peer C (p\<lparr>kp_allowed := A\<rparr>) = (abs_peer C p)\<lparr>v_allowed := A\<rparr>" for p A by (simp add: abs_peer_def)
    have allowed: "v_allowed (abs_peer C p) = kp_allowed p" for p by (simp add: abs_peer_def)
    show ?thesis
      using False q(2,3,5) own[of ps]
      by (auto simp: other apply_peer_def ctl_peer_def Let_def nets allowed option.map_comp comp_def split: option.splits)
  qed
qed

lemma apply_peers_refines:
  assumes "convert_peers C cs = Inr qs" "list_all (canonical_peer C) cs"
  shows "abs_peers C (fold (ctl_peer C) qs ps) = fold apply_peer cs (abs_peers C ps)"
  using assms
proof (induction cs arbitrary: qs ps)
  case Nil
  then show ?case by simp
next
  case (Cons c cs)
  obtain q qs' where q: "toWGPeerConfig C c = Inr q" "convert_peers C cs = Inr qs'" "qs = q # qs'"
    using Cons.prems(1) by (auto split: sum.splits)
  have c: "canonical_peer C c" "list_all (canonical_peer C) cs" using Cons.prems(2) by simp_all
  have "abs_peers C (fold (ctl_peer C) qs ps) = fold apply_peer cs (abs_peers C (ctl_peer C q ps))"
    using Cons.IH[OF q(2) c(2), of "ctl_peer C q ps"] q(3) by simp
  then show ?case by (simp add: apply_peer_refines[OF q(1) c(1)])
qed

text \<open>
  C15. On the texts the codec prints, the configuration that the adapter hands to wgctrl has on the
  interface, seen with keys as texts, the effect that the manager relies on: peers, allowed
  addresses, removals and replacements carry over, and what is empty or not positive stays as it is.
\<close>

theorem ConfigureDevice_refines:
  assumes "toWGConfig C cfg = Inr c" "canonical_config C cfg"
  shows "abs_dev C (ctl_config C c d) = apply_config cfg (abs_dev C d)"
proof -
  obtain key qs where q: "optional (parse_key C) BadPrivateKey (dc_PrivateKey cfg) = Inr key" "convert_peers C (dc_Peers cfg) = Inr qs"
    "c = \<lparr>cc_PrivateKey = key, cc_ListenPort = (if dc_ListenPort cfg > 0 then Some (dc_ListenPort cfg) else None),
            cc_ReplacePeers = dc_ReplacePeers cfg, cc_Peers = qs\<rparr>"
    using assms(1) by (auto simp: toWGConfig_def split: sum.splits)
  have key: "text_of C (given (kv_key d) key) = (if dc_PrivateKey cfg \<noteq> [] then dc_PrivateKey cfg else text_of C (kv_key d))"
    using q(1) assms(2) by (auto simp: optional_Inr given_def canonical_config_def canonical_def)
  have none: "abs_peers C (\<lambda>_. None) = (\<lambda>_. None)" by (auto simp: abs_peers_def fun_eq_iff split: option.splits)
  have "abs_peers C (fold (ctl_peer C) qs (if dc_ReplacePeers cfg then (\<lambda>_. None) else kv_peers d))
      = fold apply_peer (dc_Peers cfg) (if dc_ReplacePeers cfg then (\<lambda>_. None) else abs_peers C (kv_peers d))"
    using apply_peers_refines[OF q(2)] assms(2) none by (simp add: canonical_config_def)
  then show ?thesis using key q(3) by (simp add: abs_dev_def ctl_config_def apply_config_def given_def)
qed

section \<open>Queries\<close>

text \<open>A codec whose parser reads back what it prints, on the keys that occur.\<close>

locale key_codec =
  fixes C :: "('key, 'addr) Codec" and occurs :: "'key \<Rightarrow> bool"
  assumes parse_text: "occurs k \<Longrightarrow> parse_key C (key_text C k) = Some k"
begin

lemma text_inj: "\<lbrakk>occurs k; occurs l; key_text C k = key_text C l\<rbrakk> \<Longrightarrow> k = l"
  using parse_text by (metis option.inject)

lemma abs_peers_text: "occurs k \<Longrightarrow> abs_peers C ps (key_text C k) = map_option (abs_peer C) (ps k)"
  by (simp add: abs_peers_def parse_text)

text \<open>A device that wgctrl describes, turned into the manager's, is what the manager's kernel reports.\<close>

lemma fromWGDevice_reports:
  assumes "kd_Name dev = name" "distinct (map kq_PublicKey (kd_Peers dev))" "\<forall>p\<in>set (kd_Peers dev). occurs (kq_PublicKey p)"
    "\<forall>k. kv_peers d k \<noteq> None \<longleftrightarrow> k \<in> kq_PublicKey ` set (kd_Peers dev)"
    "\<forall>p\<in>set (kd_Peers dev). distinct (kq_AllowedIPs p) \<and> (\<exists>q. kv_peers d (kq_PublicKey p) = Some q \<and> set (kq_AllowedIPs p) = kp_allowed q)"
  shows "reports (fromWGDevice C dev) name (abs_dev C d)"
proof -
  have inj: "inj_on (key_text C) (set (map kq_PublicKey (kd_Peers dev)))" using text_inj assms(3) by (auto simp: inj_on_def)
  have names: "map pi_PublicKey (di_Peers (fromWGDevice C dev)) = map (key_text C) (map kq_PublicKey (kd_Peers dev))"
    by (simp add: fromWGDevice_def fromWGPeer_def)
  have dist: "distinct (map pi_PublicKey (di_Peers (fromWGDevice C dev)))"
    unfolding names using assms(2) inj by (simp add: distinct_map comp_inj_on)
  have keys: "(\<exists>p\<in>set (di_Peers (fromWGDevice C dev)). pi_PublicKey p = s) \<longleftrightarrow> v_peers (abs_dev C d) s \<noteq> None" for s
  proof
    assume "\<exists>p\<in>set (di_Peers (fromWGDevice C dev)). pi_PublicKey p = s"
    then obtain p where p: "p \<in> set (kd_Peers dev)" "s = key_text C (kq_PublicKey p)" by (auto simp: fromWGDevice_def fromWGPeer_def)
    then show "v_peers (abs_dev C d) s \<noteq> None" using assms(3,5) by (auto simp: abs_dev_def abs_peers_text)
  next
    assume "v_peers (abs_dev C d) s \<noteq> None"
    then obtain k where k: "key_text C k = s" "kv_peers d k \<noteq> None" by (auto simp: abs_dev_def abs_peers_def split: option.splits if_splits)
    then obtain p where "p \<in> set (kd_Peers dev)" "k = kq_PublicKey p" using assms(4) by auto
    then show "\<exists>p\<in>set (di_Peers (fromWGDevice C dev)). pi_PublicKey p = s" using k(1) by (auto simp: fromWGDevice_def fromWGPeer_def)
  qed
  have nets: "distinct (pi_AllowedIPs p) \<and> (\<forall>vp. v_peers (abs_dev C d) (pi_PublicKey p) = Some vp \<longrightarrow> set (pi_AllowedIPs p) = v_allowed vp)"
    if "p \<in> set (di_Peers (fromWGDevice C dev))" for p
  proof -
    obtain q where q: "q \<in> set (kd_Peers dev)" "p = fromWGPeer C q" using \<open>p \<in> _\<close> by (auto simp: fromWGDevice_def)
    obtain kp where kp: "kv_peers d (kq_PublicKey q) = Some kp" "set (kq_AllowedIPs q) = kp_allowed kp" using assms(5) q(1) by blast
    have "v_peers (abs_dev C d) (pi_PublicKey p) = Some (abs_peer C kp)"
      using q assms(3) kp(1) by (simp add: abs_dev_def fromWGPeer_def abs_peers_text)
    then show ?thesis using q assms(5) kp(2) by (simp add: fromWGPeer_def abs_peer_def)
  qed
  show ?thesis unfolding reports_def using assms(1) dist keys nets by (simp add: fromWGDevice_def)
qed

end

text \<open>Keys as 32 bytes in base64; addresses stand for themselves.\<close>

definition b64_codec :: "(byte list, string) Codec" where
  "b64_codec = \<lparr>parse_key = (\<lambda>s. case DecodeString s of None \<Rightarrow> None | Some k \<Rightarrow> if length k = 32 then Some k else None),
     key_text = EncodeToString, zero_key = replicate 32 0, resolve_addr = Some, addr_text = id\<rparr>"

interpretation b64: key_codec b64_codec "\<lambda>k. length k = 32"
  by unfold_locales (simp add: b64_codec_def DecodeString_EncodeToString)

theorem ConfigureDevice_refines_witness:
  "\<exists>cfg c. toWGConfig b64_codec cfg = Inr c \<and> dc_Peers cfg \<noteq> [] \<and>
     (\<forall>d. abs_dev b64_codec (ctl_config b64_codec c d) = apply_config cfg (abs_dev b64_codec d))"
proof -
  let ?k = "EncodeToString (replicate 32 1)"
  let ?p = "\<lparr>pc_PublicKey = ?k, pc_Remove = False, pc_UpdateOnly = False, pc_PresharedKey = [], pc_Endpoint = ''h:1'',
    pc_PersistentKeepaliveInterval = 25, pc_ReplaceAllowedIPs = True, pc_AllowedIPs = []\<rparr>"
  let ?cfg = "\<lparr>dc_PrivateKey = ?k, dc_ListenPort = 51820, dc_ReplacePeers = False, dc_Peers = [?p]\<rparr>"
  have parse: "parse_key b64_codec ?k = Some (replicate 32 1)" using b64.parse_text[of "replicate 32 1"] by (simp add: b64_codec_def)
  have texts: "key_text b64_codec (replicate 32 1) = ?k" "zero_key b64_codec \<noteq> replicate 32 1" "resolve_addr b64_codec s = Some s"
    "addr_text b64_codec s = s" "parse_key b64_codec [] = None" for s
    by (simp_all add: b64_codec_def DecodeString_def)
  have ne: "?k \<noteq> []" by simp
  obtain c where c: "toWGConfig b64_codec ?cfg = Inr c"
    using ne by (simp add: toWGConfig_def toWGPeerConfig_def optional_def parse texts)
  have can: "canonical_config b64_codec ?cfg"
    using texts(2)[symmetric] by (auto simp: canonical_config_def canonical_peer_def canonical_def text_of_def parse texts)
  have "\<forall>d. abs_dev b64_codec (ctl_config b64_codec c d) = apply_config ?cfg (abs_dev b64_codec d)"
    using ConfigureDevice_refines[OF c can] by blast
  moreover have "dc_Peers ?cfg \<noteq> []" by simp
  ultimately show ?thesis using c by blast
qed

end
