(* ===== verification/NftDump.thy ===== *)
theory NftDump
  imports NftManager GoMisc
begin

text \<open>
  The text of \<open>DumpRules\<close>: \<open>formatRuleset\<close> of \<open>internal/nft/rules.go\<close>.  The rules are a map, so the
  text must not depend on the order in which the map is ranged over.
\<close>

definition dump_line :: "string list \<Rightarrow> string" where
  "dump_line parts = concat parts @ [CHR 0x0A]"

definition input_line :: "Rule \<Rightarrow> string list" where
  "input_line r = (if Kind r = RuleUDPInput then [''    udp dport '' @ itoa_int (Port r) @ '' accept  # WireGuard''] else [])"

definition nat_line :: "Rule \<Rightarrow> string list" where
  "nat_line r = (if Kind r = RuleNATMasquerade
     then [''    iifname '' @ quote (Iface r) @ '' oifname != '' @ quote (Iface r) @ '' masquerade  # NAT for '' @ rule_Subnet r] else [])"

definition forward_line :: "forwardEntry \<Rightarrow> string" where
  "forward_line e = ''    iifname '' @ quote (ifaceIn e) @ '' oifname '' @ quote (ifaceOut e) @ '' accept  # '' @ comment e"

definition chain_text :: "string \<Rightarrow> string \<Rightarrow> string list \<Rightarrow> string" where
  "chain_text name hook ls = (if ls = [] then [] else
     dump_line [''  chain '', name, '' {''] @ dump_line [''    type '', hook, '';''] @ concat (map (\<lambda>l. dump_line [l]) ls) @ dump_line [''  }''])"

text \<open>
  The keys are sorted, so are the forward entries, by their interfaces.  \<open>sort.Slice\<close> is not stable;
  this does not matter where no two entries have the same interfaces.
\<close>

definition formatRuleset :: "(string \<times> Rule) list \<Rightarrow> string" where
  "formatRuleset rs = (if rs = [] then ''table ip wgpilot {'' @ [CHR 0x0A] @ ''}'' else
     (let rules = map (\<lambda>k. the (map_of rs k)) (sort (map fst rs));
          fwdEntries = sort_key ifaceIn (sort_key ifaceOut (concat (map expandForwardEntries rules)))
      in dump_line [''table ip wgpilot {''] @
         chain_text ''input'' ''filter hook input priority 0'' (concat (map input_line rules)) @
         chain_text ''postrouting'' ''nat hook postrouting priority 100'' (concat (map nat_line rules)) @
         chain_text ''forward'' ''filter hook forward priority 0'' (map forward_line fwdEntries) @ ''}''))"

definition DumpRules :: "Manager \<Rightarrow> string" where
  "DumpRules m = formatRuleset (rules m)"

text \<open>The same map in another order has the same text.\<close>

theorem formatRuleset_order:
  assumes "mset rs = mset rs'" "distinct (map fst rs)"
  shows "formatRuleset rs = formatRuleset rs'"
proof -
  have keys: "mset (map fst rs) = mset (map fst rs')" using assms(1) by (metis mset_map)
  then have d: "distinct (map fst rs')" using assms(2) by (metis mset_eq_imp_distinct_iff)
  have "map_of rs = map_of rs'"
    by (rule map_of_inject_set[THEN iffD2, OF assms(2) d]) (use assms(1) in \<open>metis set_mset_mset\<close>)
  moreover have "sort (map fst rs) = sort (map fst rs')" using keys properties_for_sort by (metis mset_sort sorted_sort)
  moreover have "rs = [] \<longleftrightarrow> rs' = []" using assms(1) by (metis mset_zero_iff)
  ultimately show ?thesis by (simp add: formatRuleset_def)
qed

end
