(* ===== verification/Diagnose.thy ===== *)
theory Diagnose
  imports Database GoMisc
begin

text \<open>
  \<open>internal/debug/diagnose.go\<close>: the checks of \<open>wgpilot diagnose\<close> and the text report; and the
  message that \<open>internal/notify\<close> sends.  What the checks read is the record \<open>System\<close>: the files of
  \<open>/proc\<close>, what \<open>os.Stat\<close> says of a path (whether it is a directory), where a file can be written,
  and the counts of the tables of the database that could be queried.
\<close>

section \<open>Reading numbers\<close>

lemma trim_front_length: "length (trim_front rs s) \<le> length s"
proof (induction rs s rule: trim_front.induct)
  case (1 rs s)
  show ?case
  proof (cases "front_rune rs s")
    case None
    then show ?thesis by (simp add: trim_front.simps)
  next
    case (Some r)
    then have "length (trim_front rs (drop (length r) s)) \<le> length s" using 1 by fastforce
    then show ?thesis using Some by (simp add: trim_front.simps[of rs s])
  qed
qed

text \<open>\<open>strings.Fields\<close>.\<close>

function Fields :: "string \<Rightarrow> string list" where
  "Fields s = (let t = trim_front space_runes s in
     if t = [] then [] else (let n = length (takeWhile (\<lambda>k. front_rune space_runes (drop k t) = None) [0..<length t]) in
       if n = 0 then [] else take n t # Fields (drop n t)))"
  by auto
termination
proof (relation "measure length", simp)
  fix s t n assume h: "t = trim_front space_runes s" "t \<noteq> []"
    "n = length (takeWhile (\<lambda>k. front_rune space_runes (drop k t) = None) [0..<length t])" "n \<noteq> 0"
  have "length t \<le> length s" unfolding h(1) by (rule trim_front_length)
  then show "(drop n t, s) \<in> measure length" using h(2,4) by (cases t) auto
qed

declare Fields.simps [simp del]

definition hex_val :: "char \<Rightarrow> nat option" where
  "hex_val c = (if is_digit c then Some (ord c - 48)
     else if 97 \<le> ord c \<and> ord c \<le> 102 then Some (ord c - 87)
     else if 65 \<le> ord c \<and> ord c \<le> 70 then Some (ord c - 55) else None)"

text \<open>
  \<open>fmt.Sscanf(s, "%x", &v)\<close> into 64 bits and \<open>fmt.Sscanf(s, "%d", &v)\<close>, for strings that do not
  start with a space: the variable keeps its zero when there is no number or it is out of range.
\<close>

definition Sscanf_hex :: "string \<Rightarrow> 64 word" where
  "Sscanf_hex s = (let v = foldl (\<lambda>v c. 16 * v + (case hex_val c of None \<Rightarrow> 0 | Some d \<Rightarrow> d)) 0 (takeWhile (\<lambda>c. hex_val c \<noteq> None) s) in
     if v < 2 ^ 64 then of_nat v else 0)"

definition Sscanf_int :: "string \<Rightarrow> int" where
  "Sscanf_int s = (let sign = (if s \<noteq> [] \<and> (hd s = CHR ''+'' \<or> hd s = CHR ''-'') then [hd s] else []);
     digits = takeWhile is_digit (drop (length sign) s) in
     case Atoi (sign @ digits) of None \<Rightarrow> 0 | Some v \<Rightarrow> v)"

section \<open>The checks\<close>

datatype CheckStatus = StatusPass | StatusWarn | StatusFail

record CheckResult =
  ch_Status :: CheckStatus
  ch_Message :: string

record System =
  sy_read :: "string \<Rightarrow> string option"
  sy_stat :: "string \<Rightarrow> bool option"
  sy_writable :: "string \<Rightarrow> bool"
  sy_opens :: "string \<Rightarrow> bool"
  sy_count :: "string \<Rightarrow> nat option"

definition mk :: "CheckStatus \<Rightarrow> string \<Rightarrow> CheckResult" where
  "mk st msg = \<lparr>ch_Status = st, ch_Message = msg\<rparr>"

definition DetectKernelVersion :: "System \<Rightarrow> string" where
  "DetectKernelVersion Y = (case sy_read Y ''/proc/version'' of
      None \<Rightarrow> ''unknown''
    | Some s \<Rightarrow> (case Fields s of _ # _ # v # _ \<Rightarrow> v | _ \<Rightarrow> ''unknown''))"

text \<open>The first two of the parts between points, as \<open>strings.SplitN(kver, ".", 3)\<close> has them.\<close>

definition builtin_kernel :: "string \<Rightarrow> bool" where
  "builtin_kernel kver = (case Split CHR ''.'' kver of
      a # b # _ \<Rightarrow> Sscanf_int a > 5 \<or> Sscanf_int a = 5 \<and> Sscanf_int b \<ge> 6
    | _ \<Rightarrow> False)"

definition checkWireGuardModule :: "System \<Rightarrow> CheckResult" where
  "checkWireGuardModule Y = (let kver = DetectKernelVersion Y in
     case sy_read Y ''/proc/modules'' of
       None \<Rightarrow> if kver \<noteq> ''unknown'' then mk StatusWarn (''Cannot read /proc/modules, kernel: '' @ kver)
         else mk StatusWarn ''Cannot determine WireGuard module status''
     | Some content \<Rightarrow>
         if Contains_str content ''wireguard'' then mk StatusPass ''WireGuard kernel module loaded''
         else if builtin_kernel kver then mk StatusPass (''WireGuard built into kernel '' @ kver)
         else mk StatusFail ''WireGuard kernel module not loaded'')"

definition checkIPForwardV4 :: "System \<Rightarrow> CheckResult" where
  "checkIPForwardV4 Y = (case sy_read Y ''/proc/sys/net/ipv4/ip_forward'' of
      None \<Rightarrow> mk StatusWarn ''Cannot read IPv4 forwarding status''
    | Some s \<Rightarrow> if TrimSpace s = ''1'' then mk StatusPass ''IP forwarding enabled (v4)'' else mk StatusFail ''IP forwarding disabled (v4)'')"

definition checkIPForwardV6 :: "System \<Rightarrow> CheckResult" where
  "checkIPForwardV6 Y = (case sy_read Y ''/proc/sys/net/ipv6/conf/all/forwarding'' of
      None \<Rightarrow> mk StatusWarn ''Cannot read IPv6 forwarding status''
    | Some s \<Rightarrow> if TrimSpace s = ''1'' then mk StatusPass ''IP forwarding enabled (v6)'' else mk StatusWarn ''IP forwarding disabled (v6)'')"

definition checkNFTables :: "System \<Rightarrow> CheckResult" where
  "checkNFTables Y = (case sy_read Y ''/proc/modules'' of
      None \<Rightarrow> mk StatusWarn ''Cannot determine nftables status''
    | Some s \<Rightarrow> if Contains_str s ''nf_tables'' then mk StatusPass ''nftables available'' else mk StatusWarn ''nftables module not detected'')"

definition capability_results :: "64 word \<Rightarrow> CheckResult list" where
  "capability_results caps =
     [if bit caps 12 then mk StatusPass ''CAP_NET_ADMIN capability'' else mk StatusFail ''CAP_NET_ADMIN capability missing'',
      if bit caps 10 then mk StatusPass ''CAP_NET_BIND_SERVICE capability'' else mk StatusWarn ''CAP_NET_BIND_SERVICE capability missing'']"

definition checkCapabilities :: "System \<Rightarrow> CheckResult list" where
  "checkCapabilities Y = (case sy_read Y ''/proc/self/status'' of
      None \<Rightarrow> [mk StatusWarn ''Cannot read process capabilities'']
    | Some content \<Rightarrow> (case find (\<lambda>line. HasPrefix line ''CapEff:'') (Split (CHR 0x0A) content) of
          None \<Rightarrow> [mk StatusWarn ''Cannot parse process capabilities'']
        | Some line \<Rightarrow> capability_results (Sscanf_hex (TrimSpace (drop (length ''CapEff:'') line)))))"

definition checkDataDir :: "System \<Rightarrow> string \<Rightarrow> CheckResult" where
  "checkDataDir Y dir =
     (if dir = [] then mk StatusWarn ''Data directory not configured''
      else (case sy_stat Y dir of
          None \<Rightarrow> mk StatusFail (''Data directory '' @ dir @ '' does not exist'')
        | Some isdir \<Rightarrow>
            if \<not> isdir then mk StatusFail (dir @ '' is not a directory'')
            else if \<not> sy_writable Y (dir @ ''/.wgpilot_diag_test'') then mk StatusFail (''Data directory '' @ dir @ '' is not writable'')
            else mk StatusPass (''Data directory '' @ dir @ '' exists and writable'')))"

definition checkDBFile :: "System \<Rightarrow> string \<Rightarrow> CheckResult" where
  "checkDBFile Y path =
     (if path = [] then mk StatusWarn ''Database path not configured''
      else if sy_stat Y path = None then mk StatusFail (''Database '' @ path @ '' not accessible'')
      else mk StatusPass (''Database '' @ path @ '' accessible''))"

definition runChecks :: "System \<Rightarrow> string \<Rightarrow> string \<Rightarrow> CheckResult list" where
  "runChecks Y dataDir dbPath =
     [checkWireGuardModule Y, checkIPForwardV4 Y, checkIPForwardV6 Y, checkNFTables Y] @ checkCapabilities Y @
     [checkDataDir Y dataDir, checkDBFile Y dbPath]"

record DBStats =
  st_Path :: string
  st_Accessible :: bool
  st_SchemaVersion :: nat
  st_Tables :: "(string \<times> nat) list"

definition checkDatabase :: "System \<Rightarrow> string \<Rightarrow> DBStats" where
  "checkDatabase Y path =
     (if path = [] \<or> \<not> sy_opens Y path then \<lparr>st_Path = path, st_Accessible = False, st_SchemaVersion = 0, st_Tables = []\<rparr>
      else \<lparr>st_Path = path, st_Accessible = True,
        st_SchemaVersion = (case sy_count Y ''_migrations'' of None \<Rightarrow> 0 | Some n \<Rightarrow> n),
        st_Tables = concat (map (\<lambda>t. case sy_count Y t of None \<Rightarrow> [] | Some n \<Rightarrow> [(t, n)])
          [''networks'', ''peers'', ''peer_snapshots'', ''settings'', ''users'', ''audit_log'', ''alerts''])\<rparr>)"

section \<open>The report\<close>

text \<open>The order of the tables is that of a range over a map, an argument.\<close>

definition status_text :: "CheckStatus \<Rightarrow> string" where
  "status_text st = (case st of StatusPass \<Rightarrow> ''PASS'' | StatusWarn \<Rightarrow> ''WARN'' | StatusFail \<Rightarrow> ''FAIL'')"

definition report_line :: "string \<Rightarrow> string" where
  "report_line s = s @ [CHR 0x0A]"

definition pad16 :: "string \<Rightarrow> string" where
  "pad16 s = s @ replicate (16 - length s) CHR 0x20"

definition check_line :: "CheckResult \<Rightarrow> string" where
  "check_line c = report_line (''['' @ status_text (ch_Status c) @ ''] '' @ ch_Message c)"

definition stats_text :: "((string \<times> nat) list \<Rightarrow> (string \<times> nat) list) \<Rightarrow> DBStats \<Rightarrow> string" where
  "stats_text order st = (if \<not> st_Accessible st then [] else
     report_line ''Database stats:'' @ report_line (''  Path:            '' @ st_Path st) @
     report_line (''  Schema version:  '' @ itoa (st_SchemaVersion st)) @
     concat (map (\<lambda>(t, n). report_line (''  '' @ pad16 (t @ '':'') @ '' '' @ itoa n @ '' rows'')) (order (st_Tables st))))"

record InterfaceInfo =
  if_Name :: string
  if_State :: string
  if_Address :: string
  if_ListenPort :: int
  if_PeerCount :: int
  if_PeersOnline :: int
  if_TransferRx :: int
  if_TransferTx :: int

record DiagnoseResult =
  dr_Version :: string
  dr_GoVersion :: string
  dr_OS :: string
  dr_Arch :: string
  dr_Kernel :: string
  dr_Checks :: "CheckResult list"
  dr_Interfaces :: "InterfaceInfo list"
  dr_DBStats :: DBStats

definition iface_text :: "InterfaceInfo \<Rightarrow> string" where
  "iface_text i = report_line (''Interface '' @ if_Name i @ '':'') @ report_line (''  State:       '' @ if_State i) @
     (if if_Address i \<noteq> [] then report_line (''  Address:     '' @ if_Address i) else []) @
     report_line (''  Listen port: '' @ itoa_int (if_ListenPort i)) @
     report_line (''  Peers:       '' @ itoa_int (if_PeerCount i) @ '' configured, '' @ itoa_int (if_PeersOnline i) @ '' online'') @ report_line []"

definition writeTextReport :: "((string \<times> nat) list \<Rightarrow> (string \<times> nat) list) \<Rightarrow> DiagnoseResult \<Rightarrow> string" where
  "writeTextReport order r =
     report_line [] @ report_line ''wgpilot diagnostic report'' @ report_line ''========================'' @
     report_line (''Version:     '' @ dr_Version r) @ report_line (''Go:          '' @ dr_GoVersion r) @
     report_line (''OS:          '' @ dr_OS r @ ''/'' @ dr_Arch r) @ report_line (''Kernel:      '' @ dr_Kernel r) @ report_line [] @
     concat (map check_line (dr_Checks r)) @ report_line [] @ concat (map iface_text (dr_Interfaces r)) @ stats_text order (dr_DBStats r)"

text \<open>The runtime's version, system and architecture are arguments; the JSON form is not modelled.\<close>

definition diagnose :: "System \<Rightarrow> string \<times> string \<times> string \<Rightarrow> string \<Rightarrow> string \<Rightarrow> string \<Rightarrow> DiagnoseResult" where
  "diagnose Y rt version dataDir dbPath = (case rt of (go, os, arch) \<Rightarrow>
     \<lparr>dr_Version = version, dr_GoVersion = go, dr_OS = os, dr_Arch = arch, dr_Kernel = DetectKernelVersion Y,
      dr_Checks = runChecks Y dataDir dbPath, dr_Interfaces = [], dr_DBStats = checkDatabase Y dbPath\<rparr>)"

definition Run :: "((string \<times> nat) list \<Rightarrow> (string \<times> nat) list) \<Rightarrow> System \<Rightarrow> string \<times> string \<times> string
    \<Rightarrow> string \<Rightarrow> string \<Rightarrow> string \<Rightarrow> string" where
  "Run order Y rt version dataDir dbPath = writeTextReport order (diagnose Y rt version dataDir dbPath)"

lemma runChecks_length: "length (runChecks Y dir path) \<in> {7, 8}"
  by (auto simp: runChecks_def checkCapabilities_def capability_results_def split: option.splits)

lemma admin_capability:
  "\<lbrakk>sy_read Y ''/proc/self/status'' = Some content; find (\<lambda>line. HasPrefix line ''CapEff:'') (Split (CHR 0x0A) content) = Some (''CapEff:'' @ hexa);
    TrimSpace hexa = s\<rbrakk>
   \<Longrightarrow> mk StatusFail ''CAP_NET_ADMIN capability missing'' \<in> set (checkCapabilities Y) \<longleftrightarrow> \<not> bit (Sscanf_hex s) 12"
  by (simp add: checkCapabilities_def capability_results_def mk_def)

section \<open>Notifications\<close>

record SMTPConfig =
  sm_Host :: string
  sm_Port :: string
  sm_Username :: string
  sm_Password :: string
  sm_From :: string
  sm_TLS :: bool

definition NewSMTPNotifier :: "SMTPConfig \<Rightarrow> SMTPConfig option" where
  "NewSMTPNotifier cfg =
     (if sm_Host cfg = [] then None
      else let c = (if sm_Port cfg = [] then cfg\<lparr>sm_Port := ''587''\<rparr> else cfg) in
        if sm_From c = [] then None else Some c)"

definition crlf :: string where
  "crlf = [CHR 0x0D, CHR 0x0A]"

definition buildMessage :: "string \<Rightarrow> string list \<Rightarrow> string \<Rightarrow> string \<Rightarrow> string" where
  "buildMessage frm to subject body =
     ''From: '' @ frm @ crlf @ ''To: '' @ Join '', '' to @ crlf @ ''Subject: '' @ subject @ crlf @ ''MIME-Version: 1.0'' @ crlf @
     ''Content-Type: text/html; charset='' @ [CHR 0x22] @ ''UTF-8'' @ [CHR 0x22] @ crlf @ crlf @ body"

text \<open>
  \<open>Send\<close>: \<open>smtp.SendMail\<close> is the argument \<open>send\<close>, of the address, the credentials, the sender, the
  recipients and the message.  The field \<open>TLS\<close> is never read.
\<close>

definition Send :: "(string \<Rightarrow> (string \<times> string \<times> string) option \<Rightarrow> string \<Rightarrow> string list \<Rightarrow> string \<Rightarrow> string option)
    \<Rightarrow> SMTPConfig \<Rightarrow> string list \<Rightarrow> string \<Rightarrow> string \<Rightarrow> string option" where
  "Send send cfg to subject body =
     (if to = [] then Some ''smtp: no recipients specified''
      else (case send (sm_Host cfg @ '':'' @ sm_Port cfg)
          (if sm_Username cfg \<noteq> [] then Some (sm_Username cfg, sm_Password cfg, sm_Host cfg) else None)
          (sm_From cfg) to (buildMessage (sm_From cfg) to subject body) of
        Some e \<Rightarrow> Some (''smtp: send mail: '' @ e) | None \<Rightarrow> None))"

definition PeerOfflineAlert :: "string \<Rightarrow> string \<Rightarrow> string \<Rightarrow> string" where
  "PeerOfflineAlert peerName networkName offlineSince =
     ''<html><body>'' @ ''<h2>Peer Offline Alert</h2>'' @
     ''<p>Peer <strong>'' @ peerName @ ''</strong> on network <strong>'' @ networkName @ ''</strong> has been offline since '' @ offlineSince @ ''.</p>'' @
     ''<p>This is an automated notification from wgpilot.</p>'' @ ''</body></html>''"

end
