(* ===== verification/RequestLog.thy ===== *)
theory RequestLog
  imports LogRing GoStrings
begin

text \<open>
  What the server logs of a request and of a query: \<open>internal/middleware/request_logger.go\<close>,
  \<open>internal/logging/context.go\<close>, and the wrappers of \<open>internal/db/db.go\<close> around the calls of the
  driver, which hand the result on and log it.  A record is what is given to \<open>slog\<close>.
\<close>

datatype log_value = StringV string | IntV int | ErrorV "string option"

record log_record =
  lr_Level :: int
  lr_Message :: string
  lr_Attrs :: "(string \<times> log_value) list"

definition LevelDebug :: int where "LevelDebug = -4"
definition LevelInfo :: int where "LevelInfo = 0"

text \<open>\<open>Duration.Milliseconds\<close>, which rounds towards zero.\<close>

definition Milliseconds :: "int \<Rightarrow> int" where
  "Milliseconds d = (if d < 0 then - ((- d) div 1000000) else d div 1000000)"

section \<open>Identifiers in the context\<close>

record log_context =
  cx_request_id :: "string option"
  cx_task_id :: "string option"

definition WithRequestID :: "string \<Rightarrow> log_context \<Rightarrow> log_context" where
  "WithRequestID rid ctx = ctx\<lparr>cx_request_id := Some rid\<rparr>"

definition RequestID :: "log_context \<Rightarrow> string" where
  "RequestID ctx = (case cx_request_id ctx of None \<Rightarrow> [] | Some rid \<Rightarrow> rid)"

definition WithTaskID :: "string \<Rightarrow> log_context \<Rightarrow> log_context" where
  "WithTaskID tid ctx = ctx\<lparr>cx_task_id := Some tid\<rparr>"

definition TaskID :: "log_context \<Rightarrow> string" where
  "TaskID ctx = (case cx_task_id ctx of None \<Rightarrow> [] | Some tid \<Rightarrow> tid)"

definition GenerateTaskID :: "int \<Rightarrow> string \<Rightarrow> string" where
  "GenerateTaskID now name = ''task_'' @ name @ ''_'' @ itoa_int now"

definition LogAttrsFromContext :: "log_context \<Rightarrow> (string \<times> log_value) list" where
  "LogAttrsFromContext ctx =
     (if RequestID ctx \<noteq> [] then [(''request_id'', StringV (RequestID ctx))] else []) @
     (if TaskID ctx \<noteq> [] then [(''task_id'', StringV (TaskID ctx))] else [])"

section \<open>The writer of a response\<close>

text \<open>
  The writer of \<open>net/http\<close>: the first status counts, the first write sends 200 if there was none; a
  status of 1xx other than 101 is sent on the way and does not count.  A write may accept fewer
  bytes than it is given.
\<close>

record http_writer =
  hw_status :: "int option"
  hw_body :: string

definition informational :: "int \<Rightarrow> bool" where
  "informational code = (100 \<le> code \<and> code \<le> 199 \<and> code \<noteq> 101)"

definition http_WriteHeader :: "int \<Rightarrow> http_writer \<Rightarrow> http_writer" where
  "http_WriteHeader code w = (if hw_status w \<noteq> None \<or> informational code then w else w\<lparr>hw_status := Some code\<rparr>)"

definition http_Write :: "string \<Rightarrow> nat \<Rightarrow> http_writer \<Rightarrow> nat \<times> http_writer" where
  "http_Write b accepted w = (let n = min accepted (length b) in
     (n, w\<lparr>hw_status := Some (case hw_status w of None \<Rightarrow> 200 | Some c \<Rightarrow> c), hw_body := hw_body w @ take n b\<rparr>))"

record responseWriter =
  rw_ResponseWriter :: http_writer
  rw_statusCode :: int
  rw_bytesWritten :: nat
  rw_body :: string
  rw_wroteHeader :: bool

definition WriteHeader :: "int \<Rightarrow> responseWriter \<Rightarrow> responseWriter" where
  "WriteHeader code w = (if \<not> rw_wroteHeader w
     then w\<lparr>rw_statusCode := code, rw_wroteHeader := True, rw_ResponseWriter := http_WriteHeader code (rw_ResponseWriter w)\<rparr>
     else w)"

definition writer_Write :: "string \<Rightarrow> nat \<Rightarrow> responseWriter \<Rightarrow> responseWriter" where
  "writer_Write b accepted w = (case http_Write b accepted (rw_ResponseWriter w) of (n, u) \<Rightarrow>
     w\<lparr>rw_body := rw_body w @ b, rw_ResponseWriter := u, rw_bytesWritten := rw_bytesWritten w + n\<rparr>)"

text \<open>What a handler does with the writer it is given.\<close>

datatype writer_call = HeaderCall int | WriteCall string nat

fun writer_step :: "writer_call \<Rightarrow> responseWriter \<Rightarrow> responseWriter" where
  "writer_step (HeaderCall code) w = WriteHeader code w"
| "writer_step (WriteCall b n) w = writer_Write b n w"

definition writer_run :: "writer_call list \<Rightarrow> http_writer \<Rightarrow> responseWriter" where
  "writer_run cs u = fold writer_step cs
     \<lparr>rw_ResponseWriter = u, rw_statusCode = 200, rw_bytesWritten = 0, rw_body = [], rw_wroteHeader = False\<rparr>"

text \<open>The status of the answer once the handler has returned.\<close>

definition answered :: "http_writer \<Rightarrow> int" where
  "answered u = (case hw_status u of None \<Rightarrow> 200 | Some c \<Rightarrow> c)"

section \<open>The record of a request\<close>

text \<open>
  A body is its content and whether reading it ends in an error.  In the development mode it is
  read before the handler, which is given it back; after an error nothing but the error is left.
\<close>

record logged_request =
  lq_RequestID :: string
  lq_Method :: string
  lq_Path :: string
  lq_RemoteAddr :: string
  lq_UserAgent :: string
  lq_ContentLength :: int
  lq_Body :: "(string \<times> bool) option"
  lq_Username :: "string option"

definition reads_body :: "bool \<Rightarrow> logged_request \<Rightarrow> bool" where
  "reads_body devMode r = (devMode \<and> lq_Body r \<noteq> None \<and> lq_ContentLength r > 0 \<and> lq_ContentLength r < 1000000)"

definition peek_body :: "bool \<Rightarrow> logged_request \<Rightarrow> (string \<times> log_value) list \<times> (string \<times> bool) option" where
  "peek_body devMode r =
     (if reads_body devMode r
      then (case lq_Body r of
          Some (content, False) \<Rightarrow> ([(''request_body'', StringV content)], Some (content, False))
        | _ \<Rightarrow> ([], Some ([], True)))
      else ([], lq_Body r))"

definition log_level :: "int \<Rightarrow> int" where
  "log_level code = (if code \<ge> 500 then LevelError else if code \<ge> 400 then LevelWarn else LevelInfo)"

text \<open>
  \<open>handler\<close> is the one behind the logger: the calls it makes on the writer, given the body.  The
  claims, hence the user name, are those of the request the logger itself was given.
\<close>

definition RequestLogger :: "bool \<Rightarrow> ((string \<times> bool) option \<Rightarrow> writer_call list) \<Rightarrow> int \<Rightarrow> logged_request \<Rightarrow> http_writer
    \<Rightarrow> log_record \<times> http_writer" where
  "RequestLogger devMode handler duration r u =
     (case peek_body devMode r of (body_attrs, body) \<Rightarrow>
      let wrapped = writer_run (handler body) u in
      (\<lparr>lr_Level = log_level (rw_statusCode wrapped), lr_Message = ''http_request'',
        lr_Attrs = [(''request_id'', StringV (lq_RequestID r)), (''method'', StringV (lq_Method r)), (''path'', StringV (lq_Path r)),
            (''remote_addr'', StringV (lq_RemoteAddr r)), (''user_agent'', StringV (lq_UserAgent r))] @ body_attrs @
          [(''status'', IntV (rw_statusCode wrapped)), (''duration_ms'', IntV (Milliseconds duration)),
            (''bytes_written'', IntV (int (rw_bytesWritten wrapped)))] @
          (if devMode \<and> rw_body wrapped \<noteq> [] \<and> length (rw_body wrapped) < 1000000
           then [(''response_body'', StringV (rw_body wrapped))] else []) @
          (case lq_Username r of None \<Rightarrow> [] | Some name \<Rightarrow> [(''user'', StringV name)])\<rparr>, rw_ResponseWriter wrapped))"

section \<open>The record of a query\<close>

record query_error =
  qe_Text :: string
  qe_Type :: string
  qe_NoRows :: bool

definition slowQueryThreshold :: int where
  "slowQueryThreshold = 100 * 1000000"

definition logQuery :: "bool \<Rightarrow> log_context \<Rightarrow> string \<Rightarrow> string \<Rightarrow> string \<Rightarrow> int \<Rightarrow> query_error option \<Rightarrow> log_record list" where
  "logQuery devMode ctx op query args duration err =
     (let requestID = (''request_id'', StringV (RequestID ctx)); q = (''query'', StringV query);
          ms = (''duration_ms'', IntV (Milliseconds duration)); comp = (''component'', StringV ''db'');
          e = (''error'', ErrorV (map_option qe_Text err)) in
      (if devMode then [\<lparr>lr_Level = LevelDebug, lr_Message = ''sql_'' @ op,
          lr_Attrs = [requestID, q, (''args'', StringV args), ms, e, comp]\<rparr>] else []) @
      (case err of None \<Rightarrow> [] | Some x \<Rightarrow> if qe_NoRows x then [] else [\<lparr>lr_Level = LevelError, lr_Message = ''sql_'' @ op @ ''_failed'',
          lr_Attrs = [requestID, q, e, (''error_type'', StringV (qe_Type x)), ms, comp]\<rparr>]) @
      (if duration > slowQueryThreshold then [\<lparr>lr_Level = LevelWarn, lr_Message = ''slow_query'',
          lr_Attrs = [requestID, q, ms, comp]\<rparr>] else []))"

text \<open>The wrappers: the result of the driver, which is \<open>run\<close>, and the records.\<close>

definition logged_query :: "string \<Rightarrow> bool \<Rightarrow> log_context \<Rightarrow> string \<Rightarrow> string \<Rightarrow> int \<Rightarrow> query_error + 'a \<Rightarrow> (query_error + 'a) \<times> log_record list" where
  "logged_query op devMode ctx query args duration run =
     (run, logQuery devMode ctx op query args duration (case run of Inl e \<Rightarrow> Some e | Inr _ \<Rightarrow> None))"

definition db_ExecContext :: "bool \<Rightarrow> log_context \<Rightarrow> string \<Rightarrow> string \<Rightarrow> int \<Rightarrow> query_error + 'a \<Rightarrow> (query_error + 'a) \<times> log_record list" where
  "db_ExecContext = logged_query ''exec''"

definition db_QueryContext :: "bool \<Rightarrow> log_context \<Rightarrow> string \<Rightarrow> string \<Rightarrow> int \<Rightarrow> query_error + 'a \<Rightarrow> (query_error + 'a) \<times> log_record list" where
  "db_QueryContext = logged_query ''query''"

definition tx_ExecContext :: "bool \<Rightarrow> log_context \<Rightarrow> string \<Rightarrow> string \<Rightarrow> int \<Rightarrow> query_error + 'a \<Rightarrow> (query_error + 'a) \<times> log_record list" where
  "tx_ExecContext = logged_query ''tx_exec''"

definition tx_QueryContext :: "bool \<Rightarrow> log_context \<Rightarrow> string \<Rightarrow> string \<Rightarrow> int \<Rightarrow> query_error + 'a \<Rightarrow> (query_error + 'a) \<times> log_record list" where
  "tx_QueryContext = logged_query ''tx_query''"

text \<open>A row is logged once it is scanned, as \<open>query_row\<close> or, in a transaction, \<open>tx_query_row\<close>.\<close>

definition timedRow_Scan :: "bool \<Rightarrow> bool \<Rightarrow> log_context \<Rightarrow> string \<Rightarrow> string \<Rightarrow> int \<Rightarrow> query_error + 'a \<Rightarrow> (query_error + 'a) \<times> log_record list" where
  "timedRow_Scan in_tx = logged_query (if in_tx then ''tx_query_row'' else ''query_row'')"

definition BeginTx :: "bool \<Rightarrow> int \<Rightarrow> query_error option \<Rightarrow> string option \<times> log_record list" where
  "BeginTx devMode duration err = (case err of
      Some e \<Rightarrow> (Some (''db: begin tx: '' @ qe_Text e), [\<lparr>lr_Level = LevelError, lr_Message = ''sql_begin_failed'',
        lr_Attrs = [(''error'', ErrorV (Some (qe_Text e))), (''error_type'', StringV (qe_Type e)), (''component'', StringV ''db'')]\<rparr>])
    | None \<Rightarrow> (None, if devMode then [\<lparr>lr_Level = LevelDebug, lr_Message = ''sql_begin'',
        lr_Attrs = [(''duration_ms'', IntV (Milliseconds duration)), (''component'', StringV ''db'')]\<rparr>] else []))"

definition Commit :: "bool \<Rightarrow> int \<Rightarrow> query_error option \<Rightarrow> query_error option \<times> log_record list" where
  "Commit devMode duration err =
     (let ms = (''duration_ms'', IntV (Milliseconds duration)); comp = (''component'', StringV ''db'') in
      (err, (if devMode then [\<lparr>lr_Level = LevelDebug, lr_Message = ''sql_commit'',
          lr_Attrs = [ms, (''error'', ErrorV (map_option qe_Text err)), comp]\<rparr>] else []) @
        (case err of None \<Rightarrow> [] | Some e \<Rightarrow> [\<lparr>lr_Level = LevelError, lr_Message = ''sql_commit_failed'',
          lr_Attrs = [(''error'', ErrorV (Some (qe_Text e))), (''error_type'', StringV (qe_Type e)), ms, comp]\<rparr>])))"

definition Rollback :: "bool \<Rightarrow> int \<Rightarrow> query_error option \<Rightarrow> query_error option \<times> log_record list" where
  "Rollback devMode duration err =
     (err, if devMode then [\<lparr>lr_Level = LevelDebug, lr_Message = ''sql_rollback'',
        lr_Attrs = [(''duration_ms'', IntV (Milliseconds duration)), (''error'', ErrorV (map_option qe_Text err)), (''component'', StringV ''db'')]\<rparr>]
      else [])"

section \<open>The log tells what was answered\<close>

text \<open>A handler that sets a status does so before it writes, and sets a final one first.\<close>

fun header_first :: "writer_call list \<Rightarrow> bool" where
  "header_first [] = True"
| "header_first (HeaderCall code # cs) = (\<not> informational code)"
| "header_first (WriteCall b n # cs) = (\<forall>c\<in>set cs. case c of HeaderCall _ \<Rightarrow> False | WriteCall _ _ \<Rightarrow> True)"

lemma sealed_run:
  assumes "rw_wroteHeader w" "hw_status (rw_ResponseWriter w) = Some (rw_statusCode w)"
  shows "hw_status (rw_ResponseWriter (fold writer_step cs w)) = Some (rw_statusCode (fold writer_step cs w))"
  using assms
proof (induction cs arbitrary: w)
  case Nil
  then show ?case by simp
next
  case (Cons c cs)
  then show ?case by (cases c) (simp_all add: WriteHeader_def writer_Write_def http_Write_def Let_def)
qed

lemma writes_run:
  assumes "\<forall>c\<in>set cs. case c of HeaderCall _ \<Rightarrow> False | WriteCall _ _ \<Rightarrow> True"
    and "hw_status (rw_ResponseWriter w) \<in> {None, Some 200}" "rw_statusCode w = 200"
  shows "answered (rw_ResponseWriter (fold writer_step cs w)) = rw_statusCode (fold writer_step cs w)"
  using assms
proof (induction cs arbitrary: w)
  case Nil
  then show ?case by (auto simp: answered_def)
next
  case (Cons c cs)
  then show ?case by (cases c) (auto simp: writer_Write_def http_Write_def Let_def)
qed

lemma bytes_run:
  "length (hw_body (rw_ResponseWriter (fold writer_step cs w))) + rw_bytesWritten w
    = length (hw_body (rw_ResponseWriter w)) + rw_bytesWritten (fold writer_step cs w)"
proof (induction cs arbitrary: w)
  case Nil
  then show ?case by simp
next
  case (Cons c cs)
  show ?case
    using Cons.IH[of "writer_step c w"]
    by (cases c) (auto simp: WriteHeader_def writer_Write_def http_Write_def http_WriteHeader_def Let_def)
qed

text \<open>
  The record of a request has the status that the client got, when the handler sets the status
  before it writes, and always the number of bytes that were sent.
\<close>

theorem request_log_truthful:
  assumes "RequestLogger devMode handler duration r \<lparr>hw_status = None, hw_body = []\<rparr> = (rec, u)"
    and "header_first (handler (snd (peek_body devMode r)))"
  shows "(''status'', IntV (answered u)) \<in> set (lr_Attrs rec)" "(''bytes_written'', IntV (int (length (hw_body u)))) \<in> set (lr_Attrs rec)"
    "lr_Level rec = log_level (answered u)"
proof -
  let ?cs = "handler (snd (peek_body devMode r))" let ?u = "\<lparr>hw_status = None, hw_body = []\<rparr>"
  let ?w = "writer_run ?cs ?u"
  have u: "u = rw_ResponseWriter ?w" and level: "lr_Level rec = log_level (rw_statusCode ?w)"
    and attrs: "(''status'', IntV (rw_statusCode ?w)) \<in> set (lr_Attrs rec)" "(''bytes_written'', IntV (int (rw_bytesWritten ?w))) \<in> set (lr_Attrs rec)"
    using assms(1) by (auto simp: RequestLogger_def Let_def split: prod.splits)
  have bytes: "rw_bytesWritten ?w = length (hw_body u)"
    unfolding u writer_run_def using bytes_run[of ?cs "\<lparr>rw_ResponseWriter = ?u, rw_statusCode = 200, rw_bytesWritten = 0, rw_body = [], rw_wroteHeader = False\<rparr>"]
    by simp
  have code: "answered u = rw_statusCode ?w"
  proof (cases ?cs)
    case Nil
    then show ?thesis unfolding u by (simp add: writer_run_def answered_def)
  next
    case (Cons c cs)
    show ?thesis
    proof (cases c)
      case (HeaderCall code)
      then have "\<not> informational code" using assms(2) Cons by simp
      then show ?thesis
        unfolding u writer_run_def Cons HeaderCall fold_simps writer_step.simps answered_def
        by (subst sealed_run) (simp_all add: WriteHeader_def http_WriteHeader_def)
    next
      case (WriteCall b n)
      then show ?thesis
        unfolding u writer_run_def using assms(2) Cons by (intro writes_run) auto
    qed
  qed
  show "(''status'', IntV (answered u)) \<in> set (lr_Attrs rec)" "(''bytes_written'', IntV (int (length (hw_body u)))) \<in> set (lr_Attrs rec)"
    "lr_Level rec = log_level (answered u)"
    using attrs level code bytes by simp_all
qed

text \<open>A status after a write is logged although the client got 200.\<close>

lemma late_header_logged:
  "case RequestLogger False (\<lambda>_. [WriteCall b n, HeaderCall code]) duration r \<lparr>hw_status = None, hw_body = []\<rparr> of (rec, u) \<Rightarrow>
     answered u = 200 \<and> (''status'', IntV code) \<in> set (lr_Attrs rec)"
  by (simp add: RequestLogger_def peek_body_def reads_body_def writer_run_def writer_Write_def http_Write_def WriteHeader_def
    http_WriteHeader_def answered_def Let_def)

end
