(* ===== verification/Spec2Isabelle.thy ===== *)
theory Spec2Isabelle
  imports ApiSafety PeerEffects BridgeEffects MonitorEffects LoginLimiter SetupEffects Startup Updater Device NftDump Diagnose RequestLog
begin

text \<open>
  wgpilot: a server that manages WireGuard networks through a web API.  It keeps networks, peers and
  bridges in SQLite (\<open>internal/db\<close>), configures interfaces through wgctrl and netlink
  (\<open>internal/wg\<close>) and forwarding through nftables (\<open>internal/nft\<close>); the handlers of the API
  (\<open>internal/server\<close>) change all three in one request and undo what they can when a step fails.
  Background workers (\<open>internal/monitor\<close>) poll the interfaces, disable expired peers and compact
  samples.  \<open>cmd/wgpilot\<close> initialises the database, starts the server and updates the binary.

  Ground.
  \<^item> Prelude: results of \<open>(T, error)\<close> as sums, collections of facts, lists, and the locale
    \<open>transactional\<close> for a component whose step either has its effect or changes nothing.
  \<^item> GoStrings, GoNet, GoMisc: what the code uses of \<open>strings\<close>, \<open>strconv\<close>, \<open>fmt\<close>, \<open>net\<close>,
    \<open>net/netip\<close>, \<open>time\<close>.  Strings are lists of bytes as characters; addresses and masks are lists of bytes.
    Integers of Go are \<open>int\<close>, with the range written out where the code reads or multiplies them.

  Components, bottom up.
  \<^item> IPAlloc (\<open>wg/ip_alloc.go\<close>): the allocator of addresses.  Its loop is a \<open>partial_function\<close>; it is shown
    to return on every IPv4 subnet of at least one bit of prefix, with the least free host address or
    none.  The locale \<open>address_pool\<close> is the contract of an allocator, interpreted on it.
  \<^item> NftRules, NftManager, NftDump (\<open>nft/rules.go\<close>, \<open>applier.go\<close>, \<open>manager.go\<close>): rules by key, the
    expressions, \<open>Apply\<close> as a batch of commands in two flushes, the eight methods of the manager, the
    text of the rules.  The connection to the kernel is an argument, which may fail at each flush.
    Shown: the table of the kernel is the image of the rules after a success; a failure restores the rules in
    memory; any history of calls is the composition of the effects of those that succeeded.
  \<^item> Crypto (\<open>crypto/encryption.go\<close>): base64, and encryption over AES-GCM as an argument (\<open>aead_ok\<close>: it
    opens what it sealed, with 16 bytes more).
  \<^item> Database, Accounts (\<open>db/*.go\<close> but for \<open>migrate.go\<close>): every table a list of rows; a query is a
    function on them with the constraints of the schema; any statement may fail, by the list
    \<open>faults\<close>.  Shown: the constraints are invariants of every sequence of queries, a query that fails
    changes nothing, deletion cascades, a key is stored encrypted and read back.
  \<^item> Migrations (\<open>db/migrate.go\<close>): the scripts and the engine that runs them are arguments.  Each new script
    runs once, in the order of names; the encryption of old keys keeps what they decrypt to.
  \<^item> WgConfig (\<open>wg/config_gen.go\<close>, \<open>export.go\<close>, \<open>import.go\<close>): the templates as lines and the parser; the
    parser reads back what is exported.
  \<^item> WgManager, Reconcile, Device (\<open>wg/manager.go\<close>, \<open>reconcile.go\<close>, \<open>device.go\<close>, \<open>classify.go\<close>): the manager
    over an abstract kernel \<open>wg_kernel\<close>, whose promise is \<open>kernel_ok\<close> on a view of the interfaces, by keys
    as texts.  Shown: interfaces are created completely or not at all, cryptokey routing, and convergence to the
    database.  Device shows that the adapter to wgctrl, whose keys are bytes, has the effect that
    \<open>kernel_ok\<close> asks of a configuration, on the texts the key codec prints (locale \<open>key_codec\<close>).
  \<^item> Handlers: the server as a record of its parameters, the world (database, kernel, firewall, clock,
    random source, answers of HTTP services, limiter, log), handlers as programs that stop with a
    response, and requests and responses.  A decoded body, or why it did not decode, is an input.
  \<^item> NetworkRoutes, PeerRoutes, BridgeRoutes, AuthRoutes, SettingsRoutes, SetupRoutes, StatusRoutes
    (\<open>server/routes_*.go\<close>): every handler, with its guards, calls, undo steps and answers.
  \<^item> Auth, Routing (\<open>auth/*.go\<close>, \<open>server/middleware\<close>, \<open>middleware/*.go\<close>, \<open>server/routes.go\<close>): tokens, cookies,
    keys, the login limiter, the guards, the routing table and the limits on bodies.
  \<^item> LogRing, RequestLog, Monitor (\<open>logging/*.go\<close>, \<open>middleware/request_logger.go\<close>, \<open>monitor/*.go\<close>): the buffer of
    log entries, the records of requests and queries, and one cycle of each worker.
  \<^item> Commands, Updater, Diagnose (\<open>cmd/wgpilot/main.go\<close>, \<open>config\<close>, \<open>tls\<close>, \<open>sdnotify\<close>, \<open>updater\<close>, \<open>debug\<close>,
    \<open>notify\<close>): init, the start of serve, the main loop, the commands for API keys, the update of
    the binary on a file system where each operation may fail, the checks of diagnose.

  Properties that span components.
  \<^item> Api: requests to networks, peers and bridges in any order, with any failures and any behaviour of
    the kernel between them, as an inductive set of reachable worlds: addresses stay consistent and the
    constraints hold.  ApiSafety: no such request dereferences nil or searches without end.
  \<^item> NetworkEffects, PeerEffects, BridgeEffects, MonitorEffects: what a request or a worker does to
    database, kernel and firewall together when it succeeds; and where the code leaves the three apart.
  \<^item> Access: a protected route runs its handler only for valid credentials, and for administrators where
    it asks for them; what a key of a viewer can do.  LoginLimiter: no window has more attempts than
    the limit, whatever the cleanup does.  SetupEffects: the one-time password works once.
  \<^item> Startup: init followed by serve, on an empty database and on one in use.

  Each property has a witness at a concrete input; those about handlers are evaluated on the server of Samples, a
  kernel and a firewall in memory.

  Arguments of the model, with what is relied on.  The kernel (\<open>kernel_ok\<close>; \<open>kernel_reliable\<close> where a
  property says that something works), nftables (\<open>nft_env\<close>), AES-GCM (\<open>aead_ok\<close>), bcrypt, the signing and
  parsing of tokens, SHA-256, HKDF, the QR encoder, the derivation of public keys, the texts of errors; the step of
  \<open>time.ParseDuration\<close> in floating point (\<open>duration_frac\<close>); the order of a range over a map where it
  shows.  Random bytes, key pairs and answers of other services are lists of results to come.  Nothing is
  assumed of them but what a property names.

  Loops and fuel.  No fuel is used: loops over data are recursions on it; the search for a free interface name
  and the search for an address are \<open>partial_function\<close>s, shown to return.

  Bounds of the model.  Requests are served one after the other: a method under a mutex is one step, and
  two requests do not interleave between their queries (the check of the one-time password and its deletion, or
  the search for an address and its insertion, are separate statements in the code).  The goroutine that
  updates the last use of an API key runs before the handler.  Structured logging is left out where no
  state depends on it; the buffer of log entries and the records of
  requests and queries are modelled on their own.

  Not modelled.  The HTTP server and its timeouts, JSON encoding, the embedded frontend's files, and the SQLite
  engine (the queries are functions on tables); \<open>wg/iface.go\<close>, which only calls netlink; making and loading certificates
  (\<open>crypto/x509\<close>, autocert); merging of configuration sources (koanf); the commands that copy the database
  (backup, restore) and those that only print; the logger's set-up; the goroutines
  around the cycles of the workers; the mocks of \<open>testutil\<close>, which only tests use.  These are input and output, or calls into
  libraries, without a decision of the program to state anything about.
\<close>

end
